(* ===== verification/Prelude.thy ===== *)
theory Prelude
  imports Complex_Main "HOL-Library.List_Lexorder" "HOL-Library.Char_ord"
begin

text \<open>
  Shared vocabulary of the development: state-and-exception computations with their
  precondition calculus, finite Python containers as lists, and keyed tables.
  A Python method that reads and writes services and may raise is an operation
  \<open>'w \<Rightarrow> ('e + 'a) \<times> 'w\<close>: \<open>Inl\<close> carries the exception, \<open>Inr\<close> the returned value, and
  the new world is returned in both cases because effects before a raise stay done.
\<close>

named_theorems wp_simps "equations that compute the weakest precondition of an operation"

subsection \<open>Operations over a world that may raise\<close>

type_synonym ('w, 'e, 'a) op = "'w \<Rightarrow> ('e + 'a) \<times> 'w"

definition ret :: "'a \<Rightarrow> ('w, 'e, 'a) op" where
  "ret x = (\<lambda>w. (Inr x, w))"

definition raise :: "'e \<Rightarrow> ('w, 'e, 'a) op" where
  "raise e = (\<lambda>w. (Inl e, w))"

definition bindE :: "('w, 'e, 'a) op \<Rightarrow> ('a \<Rightarrow> ('w, 'e, 'b) op) \<Rightarrow> ('w, 'e, 'b) op" where
  "bindE m f = (\<lambda>w. case m w of (Inl e, w') \<Rightarrow> (Inl e, w') | (Inr x, w') \<Rightarrow> f x w')"

definition catch :: "('w, 'e, 'a) op \<Rightarrow> ('e \<Rightarrow> ('w, 'f, 'a) op) \<Rightarrow> ('w, 'f, 'a) op" where
  "catch m h = (\<lambda>w. case m w of (Inl e, w') \<Rightarrow> h e w' | (Inr x, w') \<Rightarrow> (Inr x, w'))"

definition modify :: "('w \<Rightarrow> 'w) \<Rightarrow> ('w, 'e, unit) op" where
  "modify f = (\<lambda>w. (Inr (), f w))"

definition gets :: "('w \<Rightarrow> 'a) \<Rightarrow> ('w, 'e, 'a) op" where
  "gets f = (\<lambda>w. (Inr (f w), w))"

text \<open>Marking the exceptions of one step with the stage the method is in.\<close>

definition tagged :: "'t \<Rightarrow> ('w, 'e, 'a) op \<Rightarrow> ('w, 't \<times> 'e, 'a) op" where
  "tagged t m = catch m (\<lambda>e. raise (t, e))"

text \<open>A Python \<open>for\<close> loop whose body returns nothing.\<close>

primrec for_each :: "'x list \<Rightarrow> ('x \<Rightarrow> ('w, 'e, unit) op) \<Rightarrow> ('w, 'e, unit) op" where
  "for_each [] body = ret ()"
| "for_each (x # xs) body = bindE (body x) (\<lambda>_. for_each xs body)"

text \<open>
  \<open>wp m Q E w\<close> says that running \<open>m\<close> in \<open>w\<close> ends with a value and world in \<open>Q\<close> or with
  an exception and world in \<open>E\<close>. Its equations rewrite a whole method body.
\<close>

definition wp ::
  "('w, 'e, 'a) op \<Rightarrow> ('a \<Rightarrow> 'w \<Rightarrow> bool) \<Rightarrow> ('e \<Rightarrow> 'w \<Rightarrow> bool) \<Rightarrow> 'w \<Rightarrow> bool" where
  "wp m Q E w = (case m w of (Inl e, w') \<Rightarrow> E e w' | (Inr x, w') \<Rightarrow> Q x w')"

lemma wp_ret [wp_simps]: "wp (ret x) Q E = Q x"
  by (simp add: wp_def ret_def fun_eq_iff)

lemma wp_raise [wp_simps]: "wp (raise e) Q E = E e"
  by (simp add: wp_def raise_def fun_eq_iff)

lemma wp_modify [wp_simps]: "wp (modify f) Q E w = Q () (f w)"
  by (simp add: wp_def modify_def)

lemma wp_gets [wp_simps]: "wp (gets f) Q E w = Q (f w) w"
  by (simp add: wp_def gets_def)

lemma wp_bindE [wp_simps]: "wp (bindE m f) Q E = wp m (\<lambda>x. wp (f x) Q E) E"
  by (simp add: wp_def bindE_def fun_eq_iff split: prod.splits sum.splits)

lemma wp_catch [wp_simps]: "wp (catch m h) Q E = wp m Q (\<lambda>e. wp (h e) Q E)"
  by (simp add: wp_def catch_def fun_eq_iff split: prod.splits sum.splits)

lemma wp_tagged [wp_simps]: "wp (tagged t m) Q E = wp m Q (\<lambda>e. E (t, e))"
  by (simp add: tagged_def wp_catch wp_raise)

lemma wp_if [wp_simps]: "wp (if b then m else n) Q E w = (if b then wp m Q E w else wp n Q E w)"
  by simp

lemma wp_option [wp_simps]:
  "wp (case v of None \<Rightarrow> m | Some x \<Rightarrow> f x) Q E w =
   (case v of None \<Rightarrow> wp m Q E w | Some x \<Rightarrow> wp (f x) Q E w)"
  by (cases v) simp_all

lemma wp_mono:
  assumes "wp m Q E w" and "\<And>x w'. Q x w' \<Longrightarrow> Q' x w'" and "\<And>e w'. E e w' \<Longrightarrow> E' e w'"
  shows "wp m Q' E' w"
  using assms by (auto simp: wp_def split: prod.splits sum.splits)

lemma wp_Inr: "wp m Q E w \<Longrightarrow> m w = (Inr x, w') \<Longrightarrow> Q x w'"
  by (simp add: wp_def)

lemma wp_Inl: "wp m Q E w \<Longrightarrow> m w = (Inl e, w') \<Longrightarrow> E e w'"
  by (simp add: wp_def)

lemma wp_both: "wp m (\<lambda>_ w'. P w') (\<lambda>_ w'. P w') w \<longleftrightarrow> P (snd (m w))"
  by (auto simp: wp_def split: prod.splits sum.splits)

lemma wpI: "(\<And>x w'. m w = (Inr x, w') \<Longrightarrow> Q x w') \<Longrightarrow> (\<And>e w'. m w = (Inl e, w') \<Longrightarrow> E e w') \<Longrightarrow> wp m Q E w"
  by (auto simp: wp_def split: prod.splits sum.splits)

text \<open>A loop keeps every property that each round of its body keeps.\<close>

lemma wp_for_each:
  assumes "\<And>x w. x \<in> set xs \<Longrightarrow> I w \<Longrightarrow> wp (body x) (\<lambda>_. I) E w" and "I w"
  shows "wp (for_each xs body) (\<lambda>_. I) E w"
  using assms
proof (induction xs arbitrary: w)
  case Nil
  then show ?case by (simp add: wp_simps)
next
  case (Cons x xs)
  have "wp (body x) (\<lambda>_. I) E w" using Cons.prems by simp
  then show ?case
    using Cons.prems(1) by (auto simp: wp_bindE intro!: Cons.IH elim!: wp_mono)
qed

subsection \<open>Finite containers\<close>

text \<open>\<open>dict.fromkeys(xs)\<close> keeps the first occurrence of every element, in order.\<close>

fun dict_fromkeys :: "'a list \<Rightarrow> 'a list" where
  "dict_fromkeys [] = []"
| "dict_fromkeys (x # xs) = x # filter (\<lambda>y. y \<noteq> x) (dict_fromkeys xs)"

lemma set_dict_fromkeys [simp]: "set (dict_fromkeys xs) = set xs"
  by (induction xs) auto

lemma distinct_dict_fromkeys [simp]: "distinct (dict_fromkeys xs)"
  by (induction xs) auto

text \<open>\<open>len(xs) != len(set(xs))\<close>, the duplicate test used throughout the domain.\<close>

definition has_duplicates :: "'a list \<Rightarrow> bool" where
  "has_duplicates xs \<longleftrightarrow> length xs \<noteq> length (remdups xs)"

lemma has_duplicates_iff [simp]: "has_duplicates xs \<longleftrightarrow> \<not> distinct xs"
  by (metis distinct_card distinct_remdups has_duplicates_def length_remdups_card_conv
      card_distinct)

text \<open>\<open>sorted(set(xs))\<close>.\<close>

definition sorted_set :: "'a::linorder list \<Rightarrow> 'a list" where
  "sorted_set xs = sort (remdups xs)"

lemma set_sorted_set [simp]: "set (sorted_set xs) = set xs"
  by (simp add: sorted_set_def)

lemma sorted_sorted_set [simp]: "sorted (sorted_set xs)" and distinct_sorted_set [simp]: "distinct (sorted_set xs)"
  by (simp_all add: sorted_set_def)

lemma find_SomeD: "find P xs = Some x \<Longrightarrow> x \<in> set xs \<and> P x"
  by (induction xs) (auto split: if_splits)

lemma find_append: "find P (xs @ ys) = (case find P xs of None \<Rightarrow> find P ys | Some x \<Rightarrow> Some x)"
  by (induction xs) auto

lemma find_cong_eq: "(\<And>x. x \<in> set xs \<Longrightarrow> P x = Q x) \<Longrightarrow> find P xs = find Q xs"
  by (induction xs) auto

fun join :: "string \<Rightarrow> string list \<Rightarrow> string" where
  "join sep [] = []"
| "join sep [x] = x"
| "join sep (x # y # zs) = x @ sep @ join sep (y # zs)"

subsection \<open>Keyed tables\<close>

text \<open>
  A database table is the list of its rows in insertion order. \<open>row_get\<close> is a lookup by
  key and \<open>row_put\<close> overwrites the row with the same key.
\<close>

definition row_get :: "('r \<Rightarrow> 'k) \<Rightarrow> 'k \<Rightarrow> 'r list \<Rightarrow> 'r option" where
  "row_get key k rows = find (\<lambda>r. key r = k) rows"

definition row_put :: "('r \<Rightarrow> 'k) \<Rightarrow> 'r \<Rightarrow> 'r list \<Rightarrow> 'r list" where
  "row_put key r rows = map (\<lambda>x. if key x = key r then r else x) rows"

lemma row_get_Nil [simp]: "row_get key k [] = None"
  by (simp add: row_get_def)

lemma row_get_Cons: "row_get key k (r # rows) = (if key r = k then Some r else row_get key k rows)"
  by (simp add: row_get_def)

lemma row_get_append:
  "row_get key k (rows @ [r]) =
   (case row_get key k rows of None \<Rightarrow> if key r = k then Some r else None | Some x \<Rightarrow> Some x)"
  by (simp add: row_get_def find_append split: option.splits)

lemma row_get_fresh: "key r \<notin> key ` set rows \<Longrightarrow> row_get key (key r) rows = None"
  by (induction rows) (auto simp: row_get_Cons)

lemma row_get_snoc:
  "row_get key (key r) rows = None \<Longrightarrow>
   row_get key k (rows @ [r]) = (if k = key r then Some r else row_get key k rows)"
  by (cases "row_get key k rows") (auto simp: row_get_append)

lemma row_get_map_update:
  "(\<And>x. key (f x) = key x) \<Longrightarrow>
   row_get key k (map (\<lambda>x. if key x = i then f x else x) rows) =
     map_option (\<lambda>x. if k = i then f x else x) (row_get key k rows)"
  by (induction rows) (auto simp: row_get_Cons)

lemma row_get_SomeD: "row_get key k rows = Some r \<Longrightarrow> r \<in> set rows \<and> key r = k"
  by (auto simp: row_get_def dest: find_SomeD)

lemma row_get_None: "row_get key k rows = None \<longleftrightarrow> k \<notin> key ` set rows"
  by (auto simp: row_get_def find_None_iff)

lemma row_get_in: "distinct (map key rows) \<Longrightarrow> r \<in> set rows \<Longrightarrow> row_get key (key r) rows = Some r"
  by (induction rows) (auto simp: row_get_Cons)

lemma map_key_row_put [simp]: "map key (row_put key r rows) = map key rows"
  by (auto simp: row_put_def)

lemma row_get_put_same: "row_get key (key r) rows \<noteq> None \<Longrightarrow> row_get key (key r) (row_put key r rows) = Some r"
  by (induction rows) (auto simp: row_put_def row_get_Cons)

lemma row_get_put_other: "k \<noteq> key r \<Longrightarrow> row_get key k (row_put key r rows) = row_get key k rows"
  by (induction rows) (auto simp: row_put_def row_get_Cons)

lemma set_row_put: "x \<in> set (row_put key r rows) \<Longrightarrow> x = r \<or> (x \<in> set rows \<and> key x \<noteq> key r)"
  by (auto simp: row_put_def split: if_splits)

lemma length_row_put [simp]: "length (row_put key r rows) = length rows"
  by (simp add: row_put_def)

lemma row_put_absent: "key r \<notin> key ` set rows \<Longrightarrow> row_put key r rows = rows"
  by (induction rows) (auto simp: row_put_def)

lemma foldl_invariant:
  "P a \<Longrightarrow> (\<And>a x. x \<in> set xs \<Longrightarrow> P a \<Longrightarrow> P (f a x)) \<Longrightarrow> P (foldl f a xs)"
  by (induction xs arbitrary: a) auto

subsection \<open>Closed registries\<close>

text \<open>
  A closed mapping is assembled by one pass over trusted items: \<open>admit\<close> looks at the
  entries so far and at the item and returns the registration error, if there is one.
\<close>

fun register_all ::
  "(('k \<times> 'v) list \<Rightarrow> 'v \<Rightarrow> 'e option) \<Rightarrow> ('v \<Rightarrow> 'k) \<Rightarrow> ('k \<times> 'v) list \<Rightarrow> 'v list \<Rightarrow> 'e + ('k \<times> 'v) list" where
  "register_all admit key entries [] = Inr entries"
| "register_all admit key entries (x # xs) =
     (case admit entries x of Some e \<Rightarrow> Inl e
      | None \<Rightarrow> register_all admit key (entries @ [(key x, x)]) xs)"

text \<open>What every registration routine promises: an admitted item is sound and its key is new.\<close>

locale closed_registry =
  fixes admit :: "('k \<times> 'v) list \<Rightarrow> 'v \<Rightarrow> 'e option" and key :: "'v \<Rightarrow> 'k" and sound :: "'v \<Rightarrow> bool"
  assumes admit_sound: "admit entries x = None \<Longrightarrow> sound x"
    and admit_fresh: "admit entries x = None \<Longrightarrow> key x \<notin> fst ` set entries"
begin

lemma register_all_inv:
  assumes "register_all admit key entries xs = Inr out" and "distinct (map fst entries)"
    and "\<forall>(k, v) \<in> set entries. k = key v \<and> sound v"
  shows "distinct (map fst out) \<and> (\<forall>(k, v) \<in> set out. k = key v \<and> sound v)
    \<and> map snd out = map snd entries @ xs"
  using assms
proof (induction xs arbitrary: entries)
  case Nil
  then show ?case by simp
next
  case (Cons x xs)
  have ad: "admit entries x = None" using Cons.prems(1) by (cases "admit entries x") auto
  have rest: "register_all admit key (entries @ [(key x, x)]) xs = Inr out"
    using Cons.prems(1) ad by simp
  show ?case
    using Cons.IH [OF rest] Cons.prems(2,3) admit_fresh [OF ad] admit_sound [OF ad] by auto
qed

lemma registered:
  assumes "register_all admit key [] xs = Inr out"
  shows "distinct (map fst out)" and "map snd out = xs" and "map fst out = map key xs"
    and "\<forall>v \<in> set xs. sound v"
proof -
  have inv: "distinct (map fst out)" "\<forall>(k, v) \<in> set out. k = key v \<and> sound v" "map snd out = xs"
    using register_all_inv [OF assms] by auto
  show "distinct (map fst out)" "map snd out = xs" using inv by auto
  show "map fst out = map key xs" using inv(2,3) by fastforce
  show "\<forall>v \<in> set xs. sound v" using inv(2,3) by fastforce
qed

lemma lookup_registered:
  assumes "register_all admit key [] xs = Inr out"
  shows "map_of out k = Some v \<longleftrightarrow> v \<in> set xs \<and> key v = k"
proof -
  note r = registered [OF assms]
  have inv: "\<forall>(k, v) \<in> set out. k = key v" using register_all_inv [OF assms] by auto
  have "map_of out k = Some v \<longleftrightarrow> (k, v) \<in> set out" using r(1) by simp
  also have "\<dots> \<longleftrightarrow> v \<in> set xs \<and> key v = k" using inv r(2) by force
  finally show ?thesis .
qed

end

end
