(* ===== verification/Base.thy ===== *)
theory Base
  imports Prelude
begin

text \<open>
  Domain value constraints (\<open>domain/_base.py\<close>): the constrained string types, confidence,
  and the UTC normalisation of timestamps. A Python string is a HOL \<^typ>\<open>string\<close> (code
  points up to 255). A constrained field is validated by a function that returns the
  stored value, or \<open>None\<close> where the model raises \<open>ValidationError\<close>.
\<close>

subsection \<open>Whitespace stripping\<close>

text \<open>
  Stripping by the schema library removes the Unicode \<open>White_Space\<close> characters;
  Python's own \<open>str.strip\<close> also removes the separators 28 to 31.
\<close>

definition is_space :: "char \<Rightarrow> bool" where
  "is_space c \<longleftrightarrow> (let n = of_char c :: nat in (9 \<le> n \<and> n \<le> 13) \<or> n = 32 \<or> n = 133 \<or> n = 160)"

definition py_is_space :: "char \<Rightarrow> bool" where
  "py_is_space c \<longleftrightarrow> is_space c \<or> (let n = of_char c :: nat in 28 \<le> n \<and> n \<le> 31)"

definition strip_with :: "(char \<Rightarrow> bool) \<Rightarrow> string \<Rightarrow> string" where
  "strip_with sp s = rev (dropWhile sp (rev (dropWhile sp s)))"

abbreviation strip :: "string \<Rightarrow> string" where
  "strip \<equiv> strip_with is_space"

abbreviation py_strip :: "string \<Rightarrow> string" where
  "py_strip \<equiv> strip_with py_is_space"

lemma dropWhile_id: "(xs \<noteq> [] \<Longrightarrow> \<not> P (hd xs)) \<Longrightarrow> dropWhile P xs = xs"
  by (cases xs) auto

lemma strip_with_ends:
  "strip_with sp s \<noteq> [] \<Longrightarrow> \<not> sp (hd (strip_with sp s)) \<and> \<not> sp (last (strip_with sp s))"
proof -
  assume ne: "strip_with sp s \<noteq> []"
  define t where "t = dropWhile sp s"
  have ne': "dropWhile sp (rev t) \<noteq> []" using ne by (simp add: strip_with_def t_def)
  have last_ok: "\<not> sp (hd (dropWhile sp (rev t)))" using ne' by (rule hd_dropWhile)
  obtain pre where pre: "rev t = pre @ dropWhile sp (rev t)"
    by (metis takeWhile_dropWhile_id)
  then have "t = rev (dropWhile sp (rev t)) @ rev pre" by (metis rev_append rev_rev_ident)
  then have hd_eq: "hd (rev (dropWhile sp (rev t))) = hd t"
    using ne' by (metis hd_append2 rev_is_Nil_conv)
  have "t \<noteq> []" using ne' by auto
  then have "\<not> sp (hd t)" by (simp add: t_def hd_dropWhile)
  then show ?thesis
    using hd_eq last_ok ne' by (simp add: strip_with_def t_def [symmetric] last_rev)
qed

lemma strip_with_idem [simp]: "strip_with sp (strip_with sp s) = strip_with sp s"
proof (cases "strip_with sp s = []")
  case True
  show ?thesis unfolding True by (simp add: strip_with_def)
next
  case False
  define t where "t = strip_with sp s"
  have "\<not> sp (hd t)" "\<not> sp (last t)" using strip_with_ends [OF False] by (simp_all add: t_def)
  then have "dropWhile sp t = t" "dropWhile sp (rev t) = rev t"
    using False by (auto simp: t_def [symmetric] hd_rev intro!: dropWhile_id)
  then have "strip_with sp t = t" by (simp add: strip_with_def)
  then show ?thesis by (simp add: t_def)
qed

subsection \<open>Constrained strings\<close>

definition is_alnum :: "char \<Rightarrow> bool" where
  "is_alnum c \<longleftrightarrow> (CHR ''A'' \<le> c \<and> c \<le> CHR ''Z'') \<or> (CHR ''a'' \<le> c \<and> c \<le> CHR ''z'')
     \<or> (CHR ''0'' \<le> c \<and> c \<le> CHR ''9'')"

definition is_ident_char :: "char \<Rightarrow> bool" where
  "is_ident_char c \<longleftrightarrow> is_alnum c \<or> c \<in> set ''._:/-''"

fun identifier_pattern :: "string \<Rightarrow> bool" where
  "identifier_pattern [] = False"
| "identifier_pattern (c # cs) = (is_alnum c \<and> list_all is_ident_char cs)"

text \<open>\<open>StringConstraints\<close>: strip, then the length bounds, then the pattern.\<close>

definition constrained :: "nat \<Rightarrow> nat \<Rightarrow> (string \<Rightarrow> bool) \<Rightarrow> string \<Rightarrow> string option" where
  "constrained lo hi pat s =
     (let t = strip s in if lo \<le> length t \<and> length t \<le> hi \<and> pat t then Some t else None)"

definition Identifier :: "string \<Rightarrow> string option" where
  "Identifier = constrained 1 128 identifier_pattern"

definition Version :: "string \<Rightarrow> string option" where
  "Version = constrained 1 64 (\<lambda>_. True)"

definition NonEmptyText :: "string \<Rightarrow> string option" where
  "NonEmptyText = constrained 1 4096 (\<lambda>_. True)"

definition ShortText :: "string \<Rightarrow> string option" where
  "ShortText = constrained 1 512 (\<lambda>_. True)"

definition is_hex :: "char \<Rightarrow> bool" where
  "is_hex c \<longleftrightarrow> (CHR ''0'' \<le> c \<and> c \<le> CHR ''9'') \<or> (CHR ''a'' \<le> c \<and> c \<le> CHR ''f'')"

text \<open>
  \<open>Sha256Digest\<close> has no \<open>strip_whitespace\<close> of its own; the closed model base class
  strips every string field before its pattern is matched.
\<close>

definition Sha256Digest :: "string \<Rightarrow> string option" where
  "Sha256Digest s =
     (let t = strip s
      in if take 7 t = ''sha256:'' \<and> length t = 71 \<and> list_all is_hex (drop 7 t) then Some t else None)"

definition Confidence :: "rat \<Rightarrow> rat option" where
  "Confidence c = (if 0 \<le> c \<and> c \<le> 1 then Some c else None)"

text \<open>An optional field accepts \<open>None\<close> and validates everything else.\<close>

definition optional :: "('a \<Rightarrow> 'b option) \<Rightarrow> 'a option \<Rightarrow> 'b option option" where
  "optional v x = (case x of None \<Rightarrow> Some None | Some y \<Rightarrow> map_option Some (v y))"

text \<open>A tuple field validates every item and fails if one fails.\<close>

fun all_valid :: "('a \<Rightarrow> 'b option) \<Rightarrow> 'a list \<Rightarrow> 'b list option" where
  "all_valid v [] = Some []"
| "all_valid v (x # xs) =
     (case v x of None \<Rightarrow> None | Some y \<Rightarrow> map_option ((#) y) (all_valid v xs))"

lemma constrained_SomeD:
  "constrained lo hi pat s = Some t \<Longrightarrow> t = strip s \<and> lo \<le> length t \<and> length t \<le> hi \<and> pat t"
  by (auto simp: constrained_def Let_def split: if_splits)

lemma constrained_stable: "constrained lo hi pat s = Some t \<Longrightarrow> constrained lo hi pat t = Some t"
  by (auto simp: constrained_def Let_def split: if_splits)

lemma Identifier_stable: "Identifier s = Some t \<Longrightarrow> Identifier t = Some t"
  unfolding Identifier_def by (rule constrained_stable)

lemma Identifier_pattern: "Identifier s = Some t \<Longrightarrow> identifier_pattern t \<and> length t \<le> 128"
  unfolding Identifier_def by (auto dest: constrained_SomeD)

lemma all_valid_length: "all_valid v xs = Some ys \<Longrightarrow> length ys = length xs"
  by (induction xs arbitrary: ys) (auto split: option.splits)

lemma all_valid_SomeD: "all_valid v xs = Some ys \<Longrightarrow> y \<in> set ys \<Longrightarrow> \<exists>x \<in> set xs. v x = Some y"
  by (induction xs arbitrary: ys) (auto split: option.splits)

subsection \<open>Timestamps\<close>

text \<open>
  An aware \<open>datetime\<close> is its local clock reading and its UTC offset, both in
  microseconds; a naive one has no offset. A normalised timestamp is the instant in
  microseconds since the epoch, and \<open>timedelta\<close> arithmetic is integer arithmetic on it.
\<close>

type_synonym time = int

datatype py_datetime = Naive int | Aware int int

definition normalize_utc :: "py_datetime \<Rightarrow> time option" where
  "normalize_utc v = (case v of Naive _ \<Rightarrow> None | Aware local offset \<Rightarrow> Some (local - offset))"

lemma normalize_utc_offset_free:
  "normalize_utc (Aware (l + d) (z + d)) = normalize_utc (Aware l z)"
  by (simp add: normalize_utc_def)

end
