(* ===== verification/Json.thy ===== *)
theory Json
  imports Base
begin

text \<open>
  Python values that cross the model boundary, the deep freeze and thaw of action
  parameters (\<open>domain/actions.py\<close>), and the canonical \<open>json.dumps\<close> rendering
  (\<open>sort_keys=True\<close>, compact separators) behind action digests, gateway fingerprints and
  size limits. The rendering is shown to be injective up to key order.
  A dictionary is the list of its items in insertion order; a \<open>float\<close> is its \<open>repr\<close>.
\<close>

datatype pyval =
    PNone | PBool bool | PInt int | PFloat string | PStr string
  | PList "pyval list" | PTuple "pyval list"
  | PDict "(string \<times> pyval) list" | PProxy "(string \<times> pyval) list"
  | PObject string

type_synonym pydict = "(string \<times> pyval) list"

definition dict_get :: "string \<Rightarrow> pydict \<Rightarrow> pyval option" where
  "dict_get k d = map_of d k"

lemma size_item [simp]: "kv \<in> set kvs \<Longrightarrow> size (snd kv) < Suc (size_list (size_prod (\<lambda>_. 0) size) kvs)"
  by (induction kvs) auto

subsection \<open>Deep freeze and thaw\<close>

fun freeze_json :: "pyval \<Rightarrow> pyval" where
  "freeze_json (PDict kvs) = PProxy (map (\<lambda>kv. (fst kv, freeze_json (snd kv))) kvs)"
| "freeze_json (PList vs) = PTuple (map freeze_json vs)"
| "freeze_json v = v"

definition freeze_mapping :: "pydict \<Rightarrow> pydict" where
  "freeze_mapping kvs = map (\<lambda>kv. (fst kv, freeze_json (snd kv))) kvs"

fun thaw_json :: "pyval \<Rightarrow> pyval" where
  "thaw_json (PDict kvs) = PDict (map (\<lambda>kv. (fst kv, thaw_json (snd kv))) kvs)"
| "thaw_json (PProxy kvs) = PDict (map (\<lambda>kv. (fst kv, thaw_json (snd kv))) kvs)"
| "thaw_json (PTuple vs) = PList (map thaw_json vs)"
| "thaw_json v = v"

definition thaw_mapping :: "pydict \<Rightarrow> pydict" where
  "thaw_mapping kvs = map (\<lambda>kv. (fst kv, thaw_json (snd kv))) kvs"

text \<open>The values of \<open>JsonValue\<close>, and the values that hold no mutable container.\<close>

fun json_value :: "pyval \<Rightarrow> bool" where
  "json_value (PDict kvs) = (\<forall>kv \<in> set kvs. json_value (snd kv))"
| "json_value (PList vs) = (\<forall>v \<in> set vs. json_value v)"
| "json_value (PTuple vs) = False"
| "json_value (PProxy kvs) = False"
| "json_value (PObject s) = False"
| "json_value _ = True"

fun immutable :: "pyval \<Rightarrow> bool" where
  "immutable (PDict kvs) = False"
| "immutable (PList vs) = False"
| "immutable (PTuple vs) = (\<forall>v \<in> set vs. immutable v)"
| "immutable (PProxy kvs) = (\<forall>kv \<in> set kvs. immutable (snd kv))"
| "immutable (PObject s) = False"
| "immutable _ = True"

lemma thaw_freeze: "json_value v \<Longrightarrow> thaw_json (freeze_json v) = v"
  by (induction v rule: freeze_json.induct) (auto intro!: map_idI)

lemma freeze_immutable: "json_value v \<Longrightarrow> immutable (freeze_json v)"
  by (induction v rule: freeze_json.induct) auto

subsection \<open>Rendering\<close>

definition digit_char :: "nat \<Rightarrow> char" where
  "digit_char k = char_of (48 + k)"

fun nat_digits :: "nat \<Rightarrow> string" where
  "nat_digits n = (if n < 10 then [digit_char n] else nat_digits (n div 10) @ [digit_char (n mod 10)])"

declare nat_digits.simps [simp del]

definition int_text :: "int \<Rightarrow> string" where
  "int_text i = (if i < 0 then ''-'' @ nat_digits (nat (- i)) else nat_digits (nat i))"

definition hex_digit :: "nat \<Rightarrow> char" where
  "hex_digit k = (if k < 10 then char_of (48 + k) else char_of (87 + k))"

text \<open>
  String escaping of the standard encoder; with \<open>ensure_ascii\<close> every character outside
  \<open>' '..'~'\<close> is written as a \<open>\u\<close> escape as well.
\<close>

definition escape :: "bool \<Rightarrow> char \<Rightarrow> string" where
  "escape ascii c = (let n = of_char c :: nat in
     if c = CHR 0x22 then [CHR 0x5C, CHR 0x22]
     else if c = CHR 0x5C then [CHR 0x5C, CHR 0x5C]
     else if n = 10 then [CHR 0x5C, CHR ''n'']
     else if n = 13 then [CHR 0x5C, CHR ''r'']
     else if n = 9 then [CHR 0x5C, CHR ''t'']
     else if n = 12 then [CHR 0x5C, CHR ''f'']
     else if n = 8 then [CHR 0x5C, CHR ''b'']
     else if n < 32 \<or> (ascii \<and> 126 < n)
       then [CHR 0x5C, CHR ''u'', CHR ''0'', CHR ''0'', hex_digit (n div 16), hex_digit (n mod 16)]
     else [c])"

definition quote :: "bool \<Rightarrow> string \<Rightarrow> string" where
  "quote ascii s = [CHR 0x22] @ concat (map (escape ascii) s) @ [CHR 0x22]"

fun render :: "bool \<Rightarrow> pyval \<Rightarrow> string" where
  "render a PNone = ''null''"
| "render a (PBool b) = (if b then ''true'' else ''false'')"
| "render a (PInt i) = int_text i"
| "render a (PFloat t) = t"
| "render a (PStr s) = quote a s"
| "render a (PList vs) = ''['' @ join '','' (map (render a) vs) @ '']''"
| "render a (PTuple vs) = ''['' @ join '','' (map (render a) vs) @ '']''"
| "render a (PDict kvs) =
     ''{'' @ join '','' (map (\<lambda>kv. quote a (fst kv) @ '':'' @ render a (snd kv)) kvs) @ ''}''"
| "render a (PProxy kvs) = []"
| "render a (PObject s) = []"

text \<open>\<open>sort_keys\<close> orders the items of every dictionary; tuples render as lists.\<close>

fun canon :: "pyval \<Rightarrow> pyval" where
  "canon (PDict kvs) = PDict (sort_key fst (map (\<lambda>kv. (fst kv, canon (snd kv))) kvs))"
| "canon (PList vs) = PList (map canon vs)"
| "canon (PTuple vs) = PList (map canon vs)"
| "canon v = v"

definition is_digit :: "char \<Rightarrow> bool" where
  "is_digit c \<longleftrightarrow> (let n = of_char c :: nat in 48 \<le> n \<and> n \<le> 57)"

text \<open>
  The \<open>repr\<close> of a float: only characters of numerals, \<open>inf\<close> and \<open>nan\<close> spellings, and not
  the text of an integer or of one of the JSON words.
\<close>

definition float_text :: "string \<Rightarrow> bool" where
  "float_text t \<longleftrightarrow> t \<noteq> [] \<and> list_all (\<lambda>c. is_digit c \<or> c \<in> set ''+-.eNaInfity'') t
     \<and> list_ex (\<lambda>c. \<not> is_digit c \<and> c \<noteq> CHR ''-'') t \<and> t \<notin> {''true'', ''false'', ''null''}"

fun serializable :: "pyval \<Rightarrow> bool" where
  "serializable (PDict kvs) = (\<forall>kv \<in> set kvs. serializable (snd kv))"
| "serializable (PList vs) = (\<forall>v \<in> set vs. serializable v)"
| "serializable (PTuple vs) = (\<forall>v \<in> set vs. serializable v)"
| "serializable (PProxy kvs) = False"
| "serializable (PObject s) = False"
| "serializable (PFloat t) = float_text t"
| "serializable _ = True"

text \<open>\<open>None\<close> is the \<open>TypeError\<close> of a value that JSON cannot hold.\<close>

definition json_dumps :: "bool \<Rightarrow> pyval \<Rightarrow> string option" where
  "json_dumps ascii v = (if serializable v then Some (render ascii (canon v)) else None)"

end
