(* ===== verification/Json_Unique.thy ===== *)
theory Json_Unique
  imports Json
begin

text \<open>
  The canonical rendering determines the value: two serialisable values with the same
  canonical text have the same canonical form (equal up to the order of dictionary keys
  and the tuple/list distinction). Digests and fingerprints inherit their precision from it.
\<close>

subsection \<open>Digits and integers\<close>

definition digits_value :: "string \<Rightarrow> nat" where
  "digits_value s = foldl (\<lambda>a c. 10 * a + (of_char c - 48)) 0 s"

lemma of_char_digit: "k < 10 \<Longrightarrow> of_char (digit_char k) = 48 + k"
  by (simp add: digit_char_def)

lemma digits_value_digits: "digits_value (nat_digits n) = n"
proof (induction n rule: nat_digits.induct)
  case (1 n)
  show ?case
  proof (cases "n < 10")
    case True
    then show ?thesis by (subst nat_digits.simps) (simp add: digits_value_def of_char_digit)
  next
    case False
    with 1 have "digits_value (nat_digits (n div 10)) = n div 10" by simp
    with False show ?thesis
      by (subst nat_digits.simps) (simp add: digits_value_def of_char_digit)
  qed
qed

lemma nat_digits_inj: "nat_digits m = nat_digits n \<Longrightarrow> m = n"
  by (metis digits_value_digits)

lemma is_digit_digit_char: "k < 10 \<Longrightarrow> is_digit (digit_char k)"
  by (simp add: is_digit_def of_char_digit)

lemma nat_digits_are_digits: "list_all is_digit (nat_digits n)"
proof (induction n rule: nat_digits.induct)
  case (1 n)
  then show ?case
    using is_digit_digit_char [of n] is_digit_digit_char [of "n mod 10"]
    by (subst nat_digits.simps) (auto split: if_splits)
qed

lemma nat_digits_ne [simp]: "nat_digits n \<noteq> []"
  by (subst nat_digits.simps) simp

lemma not_digit [simp]: "\<not> is_digit CHR ''-''" "\<not> is_digit CHR ''t''" "\<not> is_digit CHR ''f''"
    "\<not> is_digit CHR ''n''" "\<not> is_digit CHR '',''" "\<not> is_digit CHR '']''" "\<not> is_digit CHR ''}''"
    "\<not> is_digit CHR ''[''" "\<not> is_digit CHR ''{''" "\<not> is_digit CHR 0x22"
  by (simp_all add: is_digit_def)

lemma is_digit_hd_nat_digits: "is_digit (hd (nat_digits n))"
  using nat_digits_are_digits [of n] by (cases "nat_digits n") auto

lemma int_text_inj:
  assumes "int_text i = int_text j"
  shows "i = j"
proof -
  have "hd (nat_digits m) \<noteq> CHR ''-''" for m
    using is_digit_hd_nat_digits [of m] by auto
  then have "nat_digits m \<noteq> CHR ''-'' # t" for m t
    by (metis list.sel(1))
  then have ne: "CHR ''-'' # t \<noteq> nat_digits m" for m t
    by metis
  show ?thesis
  proof (cases "i < 0"; cases "j < 0")
    assume "i < 0" "j < 0"
    with assms have "nat (- i) = nat (- j)" by (simp add: int_text_def nat_digits_inj)
    with \<open>i < 0\<close> \<open>j < 0\<close> show ?thesis by simp
  next
    assume "\<not> i < 0" "\<not> j < 0"
    with assms have "nat i = nat j" by (simp add: int_text_def nat_digits_inj)
    with \<open>\<not> i < 0\<close> \<open>\<not> j < 0\<close> show ?thesis by simp
  next
    assume "i < 0" "\<not> j < 0"
    with assms ne show ?thesis by (simp add: int_text_def)
  next
    assume "\<not> i < 0" "j < 0"
    with assms ne [symmetric] show ?thesis by (simp add: int_text_def)
  qed
qed

lemma int_text_chars: "list_all (\<lambda>c. is_digit c \<or> c = CHR ''-'') (int_text i)"
  using nat_digits_are_digits by (auto simp: int_text_def list_all_iff)

lemma int_text_ne [simp]: "int_text i \<noteq> []"
  by (simp add: int_text_def)

subsection \<open>Strings\<close>

definition hex_value :: "char \<Rightarrow> nat" where
  "hex_value c = (let n = of_char c in if n < 58 then n - 48 else n - 87)"

lemma hex_value_digit: "k < 16 \<Longrightarrow> hex_value (hex_digit k) = k"
  by (simp add: hex_value_def hex_digit_def)

text \<open>Reads back one escaped character.\<close>

definition unescape :: "string \<Rightarrow> char \<times> string" where
  "unescape s =
    (if hd s \<noteq> CHR 0x5C then (hd s, tl s)
     else let d = s ! 1; r = drop 2 s in
       if d = CHR ''u'' then (char_of (16 * hex_value (s ! 4) + hex_value (s ! 5)), drop 6 s)
       else if d = CHR ''n'' then (char_of (10::nat), r)
       else if d = CHR ''r'' then (char_of (13::nat), r)
       else if d = CHR ''t'' then (char_of (9::nat), r)
       else if d = CHR ''f'' then (char_of (12::nat), r)
       else if d = CHR ''b'' then (char_of (8::nat), r)
       else (d, r))"

lemma hex_parts: "16 * (hex_value (hex_digit (of_char c div 16))) + hex_value (hex_digit (of_char c mod 16))
    = (of_char c :: nat)"
proof -
  have "(of_char c :: nat) < 256" by (rule nat_of_char_less_256)
  then have "(of_char c :: nat) div 16 < 16" by arith
  then show ?thesis by (simp add: hex_value_digit)
qed

lemma char_of_code: "of_char c = (n::nat) \<Longrightarrow> char_of n = c"
  by auto

lemma unescape_escape: "unescape (escape a c @ r) = (c, r)"
  using hex_parts [of c]
  by (auto simp: escape_def unescape_def Let_def intro: char_of_code)

lemma escape_ne [simp]: "escape a c \<noteq> []"
  by (auto simp: escape_def Let_def)

lemma hd_escape: "hd (escape a c) \<noteq> CHR 0x22"
  by (auto simp: escape_def Let_def)

lemma escape_not_quote: "escape a c @ x \<noteq> CHR 0x22 # r"
proof
  assume "escape a c @ x = CHR 0x22 # r"
  then have "hd (escape a c @ x) = CHR 0x22" by simp
  then show False using hd_escape [of a c] by simp
qed

lemma quoted_prefix:
  "concat (map (escape a) s) @ CHR 0x22 # r = concat (map (escape a) s') @ CHR 0x22 # r'
   \<Longrightarrow> s = s' \<and> r = r'"
proof (induction s arbitrary: s')
  case Nil
  then show ?case
    by (cases s') (auto dest: sym simp: escape_not_quote escape_not_quote [symmetric])
next
  case (Cons c t)
  show ?case
  proof (cases s')
    case Nil
    then show ?thesis using Cons.prems by (simp add: escape_not_quote)
  next
    case s': (Cons d u)
    have eq: "escape a c @ (concat (map (escape a) t) @ CHR 0x22 # r)
        = escape a d @ (concat (map (escape a) u) @ CHR 0x22 # r')"
      using Cons.prems s' by simp
    have "c = d \<and> concat (map (escape a) t) @ CHR 0x22 # r = concat (map (escape a) u) @ CHR 0x22 # r'"
      using arg_cong [OF eq, of unescape] by (simp add: unescape_escape)
    then show ?thesis using Cons.IH s' by auto
  qed
qed

lemma quote_prefix: "quote a s @ r = quote a s' @ r' \<Longrightarrow> s = s' \<and> r = r'"
  using quoted_prefix [of a s r s' r'] by (simp add: quote_def)

subsection \<open>Values\<close>

definition delim :: "string \<Rightarrow> bool" where
  "delim r \<longleftrightarrow> r = [] \<or> hd r \<in> set '',]}''"

lemma delim_simps [simp]: "delim []" "delim (CHR '','' # r)" "delim (CHR '']'' # r)" "delim (CHR ''}'' # r)"
  by (simp_all add: delim_def)

text \<open>Canonical values, and the split into scalar tokens and bracketed values.\<close>

fun canonical :: "pyval \<Rightarrow> bool" where
  "canonical (PDict kvs) = (\<forall>kv \<in> set kvs. canonical (snd kv))"
| "canonical (PList vs) = (\<forall>v \<in> set vs. canonical v)"
| "canonical (PTuple vs) = False"
| "canonical (PProxy kvs) = False"
| "canonical (PObject s) = False"
| "canonical (PFloat t) = float_text t"
| "canonical _ = True"

lemma canonical_canon: "serializable v \<Longrightarrow> canonical (canon v)"
  by (induction v rule: canon.induct) auto

fun scalar :: "pyval \<Rightarrow> bool" where
  "scalar PNone = True" | "scalar (PBool b) = True" | "scalar (PInt i) = True"
| "scalar (PFloat t) = True" | "scalar _ = False"

definition token :: "string \<Rightarrow> bool" where
  "token t \<longleftrightarrow> t \<noteq> [] \<and> set t \<inter> set '',]}[{'' = {} \<and> CHR 0x22 \<notin> set t"

lemma int_text_token: "token (int_text i)"
  using int_text_chars [of i] by (auto simp: token_def list_all_iff)

lemma float_text_token: "float_text t \<Longrightarrow> token t"
  by (auto simp: token_def float_text_def list_all_iff)

lemma scalar_token: "scalar v \<Longrightarrow> canonical v \<Longrightarrow> token (render a v)"
  by (cases v) (auto simp: int_text_token float_text_token, auto simp: token_def)

lemma int_text_word [simp]:
  "int_text i \<noteq> CHR ''t'' # s" "int_text i \<noteq> CHR ''f'' # s" "int_text i \<noteq> CHR ''n'' # s"
  using int_text_chars [of i] by auto

lemma float_text_not_int: "float_text t \<Longrightarrow> t \<noteq> int_text i \<and> int_text i \<noteq> t"
  using int_text_chars [of i] by (auto simp: float_text_def list_all_iff list_ex_iff)

lemma float_text_word: "float_text t \<Longrightarrow> t \<noteq> ''true'' \<and> t \<noteq> ''false'' \<and> t \<noteq> ''null''
    \<and> ''true'' \<noteq> t \<and> ''false'' \<noteq> t \<and> ''null'' \<noteq> t"
  by (auto simp: float_text_def)

lemma int_text_word' [simp]:
  "CHR ''t'' # s \<noteq> int_text i" "CHR ''f'' # s \<noteq> int_text i" "CHR ''n'' # s \<noteq> int_text i"
  using int_text_word [of i s] by metis+

lemma int_text_eq_iff [simp]: "int_text i = int_text j \<longleftrightarrow> i = j"
  by (auto dest: int_text_inj)

lemma float_text_not_word [simp]: "\<not> float_text ''true''" "\<not> float_text ''false''" "\<not> float_text ''null''"
  by (simp_all add: float_text_def)

lemma scalar_inj:
  assumes "scalar v" "scalar v'" "canonical v" "canonical v'" "render a v = render a v'"
  shows "v = v'"
  using assms
  by (cases v; cases v') (simp_all add: float_text_word float_text_not_int split: if_splits)

lemma token_takeWhile:
  assumes "token t" "delim r"
  shows "takeWhile (\<lambda>c. c \<notin> set '',]}'') (t @ r) = t"
proof -
  have "takeWhile (\<lambda>c. c \<notin> set '',]}'') (t @ r) = t @ takeWhile (\<lambda>c. c \<notin> set '',]}'') r"
    by (rule takeWhile_append2) (use assms(1) in \<open>auto simp: token_def\<close>)
  also have "takeWhile (\<lambda>c. c \<notin> set '',]}'') r = []"
    using assms(2) by (cases r) (auto simp: delim_def)
  finally show ?thesis by simp
qed

lemma token_prefix:
  assumes "token t" "token t'" "delim r" "delim r'" "t @ r = t' @ r'"
  shows "t = t' \<and> r = r'"
  using token_takeWhile [OF assms(1,3)] token_takeWhile [OF assms(2,4)] assms(5) by auto

text \<open>A bracketed, comma-separated sequence is determined by its text.\<close>

lemma join_Cons: "join sep (x # xs) = x @ (if xs = [] then [] else sep @ join sep xs)"
  by (cases xs) auto

lemma join_prefix:
  assumes step: "\<And>x y r r'. x \<in> set xs \<Longrightarrow> y \<in> set ys \<Longrightarrow> delim r \<Longrightarrow> delim r' \<Longrightarrow>
      f x @ r = f y @ r' \<Longrightarrow> x = y \<and> r = r'"
    and start: "\<And>x r s. x \<in> set xs \<union> set ys \<Longrightarrow> f x @ r \<noteq> close # s"
    and close: "close \<in> {CHR '']'', CHR ''}''}"
    and eq: "join '','' (map f xs) @ close # r = join '','' (map f ys) @ close # r'"
  shows "xs = ys \<and> r = r'"
  using step start eq
proof (induction xs arbitrary: ys)
  case Nil
  show ?case
  proof (cases ys)
    case (Cons y zs)
    with Nil.prems(3) have "close # r = f y @ ((if zs = [] then [] else '','' @ join '','' (map f zs)) @ close # r')"
      by (simp add: join_Cons)
    with Nil.prems(2) [of y] Cons show ?thesis by (metis UnI2 list.set_intros(1))
  qed (use Nil in simp)
next
  case (Cons x xs)
  show ?case
  proof (cases ys)
    case Nil
    with Cons.prems(3) have "f x @ ((if xs = [] then [] else '','' @ join '','' (map f xs)) @ close # r) = close # r'"
      by (simp add: join_Cons)
    with Cons.prems(2) [of x] show ?thesis by (metis UnI1 list.set_intros(1))
  next
    case ys: (Cons y zs)
    let ?t = "\<lambda>xs r. (if xs = [] then [] else '','' @ join '','' (map f xs)) @ close # r"
    have "f x @ ?t xs r = f y @ ?t zs r'" using Cons.prems(3) ys by (simp add: join_Cons)
    moreover have "delim (?t xs r)" "delim (?t zs r')" using close by auto
    ultimately have xy: "x = y" and tl: "?t xs r = ?t zs r'"
      using Cons.prems(1) [of x y] ys by auto
    have "join '','' (map f xs) @ close # r = join '','' (map f zs) @ close # r'"
      using tl close by (auto split: if_splits)
    moreover have "xs = [] \<longleftrightarrow> zs = []" using tl close by (auto split: if_splits)
    ultimately have "xs = zs \<and> r = r'"
      using Cons.IH [of zs] Cons.prems(1,2) ys by auto
    with xy ys show ?thesis by simp
  qed
qed

text \<open>The first character tells the kinds of value apart.\<close>

fun kind :: "pyval \<Rightarrow> nat" where
  "kind (PStr s) = 1" | "kind (PList vs) = 2" | "kind (PDict kvs) = 3" | "kind v = 0"

definition kind_of_char :: "char \<Rightarrow> nat" where
  "kind_of_char c = (if c = CHR 0x22 then 1 else if c = CHR ''['' then 2 else if c = CHR ''{'' then 3
     else if c = CHR '']'' \<or> c = CHR ''}'' then 4 else 0)"

lemma kind_of_token: "token t \<Longrightarrow> kind_of_char (hd (t @ r)) = 0"
  by (cases t) (auto simp: token_def kind_of_char_def)

lemma kind_of_quote: "kind_of_char (hd (quote a k @ r)) = 1"
  by (simp add: quote_def kind_of_char_def)

lemma kind_of_render: "canonical v \<Longrightarrow> kind_of_char (hd (render a v @ r)) = kind v"
proof (cases "scalar v")
  case True
  assume "canonical v"
  with True have "kind_of_char (hd (render a v @ r)) = 0" by (intro kind_of_token scalar_token)
  moreover have "kind v = 0" using True by (cases v) auto
  ultimately show ?thesis by simp
next
  case False
  assume "canonical v"
  with False show ?thesis
    by (cases v) (simp_all add: kind_of_quote, simp_all add: kind_of_char_def)
qed

lemma render_not_close:
  assumes "canonical v" "c = CHR '']'' \<or> c = CHR ''}''"
  shows "render a v @ r \<noteq> c # s"
proof
  assume "render a v @ r = c # s"
  then have "kind_of_char c = kind v" using kind_of_render [OF assms(1), of a r] by simp
  moreover have "kind v < 4" by (cases v) auto
  ultimately show False using assms(2) by (auto simp: kind_of_char_def split: if_splits)
qed

lemma quote_not_close: "quote a k @ r \<noteq> CHR ''}'' # s"
  by (simp add: quote_def)

lemma render_same_kind:
  assumes "canonical v" "canonical v'" "render a v @ r = render a v' @ r'"
  shows "kind v = kind v'"
  using kind_of_render [OF assms(1), of a r] kind_of_render [OF assms(2), of a r'] assms(3) by simp

lemma kind_cases:
  "kind v = 1 \<Longrightarrow> \<exists>s. v = PStr s" "kind v = 2 \<Longrightarrow> \<exists>vs. v = PList vs" "kind v = 3 \<Longrightarrow> \<exists>kvs. v = PDict kvs"
  "canonical v \<Longrightarrow> kind v = 0 \<Longrightarrow> scalar v"
  by (cases v; simp)+

lemma scalar_prefix:
  assumes "scalar v" "canonical v" "canonical v'" "delim r" "delim r'" "render a v @ r = render a v' @ r'"
  shows "v = v' \<and> r = r'"
proof -
  have "kind v = 0" using assms(1) by (cases v) auto
  then have "scalar v'" using render_same_kind [OF assms(2,3,6)] assms(3) kind_cases(4) by simp
  then have "token (render a v)" "token (render a v')"
    using assms(1-3) by (simp_all add: scalar_token)
  then have "render a v = render a v' \<and> r = r'" using token_prefix assms(4-6) by blast
  then show ?thesis using scalar_inj [OF assms(1) \<open>scalar v'\<close> assms(2,3)] by blast
qed

theorem render_prefix:
  "canonical v \<Longrightarrow> canonical v' \<Longrightarrow> delim r \<Longrightarrow> delim r' \<Longrightarrow> render a v @ r = render a v' @ r'
   \<Longrightarrow> v = v' \<and> r = r'"
proof (induction v arbitrary: v' r r')
  case (PDict kvs)
  have "kind v' = 3" using render_same_kind [OF PDict.prems(1,2,5)] by simp
  then obtain kvs' where v': "v' = PDict kvs'" using kind_cases(3) by blast
  let ?f = "\<lambda>kv. quote a (fst kv) @ '':'' @ render a (snd kv)"
  have "kvs = kvs' \<and> r = r'"
  proof (rule join_prefix)
    show "join '','' (map ?f kvs) @ CHR ''}'' # r = join '','' (map ?f kvs') @ CHR ''}'' # r'"
      using PDict.prems(5) v' by simp
  next
    fix x y r r'
    assume x: "x \<in> set kvs" and y: "y \<in> set kvs'" and d: "delim r" "delim r'" and e: "?f x @ r = ?f y @ r'"
    have "quote a (fst x) @ ('':'' @ render a (snd x) @ r) = quote a (fst y) @ ('':'' @ render a (snd y) @ r')"
      using e by simp
    from quote_prefix [OF this] have k: "fst x = fst y"
      and t: "render a (snd x) @ r = render a (snd y) @ r'" by simp_all
    have "canonical (snd x)" "canonical (snd y)" using PDict.prems(1,2) v' x y by auto
    from PDict.IH [OF x _ this d t] have "snd x = snd y \<and> r = r'" by (simp add: snds.simps)
    with k show "x = y \<and> r = r'" by (simp add: prod_eq_iff)
  qed (auto simp: quote_not_close)
  with v' show ?case by simp
next
  case (PList vs)
  have "kind v' = 2" using render_same_kind [OF PList.prems(1,2,5)] by simp
  then obtain vs' where v': "v' = PList vs'" using kind_cases(2) by blast
  have "vs = vs' \<and> r = r'"
  proof (rule join_prefix)
    show "join '','' (map (render a) vs) @ CHR '']'' # r = join '','' (map (render a) vs') @ CHR '']'' # r'"
      using PList.prems(5) v' by simp
  next
    fix x y r r'
    assume x: "x \<in> set vs" and y: "y \<in> set vs'" and d: "delim r" "delim r'" and t: "render a x @ r = render a y @ r'"
    have "canonical x" "canonical y" using PList.prems(1,2) v' x y by auto
    from PList.IH [OF x this d t] show "x = y \<and> r = r'" .
  next
    fix x r s
    assume "x \<in> set vs \<union> set vs'"
    then have "canonical x" using PList.prems(1,2) v' by auto
    then show "render a x @ r \<noteq> CHR '']'' # s" by (rule render_not_close) simp
  qed simp
  with v' show ?case by simp
next
  case (PStr s)
  have "kind v' = 1" using render_same_kind [OF PStr.prems(1,2,5)] by simp
  then obtain s' where v': "v' = PStr s'" using kind_cases(1) by blast
  have "quote a s @ r = quote a s' @ r'" using PStr.prems(5) v' by simp
  from quote_prefix [OF this] v' show ?case by simp
next
  case PNone
  then show ?case by (intro scalar_prefix) auto
next
  case (PBool b)
  then show ?case by (intro scalar_prefix) auto
next
  case (PInt i)
  then show ?case by (intro scalar_prefix) auto
next
  case (PFloat t)
  then show ?case by (intro scalar_prefix) auto
qed simp_all

theorem json_dumps_unique:
  assumes "json_dumps a v = Some t" and "json_dumps a v' = Some t"
  shows "canon v = canon v'"
proof -
  have "render a (canon v) @ [] = render a (canon v') @ []" "serializable v" "serializable v'"
    using assms by (auto simp: json_dumps_def split: if_splits)
  then show ?thesis
    using render_prefix [of "canon v" "canon v'" "[]" "[]" a] canonical_canon by simp
qed

end
