(* ===== verification/Entities.thy ===== *)
theory Entities
  imports Base
begin

text \<open>
  Entity references and their scope keys (\<open>domain/entities.py\<close>), and the tool targets
  shown to a guided reasoner (\<open>AuthorizedToolTarget\<close> of
  \<open>application/orchestration_contracts.py\<close>). An \<open>IPvAnyAddress\<close> is the canonical text
  of the address, the only thing the program reads of it.
\<close>

datatype EntityType = USER | DEVICE | IP_ADDRESS

fun entity_type_value :: "EntityType \<Rightarrow> string" where
  "entity_type_value USER = ''USER''"
| "entity_type_value DEVICE = ''DEVICE''"
| "entity_type_value IP_ADDRESS = ''IP_ADDRESS''"

datatype EntityReference =
    UserEntityReference string
  | DeviceEntityReference string
  | IpAddressEntityReference string

fun entity_type :: "EntityReference \<Rightarrow> EntityType" where
  "entity_type (UserEntityReference i) = USER"
| "entity_type (DeviceEntityReference i) = DEVICE"
| "entity_type (IpAddressEntityReference a) = IP_ADDRESS"

fun entity_identifier :: "EntityReference \<Rightarrow> string" where
  "entity_identifier (UserEntityReference i) = i"
| "entity_identifier (DeviceEntityReference i) = i"
| "entity_identifier (IpAddressEntityReference a) = a"

definition scope_key :: "EntityReference \<Rightarrow> string" where
  "scope_key e = entity_type_value (entity_type e) @ '':'' @ entity_identifier e"

text \<open>Field validation of a reference; an address object is valid by construction.\<close>

fun validate_entity :: "EntityReference \<Rightarrow> EntityReference option" where
  "validate_entity (UserEntityReference i) = map_option UserEntityReference (Identifier i)"
| "validate_entity (DeviceEntityReference i) = map_option DeviceEntityReference (Identifier i)"
| "validate_entity (IpAddressEntityReference a) = Some (IpAddressEntityReference a)"

lemma scope_key_inj [simp]: "scope_key a = scope_key b \<longleftrightarrow> a = b"
  by (cases a; cases b) (auto simp: scope_key_def)

lemma scope_key_mem: "scope_key e \<in> scope_key ` S \<longleftrightarrow> e \<in> S"
  by auto

subsection \<open>Ordering by value\<close>

instantiation EntityType :: linorder
begin

definition less_eq_EntityType :: "EntityType \<Rightarrow> EntityType \<Rightarrow> bool" where
  "less_eq_EntityType a b \<longleftrightarrow> entity_type_value a \<le> entity_type_value b"

definition less_EntityType :: "EntityType \<Rightarrow> EntityType \<Rightarrow> bool" where
  "less_EntityType a b \<longleftrightarrow> entity_type_value a < entity_type_value b"

instance
proof
  fix x y z :: EntityType
  show "(x < y) = (x \<le> y \<and> \<not> y \<le> x)"
    unfolding less_eq_EntityType_def less_EntityType_def by (rule less_le_not_le)
  show "x \<le> x"
    unfolding less_eq_EntityType_def by (rule order_refl)
  show "x \<le> y \<or> y \<le> x"
    unfolding less_eq_EntityType_def by (rule linear)
  show "x \<le> y \<Longrightarrow> y \<le> z \<Longrightarrow> x \<le> z"
    unfolding less_eq_EntityType_def by (rule order_trans)
  show "x = y" if "x \<le> y" "y \<le> x"
  proof -
    have "entity_type_value x = entity_type_value y"
      using that unfolding less_eq_EntityType_def by (rule antisym)
    then show ?thesis by (cases x; cases y) simp_all
  qed
qed

end

subsection \<open>Tool targets recovered from scope keys\<close>

text \<open>\<open>key.split(":", maxsplit=1)\<close>; \<open>None\<close> where unpacking into two parts raises.\<close>

fun split_once :: "char \<Rightarrow> string \<Rightarrow> (string \<times> string) option" where
  "split_once sep [] = None"
| "split_once sep (c # cs) =
     (if c = sep then Some ([], cs) else map_option (apfst ((#) c)) (split_once sep cs))"

definition entity_type_of_value :: "string \<Rightarrow> EntityType option" where
  "entity_type_of_value s = find (\<lambda>t. entity_type_value t = s) [USER, DEVICE, IP_ADDRESS]"

record AuthorizedToolTarget =
  tgt_entity_type :: EntityType
  tgt_identifier :: string

definition from_scope_key :: "string \<Rightarrow> AuthorizedToolTarget option" where
  "from_scope_key key =
     (case split_once (CHR '':'') key of None \<Rightarrow> None
      | Some (t, i) \<Rightarrow>
          (case entity_type_of_value t of None \<Rightarrow> None
           | Some et \<Rightarrow>
               map_option (\<lambda>v. \<lparr>tgt_entity_type = et, tgt_identifier = v\<rparr>) (Identifier i)))"

lemma split_once_append: "sep \<notin> set a \<Longrightarrow> split_once sep (a @ sep # b) = Some (a, b)"
  by (induction a) auto

lemma from_scope_key_scope_key:
  "from_scope_key (scope_key e) =
     map_option (\<lambda>v. \<lparr>tgt_entity_type = entity_type e, tgt_identifier = v\<rparr>) (Identifier (entity_identifier e))"
proof -
  have "split_once (CHR '':'') (scope_key e) = Some (entity_type_value (entity_type e), entity_identifier e)"
    unfolding scope_key_def using split_once_append [of "CHR '':''" "entity_type_value (entity_type e)"]
    by (cases e) auto
  then show ?thesis
    by (cases e) (simp_all add: from_scope_key_def entity_type_of_value_def)
qed

end
