(* ===== verification/Actions.thy ===== *)
theory Actions
  imports Json_Unique Entities
begin

text \<open>
  Action recommendations, proposals and their digests (\<open>domain/actions.py\<close>).
  \<open>hashlib.sha256(...).hexdigest()\<close> is the parameter \<open>sha\<close> of the digest: a function from
  the canonical text to a hex string. An action created from external input passes through
  \<open>validate_recommendation\<close>; its parameters are stored frozen.
\<close>

record ActionRecommendation =
  catalog_action_id :: string
  target :: EntityReference
  parameters :: pydict
  rationale :: string

record ActionProposal = ActionRecommendation +
  action_id :: string

record ActionReference =
  ref_action_id :: string
  ref_action_digest :: string

text \<open>Construction of a recommendation: field validation, then the deep freeze.\<close>

definition validate_recommendation :: "ActionRecommendation \<Rightarrow> ActionRecommendation option" where
  "validate_recommendation r =
     (case (Identifier (catalog_action_id r), validate_entity (target r), NonEmptyText (rationale r)) of
        (Some c, Some t, Some why) \<Rightarrow>
          if json_value (PDict (parameters r))
          then Some \<lparr>catalog_action_id = c, target = t,
                     parameters = freeze_mapping (parameters r), rationale = why\<rparr>
          else None
      | _ \<Rightarrow> None)"

text \<open>\<open>serialize_parameters\<close> thaws on dump and the new model freezes again.\<close>

definition canonicalize :: "ActionRecommendation \<Rightarrow> string \<Rightarrow> ActionProposal" where
  "canonicalize r aid =
     \<lparr>catalog_action_id = catalog_action_id r, target = target r,
      parameters = freeze_mapping (thaw_mapping (parameters r)),
      rationale = rationale r, action_id = aid\<rparr>"

definition target_dump :: "EntityReference \<Rightarrow> pyval" where
  "target_dump e = PDict [(''entity_type'', PStr (entity_type_value (entity_type e))),
                          (''identifier'', PStr (entity_identifier e))]"

definition digest_material :: "'a ActionRecommendation_scheme \<Rightarrow> pyval" where
  "digest_material a =
     PDict [(''catalog_action_id'', PStr (catalog_action_id a)),
            (''target'', target_dump (target a)),
            (''parameters'', PDict (thaw_mapping (parameters a)))]"

definition digest :: "(string \<Rightarrow> string) \<Rightarrow> 'a ActionRecommendation_scheme \<Rightarrow> string" where
  "digest sha a = ''sha256:'' @ sha (render False (canon (digest_material a)))"

definition reference_from_proposal :: "(string \<Rightarrow> string) \<Rightarrow> ActionProposal \<Rightarrow> ActionReference" where
  "reference_from_proposal sha p = \<lparr>ref_action_id = action_id p, ref_action_digest = digest sha p\<rparr>"

subsection \<open>Freezing keeps the parameters\<close>

lemma thaw_freeze_mapping:
  "json_value (PDict kvs) \<Longrightarrow> thaw_mapping (freeze_mapping kvs) = kvs"
  by (auto simp: thaw_mapping_def freeze_mapping_def thaw_freeze intro!: map_idI)

lemma freeze_mapping_immutable:
  "json_value (PDict kvs) \<Longrightarrow> kv \<in> set (freeze_mapping kvs) \<Longrightarrow> immutable (snd kv)"
  by (auto simp: freeze_mapping_def freeze_immutable)

lemma freeze_thaw_frozen:
  "json_value (PDict kvs) \<Longrightarrow> freeze_mapping (thaw_mapping (freeze_mapping kvs)) = freeze_mapping kvs"
  by (simp add: thaw_freeze_mapping)

lemma validate_recommendation_SomeD:
  "validate_recommendation r = Some v \<Longrightarrow>
     json_value (PDict (parameters r)) \<and> parameters v = freeze_mapping (parameters r)
     \<and> validate_entity (target r) = Some (target v) \<and> Identifier (catalog_action_id r) = Some (catalog_action_id v)
     \<and> NonEmptyText (rationale r) = Some (rationale v)"
  by (auto simp: validate_recommendation_def split: option.splits if_splits)

lemma canonicalize_simps [simp]:
  "catalog_action_id (canonicalize r i) = catalog_action_id r" "target (canonicalize r i) = target r"
  "rationale (canonicalize r i) = rationale r" "action_id (canonicalize r i) = i"
  "parameters (canonicalize r i) = freeze_mapping (thaw_mapping (parameters r))"
  by (simp_all add: canonicalize_def)

subsection \<open>The digest determines the approved material\<close>

lemma canon_target_dump: "canon (target_dump e) = target_dump e"
  by (simp add: target_dump_def)

lemma canon_material:
  "canon (digest_material a) =
     PDict [(''catalog_action_id'', PStr (catalog_action_id a)),
            (''parameters'', canon (PDict (thaw_mapping (parameters a)))),
            (''target'', target_dump (target a))]"
  by (simp add: digest_material_def canon_target_dump)

lemma target_dump_inj: "target_dump a = target_dump b \<longleftrightarrow> a = b"
  by (cases a; cases b) (auto simp: target_dump_def)

lemma serializable_json: "serializable v \<Longrightarrow> json_dumps a v = Some (render a (canon v))"
  by (simp add: json_dumps_def)

lemma serializable_material:
  "serializable (PDict (thaw_mapping (parameters a))) \<Longrightarrow> serializable (digest_material a)"
  by (simp add: digest_material_def target_dump_def)

text \<open>
  With a hash that does not collide on the two texts at hand, equal digests mean the same
  catalog action, the same target and the same parameters up to key order.
\<close>

lemma digest_binds:
  assumes dig: "digest sha a = digest sha b"
    and nocoll: "sha (render False (canon (digest_material a))) = sha (render False (canon (digest_material b)))
      \<Longrightarrow> render False (canon (digest_material a)) = render False (canon (digest_material b))"
    and ser: "serializable (PDict (thaw_mapping (parameters a)))" "serializable (PDict (thaw_mapping (parameters b)))"
  shows "catalog_action_id a = catalog_action_id b \<and> target a = target b
    \<and> canon (PDict (thaw_mapping (parameters a))) = canon (PDict (thaw_mapping (parameters b)))"
proof -
  have "sha (render False (canon (digest_material a))) = sha (render False (canon (digest_material b)))"
    using dig unfolding digest_def by (simp only: same_append_eq)
  from nocoll [OF this] have same: "render False (canon (digest_material a)) = render False (canon (digest_material b))" .
  have "json_dumps False (digest_material a) = Some (render False (canon (digest_material a)))"
    by (rule serializable_json, rule serializable_material, rule ser(1))
  moreover have "json_dumps False (digest_material b) = Some (render False (canon (digest_material a)))"
    unfolding same by (rule serializable_json, rule serializable_material, rule ser(2))
  ultimately have "canon (digest_material a) = canon (digest_material b)"
    by (rule json_dumps_unique)
  then show ?thesis
    unfolding canon_material by (simp only: pyval.inject list.inject prod.inject target_dump_inj simp_thms)
qed

lemma digest_canonicalize:
  assumes "json_value (PDict kvs)" "parameters r = freeze_mapping kvs"
  shows "digest sha (canonicalize r i) = digest sha r"
proof -
  have "thaw_mapping (parameters (canonicalize r i)) = thaw_mapping (parameters r)"
    unfolding canonicalize_simps assms(2) thaw_freeze_mapping [OF assms(1)] by (rule refl)
  then have "digest_material (canonicalize r i) = digest_material r"
    unfolding digest_material_def by (simp only: canonicalize_simps)
  then show ?thesis by (simp only: digest_def)
qed

end
