(* ===== verification/Evidence.thy ===== *)
theory Evidence
  imports Base
begin

text \<open>
  Evidence and tool-call references (\<open>domain/evidence.py\<close>): provenance values with their
  field validation.
\<close>

record EvidenceReference =
  evidence_id :: string
  source_type :: string
  source_reference :: string
  collected_at :: time
  source_version :: string
  ev_summary :: string
  tool_invocation_id :: "string option"

record ToolCallReference =
  invocation_id :: string
  tc_tool_name :: string
  tc_tool_version :: string
  called_at :: time
  tc_summary :: string

definition validate_evidence :: "EvidenceReference \<Rightarrow> EvidenceReference option" where
  "validate_evidence e =
     (case (Identifier (evidence_id e), Identifier (source_type e), Identifier (source_reference e),
            Version (source_version e), ShortText (ev_summary e),
            optional Identifier (tool_invocation_id e)) of
        (Some i, Some st, Some sr, Some v, Some t, Some tid) \<Rightarrow>
          Some \<lparr>evidence_id = i, source_type = st, source_reference = sr,
                collected_at = collected_at e, source_version = v, ev_summary = t,
                tool_invocation_id = tid\<rparr>
      | _ \<Rightarrow> None)"

definition validate_tool_call :: "ToolCallReference \<Rightarrow> ToolCallReference option" where
  "validate_tool_call c =
     (case (Identifier (invocation_id c), Identifier (tc_tool_name c), Version (tc_tool_version c),
            ShortText (tc_summary c)) of
        (Some i, Some n, Some v, Some t) \<Rightarrow>
          Some \<lparr>invocation_id = i, tc_tool_name = n, tc_tool_version = v,
                called_at = called_at c, tc_summary = t\<rparr>
      | _ \<Rightarrow> None)"

end
