(* ===== verification/Triage.thy ===== *)
theory Triage
  imports Actions Evidence
begin

text \<open>
  Dispositions, severities and the final triage result with its cross-reference validation
  (\<open>domain/triage.py\<close>). \<open>validate_cross_references\<close> returns the message of the first
  violated rule; a result is built only when there is none.
\<close>

datatype Disposition = BENIGN | SUSPICIOUS | MALICIOUS | NEEDS_REVIEW

fun disposition_value :: "Disposition \<Rightarrow> string" where
  "disposition_value BENIGN = ''BENIGN''"
| "disposition_value SUSPICIOUS = ''SUSPICIOUS''"
| "disposition_value MALICIOUS = ''MALICIOUS''"
| "disposition_value NEEDS_REVIEW = ''NEEDS_REVIEW''"

datatype Severity = INFORMATIONAL | LOW | MEDIUM | HIGH | CRITICAL

fun severity_value :: "Severity \<Rightarrow> string" where
  "severity_value INFORMATIONAL = ''INFORMATIONAL''"
| "severity_value LOW = ''LOW''"
| "severity_value MEDIUM = ''MEDIUM''"
| "severity_value HIGH = ''HIGH''"
| "severity_value CRITICAL = ''CRITICAL''"

record TriageResult =
  res_alert_id :: string
  disposition :: Disposition
  confidence :: rat
  severity :: Severity
  evidence :: "EvidenceReference list"
  reasoning_summary :: string
  recommended_actions :: "ActionProposal list"
  actions_requiring_approval :: "ActionReference list"
  escalation_required :: bool
  escalation_reason :: "string option"
  tool_calls :: "ToolCallReference list"
  res_timestamp :: time

definition require_unique :: "string \<Rightarrow> string list \<Rightarrow> string option" where
  "require_unique label values = (if has_duplicates values then Some (''duplicate '' @ label) else None)"

text \<open>The first error of a sequence of checks.\<close>

fun first_error :: "'e option list \<Rightarrow> 'e option" where
  "first_error [] = None"
| "first_error (Some e # cs) = Some e"
| "first_error (None # cs) = first_error cs"

lemma first_error_None: "first_error cs = None \<longleftrightarrow> (\<forall>c \<in> set cs. c = None)"
  by (induction cs rule: first_error.induct) auto

definition unresolved_tools :: "TriageResult \<Rightarrow> string list" where
  "unresolved_tools r =
     [t. Some t \<leftarrow> map tool_invocation_id (evidence r), t \<notin> set (map invocation_id (tool_calls r))]"

definition reference_matches :: "(string \<Rightarrow> string) \<Rightarrow> ActionProposal list \<Rightarrow> ActionReference \<Rightarrow> bool" where
  "reference_matches sha acts ref =
     (case find (\<lambda>a. action_id a = ref_action_id ref) (rev acts) of
        None \<Rightarrow> False
      | Some a \<Rightarrow> digest sha a = ref_action_digest ref)"

definition validate_cross_references :: "(string \<Rightarrow> string) \<Rightarrow> TriageResult \<Rightarrow> string option" where
  "validate_cross_references sha r = first_error
     [if escalation_required r \<and> escalation_reason r = None
        then Some ''escalation_reason is required when escalation_required is true'' else None,
      if \<not> escalation_required r \<and> escalation_reason r \<noteq> None
        then Some ''escalation_reason must be absent when escalation_required is false'' else None,
      require_unique ''evidence identifier'' (map evidence_id (evidence r)),
      require_unique ''tool call identifier'' (map invocation_id (tool_calls r)),
      require_unique ''action identifier'' (map action_id (recommended_actions r)),
      require_unique ''approval-required action identifier''
        (map ref_action_id (actions_requiring_approval r)),
      if unresolved_tools r \<noteq> [] then Some ''evidence references an unknown tool invocation'' else None,
      if \<not> list_all (reference_matches sha (recommended_actions r)) (actions_requiring_approval r)
        then Some ''approval-required action must match a recommended action'' else None]"

definition mk_triage_result :: "(string \<Rightarrow> string) \<Rightarrow> TriageResult \<Rightarrow> string + TriageResult" where
  "mk_triage_result sha r =
     (case validate_cross_references sha r of Some msg \<Rightarrow> Inl msg | None \<Rightarrow> Inr r)"

text \<open>What the validator guarantees of every result that exists.\<close>

definition consistent_result :: "(string \<Rightarrow> string) \<Rightarrow> TriageResult \<Rightarrow> bool" where
  "consistent_result sha r \<longleftrightarrow>
     (escalation_required r \<longleftrightarrow> escalation_reason r \<noteq> None)
     \<and> distinct (map evidence_id (evidence r)) \<and> distinct (map invocation_id (tool_calls r))
     \<and> distinct (map action_id (recommended_actions r))
     \<and> distinct (map ref_action_id (actions_requiring_approval r))
     \<and> (\<forall>e \<in> set (evidence r). \<forall>t. tool_invocation_id e = Some t \<longrightarrow> t \<in> invocation_id ` set (tool_calls r))
     \<and> (\<forall>ref \<in> set (actions_requiring_approval r). \<exists>a \<in> set (recommended_actions r).
          ref = reference_from_proposal sha a)"

lemma require_unique_None [simp]: "require_unique l xs = None \<longleftrightarrow> distinct xs"
  by (simp add: require_unique_def)

lemma unresolved_tools_Nil:
  "unresolved_tools r = [] \<longleftrightarrow>
    (\<forall>e \<in> set (evidence r). \<forall>t. tool_invocation_id e = Some t \<longrightarrow> t \<in> invocation_id ` set (tool_calls r))"
  by (auto simp: unresolved_tools_def split: option.splits)

lemma reference_matches_iff:
  assumes "distinct (map action_id acts)"
  shows "reference_matches sha acts ref \<longleftrightarrow> (\<exists>a \<in> set acts. ref = reference_from_proposal sha a)"
proof -
  have "distinct (map action_id (rev acts))" using assms by (simp add: rev_map [symmetric])
  then have get: "a \<in> set acts \<Longrightarrow> find (\<lambda>x. action_id x = action_id a) (rev acts) = Some a" for a
    using row_get_in [of action_id "rev acts" a] by (simp add: row_get_def)
  show ?thesis
  proof
    assume "reference_matches sha acts ref"
    then obtain a where "find (\<lambda>x. action_id x = ref_action_id ref) (rev acts) = Some a"
      and "digest sha a = ref_action_digest ref"
      by (auto simp: reference_matches_def split: option.splits)
    then show "\<exists>a \<in> set acts. ref = reference_from_proposal sha a"
      by (auto simp: reference_from_proposal_def dest!: find_SomeD intro!: bexI [of _ a])
  next
    assume "\<exists>a \<in> set acts. ref = reference_from_proposal sha a"
    then show "reference_matches sha acts ref"
      using get by (auto simp: reference_matches_def reference_from_proposal_def)
  qed
qed

lemma validate_cross_references_None:
  "validate_cross_references sha r = None \<longleftrightarrow> consistent_result sha r"
proof -
  have "validate_cross_references sha r = None \<longleftrightarrow>
      \<not> (escalation_required r \<and> escalation_reason r = None)
      \<and> \<not> (\<not> escalation_required r \<and> escalation_reason r \<noteq> None)
      \<and> distinct (map evidence_id (evidence r)) \<and> distinct (map invocation_id (tool_calls r))
      \<and> distinct (map action_id (recommended_actions r))
      \<and> distinct (map ref_action_id (actions_requiring_approval r))
      \<and> unresolved_tools r = []
      \<and> list_all (reference_matches sha (recommended_actions r)) (actions_requiring_approval r)"
    by (simp add: validate_cross_references_def first_error_None)
  also have "\<dots> \<longleftrightarrow> consistent_result sha r"
    using reference_matches_iff [of "recommended_actions r" sha]
    unfolding consistent_result_def unresolved_tools_Nil list_all_iff by auto
  finally show ?thesis .
qed

lemma mk_triage_result_Inr: "mk_triage_result sha r = Inr r' \<longleftrightarrow> r' = r \<and> consistent_result sha r"
  by (auto simp: mk_triage_result_def validate_cross_references_None [symmetric] split: option.splits)

lemma mk_triage_result_Inl: "(\<exists>msg. mk_triage_result sha r = Inl msg) \<longleftrightarrow> \<not> consistent_result sha r"
  by (auto simp: mk_triage_result_def validate_cross_references_None [symmetric] split: option.splits)

end
