(* ===== verification/Action_Catalog.thy ===== *)
theory Action_Catalog
  imports Actions
begin

text \<open>
  The closed catalog of response actions (\<open>application/action_catalog.py\<close>): parameter
  schemas, action definitions, registration with its four refusals, lookup, and the initial
  catalog of six high-impact, simulation-only actions.
\<close>

datatype ActionRisk = HIGH_IMPACT

datatype ExecutionSupport = SIMULATED_ONLY

subsection \<open>Parameter schemas\<close>

text \<open>
  A closed schema (\<open>extra="forbid"\<close>) validated strictly is the predicate that accepts the
  parameter dictionary; a one-field schema needs exactly that key, with a string value.
\<close>

type_synonym params_model = "pydict \<Rightarrow> bool"

definition NoParameters :: params_model where
  "NoParameters d \<longleftrightarrow> d = []"

definition single_identifier :: "string \<Rightarrow> params_model" where
  "single_identifier field d =
     (case d of [(k, PStr s)] \<Rightarrow> k = field \<and> Identifier s \<noteq> None | _ \<Rightarrow> False)"

definition DeleteEmailParameters :: params_model where
  "DeleteEmailParameters = single_identifier ''message_id''"

definition RemovePrivilegeParameters :: params_model where
  "RemovePrivilegeParameters = single_identifier ''privilege_id''"

subsection \<open>Definitions and registration\<close>

record ActionDefinition =
  def_action_id :: string
  def_version :: string
  def_description :: string
  target_types :: "EntityType set"
  risk :: ActionRisk
  approval_required :: bool
  execution_support :: ExecutionSupport
  parameters_model :: params_model
  objective :: string
  category :: string
  evidence_considerations :: string
  blast_radius :: string
  reversibility :: string
  excessive_when :: string
  reasonable_combinations :: "string list"

datatype catalog_error =
    MissingIdentity | MissingTargetTypes | ApprovalMustBeRequired | DuplicateAction string

type_synonym ActionCatalog = "(string \<times> ActionDefinition) list"

definition catalog_admit :: "ActionCatalog \<Rightarrow> ActionDefinition \<Rightarrow> catalog_error option" where
  "catalog_admit entries d =
     (if def_action_id d = [] \<or> def_version d = [] then Some MissingIdentity
      else if target_types d = {} then Some MissingTargetTypes
      else if risk d = HIGH_IMPACT \<and> \<not> approval_required d then Some ApprovalMustBeRequired
      else if def_action_id d \<in> fst ` set entries then Some (DuplicateAction (def_action_id d))
      else None)"

definition action_catalog :: "ActionDefinition list \<Rightarrow> catalog_error + ActionCatalog" where
  "action_catalog definitions = register_all catalog_admit def_action_id [] definitions"

definition catalog_lookup :: "ActionCatalog \<Rightarrow> string \<Rightarrow> ActionDefinition option" where
  "catalog_lookup cat aid = map_of cat aid"

definition catalog_iter :: "ActionCatalog \<Rightarrow> string list" where
  "catalog_iter cat = sort (map fst cat)"

definition sound_definition :: "ActionDefinition \<Rightarrow> bool" where
  "sound_definition d \<longleftrightarrow> def_action_id d \<noteq> [] \<and> def_version d \<noteq> [] \<and> target_types d \<noteq> {}
     \<and> (risk d = HIGH_IMPACT \<longrightarrow> approval_required d)"

interpretation catalog_reg: closed_registry catalog_admit def_action_id sound_definition
  by unfold_locales (auto simp: catalog_admit_def sound_definition_def split: if_splits)

lemma catalog_sound:
  assumes "action_catalog definitions = Inr cat" and "catalog_lookup cat k = Some d"
  shows "sound_definition d \<and> def_action_id d = k \<and> d \<in> set definitions"
proof -
  have reg: "register_all catalog_admit def_action_id [] definitions = Inr cat"
    using assms(1) by (simp add: action_catalog_def)
  have "d \<in> set definitions \<and> def_action_id d = k"
    using assms(2) catalog_reg.lookup_registered [OF reg] by (simp add: catalog_lookup_def)
  then show ?thesis using catalog_reg.registered(4) [OF reg] by blast
qed

text \<open>The risk class has one value, so every catalogued action requires approval.\<close>

lemma catalog_requires_approval:
  assumes "action_catalog definitions = Inr cat" and "catalog_lookup cat k = Some d"
  shows "approval_required d"
  using catalog_sound [OF assms] by (cases "risk d") (simp add: sound_definition_def)

subsection \<open>The initial catalog\<close>

definition high_impact :: "string \<Rightarrow> string \<Rightarrow> EntityType \<Rightarrow> string \<Rightarrow> string \<Rightarrow> string \<Rightarrow> string
    \<Rightarrow> string \<Rightarrow> string \<Rightarrow> string list \<Rightarrow> params_model \<Rightarrow> ActionDefinition" where
  "high_impact aid desc ttype obj catg considerations blast revers excessive combos model =
     \<lparr>def_action_id = aid, def_version = ''1.0.0'', def_description = desc,
      target_types = {ttype}, risk = HIGH_IMPACT, approval_required = True,
      execution_support = SIMULATED_ONLY, parameters_model = model, objective = obj,
      category = catg, evidence_considerations = considerations, blast_radius = blast,
      reversibility = revers, excessive_when = excessive, reasonable_combinations = combos\<rparr>"

definition initial_definitions :: "ActionDefinition list" where
  "initial_definitions = [
    high_impact ''disable_account'' ''Disable a user account.'' USER
      ''Prevent all account use when compromise or imminent reuse creates intolerable risk.''
      ''CONTAINMENT''
      ''Established compromise or a trusted emergency playbook; consider business and break-glass impact.''
      ''Broad account and dependent-workload disruption.''
      ''Generally reversible by an authorized identity administrator.''
      ''Compromise remains uncorroborated and narrower controls meet the containment objective.''
      [''revoke_sessions'', ''reset_password'', ''remove_privilege''] NoParameters,
    high_impact ''revoke_sessions'' ''Revoke active user sessions.'' USER
      ''Terminate existing unauthorized or suspect session access.''
      ''CONTAINMENT''
      ''A suspect active session or stolen token may exist.''
      ''Forces reauthentication and may disrupt active work.''
      ''Access can resume after successful authorized authentication.''
      ''No session or access concern is supported.''
      [''reset_password'', ''disable_account''] NoParameters,
    high_impact ''reset_password'' ''Require a user password reset.'' USER
      ''Replace a password credential suspected of exposure.''
      ''ERADICATION_RECOVERY''
      ''Password compromise is supported or a trusted recovery playbook requires rotation.''
      ''Disrupts user and password-dependent services.''
      ''The user can recover through authorized identity proofing and reset.''
      ''Evidence concerns only an unrelated endpoint or session token.''
      [''revoke_sessions'', ''disable_account''] NoParameters,
    high_impact ''isolate_device'' ''Isolate a managed device.'' DEVICE
      ''Stop a compromised endpoint from communicating or moving laterally.''
      ''CONTAINMENT''
      ''Endpoint compromise or imminent endpoint-driven spread is supported.''
      ''High endpoint and user operational disruption.''
      ''An authorized endpoint operator can normally release isolation.''
      ''The device is merely mentioned, unfamiliar, or noncompliant without compromise evidence.''
      [''revoke_sessions'', ''reset_password''] NoParameters,
    high_impact ''delete_email'' ''Delete a specified email message for a scoped user.'' USER
      ''Remove an exactly identified malicious message from a mailbox.''
      ''CONTAINMENT_ERADICATION''
      ''The exact message is confirmed harmful and remains accessible.''
      ''Removes content and may affect retention, legal, or user workflows.''
      ''Recovery depends on mailbox retention and provider behavior.''
      ''No exact malicious message has been identified.''
      [''revoke_sessions'', ''reset_password''] DeleteEmailParameters,
    high_impact ''remove_privilege'' ''Remove a specified privilege from a scoped user.'' USER
      ''Remove an exactly identified unauthorized or compromised entitlement.''
      ''CONTAINMENT_RISK_REDUCTION''
      ''The exact privilege is unauthorized, misused, or covered by a trusted containment playbook.''
      ''May disrupt administration, separation of duties, or business processes.''
      ''An authorized entitlement administrator can normally restore it.''
      ''The privilege is legitimate and no misuse or compromise is established.''
      [''revoke_sessions'', ''disable_account''] RemovePrivilegeParameters
]"

definition initial_action_catalog :: "catalog_error + ActionCatalog" where
  "initial_action_catalog = action_catalog initial_definitions"

lemma high_impact_sels [simp]:
  "def_action_id (high_impact a b c d e f g h i j k) = a" "def_version (high_impact a b c d e f g h i j k) = ''1.0.0''"
  "target_types (high_impact a b c d e f g h i j k) = {c}" "approval_required (high_impact a b c d e f g h i j k)"
  "risk (high_impact a b c d e f g h i j k) = HIGH_IMPACT"
  "execution_support (high_impact a b c d e f g h i j k) = SIMULATED_ONLY"
  "parameters_model (high_impact a b c d e f g h i j k) = k"
  by (simp_all add: high_impact_def)

lemma initial_catalog_entries:
  "initial_action_catalog = Inr (map (\<lambda>d. (def_action_id d, d)) initial_definitions)"
  by (simp add: initial_action_catalog_def action_catalog_def initial_definitions_def catalog_admit_def)

definition the_catalog :: ActionCatalog where
  "the_catalog = map (\<lambda>d. (def_action_id d, d)) initial_definitions"

lemma initial_catalog_registers: "action_catalog initial_definitions = Inr the_catalog"
  using initial_catalog_entries by (simp add: initial_action_catalog_def the_catalog_def)

end
