(* ===== verification/Policy.thy ===== *)
theory Policy
  imports Triage Action_Catalog
begin

text \<open>
  The deterministic policy (\<open>application/policy.py\<close>): the untrusted candidate, the reason
  codes, the per-action rule chain, the evaluation of a candidate and the safe review.
  \<open>fresh\<close> is the action identifier factory: its \<open>n\<close>-th call returns \<open>fresh n\<close>; the number
  of the next call is threaded through and returned. Candidates reach \<open>evaluate\<close> only as
  validated models, so \<open>evaluate_untrusted\<close> takes the outcome of that validation.
\<close>

definition POLICY_VERSION :: string where
  "POLICY_VERSION = ''1.0.0''"

record CandidateAssessment =
  cand_disposition :: Disposition
  cand_severity :: Severity
  cand_confidence :: rat
  cand_evidence :: "EvidenceReference list"
  cand_reasoning_summary :: string
  cand_recommended_actions :: "ActionRecommendation list"
  cand_escalation_required :: bool
  cand_escalation_reason :: "string option"
  cand_tool_calls :: "ToolCallReference list"

text \<open>Field validation of a candidate built from external data.\<close>

definition validate_candidate :: "CandidateAssessment \<Rightarrow> CandidateAssessment option" where
  "validate_candidate c =
     (case (Confidence (cand_confidence c), all_valid validate_evidence (cand_evidence c),
            NonEmptyText (cand_reasoning_summary c),
            all_valid validate_recommendation (cand_recommended_actions c),
            optional NonEmptyText (cand_escalation_reason c),
            all_valid validate_tool_call (cand_tool_calls c)) of
        (Some conf, Some evs, Some summ, Some acts, Some why, Some calls) \<Rightarrow>
          Some (c\<lparr>cand_confidence := conf, cand_evidence := evs, cand_reasoning_summary := summ,
                  cand_recommended_actions := acts, cand_escalation_reason := why,
                  cand_tool_calls := calls\<rparr>)
      | _ \<Rightarrow> None)"

datatype PolicyReasonCode =
    ACCEPTED | CANDIDATE_INVALID | INSUFFICIENT_EVIDENCE | UNKNOWN_ACTION
  | INVALID_ACTION_PARAMETERS | UNSUPPORTED_TARGET_TYPE | ACTION_TARGET_OUT_OF_SCOPE
  | CANDIDATE_ESCALATION

fun reason_value :: "PolicyReasonCode \<Rightarrow> string" where
  "reason_value ACCEPTED = ''ACCEPTED''"
| "reason_value CANDIDATE_INVALID = ''CANDIDATE_INVALID''"
| "reason_value INSUFFICIENT_EVIDENCE = ''INSUFFICIENT_EVIDENCE''"
| "reason_value UNKNOWN_ACTION = ''UNKNOWN_ACTION''"
| "reason_value INVALID_ACTION_PARAMETERS = ''INVALID_ACTION_PARAMETERS''"
| "reason_value UNSUPPORTED_TARGET_TYPE = ''UNSUPPORTED_TARGET_TYPE''"
| "reason_value ACTION_TARGET_OUT_OF_SCOPE = ''ACTION_TARGET_OUT_OF_SCOPE''"
| "reason_value CANDIDATE_ESCALATION = ''CANDIDATE_ESCALATION''"

record RejectedAction =
  rej_catalog_action_id :: string
  rej_reason_code :: PolicyReasonCode

record PolicyDecision =
  pd_policy_version :: string
  pd_result :: TriageResult
  pd_reason_codes :: "PolicyReasonCode list"
  pd_accepted_action_ids :: "string list"
  pd_rejected_actions :: "RejectedAction list"

definition scope_from_entities :: "EntityReference list \<Rightarrow> string set" where
  "scope_from_entities es = scope_key ` set es"

subsection \<open>The rule chain for one recommended action\<close>

definition action_reason ::
  "ActionCatalog \<Rightarrow> string set \<Rightarrow> ActionRecommendation \<Rightarrow> PolicyReasonCode option" where
  "action_reason cat scope a =
     (case catalog_lookup cat (catalog_action_id a) of
        None \<Rightarrow> Some UNKNOWN_ACTION
      | Some d \<Rightarrow>
          if entity_type (target a) \<notin> target_types d then Some UNSUPPORTED_TARGET_TYPE
          else if scope_key (target a) \<notin> scope then Some ACTION_TARGET_OUT_OF_SCOPE
          else if parameters_model d (parameters a) then None
          else Some INVALID_ACTION_PARAMETERS)"

record policy_state =
  ps_reasons :: "PolicyReasonCode list"
  ps_accepted :: "ActionProposal list"
  ps_approvals :: "ActionReference list"
  ps_rejected :: "RejectedAction list"
  ps_next :: nat

definition policy_step ::
  "(string \<Rightarrow> string) \<Rightarrow> ActionCatalog \<Rightarrow> string set \<Rightarrow> (nat \<Rightarrow> string) \<Rightarrow> policy_state
     \<Rightarrow> ActionRecommendation \<Rightarrow> policy_state" where
  "policy_step sha cat scope fresh st a =
     (case action_reason cat scope a of
        Some reason \<Rightarrow>
          st\<lparr>ps_reasons := ps_reasons st @ [reason],
             ps_rejected := ps_rejected st @
               [\<lparr>rej_catalog_action_id = catalog_action_id a, rej_reason_code = reason\<rparr>]\<rparr>
      | None \<Rightarrow>
          let canonical = canonicalize a (fresh (ps_next st)) in
          st\<lparr>ps_accepted := ps_accepted st @ [canonical],
             ps_approvals := ps_approvals st @
               (case catalog_lookup cat (catalog_action_id a) of
                  Some d \<Rightarrow> if approval_required d then [reference_from_proposal sha canonical] else []
                | None \<Rightarrow> []),
             ps_next := Suc (ps_next st)\<rparr>)"

definition is_forcing :: "PolicyReasonCode \<Rightarrow> bool" where
  "is_forcing r \<longleftrightarrow> r \<in> {INSUFFICIENT_EVIDENCE, UNKNOWN_ACTION, INVALID_ACTION_PARAMETERS,
     UNSUPPORTED_TARGET_TYPE, ACTION_TARGET_OUT_OF_SCOPE}"

definition forced_reason_text :: "PolicyReasonCode list \<Rightarrow> string" where
  "forced_reason_text reasons =
     ''Deterministic policy requires human review: '' @
     join '', '' (sorted_set (map reason_value (filter (\<lambda>r. r \<noteq> ACCEPTED) reasons)))"

subsection \<open>Evaluation\<close>

definition safe_review :: "string \<Rightarrow> time \<Rightarrow> PolicyDecision" where
  "safe_review alert_id timestamp =
     \<lparr>pd_policy_version = POLICY_VERSION,
      pd_result =
        \<lparr>res_alert_id = alert_id, disposition = NEEDS_REVIEW, confidence = 0,
         severity = INFORMATIONAL, evidence = [],
         reasoning_summary = ''Candidate assessment failed deterministic validation.'',
         recommended_actions = [], actions_requiring_approval = [], escalation_required = True,
         escalation_reason =
           Some ''Deterministic policy could not validate the candidate assessment.'',
         tool_calls = [], res_timestamp = timestamp\<rparr>,
      pd_reason_codes = [CANDIDATE_INVALID], pd_accepted_action_ids = [], pd_rejected_actions = []\<rparr>"

definition initial_reasons :: "CandidateAssessment \<Rightarrow> PolicyReasonCode list" where
  "initial_reasons c =
     (if cand_disposition c \<noteq> NEEDS_REVIEW \<and> cand_evidence c = [] then [INSUFFICIENT_EVIDENCE] else [])"

definition assess_actions ::
  "(string \<Rightarrow> string) \<Rightarrow> ActionCatalog \<Rightarrow> string set \<Rightarrow> (nat \<Rightarrow> string) \<Rightarrow> nat \<Rightarrow> CandidateAssessment
     \<Rightarrow> policy_state" where
  "assess_actions sha cat scope fresh n c =
     foldl (policy_step sha cat scope fresh)
       \<lparr>ps_reasons = initial_reasons c, ps_accepted = [], ps_approvals = [], ps_rejected = [], ps_next = n\<rparr>
       (cand_recommended_actions c)"

definition evaluate ::
  "(string \<Rightarrow> string) \<Rightarrow> ActionCatalog \<Rightarrow> (nat \<Rightarrow> string) \<Rightarrow> nat \<Rightarrow> CandidateAssessment \<Rightarrow> string
     \<Rightarrow> string set \<Rightarrow> time \<Rightarrow> PolicyDecision \<times> nat" where
  "evaluate sha cat fresh n c alert_id scope timestamp =
     (let st = assess_actions sha cat scope fresh n c;
          reasons = ps_reasons st @ (if cand_escalation_required c then [CANDIDATE_ESCALATION] else []);
          forced_review = list_ex is_forcing reasons;
          escalation = cand_escalation_required c \<or> forced_review;
          final_disposition = (if forced_review then NEEDS_REVIEW else cand_disposition c);
          why = (if forced_review then Some (forced_reason_text reasons)
                 else if cand_escalation_required c
                   then (case cand_escalation_reason c of
                           Some t \<Rightarrow> Some (if t = [] then ''Candidate requested human review.'' else t)
                         | None \<Rightarrow> Some ''Candidate requested human review.'')
                 else None);
          codes = (if reasons = [] then [ACCEPTED] else reasons)
      in case mk_triage_result sha
           \<lparr>res_alert_id = alert_id, disposition = final_disposition, confidence = cand_confidence c,
            severity = cand_severity c, evidence = cand_evidence c,
            reasoning_summary = cand_reasoning_summary c, recommended_actions = ps_accepted st,
            actions_requiring_approval = ps_approvals st, escalation_required = escalation,
            escalation_reason = why, tool_calls = cand_tool_calls c, res_timestamp = timestamp\<rparr> of
           Inl _ \<Rightarrow> (safe_review alert_id timestamp, ps_next st)
         | Inr result \<Rightarrow>
             (\<lparr>pd_policy_version = POLICY_VERSION, pd_result = result,
               pd_reason_codes = dict_fromkeys codes,
               pd_accepted_action_ids = map action_id (ps_accepted st),
               pd_rejected_actions = ps_rejected st\<rparr>, ps_next st))"

text \<open>
  \<open>payload\<close> is the result of \<open>CandidateAssessment.model_validate\<close> on the untrusted object:
  \<open>None\<close> where it raises.
\<close>

definition evaluate_untrusted ::
  "(string \<Rightarrow> string) \<Rightarrow> ActionCatalog \<Rightarrow> (nat \<Rightarrow> string) \<Rightarrow> nat \<Rightarrow> CandidateAssessment option \<Rightarrow> string
     \<Rightarrow> string set \<Rightarrow> time \<Rightarrow> PolicyDecision \<times> nat" where
  "evaluate_untrusted sha cat fresh n payload alert_id scope timestamp =
     (case payload of None \<Rightarrow> (safe_review alert_id timestamp, n)
      | Some c \<Rightarrow> evaluate sha cat fresh n c alert_id scope timestamp)"

end
