(* ===== verification/Policy_Correct.thy ===== *)
theory Policy_Correct
  imports Policy
begin

text \<open>
  Correctness of the deterministic policy: what it admits, that it fails closed, that every
  decision carries a consistent result, and when the safe review is reached.
  \<open>admitted\<close> is the specification of acceptance: the actions that pass the rule chain, in
  order, each with the next fresh identifier.
\<close>

fun admitted :: "ActionCatalog \<Rightarrow> string set \<Rightarrow> (nat \<Rightarrow> string) \<Rightarrow> nat \<Rightarrow> ActionRecommendation list
    \<Rightarrow> ActionProposal list" where
  "admitted cat scope fresh n [] = []"
| "admitted cat scope fresh n (a # as) =
     (if action_reason cat scope a = None
      then canonicalize a (fresh n) # admitted cat scope fresh (Suc n) as
      else admitted cat scope fresh n as)"

definition refusals :: "ActionCatalog \<Rightarrow> string set \<Rightarrow> ActionRecommendation list \<Rightarrow> PolicyReasonCode list" where
  "refusals cat scope acts = List.map_filter (action_reason cat scope) acts"

text \<open>Catalogs in which every entry requires approval; \<open>action_catalog\<close> builds no others.\<close>

definition approval_gated :: "ActionCatalog \<Rightarrow> bool" where
  "approval_gated cat \<longleftrightarrow> (\<forall>k d. catalog_lookup cat k = Some d \<longrightarrow> approval_required d)"

lemma approval_gated_catalog: "action_catalog ds = Inr cat \<Longrightarrow> approval_gated cat"
  by (auto simp: approval_gated_def dest: catalog_requires_approval)

lemma policy_step_simps:
  "action_reason cat scope a = Some r \<Longrightarrow> policy_step sha cat scope fresh st a =
     st\<lparr>ps_reasons := ps_reasons st @ [r], ps_rejected := ps_rejected st @
       [\<lparr>rej_catalog_action_id = catalog_action_id a, rej_reason_code = r\<rparr>]\<rparr>"
  "action_reason cat scope a = None \<Longrightarrow> approval_gated cat \<Longrightarrow> policy_step sha cat scope fresh st a =
     st\<lparr>ps_accepted := ps_accepted st @ [canonicalize a (fresh (ps_next st))],
        ps_approvals := ps_approvals st @ [reference_from_proposal sha (canonicalize a (fresh (ps_next st)))],
        ps_next := Suc (ps_next st)\<rparr>"
  by (auto simp: policy_step_def Let_def action_reason_def approval_gated_def split: option.splits)

lemma map_filter_simps2: "List.map_filter f (x # xs) = (case f x of None \<Rightarrow> List.map_filter f xs | Some y \<Rightarrow> y # List.map_filter f xs)"
  "List.map_filter f [] = []"
  by (auto simp: List.map_filter_def split: option.splits)

lemma fold_policy_step:
  "ps_reasons (foldl (policy_step sha cat scope fresh) st acts) = ps_reasons st @ refusals cat scope acts
   \<and> ps_accepted (foldl (policy_step sha cat scope fresh) st acts) =
       ps_accepted st @ admitted cat scope fresh (ps_next st) acts
   \<and> length (ps_rejected (foldl (policy_step sha cat scope fresh) st acts)) =
       length (ps_rejected st) + length (refusals cat scope acts)
   \<and> map rej_reason_code (ps_rejected (foldl (policy_step sha cat scope fresh) st acts)) =
       map rej_reason_code (ps_rejected st) @ refusals cat scope acts
   \<and> ps_next (foldl (policy_step sha cat scope fresh) st acts) =
       ps_next st + length (admitted cat scope fresh (ps_next st) acts)"
proof (induction acts arbitrary: st)
  case Nil
  then show ?case by (simp add: refusals_def map_filter_simps2)
next
  case (Cons a acts)
  then show ?case
    by (cases "action_reason cat scope a")
      (simp_all add: refusals_def map_filter_simps2 policy_step_def Let_def)
qed

lemma fold_policy_approvals:
  "approval_gated cat \<Longrightarrow> ps_approvals (foldl (policy_step sha cat scope fresh) st acts) =
     ps_approvals st @ map (reference_from_proposal sha) (admitted cat scope fresh (ps_next st) acts)"
proof (induction acts arbitrary: st)
  case Nil
  then show ?case by simp
next
  case (Cons a acts)
  then show ?case
    by (cases "action_reason cat scope a") (simp_all add: policy_step_simps)
qed

lemma fold_policy_approvals_subset:
  "set (ps_approvals st) \<subseteq> reference_from_proposal sha ` set (ps_accepted st) \<Longrightarrow>
   set (ps_approvals (foldl (policy_step sha cat scope fresh) st acts)) \<subseteq>
     reference_from_proposal sha ` set (ps_accepted (foldl (policy_step sha cat scope fresh) st acts))"
  by (rule foldl_invariant) (auto simp: policy_step_def Let_def split: option.splits if_splits)

lemma assess_actions_simps:
  "ps_reasons (assess_actions sha cat scope fresh n c) =
     initial_reasons c @ refusals cat scope (cand_recommended_actions c)"
  "ps_accepted (assess_actions sha cat scope fresh n c) = admitted cat scope fresh n (cand_recommended_actions c)"
  "map rej_reason_code (ps_rejected (assess_actions sha cat scope fresh n c)) =
     refusals cat scope (cand_recommended_actions c)"
  "ps_next (assess_actions sha cat scope fresh n c) =
     n + length (admitted cat scope fresh n (cand_recommended_actions c))"
  using fold_policy_step [of sha cat scope fresh _ "cand_recommended_actions c"]
  by (simp_all add: assess_actions_def)

lemma assess_actions_approvals:
  "approval_gated cat \<Longrightarrow> ps_approvals (assess_actions sha cat scope fresh n c) =
     map (reference_from_proposal sha) (admitted cat scope fresh n (cand_recommended_actions c))"
  by (simp add: assess_actions_def fold_policy_approvals)

lemma admitted_SomeD:
  "p \<in> set (admitted cat scope fresh n acts) \<Longrightarrow>
     \<exists>a i. a \<in> set acts \<and> action_reason cat scope a = None \<and> n \<le> i \<and> p = canonicalize a (fresh i)"
proof (induction acts arbitrary: n)
  case Nil
  then show ?case by simp
next
  case (Cons a acts)
  show ?case
  proof (cases "p \<in> set (admitted cat scope fresh (Suc n) acts) \<or> p \<in> set (admitted cat scope fresh n acts)")
    case True
    then show ?thesis using Cons.IH [of "Suc n"] Cons.IH [of n] by (auto dest: Suc_leD)
  next
    case False
    then have "action_reason cat scope a = None" "p = canonicalize a (fresh n)"
      using Cons.prems by (simp_all split: if_splits)
    then show ?thesis by auto
  qed
qed

lemma admitted_ids:
  "map action_id (admitted cat scope fresh n acts) =
     map fresh [n..<n + length (admitted cat scope fresh n acts)]"
  by (induction cat scope fresh n acts rule: admitted.induct)
    (auto simp: upt_rec [of _ "Suc _"] upt_conv_Cons simp del: upt_Suc)

lemma admitted_refusals_length:
  "length (admitted cat scope fresh n acts) + length (refusals cat scope acts) = length acts"
  by (induction cat scope fresh n acts rule: admitted.induct)
    (auto simp: refusals_def map_filter_simps2 split: option.splits)

lemma refusals_Nil: "refusals cat scope acts = [] \<longleftrightarrow> (\<forall>a \<in> set acts. action_reason cat scope a = None)"
  by (induction acts) (auto simp: refusals_def map_filter_simps2 split: option.splits)

lemma action_reason_forcing: "action_reason cat scope a = Some r \<Longrightarrow> is_forcing r"
  by (auto simp: action_reason_def is_forcing_def split: option.splits if_splits)

lemma refusals_forcing: "r \<in> set (refusals cat scope acts) \<Longrightarrow> is_forcing r"
  by (induction acts) (auto simp: refusals_def map_filter_simps2 dest: action_reason_forcing split: option.splits)

lemma action_reason_None:
  "action_reason cat scope a = None \<longleftrightarrow>
     (\<exists>d. catalog_lookup cat (catalog_action_id a) = Some d \<and> entity_type (target a) \<in> target_types d
        \<and> scope_key (target a) \<in> scope \<and> parameters_model d (parameters a))"
  by (auto simp: action_reason_def split: option.splits if_splits)

text \<open>A candidate forces review when it lacks evidence or when an action is refused.\<close>

definition must_review :: "ActionCatalog \<Rightarrow> string set \<Rightarrow> CandidateAssessment \<Rightarrow> bool" where
  "must_review cat scope c \<longleftrightarrow> initial_reasons c \<noteq> [] \<or> refusals cat scope (cand_recommended_actions c) \<noteq> []"

lemma forced_review_iff:
  "list_ex is_forcing (initial_reasons c @ refusals cat scope (cand_recommended_actions c)
      @ (if cand_escalation_required c then [CANDIDATE_ESCALATION] else []))
   \<longleftrightarrow> must_review cat scope c"
proof -
  have "list_ex is_forcing (initial_reasons c) \<longleftrightarrow> initial_reasons c \<noteq> []"
    by (simp add: initial_reasons_def is_forcing_def)
  moreover have "list_ex is_forcing (refusals cat scope acts) \<longleftrightarrow> refusals cat scope acts \<noteq> []" for acts
    using refusals_forcing [of _ cat scope acts] by (cases "refusals cat scope acts") (auto simp: list_ex_iff)
  ultimately show ?thesis by (auto simp: must_review_def is_forcing_def)
qed

text \<open>The result that \<open>evaluate\<close> tries to build, and the decision in its two outcomes.\<close>

definition draft_result ::
  "(string \<Rightarrow> string) \<Rightarrow> ActionCatalog \<Rightarrow> (nat \<Rightarrow> string) \<Rightarrow> nat \<Rightarrow> CandidateAssessment \<Rightarrow> string
     \<Rightarrow> string set \<Rightarrow> time \<Rightarrow> TriageResult" where
  "draft_result sha cat fresh n c alert_id scope timestamp =
     \<lparr>res_alert_id = alert_id,
      disposition = (if must_review cat scope c then NEEDS_REVIEW else cand_disposition c),
      confidence = cand_confidence c, severity = cand_severity c, evidence = cand_evidence c,
      reasoning_summary = cand_reasoning_summary c,
      recommended_actions = admitted cat scope fresh n (cand_recommended_actions c),
      actions_requiring_approval = ps_approvals (assess_actions sha cat scope fresh n c),
      escalation_required = (cand_escalation_required c \<or> must_review cat scope c),
      escalation_reason =
        (if must_review cat scope c
         then Some (forced_reason_text (initial_reasons c @ refusals cat scope (cand_recommended_actions c)
                @ (if cand_escalation_required c then [CANDIDATE_ESCALATION] else [])))
         else if cand_escalation_required c
         then (case cand_escalation_reason c of
                 Some t \<Rightarrow> Some (if t = [] then ''Candidate requested human review.'' else t)
               | None \<Rightarrow> Some ''Candidate requested human review.'')
         else None),
      tool_calls = cand_tool_calls c, res_timestamp = timestamp\<rparr>"

lemma evaluate_cases:
  "(consistent_result sha (draft_result sha cat fresh n c aid scope ts)
      \<and> pd_result (fst (evaluate sha cat fresh n c aid scope ts)) = draft_result sha cat fresh n c aid scope ts
      \<and> map rej_reason_code (pd_rejected_actions (fst (evaluate sha cat fresh n c aid scope ts))) =
          refusals cat scope (cand_recommended_actions c)
      \<and> CANDIDATE_INVALID \<notin> set (pd_reason_codes (fst (evaluate sha cat fresh n c aid scope ts)))
      \<and> pd_policy_version (fst (evaluate sha cat fresh n c aid scope ts)) = POLICY_VERSION)
   \<or> (\<not> consistent_result sha (draft_result sha cat fresh n c aid scope ts)
      \<and> fst (evaluate sha cat fresh n c aid scope ts) = safe_review aid ts)"
proof -
  have inv: "CANDIDATE_INVALID \<notin> set (initial_reasons c)"
    "CANDIDATE_INVALID \<notin> set (refusals cat scope acts)" for acts
    using refusals_forcing [of CANDIDATE_INVALID cat scope acts] by (auto simp: initial_reasons_def is_forcing_def)
  have draft: "evaluate sha cat fresh n c aid scope ts =
     (let st = assess_actions sha cat scope fresh n c;
          reasons = initial_reasons c @ refusals cat scope (cand_recommended_actions c)
             @ (if cand_escalation_required c then [CANDIDATE_ESCALATION] else [])
      in case mk_triage_result sha (draft_result sha cat fresh n c aid scope ts) of
           Inl _ \<Rightarrow> (safe_review aid ts, ps_next st)
         | Inr result \<Rightarrow>
             (\<lparr>pd_policy_version = POLICY_VERSION, pd_result = result,
               pd_reason_codes = dict_fromkeys (if reasons = [] then [ACCEPTED] else reasons),
               pd_accepted_action_ids = map action_id (ps_accepted st),
               pd_rejected_actions = ps_rejected st\<rparr>, ps_next st))"
    unfolding evaluate_def Let_def draft_result_def assess_actions_simps append_assoc forced_review_iff
    by (rule refl)
  show ?thesis
  proof (cases "mk_triage_result sha (draft_result sha cat fresh n c aid scope ts)")
    case (Inl m)
    then have "\<not> consistent_result sha (draft_result sha cat fresh n c aid scope ts)"
      using mk_triage_result_Inl by blast
    with Inl show ?thesis by (simp add: draft Let_def)
  next
    case (Inr r)
    then have "r = draft_result sha cat fresh n c aid scope ts"
      "consistent_result sha (draft_result sha cat fresh n c aid scope ts)"
      by (simp_all add: mk_triage_result_Inr)
    with Inr inv show ?thesis by (simp add: draft Let_def assess_actions_simps)
  qed
qed

lemma safe_review_consistent: "consistent_result sha (pd_result (safe_review aid ts))"
  by (simp add: safe_review_def consistent_result_def)


lemma evaluate_result_cases:
  obtains (kept) "pd_result (fst (evaluate sha cat fresh n c aid scope ts)) = draft_result sha cat fresh n c aid scope ts"
      "consistent_result sha (draft_result sha cat fresh n c aid scope ts)"
    | (safe) "fst (evaluate sha cat fresh n c aid scope ts) = safe_review aid ts"
  using evaluate_cases [of sha cat fresh n c aid scope ts] by blast

lemma draft_sels:
  "recommended_actions (draft_result sha cat fresh n c aid scope ts) = admitted cat scope fresh n (cand_recommended_actions c)"
  "disposition (draft_result sha cat fresh n c aid scope ts) = (if must_review cat scope c then NEEDS_REVIEW else cand_disposition c)"
  "evidence (draft_result sha cat fresh n c aid scope ts) = cand_evidence c"
  "tool_calls (draft_result sha cat fresh n c aid scope ts) = cand_tool_calls c"
  "actions_requiring_approval (draft_result sha cat fresh n c aid scope ts) = ps_approvals (assess_actions sha cat scope fresh n c)"
  by (simp_all add: draft_result_def)

lemma safe_review_sels [simp]:
  "recommended_actions (pd_result (safe_review aid ts)) = []" "disposition (pd_result (safe_review aid ts)) = NEEDS_REVIEW"
  "actions_requiring_approval (pd_result (safe_review aid ts)) = []" "evidence (pd_result (safe_review aid ts)) = []"
  "pd_reason_codes (safe_review aid ts) = [CANDIDATE_INVALID]" "tool_calls (pd_result (safe_review aid ts)) = []"
  "res_alert_id (pd_result (safe_review aid ts)) = aid" "pd_policy_version (safe_review aid ts) = POLICY_VERSION"
  by (simp_all add: safe_review_def)

lemma draft_consistent:
  assumes gated: "approval_gated cat"
    and ids: "inj_on fresh {n..<n + length (cand_recommended_actions c)}"
    and ev: "distinct (map evidence_id (cand_evidence c))"
    and calls: "distinct (map invocation_id (cand_tool_calls c))"
    and closed: "\<forall>e \<in> set (cand_evidence c). \<forall>t. tool_invocation_id e = Some t
        \<longrightarrow> t \<in> invocation_id ` set (cand_tool_calls c)"
  shows "consistent_result sha (draft_result sha cat fresh n c aid scope ts)"
proof -
  let ?as = "admitted cat scope fresh n (cand_recommended_actions c)"
  have le: "length ?as \<le> length (cand_recommended_actions c)"
    using admitted_refusals_length [of cat scope fresh n "cand_recommended_actions c"] by simp
  have "distinct (map fresh [n..<n + length ?as])"
    using inj_on_subset [OF ids, of "{n..<n + length ?as}"] le by (simp add: distinct_map ivl_subset)
  then have d: "distinct (map action_id ?as)" by (simp add: admitted_ids)
  moreover have "ref_action_id \<circ> reference_from_proposal sha = action_id"
    by (auto simp: reference_from_proposal_def)
  ultimately show ?thesis
    using ev calls closed assess_actions_approvals [OF gated, of sha scope fresh n c]
    by (auto simp: consistent_result_def draft_result_def split: option.splits)
qed

subsection \<open>Properties of the policy\<close>

text \<open>C13: whatever the candidate (or an object that fails validation), the policy returns a
  result that satisfies every cross-reference rule of the triage result.\<close>

theorem policy_result_consistent:
  "consistent_result sha (pd_result (fst (evaluate_untrusted sha cat fresh n payload aid scope ts)))"
proof (cases payload)
  case None
  then show ?thesis by (simp add: evaluate_untrusted_def safe_review_consistent)
next
  case (Some c)
  show ?thesis
    by (cases rule: evaluate_result_cases [of sha cat fresh n c aid scope ts])
      (simp_all add: Some evaluate_untrusted_def safe_review_consistent)
qed

lemma evaluate_admissible:
  assumes "p \<in> set (recommended_actions (pd_result (fst (evaluate_untrusted sha cat fresh n payload aid scope ts))))"
  shows "\<exists>c a d. payload = Some c \<and> a \<in> set (cand_recommended_actions c)
    \<and> catalog_action_id p = catalog_action_id a \<and> target p = target a \<and> rationale p = rationale a
    \<and> parameters p = freeze_mapping (thaw_mapping (parameters a))
    \<and> catalog_lookup cat (catalog_action_id p) = Some d \<and> entity_type (target p) \<in> target_types d
    \<and> scope_key (target p) \<in> scope \<and> parameters_model d (parameters a)"
proof (cases payload)
  case None
  then show ?thesis using assms by (simp add: evaluate_untrusted_def)
next
  case (Some c)
  have mem: "p \<in> set (recommended_actions (pd_result (fst (evaluate sha cat fresh n c aid scope ts))))"
    using assms by (simp add: Some evaluate_untrusted_def)
  show ?thesis
  proof (cases rule: evaluate_result_cases [of sha cat fresh n c aid scope ts])
    case kept
    then have "p \<in> set (admitted cat scope fresh n (cand_recommended_actions c))"
      using mem by (simp add: draft_sels)
    from admitted_SomeD [OF this] show ?thesis
      by (fastforce simp: Some action_reason_None)
  next
    case safe
    then show ?thesis using mem by simp
  qed
qed

text \<open>C11: every action the policy lets through comes from the candidate, is catalogued, has a
  target type its definition supports, targets an authorized entity and has parameters its
  schema accepts.\<close>

theorem policy_accepts_only_admissible:
  assumes "p \<in> set (recommended_actions (pd_result (fst (evaluate_untrusted sha cat fresh n payload aid scope ts))))"
  shows "\<exists>c a d. payload = Some c \<and> a \<in> set (cand_recommended_actions c)
    \<and> catalog_action_id p = catalog_action_id a \<and> target p = target a \<and> rationale p = rationale a
    \<and> parameters p = freeze_mapping (thaw_mapping (parameters a))
    \<and> catalog_lookup cat (catalog_action_id p) = Some d \<and> entity_type (target p) \<in> target_types d
    \<and> scope_key (target p) \<in> scope \<and> parameters_model d (parameters a)"
  using assms by (rule evaluate_admissible)

lemma evaluate_gated:
  assumes "action_catalog definitions = Inr cat"
  shows "actions_requiring_approval (pd_result (fst (evaluate_untrusted sha cat fresh n payload aid scope ts)))
    = map (reference_from_proposal sha)
        (recommended_actions (pd_result (fst (evaluate_untrusted sha cat fresh n payload aid scope ts))))"
proof (cases payload)
  case None
  then show ?thesis by (simp add: evaluate_untrusted_def)
next
  case (Some c)
  show ?thesis
    by (cases rule: evaluate_result_cases [of sha cat fresh n c aid scope ts])
      (simp_all add: Some evaluate_untrusted_def draft_sels
         assess_actions_approvals [OF approval_gated_catalog [OF assms]])
qed

text \<open>C10: with a catalog that registration accepted, no action is let through without a human
  approval requirement, and the requirement is bound to the digest of that very action.\<close>

theorem policy_approval_gates_every_action:
  assumes "action_catalog definitions = Inr cat"
  shows "actions_requiring_approval (pd_result (fst (evaluate_untrusted sha cat fresh n payload aid scope ts)))
    = map (reference_from_proposal sha)
        (recommended_actions (pd_result (fst (evaluate_untrusted sha cat fresh n payload aid scope ts))))"
  using assms by (rule evaluate_gated)

lemma evaluate_closed:
  assumes "disposition (pd_result (fst (evaluate_untrusted sha cat fresh n payload aid scope ts))) \<noteq> NEEDS_REVIEW"
  shows "\<exists>c. payload = Some c
    \<and> disposition (pd_result (fst (evaluate_untrusted sha cat fresh n payload aid scope ts))) = cand_disposition c
    \<and> cand_evidence c \<noteq> []
    \<and> evidence (pd_result (fst (evaluate_untrusted sha cat fresh n payload aid scope ts))) = cand_evidence c
    \<and> (\<forall>a \<in> set (cand_recommended_actions c). action_reason cat scope a = None)
    \<and> length (recommended_actions (pd_result (fst (evaluate_untrusted sha cat fresh n payload aid scope ts))))
        = length (cand_recommended_actions c)"
proof (cases payload)
  case None
  then show ?thesis using assms by (simp add: evaluate_untrusted_def)
next
  case (Some c)
  show ?thesis
  proof (cases rule: evaluate_result_cases [of sha cat fresh n c aid scope ts])
    case kept
    have ok: "\<not> must_review cat scope c" "cand_disposition c \<noteq> NEEDS_REVIEW"
      using assms kept by (auto simp: Some evaluate_untrusted_def draft_sels split: if_splits)
    then have "cand_evidence c \<noteq> []" "refusals cat scope (cand_recommended_actions c) = []"
      by (auto simp: must_review_def initial_reasons_def split: if_splits)
    then show ?thesis
      using ok kept admitted_refusals_length [of cat scope fresh n "cand_recommended_actions c"]
      by (simp add: Some evaluate_untrusted_def draft_sels refusals_Nil [symmetric])
  next
    case safe
    then show ?thesis using assms by (simp add: Some evaluate_untrusted_def)
  qed
qed

text \<open>C12: the policy fails closed: a result other than human review needs a valid candidate of
  that disposition with evidence, all of whose actions were accepted.\<close>

theorem policy_fails_closed:
  assumes "disposition (pd_result (fst (evaluate_untrusted sha cat fresh n payload aid scope ts))) \<noteq> NEEDS_REVIEW"
  shows "\<exists>c. payload = Some c
    \<and> disposition (pd_result (fst (evaluate_untrusted sha cat fresh n payload aid scope ts))) = cand_disposition c
    \<and> cand_evidence c \<noteq> []
    \<and> evidence (pd_result (fst (evaluate_untrusted sha cat fresh n payload aid scope ts))) = cand_evidence c
    \<and> (\<forall>a \<in> set (cand_recommended_actions c). action_reason cat scope a = None)
    \<and> length (recommended_actions (pd_result (fst (evaluate_untrusted sha cat fresh n payload aid scope ts))))
        = length (cand_recommended_actions c)"
  using assms by (rule evaluate_closed)

text \<open>C14: with fresh identifiers and a candidate whose references resolve, the decision is the
  specified one: the admissible actions in order under the next identifiers, one rejection per
  refused action with its first failing rule, and review exactly when the candidate asks for
  it, lacks evidence or had an action refused.\<close>

theorem policy_decision_exact:
  assumes "action_catalog definitions = Inr cat"
    and "inj_on fresh {n..<n + length (cand_recommended_actions c)}"
    and "distinct (map evidence_id (cand_evidence c))" and "distinct (map invocation_id (cand_tool_calls c))"
    and "\<forall>e \<in> set (cand_evidence c). \<forall>t. tool_invocation_id e = Some t
        \<longrightarrow> t \<in> invocation_id ` set (cand_tool_calls c)"
  shows "recommended_actions (pd_result (fst (evaluate sha cat fresh n c aid scope ts)))
      = admitted cat scope fresh n (cand_recommended_actions c)
    \<and> map rej_reason_code (pd_rejected_actions (fst (evaluate sha cat fresh n c aid scope ts)))
      = List.map_filter (action_reason cat scope) (cand_recommended_actions c)
    \<and> (disposition (pd_result (fst (evaluate sha cat fresh n c aid scope ts))) = NEEDS_REVIEW
        \<longleftrightarrow> cand_disposition c = NEEDS_REVIEW \<or> cand_evidence c = []
            \<or> (\<exists>a \<in> set (cand_recommended_actions c). action_reason cat scope a \<noteq> None))"
proof -
  have con: "consistent_result sha (draft_result sha cat fresh n c aid scope ts)"
    by (rule draft_consistent [OF approval_gated_catalog [OF assms(1)] assms(2-5)])
  have review: "must_review cat scope c \<longleftrightarrow> (cand_disposition c \<noteq> NEEDS_REVIEW \<and> cand_evidence c = [])
      \<or> (\<exists>a \<in> set (cand_recommended_actions c). action_reason cat scope a \<noteq> None)"
    unfolding must_review_def refusals_Nil by (auto simp: initial_reasons_def)
  show ?thesis
    using con evaluate_cases [of sha cat fresh n c aid scope ts] review
    by (auto simp: draft_sels refusals_def)
qed

subsection \<open>The policy at work\<close>

definition sample_candidate :: CandidateAssessment where
  "sample_candidate =
     \<lparr>cand_disposition = MALICIOUS, cand_severity = HIGH, cand_confidence = 9/10,
      cand_evidence = [\<lparr>evidence_id = ''ev-1'', source_type = ''identity'', source_reference = ''ref-1'',
         collected_at = 10, source_version = ''1'', ev_summary = ''risky login'', tool_invocation_id = Some ''call-1''\<rparr>],
      cand_reasoning_summary = ''credential theft'',
      cand_recommended_actions =
        [\<lparr>catalog_action_id = ''revoke_sessions'', target = UserEntityReference ''alice'', parameters = [],
          rationale = ''stop access''\<rparr>],
      cand_escalation_required = False, cand_escalation_reason = None,
      cand_tool_calls = [\<lparr>invocation_id = ''call-1'', tc_tool_name = ''get_user_context'', tc_tool_version = ''1.0.0'',
         called_at = 9, tc_summary = ''context''\<rparr>]\<rparr>"

definition sample_fresh :: "nat \<Rightarrow> string" where
  "sample_fresh n = ''action-'' @ replicate n (CHR ''i'')"

abbreviation sample_scope :: "string set" where
  "sample_scope \<equiv> {''USER:alice''}"

lemma sample_admitted:
  "action_reason the_catalog sample_scope (hd (cand_recommended_actions sample_candidate)) = None"
  by (simp add: action_reason_def sample_candidate_def catalog_lookup_def the_catalog_def initial_definitions_def
      scope_key_def NoParameters_def)

lemma sample_hyps:
  "inj_on sample_fresh {n..<n + length (cand_recommended_actions sample_candidate)}"
  "distinct (map evidence_id (cand_evidence sample_candidate))"
  "distinct (map invocation_id (cand_tool_calls sample_candidate))"
  "\<forall>e \<in> set (cand_evidence sample_candidate). \<forall>t. tool_invocation_id e = Some t
        \<longrightarrow> t \<in> invocation_id ` set (cand_tool_calls sample_candidate)"
  by (simp_all add: sample_candidate_def inj_on_def)

lemma sample_decision:
  "pd_result (fst (evaluate_untrusted sha the_catalog sample_fresh 0 (Some sample_candidate) ''alert-1'' sample_scope 20))
     = draft_result sha the_catalog sample_fresh 0 sample_candidate ''alert-1'' sample_scope 20"
  using evaluate_cases [of sha the_catalog sample_fresh 0 sample_candidate "''alert-1''" sample_scope 20]
    draft_consistent [OF approval_gated_catalog [OF initial_catalog_registers] sample_hyps,
      where sha = sha and aid = "''alert-1''" and scope = sample_scope and ts = 20]
  by (simp add: evaluate_untrusted_def)

lemma sample_draft:
  "recommended_actions (draft_result sha the_catalog sample_fresh 0 sample_candidate ''alert-1'' sample_scope 20)
     = [canonicalize (hd (cand_recommended_actions sample_candidate)) ''action-'']"
  "disposition (draft_result sha the_catalog sample_fresh 0 sample_candidate ''alert-1'' sample_scope 20) = MALICIOUS"
proof -
  have acts: "cand_recommended_actions sample_candidate = [hd (cand_recommended_actions sample_candidate)]"
    by (simp add: sample_candidate_def)
  show "recommended_actions (draft_result sha the_catalog sample_fresh 0 sample_candidate ''alert-1'' sample_scope 20)
     = [canonicalize (hd (cand_recommended_actions sample_candidate)) ''action-'']"
    by (subst draft_sels, subst acts) (simp add: sample_admitted sample_fresh_def)
  have "refusals the_catalog sample_scope (cand_recommended_actions sample_candidate) = []"
    unfolding refusals_Nil by (subst acts) (simp add: sample_admitted)
  then show "disposition (draft_result sha the_catalog sample_fresh 0 sample_candidate ''alert-1'' sample_scope 20) = MALICIOUS"
    by (simp add: draft_sels must_review_def initial_reasons_def) (simp add: sample_candidate_def)
qed

theorem policy_accepts_only_admissible_witness:
  "\<exists>c a d. Some sample_candidate = Some c \<and> a \<in> set (cand_recommended_actions c)
    \<and> ''revoke_sessions'' = catalog_action_id a \<and> catalog_lookup the_catalog ''revoke_sessions'' = Some d
    \<and> entity_type (target a) \<in> target_types d \<and> scope_key (target a) \<in> sample_scope \<and> parameters_model d (parameters a)"
  using policy_accepts_only_admissible
    [of "canonicalize (hd (cand_recommended_actions sample_candidate)) ''action-''" "\<lambda>_. []" the_catalog sample_fresh 0
      "Some sample_candidate" "''alert-1''" sample_scope 20]
  unfolding sample_decision sample_draft
  by (auto simp: sample_candidate_def)

theorem policy_approval_gates_every_action_witness:
  "actions_requiring_approval (pd_result (fst (evaluate_untrusted (\<lambda>_. []) the_catalog sample_fresh 0
      (Some sample_candidate) ''alert-1'' sample_scope 20)))
    = map (reference_from_proposal (\<lambda>_. [])) [canonicalize (hd (cand_recommended_actions sample_candidate)) ''action-'']"
  using policy_approval_gates_every_action [OF initial_catalog_registers, of "\<lambda>_. []" sample_fresh 0
      "Some sample_candidate" "''alert-1''" sample_scope 20]
  unfolding sample_decision sample_draft .

theorem policy_fails_closed_witness:
  "cand_evidence sample_candidate \<noteq> []
    \<and> list_all (\<lambda>a. action_reason the_catalog sample_scope a = None) (cand_recommended_actions sample_candidate)"
proof -
  have "disposition (pd_result (fst (evaluate_untrusted (\<lambda>_. []) the_catalog sample_fresh 0
      (Some sample_candidate) ''alert-1'' sample_scope 20))) \<noteq> NEEDS_REVIEW"
    unfolding sample_decision sample_draft by simp
  from policy_fails_closed [OF this] show ?thesis by (auto simp: list_all_iff)
qed

theorem policy_decision_exact_witness:
  "recommended_actions (pd_result (fst (evaluate (\<lambda>_. []) the_catalog sample_fresh 0 sample_candidate
      ''alert-1'' sample_scope 20)))
    = admitted the_catalog sample_scope sample_fresh 0 (cand_recommended_actions sample_candidate)"
  using policy_decision_exact [OF initial_catalog_registers sample_hyps] by blast

end
