(* ===== verification/Lifecycles.thy ===== *)
theory Lifecycles
  imports Base
begin

text \<open>
  The three state machines of the domain: triage executions (\<open>domain/states.py\<close>),
  actions (\<open>domain/actions.py\<close>) and approvals (\<open>domain/approvals.py\<close>). Each has a
  transition table and an immutable value whose \<open>transition_to\<close> checks the table.
\<close>

datatype transition_error = InvalidStateTransition string string string

subsection \<open>The contract of a lifecycle\<close>

fun legal_path :: "('s \<Rightarrow> 's list) \<Rightarrow> 's \<Rightarrow> 's list \<Rightarrow> bool" where
  "legal_path table s [] = True"
| "legal_path table s (t # ts) = (t \<in> set (table s) \<and> legal_path table t ts)"

text \<open>Every legal transition climbs a rank bounded by \<open>top\<close>.\<close>

locale lifecycle =
  fixes table :: "'s \<Rightarrow> 's list" and rank :: "'s \<Rightarrow> nat" and top :: nat
  assumes rank_step: "t \<in> set (table s) \<Longrightarrow> rank s < rank t"
    and rank_top: "rank s \<le> top"
begin

lemma path_rank: "legal_path table s ts \<Longrightarrow> t \<in> set ts \<Longrightarrow> rank s < rank t"
proof (induction ts arbitrary: s)
  case Nil
  then show ?case by simp
next
  case (Cons u ts)
  then show ?case using rank_step [of u s] by (force intro: less_trans)
qed

lemma path_distinct: "legal_path table s ts \<Longrightarrow> distinct (s # ts)"
proof (induction ts arbitrary: s)
  case Nil
  then show ?case by simp
next
  case (Cons u ts)
  then show ?case using path_rank [of s "u # ts" s] by auto
qed

lemma path_length: "legal_path table s ts \<Longrightarrow> length ts \<le> top - rank s"
proof (induction ts arbitrary: s)
  case Nil
  then show ?case by simp
next
  case (Cons u ts)
  then have "rank s < rank u" "length ts \<le> top - rank u" using rank_step by auto
  then show ?case using rank_top [of u] by simp
qed

lemma terminal_path: "table s = [] \<Longrightarrow> legal_path table s ts \<longleftrightarrow> ts = []"
  by (cases ts) auto

lemma no_self_transition: "s \<notin> set (table s)"
  using rank_step by blast

end

subsection \<open>Triage executions\<close>

datatype TriageExecutionState = TPending | TRunning | TCompleted | TFailed | TNeedsReview

fun triage_state_value :: "TriageExecutionState \<Rightarrow> string" where
  "triage_state_value TPending = ''PENDING''"
| "triage_state_value TRunning = ''RUNNING''"
| "triage_state_value TCompleted = ''COMPLETED''"
| "triage_state_value TFailed = ''FAILED''"
| "triage_state_value TNeedsReview = ''NEEDS_REVIEW''"

fun triage_transitions :: "TriageExecutionState \<Rightarrow> TriageExecutionState list" where
  "triage_transitions TPending = [TRunning]"
| "triage_transitions TRunning = [TCompleted, TFailed, TNeedsReview]"
| "triage_transitions _ = []"

record TriageExecution =
  te_execution_id :: string
  te_alert_id :: string
  te_state :: TriageExecutionState

definition triage_transition_to ::
  "TriageExecution \<Rightarrow> TriageExecutionState \<Rightarrow> transition_error + TriageExecution" where
  "triage_transition_to x t =
     (if t \<notin> set (triage_transitions (te_state x))
      then Inl (InvalidStateTransition ''triage execution'' (triage_state_value (te_state x)) (triage_state_value t))
      else Inr (x\<lparr>te_state := t\<rparr>))"

subsection \<open>Actions\<close>

datatype ActionState =
  AProposed | APendingApproval | AApproved | ARejected | AExpired | AExecuting | ASucceeded | AFailed

fun action_state_value :: "ActionState \<Rightarrow> string" where
  "action_state_value AProposed = ''PROPOSED''"
| "action_state_value APendingApproval = ''PENDING_APPROVAL''"
| "action_state_value AApproved = ''APPROVED''"
| "action_state_value ARejected = ''REJECTED''"
| "action_state_value AExpired = ''EXPIRED''"
| "action_state_value AExecuting = ''EXECUTING''"
| "action_state_value ASucceeded = ''SUCCEEDED''"
| "action_state_value AFailed = ''FAILED''"

fun action_transitions :: "ActionState \<Rightarrow> ActionState list" where
  "action_transitions AProposed = [APendingApproval]"
| "action_transitions APendingApproval = [AApproved, ARejected, AExpired]"
| "action_transitions AApproved = [AExecuting, AExpired]"
| "action_transitions AExecuting = [ASucceeded, AFailed]"
| "action_transitions _ = []"

record ActionLifecycle =
  al_action_id :: string
  al_state :: ActionState

definition action_transition_to ::
  "ActionLifecycle \<Rightarrow> ActionState \<Rightarrow> transition_error + ActionLifecycle" where
  "action_transition_to x t =
     (if t \<notin> set (action_transitions (al_state x))
      then Inl (InvalidStateTransition ''action'' (action_state_value (al_state x)) (action_state_value t))
      else Inr (x\<lparr>al_state := t\<rparr>))"

subsection \<open>Approvals\<close>

datatype ApprovalState = PPending | PApproved | PRejected | PExpired

fun approval_state_value :: "ApprovalState \<Rightarrow> string" where
  "approval_state_value PPending = ''PENDING''"
| "approval_state_value PApproved = ''APPROVED''"
| "approval_state_value PRejected = ''REJECTED''"
| "approval_state_value PExpired = ''EXPIRED''"

fun approval_transitions :: "ApprovalState \<Rightarrow> ApprovalState list" where
  "approval_transitions PPending = [PApproved, PRejected, PExpired]"
| "approval_transitions PApproved = [PExpired]"
| "approval_transitions _ = []"

record ApprovalLifecycle =
  pl_approval_id :: string
  pl_action_id :: string
  pl_action_digest :: string
  pl_state :: ApprovalState

definition approval_transition_to ::
  "ApprovalLifecycle \<Rightarrow> ApprovalState \<Rightarrow> transition_error + ApprovalLifecycle" where
  "approval_transition_to x t =
     (if t \<notin> set (approval_transitions (pl_state x))
      then Inl (InvalidStateTransition ''approval'' (approval_state_value (pl_state x)) (approval_state_value t))
      else Inr (x\<lparr>pl_state := t\<rparr>))"

subsection \<open>Ranks and interpretations\<close>

fun triage_rank :: "TriageExecutionState \<Rightarrow> nat" where
  "triage_rank TPending = 0" | "triage_rank TRunning = 1" | "triage_rank _ = 2"

fun action_rank :: "ActionState \<Rightarrow> nat" where
  "action_rank AProposed = 0" | "action_rank APendingApproval = 1" | "action_rank AApproved = 2"
| "action_rank AExecuting = 3" | "action_rank _ = 4"

fun approval_rank :: "ApprovalState \<Rightarrow> nat" where
  "approval_rank PPending = 0" | "approval_rank PApproved = 1" | "approval_rank _ = 2"

interpretation triage_lc: lifecycle triage_transitions triage_rank 2
proof unfold_locales
  fix s t
  show "t \<in> set (triage_transitions s) \<Longrightarrow> triage_rank s < triage_rank t" by (cases s) auto
  show "triage_rank s \<le> 2" by (cases s) auto
qed

interpretation action_lc: lifecycle action_transitions action_rank 4
proof unfold_locales
  fix s t
  show "t \<in> set (action_transitions s) \<Longrightarrow> action_rank s < action_rank t" by (cases s) auto
  show "action_rank s \<le> 4" by (cases s) auto
qed

interpretation approval_lc: lifecycle approval_transitions approval_rank 2
proof unfold_locales
  fix s t
  show "t \<in> set (approval_transitions s) \<Longrightarrow> approval_rank s < approval_rank t" by (cases s) auto
  show "approval_rank s \<le> 2" by (cases s) auto
qed

text \<open>Applying \<open>transition_to\<close> along a sequence of targets, stopping at the first error.\<close>

fun action_walk :: "ActionLifecycle \<Rightarrow> ActionState list \<Rightarrow> transition_error + ActionLifecycle" where
  "action_walk x [] = Inr x"
| "action_walk x (t # ts) =
     (case action_transition_to x t of Inl e \<Rightarrow> Inl e | Inr y \<Rightarrow> action_walk y ts)"

lemma action_walk_path:
  "action_walk x ts = Inr y \<Longrightarrow> legal_path action_transitions (al_state x) ts
     \<and> al_state y = last (al_state x # ts) \<and> al_action_id y = al_action_id x"
proof (induction ts arbitrary: x)
  case Nil
  then show ?case by simp
next
  case (Cons t ts)
  then have t: "t \<in> set (action_transitions (al_state x))"
    by (auto simp: action_transition_to_def split: if_splits)
  then have "action_walk (x\<lparr>al_state := t\<rparr>) ts = Inr y"
    using Cons.prems by (simp add: action_transition_to_def)
  from Cons.IH [OF this] t show ?case by simp
qed

end
