(* ===== verification/Tool_Registry.thy ===== *)
theory Tool_Registry
  imports Json Entities
begin

text \<open>
  The evidence-tool port (\<open>application/ports/tools.py\<close>), the three request models
  (\<open>application/evidence_tools.py\<close>) and the closed registry
  (\<open>application/tool_registry.py\<close>). The implementation behind a tool is not part of its
  metadata: what a call of it produces is supplied where the gateway waits for it. Parsing of
  an \<open>IPvAnyAddress\<close> belongs to the schema library and is the parameter \<open>parse_ip\<close>; the
  response model of a tool is the predicate that accepts the dumped payload.
\<close>

datatype ToolAccess = READ_ONLY | READ_WRITE

datatype DataClassification = SYNTHETIC_DEMO

subsection \<open>Requests\<close>

datatype RequestModel = UserRequest | DeviceRequest | IpAddressRequest

text \<open>
  \<open>request_model.model_validate(arguments, strict=True)\<close> followed by
  \<open>model_dump(mode="json")\<close>: the one declared key with a value of the right kind and no other
  key, or \<open>None\<close> where validation raises.
\<close>

fun request_field :: "RequestModel \<Rightarrow> string" where
  "request_field UserRequest = ''user_id''"
| "request_field DeviceRequest = ''device_id''"
| "request_field IpAddressRequest = ''ip_address''"

fun request_value :: "(pyval \<Rightarrow> string option) \<Rightarrow> RequestModel \<Rightarrow> pyval \<Rightarrow> string option" where
  "request_value parse_ip IpAddressRequest v = parse_ip v"
| "request_value parse_ip _ (PStr s) = Identifier s"
| "request_value parse_ip _ _ = None"

definition validate_request :: "(pyval \<Rightarrow> string option) \<Rightarrow> RequestModel \<Rightarrow> pydict \<Rightarrow> pydict option" where
  "validate_request parse_ip m arguments =
     (case arguments of
        [(k, v)] \<Rightarrow>
          if k = request_field m
          then map_option (\<lambda>s. [(request_field m, PStr s)]) (request_value parse_ip m v)
          else None
      | _ \<Rightarrow> None)"

text \<open>The entity a validated request addresses.\<close>

fun request_entity :: "RequestModel \<Rightarrow> string \<Rightarrow> EntityReference" where
  "request_entity UserRequest s = UserEntityReference s"
| "request_entity DeviceRequest s = DeviceEntityReference s"
| "request_entity IpAddressRequest s = IpAddressEntityReference s"

lemma validate_request_SomeD:
  "validate_request parse_ip m arguments = Some out \<Longrightarrow> \<exists>s. out = [(request_field m, PStr s)]"
  by (auto simp: validate_request_def split: list.splits if_splits)

subsection \<open>Outcomes\<close>

record ToolProvenance =
  prov_tool_name :: string
  prov_tool_version :: string
  fixture_version :: string

datatype ToolOutcome =
    Found ToolProvenance pyval
  | NotFound ToolProvenance string string string
  | UnknownOutcome

definition provenance_dump :: "ToolProvenance \<Rightarrow> pyval" where
  "provenance_dump p =
     PDict [(''tool_name'', PStr (prov_tool_name p)), (''tool_version'', PStr (prov_tool_version p)),
            (''fixture_version'', PStr (fixture_version p))]"

fun outcome_dump :: "ToolOutcome \<Rightarrow> pydict" where
  "outcome_dump (Found p payload) =
     [(''status'', PStr ''FOUND''), (''provenance'', provenance_dump p), (''data'', payload)]"
| "outcome_dump (NotFound p rt i msg) =
     [(''status'', PStr ''NOT_FOUND''), (''provenance'', provenance_dump p), (''resource_type'', PStr rt),
      (''identifier'', PStr i), (''message'', PStr msg)]"
| "outcome_dump UnknownOutcome = []"

subsection \<open>Metadata and registry\<close>

record EvidenceTool =
  tool_name :: string
  tool_version :: string
  access :: ToolAccess
  data_classification :: DataClassification
  timeout_ms :: int
  request_model :: RequestModel
  response_model :: "pyval \<Rightarrow> bool"

definition APPROVED_EVIDENCE_TOOLS :: "string list" where
  "APPROVED_EVIDENCE_TOOLS =
     [''get_recent_signins'', ''get_user_risk'', ''get_device_context'', ''get_ip_reputation'',
      ''get_mfa_events'', ''find_related_alerts'', ''get_identity_context'']"

datatype tool_registration_error =
  NotApproved string | NotReadOnly string | DuplicateTool string | InvalidTimeout string

type_synonym ToolRegistry = "(string \<times> EvidenceTool) list"

definition registry_admit :: "ToolRegistry \<Rightarrow> EvidenceTool \<Rightarrow> tool_registration_error option" where
  "registry_admit registered t =
     (if tool_name t \<notin> set APPROVED_EVIDENCE_TOOLS then Some (NotApproved (tool_name t))
      else if access t \<noteq> READ_ONLY then Some (NotReadOnly (tool_name t))
      else if tool_name t \<in> fst ` set registered then Some (DuplicateTool (tool_name t))
      else if timeout_ms t \<le> 0 then Some (InvalidTimeout (tool_name t))
      else None)"

definition tool_registry :: "EvidenceTool list \<Rightarrow> tool_registration_error + ToolRegistry" where
  "tool_registry tools = register_all registry_admit tool_name [] tools"

definition registry_lookup :: "ToolRegistry \<Rightarrow> string \<Rightarrow> EvidenceTool option" where
  "registry_lookup reg name = map_of reg name"

definition registry_iter :: "ToolRegistry \<Rightarrow> string list" where
  "registry_iter reg = sort (map fst reg)"

definition registry_metadata :: "ToolRegistry \<Rightarrow> EvidenceTool list" where
  "registry_metadata reg = map (\<lambda>name. the (registry_lookup reg name)) (registry_iter reg)"

definition sound_tool :: "EvidenceTool \<Rightarrow> bool" where
  "sound_tool t \<longleftrightarrow> tool_name t \<in> set APPROVED_EVIDENCE_TOOLS \<and> access t = READ_ONLY \<and> 0 < timeout_ms t"

interpretation tool_reg: closed_registry registry_admit tool_name sound_tool
  by unfold_locales (auto simp: registry_admit_def sound_tool_def split: if_splits)

lemma registry_sound:
  assumes "tool_registry tools = Inr reg" and "registry_lookup reg name = Some t"
  shows "sound_tool t \<and> tool_name t = name \<and> t \<in> set tools"
proof -
  have reg: "register_all registry_admit tool_name [] tools = Inr reg"
    using assms(1) by (simp add: tool_registry_def)
  have "t \<in> set tools \<and> tool_name t = name"
    using assms(2) tool_reg.lookup_registered [OF reg] by (simp add: registry_lookup_def)
  then show ?thesis using tool_reg.registered(4) [OF reg] by blast
qed

text \<open>A registry that was built offers at most the seven approved tools, each under its own
  name, read-only and with a positive timeout, and its metadata lists all of them in name order.\<close>

theorem registry_is_closed:
  assumes "tool_registry tools = Inr reg"
  shows "length reg \<le> 7 \<and> distinct (map fst reg) \<and> map snd reg = tools
    \<and> list_all (\<lambda>(name, t). name = tool_name t \<and> sound_tool t) reg
    \<and> set (registry_metadata reg) = set tools \<and> sorted (map tool_name (registry_metadata reg))"
proof -
  have reg: "register_all registry_admit tool_name [] tools = Inr reg"
    using assms by (simp add: tool_registry_def)
  note r = tool_reg.registered [OF reg]
  have mem: "registry_lookup reg name = Some t \<longleftrightarrow> t \<in> set tools \<and> tool_name t = name" for name t
    using tool_reg.lookup_registered [OF reg] by (simp add: registry_lookup_def)
  have names: "set (map fst reg) \<subseteq> set APPROVED_EVIDENCE_TOOLS"
    using r(3,4) by (auto simp: sound_tool_def)
  have "length reg = card (set (map fst reg))" using r(1) distinct_card by fastforce
  also have "\<dots> \<le> card (set APPROVED_EVIDENCE_TOOLS)" by (rule card_mono [OF _ names]) simp
  also have "\<dots> \<le> 7"
    using card_length [of APPROVED_EVIDENCE_TOOLS] by (simp add: APPROVED_EVIDENCE_TOOLS_def)
  finally have len: "length reg \<le> 7" .
  have all: "list_all (\<lambda>(name, t). name = tool_name t \<and> sound_tool t) reg"
    using tool_reg.register_all_inv [OF reg] by (simp add: list_all_iff)
  have look: "the (registry_lookup reg (tool_name t)) = t" if "t \<in> set tools" for t
    using mem [of "tool_name t" t] that by simp
  have iter: "set (registry_iter reg) = tool_name ` set tools" by (simp add: registry_iter_def r(3))
  have meta: "map tool_name (registry_metadata reg) = registry_iter reg"
    unfolding registry_metadata_def map_map comp_def by (rule map_idI) (use iter look in auto)
  have "set (registry_metadata reg) = set tools"
    unfolding registry_metadata_def set_map iter using look by (auto simp: image_image)
  then show ?thesis using len all r(1,2) meta by (simp add: registry_iter_def)
qed

definition sample_tool :: EvidenceTool where
  "sample_tool = \<lparr>tool_name = ''get_user_risk'', tool_version = ''1.0.0'', access = READ_ONLY,
     data_classification = SYNTHETIC_DEMO, timeout_ms = 1000, request_model = UserRequest,
     response_model = (\<lambda>_. True)\<rparr>"

lemma sample_tool_sels [simp]:
  "tool_name sample_tool = ''get_user_risk''" "tool_version sample_tool = ''1.0.0''" "access sample_tool = READ_ONLY"
  "timeout_ms sample_tool = 1000" "request_model sample_tool = UserRequest" "response_model sample_tool = (\<lambda>_. True)"
  by (simp_all add: sample_tool_def)

definition sample_registry :: ToolRegistry where
  "sample_registry = [(''get_user_risk'', sample_tool)]"

lemma sample_registers: "tool_registry [sample_tool] = Inr sample_registry"
  by (simp add: tool_registry_def registry_admit_def APPROVED_EVIDENCE_TOOLS_def sample_registry_def)

theorem registry_is_closed_witness: "length sample_registry \<le> 7 \<and> map snd sample_registry = [sample_tool]"
  using registry_is_closed [OF sample_registers] by blast

end
