(* ===== verification/Tool_Gateway.thy ===== *)
theory Tool_Gateway
  imports Tool_Registry
begin

text \<open>
  The evidence-tool gateway (\<open>application/tool_gateway.py\<close>): the call-by-call check of a
  proposed invocation, the accounting of one execution, the invocation record and the result.
  The clock readings of a call are passed in; \<open>reply tool request timeout\<close> is what the worker
  thread that runs the tool delivers: nothing within the timeout, an exception, or an outcome.
\<close>

datatype GatewayStatus =
    SUCCESS | TOOL_NOT_FOUND | INVALID_REQUEST | OUT_OF_SCOPE | READ_ONLY_REQUIRED
  | BUDGET_EXCEEDED | DUPLICATE_REQUEST | TIMEOUT | INVALID_ADAPTER_RESULT | ADAPTER_FAILURE

fun gateway_status_value :: "GatewayStatus \<Rightarrow> string" where
  "gateway_status_value SUCCESS = ''SUCCESS''"
| "gateway_status_value TOOL_NOT_FOUND = ''TOOL_NOT_FOUND''"
| "gateway_status_value INVALID_REQUEST = ''INVALID_REQUEST''"
| "gateway_status_value OUT_OF_SCOPE = ''OUT_OF_SCOPE''"
| "gateway_status_value READ_ONLY_REQUIRED = ''READ_ONLY_REQUIRED''"
| "gateway_status_value BUDGET_EXCEEDED = ''BUDGET_EXCEEDED''"
| "gateway_status_value DUPLICATE_REQUEST = ''DUPLICATE_REQUEST''"
| "gateway_status_value TIMEOUT = ''TIMEOUT''"
| "gateway_status_value INVALID_ADAPTER_RESULT = ''INVALID_ADAPTER_RESULT''"
| "gateway_status_value ADAPTER_FAILURE = ''ADAPTER_FAILURE''"

datatype AuthorizationResult = ALLOWED | DENIED

fun authorization_value :: "AuthorizationResult \<Rightarrow> string" where
  "authorization_value ALLOWED = ''ALLOWED''"
| "authorization_value DENIED = ''DENIED''"

record ProposedToolRequest =
  call_id :: string
  proposed_tool :: string
  arguments :: pydict

record GatewayLimits =
  limit_total_calls :: int
  limit_per_tool_calls :: int
  max_input_bytes :: int
  max_output_bytes :: int
  timeout_cap_ms :: int

definition validate_limits :: "GatewayLimits \<Rightarrow> GatewayLimits option" where
  "validate_limits l =
     (if 1 \<le> limit_total_calls l \<and> limit_total_calls l \<le> 100
        \<and> 1 \<le> limit_per_tool_calls l \<and> limit_per_tool_calls l \<le> 50
        \<and> 64 \<le> max_input_bytes l \<and> max_input_bytes l \<le> 1000000
        \<and> 64 \<le> max_output_bytes l \<and> max_output_bytes l \<le> 10000000
        \<and> 1 \<le> timeout_cap_ms l \<and> timeout_cap_ms l \<le> 60000
      then Some l else None)"

record GatewayResult =
  gr_call_id :: string
  gr_tool_name :: string
  gr_status :: GatewayStatus
  gr_authorization :: AuthorizationResult
  gr_result :: "pydict option"
  gr_failure_message :: "string option"

text \<open>\<open>validate_shape\<close>: a result is present exactly on success.\<close>

definition validate_shape :: "GatewayResult \<Rightarrow> bool" where
  "validate_shape r \<longleftrightarrow> (gr_status r = SUCCESS \<longrightarrow> gr_result r \<noteq> None)
     \<and> (gr_status r \<noteq> SUCCESS \<longrightarrow> gr_result r = None)"

record ToolInvocationRecord =
  ir_execution_id :: string
  ir_correlation_id :: string
  ir_call_id :: string
  ir_tool_name :: string
  sanitized_arguments :: pydict
  ir_authorization :: AuthorizationResult
  ir_outcome :: GatewayStatus
  started_at :: time
  completed_at :: time
  duration_ms :: int
  failure_category :: "GatewayStatus option"

record ToolExecutionContext =
  ctx_execution_id :: string
  ctx_correlation_id :: string
  entity_scope :: "string set"
  limits :: GatewayLimits
  invocation_records :: "ToolInvocationRecord list"
  total_calls :: int
  per_tool_calls :: "string \<Rightarrow> int"
  seen_calls :: "string set"

definition new_context :: "string \<Rightarrow> string \<Rightarrow> string set \<Rightarrow> GatewayLimits \<Rightarrow> ToolExecutionContext" where
  "new_context execution_id correlation_id scope lims =
     \<lparr>ctx_execution_id = execution_id, ctx_correlation_id = correlation_id, entity_scope = scope,
      limits = lims, invocation_records = [], total_calls = 0, per_tool_calls = (\<lambda>_. 0), seen_calls = {}\<rparr>"

subsection \<open>The pure helpers\<close>

definition encoded_size :: "pydict \<Rightarrow> int" where
  "encoded_size d =
     (case json_dumps True (PDict d) of Some text \<Rightarrow> int (length text) | None \<Rightarrow> 1000001)"

definition fingerprint :: "string \<Rightarrow> pydict \<Rightarrow> string" where
  "fingerprint tool args = tool @ '':'' @ render True (canon (PDict args))"

text \<open>The values of validated arguments are strings.\<close>

definition request_scope_key :: "pydict \<Rightarrow> string option" where
  "request_scope_key args =
     (case (dict_get ''user_id'' args, dict_get ''device_id'' args, dict_get ''ip_address'' args) of
        (Some (PStr s), _, _) \<Rightarrow> Some (entity_type_value USER @ '':'' @ s)
      | (None, Some (PStr s), _) \<Rightarrow> Some (entity_type_value DEVICE @ '':'' @ s)
      | (None, None, Some (PStr s)) \<Rightarrow> Some (entity_type_value IP_ADDRESS @ '':'' @ s)
      | _ \<Rightarrow> None)"

subsection \<open>One invocation\<close>

text \<open>The readings of the two clocks when a call starts and when it finishes.\<close>

record call_times =
  start_now :: time
  start_ns :: int
  finish_now :: time
  finish_ns :: int

definition finish ::
  "call_times \<Rightarrow> ProposedToolRequest \<Rightarrow> pydict \<Rightarrow> AuthorizationResult \<Rightarrow> GatewayStatus \<Rightarrow> string option
     \<Rightarrow> pydict option \<Rightarrow> ToolExecutionContext \<Rightarrow> GatewayResult \<times> ToolExecutionContext" where
  "finish clk proposal sanitized auth status message result ctx =
     (\<lparr>gr_call_id = call_id proposal, gr_tool_name = proposed_tool proposal, gr_status = status,
       gr_authorization = auth, gr_result = result, gr_failure_message = message\<rparr>,
      ctx\<lparr>invocation_records := invocation_records ctx @
        [\<lparr>ir_execution_id = ctx_execution_id ctx, ir_correlation_id = ctx_correlation_id ctx,
          ir_call_id = call_id proposal, ir_tool_name = proposed_tool proposal,
          sanitized_arguments = sanitized, ir_authorization = auth, ir_outcome = status,
          started_at = start_now clk, completed_at = finish_now clk,
          duration_ms = max 0 ((finish_ns clk - start_ns clk) div 1000000),
          failure_category = (if status = SUCCESS then None else Some status)\<rparr>]\<rparr>)"

text \<open>The checks before the call, in order: a refusal, or the tool with its sanitized request.\<close>

definition authorize ::
  "(pyval \<Rightarrow> string option) \<Rightarrow> ToolRegistry \<Rightarrow> ProposedToolRequest \<Rightarrow> ToolExecutionContext
     \<Rightarrow> (GatewayStatus \<times> string \<times> pydict) + (EvidenceTool \<times> pydict)" where
  "authorize parse_ip reg p ctx =
     (case registry_lookup reg (proposed_tool p) of
        None \<Rightarrow> Inl (TOOL_NOT_FOUND, ''Tool is not registered'', [])
      | Some tool \<Rightarrow>
          if access tool \<noteq> READ_ONLY
            then Inl (READ_ONLY_REQUIRED, ''Only read-only evidence tools are permitted'', [])
          else if encoded_size (arguments p) > max_input_bytes (limits ctx)
            then Inl (INVALID_REQUEST, ''Tool arguments exceed size limit'', [])
          else (case validate_request parse_ip (request_model tool) (arguments p) of
              None \<Rightarrow> Inl (INVALID_REQUEST, ''Tool arguments are invalid'', [])
            | Some sanitized \<Rightarrow>
                if request_scope_key sanitized \<notin> Some ` entity_scope ctx
                  then Inl (OUT_OF_SCOPE, ''Requested entity is out of scope'', sanitized)
                else if fingerprint (proposed_tool p) sanitized \<in> seen_calls ctx
                  then Inl (DUPLICATE_REQUEST, ''Duplicate call is not permitted'', sanitized)
                else if total_calls ctx \<ge> limit_total_calls (limits ctx)
                  then Inl (BUDGET_EXCEEDED, ''Total call budget exhausted'', sanitized)
                else if per_tool_calls ctx (proposed_tool p) \<ge> limit_per_tool_calls (limits ctx)
                  then Inl (BUDGET_EXCEEDED, ''Per-tool call budget exhausted'', sanitized)
                else Inr (tool, sanitized)))"

definition charge :: "string \<Rightarrow> pydict \<Rightarrow> ToolExecutionContext \<Rightarrow> ToolExecutionContext" where
  "charge tool sanitized ctx =
     ctx\<lparr>seen_calls := insert (fingerprint tool sanitized) (seen_calls ctx),
         total_calls := total_calls ctx + 1,
         per_tool_calls := (per_tool_calls ctx)(tool := per_tool_calls ctx tool + 1)\<rparr>"

datatype tool_reply = TimedOut | Raised | Returned ToolOutcome

text \<open>
  Strict validation of the returned envelope: a \<open>Found\<close> must be of the declared response
  model, a \<open>NotFound\<close> is an instance already, and any other status is an error.
\<close>

fun validate_outcome :: "EvidenceTool \<Rightarrow> ToolOutcome \<Rightarrow> pydict option" where
  "validate_outcome tool (Found p payload) =
     (if response_model tool payload then Some (outcome_dump (Found p payload)) else None)"
| "validate_outcome tool (NotFound p rt i msg) = Some (outcome_dump (NotFound p rt i msg))"
| "validate_outcome tool UnknownOutcome = None"

definition judge_reply ::
  "EvidenceTool \<Rightarrow> GatewayLimits \<Rightarrow> tool_reply \<Rightarrow> GatewayStatus \<times> string option \<times> pydict option" where
  "judge_reply tool lims r =
     (case r of
        TimedOut \<Rightarrow> (TIMEOUT, Some ''Tool execution timed out'', None)
      | Raised \<Rightarrow> (ADAPTER_FAILURE, Some ''Tool execution failed'', None)
      | Returned raw_outcome \<Rightarrow>
          (case validate_outcome tool raw_outcome of
             None \<Rightarrow> (INVALID_ADAPTER_RESULT, Some ''Tool returned an invalid result'', None)
           | Some serialized \<Rightarrow>
               if encoded_size serialized > max_output_bytes lims
               then (INVALID_ADAPTER_RESULT, Some ''Tool result exceeds size limit'', None)
               else (SUCCESS, None, Some serialized)))"

definition invoke ::
  "(pyval \<Rightarrow> string option) \<Rightarrow> ToolRegistry \<Rightarrow> (EvidenceTool \<Rightarrow> pydict \<Rightarrow> int \<Rightarrow> tool_reply) \<Rightarrow> call_times
     \<Rightarrow> ProposedToolRequest \<Rightarrow> ToolExecutionContext \<Rightarrow> GatewayResult \<times> ToolExecutionContext" where
  "invoke parse_ip reg reply clk p ctx =
     (case authorize parse_ip reg p ctx of
        Inl (status, message, sanitized) \<Rightarrow> finish clk p sanitized DENIED status (Some message) None ctx
      | Inr (tool, sanitized) \<Rightarrow>
          let charged = charge (proposed_tool p) sanitized ctx;
              timeout = min (timeout_ms tool) (timeout_cap_ms (limits ctx));
              (status, message, result) = judge_reply tool (limits ctx) (reply tool sanitized timeout)
          in finish clk p sanitized ALLOWED status message result charged)"

text \<open>A whole execution: proposals in the order they are made, with their clocks and replies.\<close>

type_synonym gateway_call =
  "(EvidenceTool \<Rightarrow> pydict \<Rightarrow> int \<Rightarrow> tool_reply) \<times> call_times \<times> ProposedToolRequest"

fun gateway_run ::
  "(pyval \<Rightarrow> string option) \<Rightarrow> ToolRegistry \<Rightarrow> gateway_call list \<Rightarrow> ToolExecutionContext
     \<Rightarrow> GatewayResult list \<times> ToolExecutionContext" where
  "gateway_run parse_ip reg [] ctx = ([], ctx)"
| "gateway_run parse_ip reg ((reply, clk, p) # calls) ctx =
     (let (r, ctx') = invoke parse_ip reg reply clk p ctx;
          (rs, ctx'') = gateway_run parse_ip reg calls ctx'
      in (r # rs, ctx''))"

end
