(* ===== verification/Alerts.thy ===== *)
theory Alerts
  imports Triage
begin

text \<open>
  The normalized security alert (\<open>domain/alerts.py\<close>): its payload reference, the validation
  of an alert, and the entity scope it establishes.
\<close>

record SourcePayloadReference =
  reference_id :: string
  payload_digest :: string

record SecurityAlert =
  alert_id :: string
  source :: string
  source_severity :: Severity
  title :: string
  description :: string
  occurred_at :: time
  detected_at :: time
  entities :: "EntityReference list"
  provider_schema_version :: string
  original_payload :: SourcePayloadReference

definition validate_payload :: "SourcePayloadReference \<Rightarrow> SourcePayloadReference option" where
  "validate_payload p =
     (case (Identifier (reference_id p), Sha256Digest (payload_digest p)) of
        (Some r, Some d) \<Rightarrow> Some \<lparr>reference_id = r, payload_digest = d\<rparr>
      | _ \<Rightarrow> None)"

text \<open>The rules of \<open>validate_alert\<close> beyond the fields.\<close>

definition alert_rules :: "SecurityAlert \<Rightarrow> bool" where
  "alert_rules a \<longleftrightarrow> \<not> detected_at a < occurred_at a \<and> \<not> has_duplicates (map scope_key (entities a))"

definition validate_alert :: "SecurityAlert \<Rightarrow> SecurityAlert option" where
  "validate_alert a =
     (case (Identifier (alert_id a), Identifier (source a), ShortText (title a), NonEmptyText (description a),
            all_valid validate_entity (entities a), Version (provider_schema_version a),
            validate_payload (original_payload a)) of
        (Some i, Some s, Some t, Some d, Some es, Some v, Some p) \<Rightarrow>
          (let r = a\<lparr>alert_id := i, source := s, title := t, description := d, entities := es,
                     provider_schema_version := v, original_payload := p\<rparr>
           in if alert_rules r then Some r else None)
      | _ \<Rightarrow> None)"

definition contains_entity :: "SecurityAlert \<Rightarrow> EntityReference \<Rightarrow> bool" where
  "contains_entity a e \<longleftrightarrow> scope_key e \<in> set (map scope_key (entities a))"

text \<open>\<open>EntityScope.from_alert\<close>: the keys the gateway checks against.\<close>

definition from_alert :: "SecurityAlert \<Rightarrow> string set" where
  "from_alert a = set (map scope_key (entities a))"

lemma from_alert_iff [simp]: "scope_key e \<in> from_alert a \<longleftrightarrow> e \<in> set (entities a)"
  by (auto simp: from_alert_def)

lemma contains_entity_iff: "contains_entity a e \<longleftrightarrow> e \<in> set (entities a)"
  by (auto simp: contains_entity_def)

lemma validate_alert_SomeD:
  assumes "validate_alert a = Some r"
  shows "alert_rules r" and "distinct (entities r)" and "occurred_at r \<le> detected_at r"
proof -
  show rules: "alert_rules r"
    using assms by (auto simp: validate_alert_def Let_def split: option.splits if_splits)
  then show "distinct (entities r)" "occurred_at r \<le> detected_at r"
    by (auto simp: alert_rules_def distinct_map)
qed

end
