(* ===== verification/Gateway_Correct.thy ===== *)
theory Gateway_Correct
  imports Tool_Gateway Alerts
begin

text \<open>
  Correctness of the gateway: exact authorization, accounting over a whole execution,
  one audit record per call, and what a successful result is.
\<close>

definition allowed_records :: "ToolExecutionContext \<Rightarrow> ToolInvocationRecord list" where
  "allowed_records ctx = filter (\<lambda>r. ir_authorization r = ALLOWED) (invocation_records ctx)"

definition record_fingerprint :: "ToolInvocationRecord \<Rightarrow> string" where
  "record_fingerprint r = fingerprint (ir_tool_name r) (sanitized_arguments r)"

definition calls_of :: "string \<Rightarrow> ToolInvocationRecord list \<Rightarrow> nat" where
  "calls_of t rs = length (filter (\<lambda>r. ir_tool_name r = t) rs)"

text \<open>The accounting invariant of an execution context.\<close>

definition accounted :: "ToolExecutionContext \<Rightarrow> bool" where
  "accounted ctx \<longleftrightarrow>
     total_calls ctx = int (length (allowed_records ctx))
     \<and> (\<forall>t. per_tool_calls ctx t = int (calls_of t (allowed_records ctx)))
     \<and> seen_calls ctx = record_fingerprint ` set (allowed_records ctx)
     \<and> distinct (map record_fingerprint (allowed_records ctx))
     \<and> total_calls ctx \<le> limit_total_calls (limits ctx)
     \<and> (\<forall>t. per_tool_calls ctx t \<le> limit_per_tool_calls (limits ctx))
     \<and> (\<forall>r \<in> set (allowed_records ctx). request_scope_key (sanitized_arguments r) \<in> Some ` entity_scope ctx)"

lemma accounted_new: "validate_limits lims = Some lims \<Longrightarrow> accounted (new_context e c scope lims)"
  by (auto simp: accounted_def new_context_def allowed_records_def calls_of_def validate_limits_def split: if_splits)

lemma finish_ctx [simp]:
  "total_calls (snd (finish clk p san auth st m r ctx)) = total_calls ctx"
  "per_tool_calls (snd (finish clk p san auth st m r ctx)) = per_tool_calls ctx"
  "seen_calls (snd (finish clk p san auth st m r ctx)) = seen_calls ctx"
  "limits (snd (finish clk p san auth st m r ctx)) = limits ctx"
  "entity_scope (snd (finish clk p san auth st m r ctx)) = entity_scope ctx"
  "ctx_execution_id (snd (finish clk p san auth st m r ctx)) = ctx_execution_id ctx"
  "ctx_correlation_id (snd (finish clk p san auth st m r ctx)) = ctx_correlation_id ctx"
  by (simp_all add: finish_def)

lemma finish_result [simp]:
  "gr_status (fst (finish clk p san auth st m r ctx)) = st" "gr_authorization (fst (finish clk p san auth st m r ctx)) = auth"
  "gr_result (fst (finish clk p san auth st m r ctx)) = r" "gr_call_id (fst (finish clk p san auth st m r ctx)) = call_id p"
  "gr_tool_name (fst (finish clk p san auth st m r ctx)) = proposed_tool p"
  by (simp_all add: finish_def)

lemma finish_records:
  "\<exists>rec. invocation_records (snd (finish clk p san auth st m r ctx)) = invocation_records ctx @ [rec]
     \<and> ir_call_id rec = call_id p \<and> ir_tool_name rec = proposed_tool p \<and> ir_outcome rec = st
     \<and> ir_authorization rec = auth \<and> sanitized_arguments rec = san \<and> 0 \<le> duration_ms rec
     \<and> ir_execution_id rec = ctx_execution_id ctx \<and> started_at rec = start_now clk \<and> completed_at rec = finish_now clk
     \<and> (failure_category rec = None \<longleftrightarrow> st = SUCCESS)"
  by (simp add: finish_def)

lemma charge_sels [simp]:
  "total_calls (charge t san ctx) = total_calls ctx + 1" "limits (charge t san ctx) = limits ctx"
  "per_tool_calls (charge t san ctx) = (per_tool_calls ctx)(t := per_tool_calls ctx t + 1)"
  "seen_calls (charge t san ctx) = insert (fingerprint t san) (seen_calls ctx)"
  "entity_scope (charge t san ctx) = entity_scope ctx" "invocation_records (charge t san ctx) = invocation_records ctx"
  "ctx_execution_id (charge t san ctx) = ctx_execution_id ctx" "ctx_correlation_id (charge t san ctx) = ctx_correlation_id ctx"
  by (simp_all add: charge_def)

lemma authorize_InrD:
  "authorize parse_ip reg p ctx = Inr (tool, san) \<Longrightarrow>
     registry_lookup reg (proposed_tool p) = Some tool \<and> access tool = READ_ONLY
     \<and> encoded_size (arguments p) \<le> max_input_bytes (limits ctx)
     \<and> validate_request parse_ip (request_model tool) (arguments p) = Some san
     \<and> request_scope_key san \<in> Some ` entity_scope ctx
     \<and> fingerprint (proposed_tool p) san \<notin> seen_calls ctx
     \<and> total_calls ctx < limit_total_calls (limits ctx)
     \<and> per_tool_calls ctx (proposed_tool p) < limit_per_tool_calls (limits ctx)"
  by (simp add: authorize_def split: option.splits if_splits)

lemma authorize_Inr:
  "authorize parse_ip reg p ctx = Inr (tool, san) \<longleftrightarrow>
     registry_lookup reg (proposed_tool p) = Some tool \<and> access tool = READ_ONLY
     \<and> encoded_size (arguments p) \<le> max_input_bytes (limits ctx)
     \<and> validate_request parse_ip (request_model tool) (arguments p) = Some san
     \<and> request_scope_key san \<in> Some ` entity_scope ctx
     \<and> fingerprint (proposed_tool p) san \<notin> seen_calls ctx
     \<and> total_calls ctx < limit_total_calls (limits ctx)
     \<and> per_tool_calls ctx (proposed_tool p) < limit_per_tool_calls (limits ctx)"
  by (rule iffI, erule authorize_InrD) (simp add: authorize_def)

lemma authorize_status: "authorize parse_ip reg p ctx = Inl (st, m, san) \<Longrightarrow>
    st \<in> {TOOL_NOT_FOUND, READ_ONLY_REQUIRED, INVALID_REQUEST, OUT_OF_SCOPE, DUPLICATE_REQUEST, BUDGET_EXCEEDED}"
  by (auto simp: authorize_def split: option.splits if_splits)

lemma judge_reply_shape:
  "fst (judge_reply tool l r) \<in> {SUCCESS, TIMEOUT, ADAPTER_FAILURE, INVALID_ADAPTER_RESULT}
   \<and> (fst (judge_reply tool l r) = SUCCESS \<longleftrightarrow> snd (snd (judge_reply tool l r)) \<noteq> None)"
  by (cases r) (simp_all add: judge_reply_def split: option.splits)

lemma judge_reply_status: "judge_reply tool l r = (st, m, res) \<Longrightarrow>
    st \<in> {SUCCESS, TIMEOUT, ADAPTER_FAILURE, INVALID_ADAPTER_RESULT} \<and> (st = SUCCESS \<longleftrightarrow> res \<noteq> None)"
  using judge_reply_shape [of tool l r] by auto

text \<open>The two ways an invocation ends.\<close>

lemma invoke_cases:
  obtains (refused) st m san where "authorize parse_ip reg p ctx = Inl (st, m, san)"
      "invoke parse_ip reg reply clk p ctx = finish clk p san DENIED st (Some m) None ctx"
  | (called) tool san st m res where "authorize parse_ip reg p ctx = Inr (tool, san)"
      "judge_reply tool (limits ctx) (reply tool san (min (timeout_ms tool) (timeout_cap_ms (limits ctx)))) = (st, m, res)"
      "invoke parse_ip reg reply clk p ctx = finish clk p san ALLOWED st m res (charge (proposed_tool p) san ctx)"
proof (cases "authorize parse_ip reg p ctx")
  case (Inl t)
  then show ?thesis using refused by (cases t) (auto simp: invoke_def)
next
  case (Inr t)
  obtain tool san where t: "t = (tool, san)" by (cases t)
  obtain st m res where j: "judge_reply tool (limits ctx)
      (reply tool san (min (timeout_ms tool) (timeout_cap_ms (limits ctx)))) = (st, m, res)"
    using prod_cases3 by blast
  show ?thesis by (rule called [OF _ j]) (use Inr t j in \<open>simp_all add: invoke_def Let_def\<close>)
qed

lemma invoke_keeps_frame:
  "limits (snd (invoke parse_ip reg reply clk p ctx)) = limits ctx
   \<and> entity_scope (snd (invoke parse_ip reg reply clk p ctx)) = entity_scope ctx
   \<and> ctx_execution_id (snd (invoke parse_ip reg reply clk p ctx)) = ctx_execution_id ctx
   \<and> ctx_correlation_id (snd (invoke parse_ip reg reply clk p ctx)) = ctx_correlation_id ctx"
  by (cases rule: invoke_cases [of parse_ip reg p ctx reply clk]) simp_all

lemma invoke_record:
  "\<exists>rec. invocation_records (snd (invoke parse_ip reg reply clk p ctx)) = invocation_records ctx @ [rec]
     \<and> ir_call_id rec = call_id p \<and> ir_tool_name rec = proposed_tool p
     \<and> ir_execution_id rec = ctx_execution_id ctx
     \<and> ir_outcome rec = gr_status (fst (invoke parse_ip reg reply clk p ctx))
     \<and> ir_authorization rec = gr_authorization (fst (invoke parse_ip reg reply clk p ctx))
     \<and> (ir_outcome rec = SUCCESS \<longrightarrow> ir_authorization rec = ALLOWED)
     \<and> (failure_category rec = None \<longleftrightarrow> ir_outcome rec = SUCCESS) \<and> 0 \<le> duration_ms rec"
proof (cases rule: invoke_cases [of parse_ip reg p ctx reply clk])
  case (refused st m san)
  then show ?thesis using finish_records [of clk p san DENIED st "Some m" None ctx] authorize_status [OF refused(1)]
    by fastforce
next
  case (called tool san st m res)
  then show ?thesis
    using finish_records [of clk p san ALLOWED st m res "charge (proposed_tool p) san ctx"] by fastforce
qed

lemma invoke_accounted:
  assumes "accounted ctx"
  shows "accounted (snd (invoke parse_ip reg reply clk p ctx))"
proof (cases rule: invoke_cases [of parse_ip reg p ctx reply clk])
  case (refused st m san)
  then have "allowed_records (snd (invoke parse_ip reg reply clk p ctx)) = allowed_records ctx"
    by (simp add: allowed_records_def finish_def)
  then have "accounted (snd (invoke parse_ip reg reply clk p ctx)) \<longleftrightarrow> accounted ctx"
    by (simp only: accounted_def refused(2) finish_ctx)
  then show ?thesis using assms by (rule iffD2)
next
  case (called tool san st m res)
  obtain rec where rec: "allowed_records (snd (invoke parse_ip reg reply clk p ctx)) = allowed_records ctx @ [rec]"
    "ir_tool_name rec = proposed_tool p" "sanitized_arguments rec = san"
    using called by (simp add: allowed_records_def finish_def)
  have fp: "record_fingerprint rec = fingerprint (proposed_tool p) san"
    using rec by (simp add: record_fingerprint_def)
  note ok = authorize_InrD [OF called(1)]
  show ?thesis
    using assms ok unfolding accounted_def rec(1)
    by (auto simp: called(3) fp rec(2,3) calls_of_def)
qed

lemma gateway_run_simps:
  "gateway_run parse_ip reg ((reply, clk, p) # calls) ctx =
     (fst (invoke parse_ip reg reply clk p ctx) # fst (gateway_run parse_ip reg calls (snd (invoke parse_ip reg reply clk p ctx))),
      snd (gateway_run parse_ip reg calls (snd (invoke parse_ip reg reply clk p ctx))))"
  by (simp add: case_prod_beta)

declare gateway_run.simps(2) [simp del]

lemma gateway_run_invariant:
  assumes "\<And>reply clk p ctx. I ctx \<Longrightarrow> I (snd (invoke parse_ip reg reply clk p ctx))" and "I ctx"
  shows "I (snd (gateway_run parse_ip reg calls ctx))"
  using assms(2)
proof (induction calls arbitrary: ctx)
  case Nil
  then show ?case by simp
next
  case (Cons c calls)
  then show ?case by (cases c) (simp add: gateway_run_simps assms(1))
qed


lemma gateway_run_accounted:
  assumes "validate_limits lims = Some lims"
  shows "accounted (snd (gateway_run parse_ip reg calls (new_context e c scope lims)))"
  by (rule gateway_run_invariant [where I = accounted, OF invoke_accounted accounted_new [OF assms]])

lemma gateway_run_frame:
  "limits (snd (gateway_run parse_ip reg calls ctx)) = limits ctx
   \<and> entity_scope (snd (gateway_run parse_ip reg calls ctx)) = entity_scope ctx"
  by (rule gateway_run_invariant [where I = "\<lambda>x. limits x = limits ctx \<and> entity_scope x = entity_scope ctx"])
    (simp_all add: invoke_keeps_frame)

subsection \<open>Properties of the gateway\<close>

text \<open>C15: a call is allowed exactly when its tool is registered and read-only, its arguments are
  small enough and valid, the entity they name is in scope, and the call is neither a repeat nor
  over the total or per-tool budget.\<close>

theorem gateway_allows_exactly:
  "gr_authorization (fst (invoke parse_ip reg reply clk p ctx)) = ALLOWED \<longleftrightarrow>
     (\<exists>tool san. registry_lookup reg (proposed_tool p) = Some tool \<and> access tool = READ_ONLY
        \<and> encoded_size (arguments p) \<le> max_input_bytes (limits ctx)
        \<and> validate_request parse_ip (request_model tool) (arguments p) = Some san
        \<and> request_scope_key san \<in> Some ` entity_scope ctx
        \<and> fingerprint (proposed_tool p) san \<notin> seen_calls ctx
        \<and> total_calls ctx < limit_total_calls (limits ctx)
        \<and> per_tool_calls ctx (proposed_tool p) < limit_per_tool_calls (limits ctx))"
  unfolding authorize_Inr [symmetric]
  by (cases rule: invoke_cases [of parse_ip reg p ctx reply clk]) auto

text \<open>A refused call never runs the tool: whatever the tool would reply, the outcome is the
  same, no result crosses the boundary and the call is not charged to any budget.\<close>

theorem gateway_refusal_has_no_effect:
  assumes "gr_authorization (fst (invoke parse_ip reg reply clk p ctx)) = DENIED"
  shows "invoke parse_ip reg reply' clk p ctx = invoke parse_ip reg reply clk p ctx
    \<and> gr_result (fst (invoke parse_ip reg reply clk p ctx)) = None
    \<and> total_calls (snd (invoke parse_ip reg reply clk p ctx)) = total_calls ctx
    \<and> seen_calls (snd (invoke parse_ip reg reply clk p ctx)) = seen_calls ctx
    \<and> per_tool_calls (snd (invoke parse_ip reg reply clk p ctx)) = per_tool_calls ctx"
proof (cases rule: invoke_cases [of parse_ip reg p ctx reply clk])
  case (refused st m san)
  then show ?thesis by (simp add: invoke_def)
next
  case (called tool san st m res)
  then show ?thesis using assms by simp
qed

text \<open>C16: over any sequence of proposals the allowed calls stay within the total and per-tool
  budgets, no two of them have the same tool and arguments, and each addresses an entity of the
  alert that set the scope.\<close>

theorem gateway_budgets_hold:
  assumes "validate_limits lims = Some lims"
  shows "int (length (allowed_records (snd (gateway_run parse_ip reg calls (new_context e c (from_alert al) lims)))))
      \<le> limit_total_calls lims
    \<and> (\<forall>t. int (calls_of t (allowed_records (snd (gateway_run parse_ip reg calls (new_context e c (from_alert al) lims)))))
        \<le> limit_per_tool_calls lims)
    \<and> distinct (map record_fingerprint
        (allowed_records (snd (gateway_run parse_ip reg calls (new_context e c (from_alert al) lims)))))
    \<and> (\<forall>r \<in> set (allowed_records (snd (gateway_run parse_ip reg calls (new_context e c (from_alert al) lims)))).
        \<exists>x \<in> set (entities al). request_scope_key (sanitized_arguments r) = Some (scope_key x))"
proof -
  let ?ctx = "snd (gateway_run parse_ip reg calls (new_context e c (from_alert al) lims))"
  have acc: "accounted ?ctx" by (rule gateway_run_accounted [OF assms])
  have fr: "limits ?ctx = lims" "entity_scope ?ctx = from_alert al"
    using gateway_run_frame [of parse_ip reg calls "new_context e c (from_alert al) lims"]
    by (simp_all add: new_context_def)
  have "\<exists>x \<in> set (entities al). request_scope_key (sanitized_arguments r) = Some (scope_key x)"
    if "r \<in> set (allowed_records ?ctx)" for r
  proof -
    have "request_scope_key (sanitized_arguments r) \<in> Some ` entity_scope ?ctx"
      using acc that unfolding accounted_def by blast
    then show ?thesis unfolding fr(2) by (auto simp: from_alert_def)
  qed
  moreover have "int (length (allowed_records ?ctx)) \<le> limit_total_calls lims"
    using acc unfolding accounted_def fr(1) by linarith
  moreover have "int (calls_of t (allowed_records ?ctx)) \<le> limit_per_tool_calls lims" for t
    using acc unfolding accounted_def fr(1) by metis
  moreover have "distinct (map record_fingerprint (allowed_records ?ctx))"
    using acc unfolding accounted_def by blast
  ultimately show ?thesis by blast
qed

text \<open>C17: every attempted call, refused or not, leaves exactly one record, in order, that carries
  the outcome and authorization returned to the caller.\<close>

theorem gateway_records_every_call:
  "\<exists>recs. invocation_records (snd (gateway_run parse_ip reg calls ctx)) = invocation_records ctx @ recs
    \<and> map ir_call_id recs = map (\<lambda>(reply, clk, p). call_id p) calls
    \<and> map ir_tool_name recs = map (\<lambda>(reply, clk, p). proposed_tool p) calls
    \<and> map ir_outcome recs = map gr_status (fst (gateway_run parse_ip reg calls ctx))
    \<and> map ir_authorization recs = map gr_authorization (fst (gateway_run parse_ip reg calls ctx))"
proof (induction calls arbitrary: ctx)
  case Nil
  then show ?case by simp
next
  case (Cons c calls)
  obtain reply clk p where c: "c = (reply, clk, p)" by (cases c)
  obtain rec where rec: "invocation_records (snd (invoke parse_ip reg reply clk p ctx)) = invocation_records ctx @ [rec]"
    "ir_call_id rec = call_id p" "ir_tool_name rec = proposed_tool p"
    "ir_outcome rec = gr_status (fst (invoke parse_ip reg reply clk p ctx))"
    "ir_authorization rec = gr_authorization (fst (invoke parse_ip reg reply clk p ctx))"
    using invoke_record [of parse_ip reg reply clk p ctx] by blast
  obtain recs where recs: "invocation_records (snd (gateway_run parse_ip reg calls (snd (invoke parse_ip reg reply clk p ctx))))
      = invocation_records (snd (invoke parse_ip reg reply clk p ctx)) @ recs"
    "map ir_call_id recs = map (\<lambda>(reply, clk, p). call_id p) calls"
    "map ir_tool_name recs = map (\<lambda>(reply, clk, p). proposed_tool p) calls"
    "map ir_outcome recs = map gr_status (fst (gateway_run parse_ip reg calls (snd (invoke parse_ip reg reply clk p ctx))))"
    "map ir_authorization recs = map gr_authorization (fst (gateway_run parse_ip reg calls (snd (invoke parse_ip reg reply clk p ctx))))"
    using Cons.IH by blast
  show ?case by (rule exI [of _ "rec # recs"]) (simp add: c gateway_run_simps rec recs)
qed

text \<open>C18: a result crosses the boundary exactly on success, and then it is the dump of an outcome
  that the tool really returned, of the declared kind and within the output limit.\<close>

theorem gateway_success_result:
  "validate_shape (fst (invoke parse_ip reg reply clk p ctx))
    \<and> (gr_status (fst (invoke parse_ip reg reply clk p ctx)) = SUCCESS \<longleftrightarrow>
        (\<exists>tool san out. authorize parse_ip reg p ctx = Inr (tool, san)
          \<and> reply tool san (min (timeout_ms tool) (timeout_cap_ms (limits ctx))) = Returned out
          \<and> (case out of Found pr payload \<Rightarrow> response_model tool payload | NotFound _ _ _ _ \<Rightarrow> True
             | UnknownOutcome \<Rightarrow> False)
          \<and> encoded_size (outcome_dump out) \<le> max_output_bytes (limits ctx)
          \<and> gr_result (fst (invoke parse_ip reg reply clk p ctx)) = Some (outcome_dump out)))"
proof (cases rule: invoke_cases [of parse_ip reg p ctx reply clk])
  case (refused st m san)
  then show ?thesis using authorize_status [OF refused(1)] by (auto simp: validate_shape_def)
next
  case (called tool san st m res)
  let ?r = "reply tool san (min (timeout_ms tool) (timeout_cap_ms (limits ctx)))"
  have shape: "st = SUCCESS \<longleftrightarrow> res \<noteq> None" using judge_reply_status [OF called(2)] by blast
  have "st = SUCCESS \<longleftrightarrow> (\<exists>out. ?r = Returned out
      \<and> (case out of Found pr payload \<Rightarrow> response_model tool payload | NotFound _ _ _ _ \<Rightarrow> True | UnknownOutcome \<Rightarrow> False)
      \<and> encoded_size (outcome_dump out) \<le> max_output_bytes (limits ctx) \<and> res = Some (outcome_dump out))"
    using called(2)
    by (auto simp: judge_reply_def split: tool_reply.splits option.splits if_splits ToolOutcome.splits
        elim!: validate_outcome.elims)
  then show ?thesis using shape called(1,3) by (auto simp: validate_shape_def)
qed

subsection \<open>The gateway at work\<close>

definition sample_limits :: GatewayLimits where
  "sample_limits = \<lparr>limit_total_calls = 2, limit_per_tool_calls = 1, max_input_bytes = 4096,
     max_output_bytes = 65536, timeout_cap_ms = 5000\<rparr>"

definition sample_alert :: SecurityAlert where
  "sample_alert = \<lparr>alert_id = ''alert-1'', source = ''siem'', source_severity = HIGH, title = ''risky sign-in'',
     description = ''risky sign-in of alice'', occurred_at = 1, detected_at = 2,
     entities = [UserEntityReference ''alice''], provider_schema_version = ''1'',
     original_payload = \<lparr>reference_id = ''p-1'', payload_digest = ''sha256:'' @ replicate 64 (CHR ''0'')\<rparr>\<rparr>"

definition sample_clk :: call_times where
  "sample_clk = \<lparr>start_now = 5, start_ns = 0, finish_now = 6, finish_ns = 2000000\<rparr>"

definition sample_proposal :: "string \<Rightarrow> ProposedToolRequest" where
  "sample_proposal user = \<lparr>call_id = ''call-1'', proposed_tool = ''get_user_risk'', arguments = [(''user_id'', PStr user)]\<rparr>"

lemma sample_refused:
  "gr_authorization (fst (invoke (\<lambda>_. None) sample_registry reply sample_clk (sample_proposal ''bob'')
      (new_context ''e'' ''c'' (from_alert sample_alert) sample_limits))) = DENIED"
proof -
  have bob: "Identifier ''bob'' = Some ''bob''"
    by (simp add: Identifier_def constrained_def strip_with_def is_space_def is_alnum_def is_ident_char_def Let_def)
  have "authorize (\<lambda>_. None) sample_registry (sample_proposal ''bob'')
      (new_context ''e'' ''c'' (from_alert sample_alert) sample_limits) \<noteq> Inr (tool, san)" for tool san
    unfolding authorize_Inr
    by (auto simp: sample_registry_def registry_lookup_def sample_proposal_def validate_request_def
        request_scope_key_def dict_get_def new_context_def from_alert_def sample_alert_def scope_key_def bob)
  then show ?thesis
    by (cases rule: invoke_cases [of "\<lambda>_. None" sample_registry "sample_proposal ''bob''"
        "new_context ''e'' ''c'' (from_alert sample_alert) sample_limits" reply sample_clk]) auto
qed

theorem gateway_refusal_has_no_effect_witness:
  "gr_result (fst (invoke (\<lambda>_. None) sample_registry (\<lambda>_ _ _. Raised) sample_clk (sample_proposal ''bob'')
      (new_context ''e'' ''c'' (from_alert sample_alert) sample_limits))) = None"
  using gateway_refusal_has_no_effect [OF sample_refused] by blast

theorem gateway_budgets_hold_witness:
  "int (length (allowed_records (snd (gateway_run (\<lambda>_. None) sample_registry
      [(\<lambda>_ _ _. Raised, sample_clk, sample_proposal ''alice''), (\<lambda>_ _ _. Raised, sample_clk, sample_proposal ''alice'')]
      (new_context ''e'' ''c'' (from_alert sample_alert) sample_limits))))) \<le> 2"
  using gateway_budgets_hold [of sample_limits] by (simp add: validate_limits_def) (simp add: sample_limits_def)

end
