(* ===== verification/Records.thy ===== *)
theory Records
  imports Alerts Action_Catalog Lifecycles Tool_Gateway
begin

text \<open>
  Approval records (\<open>domain/approvals.py\<close>), the persistence records
  (\<open>application/persistence.py\<close>) and the exceptions that cross the application services.
\<close>

datatype ApprovalDecision = Approve | Reject

fun decision_value :: "ApprovalDecision \<Rightarrow> string" where
  "decision_value Approve = ''APPROVED''"
| "decision_value Reject = ''REJECTED''"

fun decision_lower :: "ApprovalDecision \<Rightarrow> string" where
  "decision_lower Approve = ''approved''"
| "decision_lower Reject = ''rejected''"

record ApprovalRecord =
  approval_id :: string
  ap_action_id :: string
  ap_action_digest :: string
  reviewer_id :: string
  decision :: ApprovalDecision
  decided_at :: time
  reason :: string
  ap_policy_version :: string
  expires_at :: "time option"

definition validate_expiry :: "ApprovalRecord \<Rightarrow> bool" where
  "validate_expiry a \<longleftrightarrow>
     \<not> (decision a = Approve \<and> expires_at a = None)
     \<and> \<not> (decision a = Reject \<and> expires_at a \<noteq> None)
     \<and> (case expires_at a of None \<Rightarrow> True | Some x \<Rightarrow> \<not> x \<le> decided_at a)"

definition validate_approval :: "ApprovalRecord \<Rightarrow> ApprovalRecord option" where
  "validate_approval a =
     (case (Identifier (approval_id a), Identifier (ap_action_id a), Sha256Digest (ap_action_digest a),
            Identifier (reviewer_id a), NonEmptyText (reason a), Version (ap_policy_version a)) of
        (Some i, Some ai, Some d, Some r, Some why, Some v) \<Rightarrow>
          (let out = a\<lparr>approval_id := i, ap_action_id := ai, ap_action_digest := d, reviewer_id := r,
                       reason := why, ap_policy_version := v\<rparr>
           in if validate_expiry out then Some out else None)
      | _ \<Rightarrow> None)"

record TriageExecutionRecord =
  ex_execution_id :: string
  ex_alert_id :: string
  ex_state :: TriageExecutionState
  idempotency_key :: string
  created_at :: time
  updated_at :: time
  predecessor_execution_id :: "string option"
  ex_failure_category :: "string option"

definition validate_execution :: "TriageExecutionRecord \<Rightarrow> TriageExecutionRecord option" where
  "validate_execution e =
     (case (Identifier (ex_execution_id e), Identifier (ex_alert_id e), Identifier (idempotency_key e),
            optional Identifier (predecessor_execution_id e), optional Identifier (ex_failure_category e)) of
        (Some i, Some a, Some k, Some p, Some f) \<Rightarrow>
          Some (e\<lparr>ex_execution_id := i, ex_alert_id := a, idempotency_key := k,
                  predecessor_execution_id := p, ex_failure_category := f\<rparr>)
      | _ \<Rightarrow> None)"

record ActionExecutionRecord =
  action_execution_id :: string
  ax_action_id :: string
  ax_state :: ActionState
  ax_started_at :: time
  ax_completed_at :: "time option"
  ax_outcome :: "string option"
  ax_failure_category :: "string option"
  ax_mode :: string
  ax_result :: "pydict option"

definition validate_action_execution :: "ActionExecutionRecord \<Rightarrow> ActionExecutionRecord option" where
  "validate_action_execution x =
     (case (Identifier (action_execution_id x), Identifier (ax_action_id x),
            optional Identifier (ax_outcome x), optional Identifier (ax_failure_category x)) of
        (Some i, Some a, Some out, Some f) \<Rightarrow>
          Some (x\<lparr>action_execution_id := i, ax_action_id := a, ax_outcome := out,
                  ax_failure_category := f, ax_mode := strip (ax_mode x)\<rparr>)
      | _ \<Rightarrow> None)"

record PersistedAction =
  pa_execution_id :: string
  pa_policy_version :: string
  pa_action :: ActionProposal

datatype AuditOutcome = AuditSuccess | AuditDenied | AuditFailed

fun audit_outcome_value :: "AuditOutcome \<Rightarrow> string" where
  "audit_outcome_value AuditSuccess = ''SUCCESS''"
| "audit_outcome_value AuditDenied = ''DENIED''"
| "audit_outcome_value AuditFailed = ''FAILED''"

record AuditEvent =
  event_id :: string
  event_type :: string
  ev_occurred_at :: time
  ev_target_type :: string
  ev_target_id :: string
  ev_data :: pydict
  schema_version :: string
  ev_execution_id :: "string option"
  ev_correlation_id :: "string option"
  ev_actor_id :: "string option"
  ev_outcome :: "AuditOutcome option"
  ev_failure_category :: "string option"

text \<open>
  Construction of an event: field validation, then \<open>bound_payload\<close>; \<open>event_size\<close> is the
  length of the schema library's \<open>model_dump_json\<close> of the event.
\<close>

definition validate_event :: "(AuditEvent \<Rightarrow> nat) \<Rightarrow> AuditEvent \<Rightarrow> AuditEvent option" where
  "validate_event event_size e =
     (case (Identifier (event_id e), Identifier (event_type e), Identifier (ev_target_type e),
            Identifier (ev_target_id e), Version (schema_version e), optional Identifier (ev_execution_id e),
            optional Identifier (ev_correlation_id e), optional Identifier (ev_actor_id e),
            optional Identifier (ev_failure_category e)) of
        (Some i, Some t, Some tt, Some tid, Some v, Some x, Some c, Some act, Some f) \<Rightarrow>
          (let out = e\<lparr>event_id := i, event_type := t, ev_target_type := tt, ev_target_id := tid,
                       schema_version := v, ev_execution_id := x, ev_correlation_id := c,
                       ev_actor_id := act, ev_failure_category := f\<rparr>
           in if event_size out > 16384 then None else Some out)
      | _ \<Rightarrow> None)"

subsection \<open>Exceptions\<close>

datatype WorkflowErrorCode =
    ACTION_NOT_FOUND | APPROVAL_NOT_REQUIRED | DECISION_CONFLICT | APPROVAL_MISSING
  | APPROVAL_REJECTED | APPROVAL_EXPIRED | STALE_APPROVAL | REVIEWER_INVALID
  | EXECUTION_NOT_SUPPORTED | EXECUTION_COMPLETED | EXECUTOR_FAILED | PERSISTENCE_FAILED

fun workflow_code_value :: "WorkflowErrorCode \<Rightarrow> string" where
  "workflow_code_value ACTION_NOT_FOUND = ''ACTION_NOT_FOUND''"
| "workflow_code_value APPROVAL_NOT_REQUIRED = ''APPROVAL_NOT_REQUIRED''"
| "workflow_code_value DECISION_CONFLICT = ''DECISION_CONFLICT''"
| "workflow_code_value APPROVAL_MISSING = ''APPROVAL_MISSING''"
| "workflow_code_value APPROVAL_REJECTED = ''APPROVAL_REJECTED''"
| "workflow_code_value APPROVAL_EXPIRED = ''APPROVAL_EXPIRED''"
| "workflow_code_value STALE_APPROVAL = ''STALE_APPROVAL''"
| "workflow_code_value REVIEWER_INVALID = ''REVIEWER_INVALID''"
| "workflow_code_value EXECUTION_NOT_SUPPORTED = ''EXECUTION_NOT_SUPPORTED''"
| "workflow_code_value EXECUTION_COMPLETED = ''EXECUTION_COMPLETED''"
| "workflow_code_value EXECUTOR_FAILED = ''EXECUTOR_FAILED''"
| "workflow_code_value PERSISTENCE_FAILED = ''PERSISTENCE_FAILED''"

text \<open>
  \<open>PersistenceError\<close> and \<open>DatabaseError\<close> carry the class name of their root cause, the only
  thing that is read of a driver exception.
\<close>

datatype exn =
    PersistenceError string
  | DatabaseError string
  | ValidationError
  | ValueError
  | AlertConflictError
  | WorkflowError WorkflowErrorCode
  | TransitionError transition_error
  | AdapterError string

text \<open>\<open>_root_exception_type\<close>: the class name at the end of the cause chain.\<close>

fun root_exception_type :: "exn \<Rightarrow> string" where
  "root_exception_type (PersistenceError cause) = cause"
| "root_exception_type (DatabaseError cause) = cause"
| "root_exception_type ValidationError = ''ValidationError''"
| "root_exception_type ValueError = ''ValueError''"
| "root_exception_type AlertConflictError = ''AlertConflictError''"
| "root_exception_type (WorkflowError c) = ''WorkflowError''"
| "root_exception_type (TransitionError e) = ''InvalidStateTransitionError''"
| "root_exception_type (AdapterError cause) = cause"

lemma validate_approval_SomeD:
  assumes "validate_approval a = Some r"
  shows "validate_expiry r" and "ap_action_digest r = strip (ap_action_digest a)"
    and "decision r = decision a" and "decided_at r = decided_at a" and "expires_at r = expires_at a"
  using assms
  by (auto simp: validate_approval_def Let_def Sha256Digest_def split: option.splits if_splits)

lemma validate_action_execution_SomeD:
  "validate_action_execution x = Some y \<Longrightarrow> ax_state y = ax_state x \<and> ax_started_at y = ax_started_at x
     \<and> Identifier (ax_action_id x) = Some (ax_action_id y) \<and> Identifier (action_execution_id x) = Some (action_execution_id y)"
  by (auto simp: validate_action_execution_def split: option.splits)


lemma validate_event_SomeD:
  "validate_event sz e = Some ev \<Longrightarrow>
     Identifier (event_id e) = Some (event_id ev) \<and> Identifier (event_type e) = Some (event_type ev)
     \<and> Identifier (ev_target_type e) = Some (ev_target_type ev) \<and> Identifier (ev_target_id e) = Some (ev_target_id ev)
     \<and> ev_occurred_at ev = ev_occurred_at e \<and> ev_data ev = ev_data e \<and> ev_outcome ev = ev_outcome e
     \<and> optional Identifier (ev_execution_id e) = Some (ev_execution_id ev)
     \<and> optional Identifier (ev_actor_id e) = Some (ev_actor_id ev) \<and> sz ev \<le> 16384"
  by (auto simp: validate_event_def Let_def split: option.splits if_splits)

end
