(* ===== verification/Evaluation_Schema.thy ===== *)
theory Evaluation_Schema
  imports Triage
begin

text \<open>
  The data of the evaluation harness: scenarios and manifests (\<open>evaluation/schema.py\<close>), case
  scores and aggregates (the models of \<open>evaluation/scoring.py\<close>) and the persisted records
  (\<open>evaluation/persistence.py\<close>). A rate is the exact quotient of two counts.
\<close>

datatype BinaryLabel = LabelMalicious | LabelNonMalicious | LabelAmbiguous

record EvaluationScenario =
  sc_scenario_id :: string
  sc_scenario_version :: string
  sc_description :: string
  sc_alert_id :: string
  allowed_dispositions :: "Disposition list"
  expected_escalation :: bool
  required_tools :: "string list"
  allowed_tools :: "string list"
  forbidden_tools :: "string list"
  expected_actions :: "string list"
  expected_approval_actions :: "string list"
  binary_label :: BinaryLabel
  expected_assessed_severity :: Severity
  tags :: "string list"
  ground_truth_rationale :: string

text \<open>The message of the first rule of \<open>validate_sets\<close> that a scenario violates.\<close>

definition validate_sets :: "EvaluationScenario \<Rightarrow> string option" where
  "validate_sets s = first_error
     [require_unique ''allowed dispositions'' (map disposition_value (allowed_dispositions s)),
      require_unique ''required tools'' (required_tools s),
      require_unique ''allowed tools'' (allowed_tools s),
      require_unique ''forbidden tools'' (forbidden_tools s),
      require_unique ''expected actions'' (expected_actions s),
      require_unique ''expected approval actions'' (expected_approval_actions s),
      require_unique ''tags'' (tags s),
      if \<not> set (required_tools s) \<subseteq> set (allowed_tools s) then Some ''required tools must be allowed'' else None,
      if set (allowed_tools s) \<inter> set (forbidden_tools s) \<noteq> {}
        then Some ''allowed and forbidden tools must be disjoint'' else None,
      if \<not> set (expected_approval_actions s) \<subseteq> set (expected_actions s)
        then Some ''approval actions must be expected actions'' else None]"

text \<open>Construction of a scenario from values of the declared types.\<close>

definition validate_scenario :: "EvaluationScenario \<Rightarrow> EvaluationScenario option" where
  "validate_scenario s =
     (case (Identifier (sc_scenario_id s), Version (sc_scenario_version s), NonEmptyText (sc_description s),
            Identifier (sc_alert_id s), all_valid Identifier (required_tools s), all_valid Identifier (allowed_tools s),
            all_valid Identifier (forbidden_tools s), all_valid Identifier (expected_actions s),
            all_valid Identifier (expected_approval_actions s), all_valid Identifier (tags s),
            NonEmptyText (ground_truth_rationale s)) of
        (Some i, Some v, Some d, Some a, Some req, Some allow, Some forb, Some acts, Some appr, Some tgs, Some why) \<Rightarrow>
          (let out = s\<lparr>sc_scenario_id := i, sc_scenario_version := v, sc_description := d, sc_alert_id := a,
                       required_tools := req, allowed_tools := allow, forbidden_tools := forb,
                       expected_actions := acts, expected_approval_actions := appr, tags := tgs,
                       ground_truth_rationale := why\<rparr>
           in if allowed_dispositions s \<noteq> [] \<and> validate_sets out = None then Some out else None)
      | _ \<Rightarrow> None)"

record EvaluationManifest =
  man_schema_version :: string
  man_suite_version :: string
  man_fixture_version :: string
  man_scenarios :: "EvaluationScenario list"

definition validate_manifest :: "EvaluationManifest \<Rightarrow> EvaluationManifest option" where
  "validate_manifest m =
     (case (Version (man_schema_version m), Version (man_suite_version m), Version (man_fixture_version m),
            all_valid validate_scenario (man_scenarios m)) of
        (Some v, Some sv, Some fv, Some ss) \<Rightarrow>
          if ss = [] then None
          else Some \<lparr>man_schema_version = v, man_suite_version = sv, man_fixture_version = fv, man_scenarios = ss\<rparr>
      | _ \<Rightarrow> None)"

text \<open>What every scenario that exists satisfies.\<close>

definition consistent_scenario :: "EvaluationScenario \<Rightarrow> bool" where
  "consistent_scenario s \<longleftrightarrow> allowed_dispositions s \<noteq> [] \<and> distinct (allowed_dispositions s)
     \<and> distinct (required_tools s) \<and> distinct (allowed_tools s) \<and> distinct (forbidden_tools s)
     \<and> distinct (expected_actions s) \<and> distinct (expected_approval_actions s) \<and> distinct (tags s)
     \<and> set (required_tools s) \<subseteq> set (allowed_tools s) \<and> set (allowed_tools s) \<inter> set (forbidden_tools s) = {}
     \<and> set (expected_approval_actions s) \<subseteq> set (expected_actions s)"

lemma disposition_value_inj [simp]: "disposition_value a = disposition_value b \<longleftrightarrow> a = b"
  by (cases a; cases b) simp_all

lemma validate_sets_None:
  "allowed_dispositions s \<noteq> [] \<Longrightarrow> validate_sets s = None \<longleftrightarrow> consistent_scenario s"
  by (simp add: validate_sets_def first_error_None consistent_scenario_def distinct_map inj_on_def)

lemma validate_scenario_SomeD:
  assumes "validate_scenario s = Some t"
  shows "consistent_scenario t"
proof -
  have "allowed_dispositions t \<noteq> []" "validate_sets t = None"
    using assms by (auto simp: validate_scenario_def Let_def split: option.splits if_splits)
  then show ?thesis by (simp add: validate_sets_None)
qed

lemma validate_manifest_SomeD:
  assumes "validate_manifest m = Some n"
  shows "man_scenarios n \<noteq> []" and "s \<in> set (man_scenarios n) \<Longrightarrow> consistent_scenario s"
proof -
  have all: "all_valid validate_scenario (man_scenarios m) = Some (man_scenarios n)" and "man_scenarios n \<noteq> []"
    using assms by (auto simp: validate_manifest_def split: option.splits if_splits)
  then show "man_scenarios n \<noteq> []" by simp
  show "consistent_scenario s" if "s \<in> set (man_scenarios n)"
    using all_valid_SomeD [OF all that] validate_scenario_SomeD by blast
qed

subsection \<open>Scores and aggregates\<close>

datatype MatchStatus = EXACT | ACCEPTABLE | FAILURE

fun match_status_value :: "MatchStatus \<Rightarrow> string" where
  "match_status_value EXACT = ''EXACT''"
| "match_status_value ACCEPTABLE = ''ACCEPTABLE''"
| "match_status_value FAILURE = ''FAILURE''"

record EvaluationCaseScore =
  cs_scenario_id :: string
  disposition_status :: MatchStatus
  expected_dispositions :: "Disposition list"
  actual_disposition :: "Disposition option"
  escalation_match :: bool
  severity_match :: bool
  required_tools_omitted :: "string list"
  forbidden_tools_called :: "string list"
  unexpected_tools_called :: "string list"
  total_tool_calls :: nat
  successful_tool_calls :: nat
  denied_or_failed_tool_calls :: nat
  duplicate_tool_requests :: nat
  expected_actions_omitted :: "string list"
  unexpected_actions :: "string list"
  approval_requirement_preserved :: bool
  policy_reason_codes :: "string list"
  policy_forced_safe_review :: bool
  unknown_action_attempted :: bool
  out_of_scope_action_attempted :: bool
  candidate_reference_violation :: bool
  orchestration_bound_reached :: bool
  completed_durably :: bool
  orchestration_reason :: string
  duration_ms :: int
  false_positive :: bool
  false_negative :: bool
  binary_participant :: bool

type_synonym matrix = "(string \<times> (string \<times> nat) list) list"

record EvaluationAggregate =
  scenario_count :: nat
  exact_count :: nat
  acceptable_count :: nat
  failure_count :: nat
  escalation_matches :: nat
  false_positives :: nat
  false_negatives :: nat
  malicious_ground_truth_count :: nat
  non_malicious_ground_truth_count :: nat
  false_positive_rate :: "rat option"
  false_negative_rate :: "rat option"
  agg_total_tool_calls :: nat
  forbidden_tool_calls :: nat
  required_tool_omissions :: nat
  confusion_matrix :: matrix

subsection \<open>Persisted records\<close>

record EvaluationRunRecord =
  run_id :: string
  run_suite_version :: string
  run_schema_version :: string
  run_fixture_version :: string
  run_policy_version :: string
  reasoner_label :: string
  reasoner_implementation :: string
  provider :: string
  model_name :: string
  run_prompt_version :: string
  application_version :: string
  run_started_at :: int
  run_completed_at :: int
  aggregate :: EvaluationAggregate

record EvaluationCaseRecord =
  case_id :: string
  case_run_id :: string
  case_scenario_id :: string
  case_scenario_version :: string
  case_execution_id :: string
  case_score :: EvaluationCaseScore

definition validate_run_record :: "EvaluationRunRecord \<Rightarrow> EvaluationRunRecord option" where
  "validate_run_record r =
     (case (Identifier (run_id r), Version (run_suite_version r), Version (run_schema_version r),
            Version (run_fixture_version r), Version (run_policy_version r), Identifier (reasoner_label r),
            Identifier (reasoner_implementation r), Identifier (provider r), Identifier (model_name r),
            Version (run_prompt_version r), Version (application_version r)) of
        (Some i, Some sv, Some schv, Some fv, Some pv, Some l, Some impl, Some p, Some m, Some prv, Some av) \<Rightarrow>
          Some (r\<lparr>run_id := i, run_suite_version := sv, run_schema_version := schv, run_fixture_version := fv,
                  run_policy_version := pv, reasoner_label := l, reasoner_implementation := impl, provider := p,
                  model_name := m, run_prompt_version := prv, application_version := av\<rparr>)
      | _ \<Rightarrow> None)"

definition validate_case_record :: "EvaluationCaseRecord \<Rightarrow> EvaluationCaseRecord option" where
  "validate_case_record c =
     (case (Identifier (case_id c), Identifier (case_run_id c), Identifier (case_scenario_id c),
            Version (case_scenario_version c), Identifier (case_execution_id c)) of
        (Some i, Some r, Some s, Some v, Some e) \<Rightarrow>
          Some (c\<lparr>case_id := i, case_run_id := r, case_scenario_id := s, case_scenario_version := v,
                  case_execution_id := e\<rparr>)
      | _ \<Rightarrow> None)"

end
