(* ===== verification/Database.thy ===== *)
theory Database
  imports Records Evaluation_Schema
begin

text \<open>
  The relational store (\<open>adapters/persistence/models.py\<close>), the unit of work
  (\<open>adapters/persistence/uow.py\<close>) and the world the services run in. A table is the list of
  its rows; a row keeps the columns that queries and constraints read, and the domain value
  of its \<open>domain_data\<close> column. A timestamp column holds fixed-format UTC text whose string order
  is the order of instants, so it is kept as the instant. \<open>admissible\<close> predicates are the
  primary-key, unique, foreign-key and check constraints of the schema.
\<close>

subsection \<open>Tables\<close>

record AlertRow =
  row_alert_id :: string
  row_detected_at :: time
  row_payload_digest :: string
  row_alert :: SecurityAlert

record ToolInvocationRow =
  row_invocation :: ToolInvocationRecord
  row_tool_result :: "pydict option"

record TriageResultRow =
  row_result_id :: string
  row_result_execution :: string
  row_result_alert :: string
  row_result :: TriageResult

record RecommendedActionRow =
  row_action_id :: string
  row_action_execution :: string
  row_action_digest :: string
  row_policy_version :: string
  row_action :: ActionProposal

record db =
  alerts :: "AlertRow list"
  triage_executions :: "TriageExecutionRecord list"
  tool_invocations :: "ToolInvocationRow list"
  triage_results :: "TriageResultRow list"
  recommended_actions_table :: "RecommendedActionRow list"
  approval_decisions :: "ApprovalRecord list"
  action_executions :: "ActionExecutionRecord list"
  audit_events :: "AuditEvent list"
  evaluation_runs :: "EvaluationRunRecord list"
  evaluation_case_results :: "EvaluationCaseRecord list"

definition empty_db :: db where
  "empty_db = \<lparr>alerts = [], triage_executions = [], tool_invocations = [], triage_results = [],
     recommended_actions_table = [], approval_decisions = [], action_executions = [], audit_events = [],
     evaluation_runs = [], evaluation_case_results = []\<rparr>"

definition alert_admissible :: "AlertRow \<Rightarrow> db \<Rightarrow> bool" where
  "alert_admissible r d \<longleftrightarrow> row_alert_id r \<notin> row_alert_id ` set (alerts d)
     \<and> row_payload_digest r \<notin> row_payload_digest ` set (alerts d)"

definition execution_admissible :: "TriageExecutionRecord \<Rightarrow> db \<Rightarrow> bool" where
  "execution_admissible r d \<longleftrightarrow>
     ex_execution_id r \<notin> ex_execution_id ` set (triage_executions d)
     \<and> idempotency_key r \<notin> idempotency_key ` set (triage_executions d)
     \<and> ex_alert_id r \<in> row_alert_id ` set (alerts d)
     \<and> (case predecessor_execution_id r of None \<Rightarrow> True
        | Some p \<Rightarrow> p \<in> ex_execution_id ` set (triage_executions d))"

definition invocation_admissible :: "ToolInvocationRow \<Rightarrow> db \<Rightarrow> bool" where
  "invocation_admissible r d \<longleftrightarrow>
     ir_call_id (row_invocation r) \<notin> (\<lambda>x. ir_call_id (row_invocation x)) ` set (tool_invocations d)
     \<and> ir_execution_id (row_invocation r) \<in> ex_execution_id ` set (triage_executions d)"

definition result_admissible :: "TriageResultRow \<Rightarrow> db \<Rightarrow> bool" where
  "result_admissible r d \<longleftrightarrow>
     row_result_id r \<notin> row_result_id ` set (triage_results d)
     \<and> row_result_execution r \<notin> row_result_execution ` set (triage_results d)
     \<and> row_result_execution r \<in> ex_execution_id ` set (triage_executions d)
     \<and> row_result_alert r \<in> row_alert_id ` set (alerts d)"

definition action_admissible :: "RecommendedActionRow \<Rightarrow> db \<Rightarrow> bool" where
  "action_admissible r d \<longleftrightarrow>
     row_action_id r \<notin> row_action_id ` set (recommended_actions_table d)
     \<and> row_action_execution r \<in> ex_execution_id ` set (triage_executions d)"

definition approval_check :: "ApprovalRecord \<Rightarrow> bool" where
  "approval_check r \<longleftrightarrow> ((decision r = Approve \<and> expires_at r \<noteq> None) \<or> (decision r = Reject \<and> expires_at r = None))
     \<and> (case expires_at r of None \<Rightarrow> True | Some x \<Rightarrow> x > decided_at r)"

definition approval_admissible :: "ApprovalRecord \<Rightarrow> db \<Rightarrow> bool" where
  "approval_admissible r d \<longleftrightarrow>
     approval_id r \<notin> approval_id ` set (approval_decisions d)
     \<and> ap_action_id r \<notin> ap_action_id ` set (approval_decisions d)
     \<and> ap_action_id r \<in> row_action_id ` set (recommended_actions_table d)
     \<and> approval_check r"

definition action_execution_admissible :: "ActionExecutionRecord \<Rightarrow> db \<Rightarrow> bool" where
  "action_execution_admissible r d \<longleftrightarrow>
     action_execution_id r \<notin> action_execution_id ` set (action_executions d)
     \<and> ax_action_id r \<notin> ax_action_id ` set (action_executions d)
     \<and> ax_action_id r \<in> row_action_id ` set (recommended_actions_table d)"

definition event_admissible :: "AuditEvent \<Rightarrow> db \<Rightarrow> bool" where
  "event_admissible r d \<longleftrightarrow> event_id r \<notin> event_id ` set (audit_events d)"

definition run_admissible :: "EvaluationRunRecord \<Rightarrow> db \<Rightarrow> bool" where
  "run_admissible r d \<longleftrightarrow> run_id r \<notin> run_id ` set (evaluation_runs d)"

text \<open>A case has its own key, one row per run and scenario, and the run and execution it names.\<close>

definition case_key :: "EvaluationCaseRecord \<Rightarrow> string \<times> string" where
  "case_key c = (case_run_id c, case_scenario_id c)"

definition case_admissible :: "EvaluationCaseRecord \<Rightarrow> db \<Rightarrow> bool" where
  "case_admissible r d \<longleftrightarrow> case_id r \<notin> case_id ` set (evaluation_case_results d)
     \<and> case_key r \<notin> case_key ` set (evaluation_case_results d)
     \<and> case_run_id r \<in> run_id ` set (evaluation_runs d)
     \<and> case_execution_id r \<in> ex_execution_id ` set (triage_executions d)"

definition insert_alert :: "AlertRow \<Rightarrow> db \<Rightarrow> db" where
  "insert_alert r d = d\<lparr>alerts := alerts d @ [r]\<rparr>"

definition insert_execution :: "TriageExecutionRecord \<Rightarrow> db \<Rightarrow> db" where
  "insert_execution r d = d\<lparr>triage_executions := triage_executions d @ [r]\<rparr>"

definition insert_invocation :: "ToolInvocationRow \<Rightarrow> db \<Rightarrow> db" where
  "insert_invocation r d = d\<lparr>tool_invocations := tool_invocations d @ [r]\<rparr>"

definition insert_result :: "TriageResultRow \<Rightarrow> db \<Rightarrow> db" where
  "insert_result r d = d\<lparr>triage_results := triage_results d @ [r]\<rparr>"

definition insert_action :: "RecommendedActionRow \<Rightarrow> db \<Rightarrow> db" where
  "insert_action r d = d\<lparr>recommended_actions_table := recommended_actions_table d @ [r]\<rparr>"

definition insert_approval :: "ApprovalRecord \<Rightarrow> db \<Rightarrow> db" where
  "insert_approval r d = d\<lparr>approval_decisions := approval_decisions d @ [r]\<rparr>"

definition insert_action_execution :: "ActionExecutionRecord \<Rightarrow> db \<Rightarrow> db" where
  "insert_action_execution r d = d\<lparr>action_executions := action_executions d @ [r]\<rparr>"

definition insert_event :: "AuditEvent \<Rightarrow> db \<Rightarrow> db" where
  "insert_event r d = d\<lparr>audit_events := audit_events d @ [r]\<rparr>"

definition insert_run :: "EvaluationRunRecord \<Rightarrow> db \<Rightarrow> db" where
  "insert_run r d = d\<lparr>evaluation_runs := evaluation_runs d @ [r]\<rparr>"

definition insert_case :: "EvaluationCaseRecord \<Rightarrow> db \<Rightarrow> db" where
  "insert_case r d = d\<lparr>evaluation_case_results := evaluation_case_results d @ [r]\<rparr>"

text \<open>The updates that \<open>replace\<close> makes to the mapped row of the same primary key.\<close>

definition update_execution :: "TriageExecutionRecord \<Rightarrow> TriageExecutionRecord \<Rightarrow> TriageExecutionRecord" where
  "update_execution r row = row\<lparr>ex_state := ex_state r, updated_at := updated_at r,
     ex_failure_category := ex_failure_category r\<rparr>"

definition replace_execution :: "TriageExecutionRecord \<Rightarrow> db \<Rightarrow> db" where
  "replace_execution r d = d\<lparr>triage_executions :=
     map (\<lambda>row. if ex_execution_id row = ex_execution_id r then update_execution r row else row) (triage_executions d)\<rparr>"

definition update_action_execution :: "ActionExecutionRecord \<Rightarrow> ActionExecutionRecord \<Rightarrow> ActionExecutionRecord" where
  "update_action_execution r row = row\<lparr>ax_state := ax_state r, ax_completed_at := ax_completed_at r,
     ax_outcome := ax_outcome r, ax_failure_category := ax_failure_category r, ax_mode := ax_mode r,
     ax_result := ax_result r\<rparr>"

definition replace_action_execution :: "ActionExecutionRecord \<Rightarrow> db \<Rightarrow> db" where
  "replace_action_execution r d = d\<lparr>action_executions :=
     map (\<lambda>row. if action_execution_id row = action_execution_id r then update_action_execution r row else row)
       (action_executions d)\<rparr>"

subsection \<open>The world and its services\<close>

text \<open>
  What is outside the program: the clocks, the identifier generator (its \<open>n\<close>-th identifier for
  a purpose), the database driver (whether its \<open>n\<close>-th call fails, with the class name of the
  driver error), SHA-256 and the size of a serialized event.
\<close>

record env =
  clock_now :: "nat \<Rightarrow> time"
  clock_monotonic_ms :: "nat \<Rightarrow> int"
  fresh_id :: "string \<Rightarrow> nat \<Rightarrow> string"
  db_fault :: "nat \<Rightarrow> string option"
  integrity_error :: string
  sha256 :: "string \<Rightarrow> string"
  event_size :: "AuditEvent \<Rightarrow> nat"

text \<open>
  \<open>store\<close> is the committed database, \<open>session\<close> what the open unit of work sees, and
  \<open>broken\<close> records that a pending write violates a constraint, which surfaces at the next
  flush or commit. The counters number the calls made so far.
\<close>

record world =
  store :: db
  session :: db
  broken :: bool
  now_calls :: nat
  monotonic_calls :: nat
  id_counts :: "string \<Rightarrow> nat"
  db_calls :: nat
  gateway_calls :: nat
  reasoner_calls :: nat
  executed :: "ActionProposal list"

type_synonym 'a io = "(world, exn, 'a) op"

definition now :: "'e env_scheme \<Rightarrow> time io" where
  "now env = (\<lambda>w. (Inr (clock_now env (now_calls w)), w\<lparr>now_calls := Suc (now_calls w)\<rparr>))"

definition monotonic_ms :: "'e env_scheme \<Rightarrow> int io" where
  "monotonic_ms env = (\<lambda>w. (Inr (clock_monotonic_ms env (monotonic_calls w)),
     w\<lparr>monotonic_calls := Suc (monotonic_calls w)\<rparr>))"

definition next_id :: "'e env_scheme \<Rightarrow> string \<Rightarrow> string io" where
  "next_id env purpose = (\<lambda>w. (Inr (fresh_id env purpose (id_counts w purpose)),
     w\<lparr>id_counts := (id_counts w)(purpose := Suc (id_counts w purpose))\<rparr>))"

subsection \<open>The unit of work\<close>

text \<open>A statement sent to the database, which the driver may fail.\<close>

definition db_call :: "'e env_scheme \<Rightarrow> string option io" where
  "db_call env = (\<lambda>w. (Inr (db_fault env (db_calls w)), w\<lparr>db_calls := Suc (db_calls w)\<rparr>))"

definition query :: "'e env_scheme \<Rightarrow> (db \<Rightarrow> 'a) \<Rightarrow> 'a io" where
  "query env f = bindE (db_call env) (\<lambda>fault.
     case fault of Some name \<Rightarrow> raise (DatabaseError name) | None \<Rightarrow> gets (\<lambda>w. f (session w)))"

definition stage :: "(db \<Rightarrow> bool) \<Rightarrow> (db \<Rightarrow> db) \<Rightarrow> unit io" where
  "stage check write = modify (\<lambda>w. w\<lparr>session := write (session w), broken := (broken w \<or> \<not> check (session w))\<rparr>)"

definition rollback :: "(world, 'x, unit) op" where
  "rollback = modify (\<lambda>w. w\<lparr>session := store w, broken := False\<rparr>)"

text \<open>The constraint violation or driver failure met when pending writes are sent.\<close>

definition write_fault :: "'e env_scheme \<Rightarrow> string option io" where
  "write_fault env = bindE (db_call env) (\<lambda>fault. gets (\<lambda>w.
     case fault of Some name \<Rightarrow> Some name | None \<Rightarrow> if broken w then Some (integrity_error env) else None))"

definition flush :: "'e env_scheme \<Rightarrow> unit io" where
  "flush env = bindE (write_fault env) (\<lambda>fault.
     case fault of Some name \<Rightarrow> bindE rollback (\<lambda>_. raise (PersistenceError name)) | None \<Rightarrow> ret ())"

definition commit :: "'e env_scheme \<Rightarrow> unit io" where
  "commit env = bindE (write_fault env) (\<lambda>fault.
     case fault of Some name \<Rightarrow> bindE rollback (\<lambda>_. raise (PersistenceError name))
     | None \<Rightarrow> modify (\<lambda>w. w\<lparr>store := session w\<rparr>))"

text \<open>\<open>with uow_factory() as uow\<close>: a fresh session on entry; on exit it is rolled back and closed.\<close>

definition with_uow :: "(world, 'x, 'a) op \<Rightarrow> (world, 'x, 'a) op" where
  "with_uow body = bindE rollback (\<lambda>_. catch (bindE body (\<lambda>x. bindE rollback (\<lambda>_. ret x)))
     (\<lambda>e. bindE rollback (\<lambda>_. raise e)))"

end
