(* ===== verification/Repositories.thy ===== *)
theory Repositories
  imports Database
begin

text \<open>
  The repositories of a unit of work (\<open>adapters/persistence/repositories.py\<close>), one group of
  operations per class, and the contract they share. A row read back is validated again;
  for values that were validated when they were built this returns the same value, so the
  re-validation is written out only for action executions, whose \<open>model_copy\<close> updates are
  stored without validation.
\<close>

subsection \<open>The contract of a repository\<close>

locale repository =
  fixes get :: "'k \<Rightarrow> db \<Rightarrow> 'r option" and add :: "'r \<Rightarrow> db \<Rightarrow> db"
    and admissible :: "'r \<Rightarrow> db \<Rightarrow> bool" and key :: "'r \<Rightarrow> 'k"
  assumes admissible_fresh: "admissible r d \<Longrightarrow> get (key r) d = None"
    and get_add: "get (key r) d = None \<Longrightarrow> get k (add r d) = (if k = key r then Some r else get k d)"
begin

lemma add_lookup: "admissible r d \<Longrightarrow> get (key r) (add r d) = Some r"
  by (simp add: get_add admissible_fresh)

lemma add_keeps: "admissible r d \<Longrightarrow> get k d = Some x \<Longrightarrow> get k (add r d) = Some x"
  using admissible_fresh get_add by force

end

text \<open>A repository whose rows can be updated in place; \<open>merge\<close> is the updated row.\<close>

locale updatable_repository = repository +
  fixes replace :: "'r \<Rightarrow> db \<Rightarrow> db" and merge :: "'r \<Rightarrow> 'r \<Rightarrow> 'r"
  assumes get_replace: "get (key r) d = Some x \<Longrightarrow> get k (replace r d) = (if k = key r then Some (merge r x) else get k d)"
begin

lemma replace_replace:
  assumes "get (key r) d = Some x" and "key r' = key r"
  shows "get (key r) (replace r' (replace r d)) = Some (merge r' (merge r x))"
  using get_replace [OF assms(1)] get_replace [of r' "replace r d" "merge r x"] assms(2) by simp

lemma replace_adds_nothing: "get (key r) d = Some x \<Longrightarrow> get k d = None \<Longrightarrow> get k (replace r d) = None"
  by (auto simp: get_replace)

end

subsection \<open>Alerts\<close>

definition alert_row :: "SecurityAlert \<Rightarrow> AlertRow" where
  "alert_row a = \<lparr>row_alert_id = alert_id a, row_detected_at = detected_at a,
     row_payload_digest = payload_digest (original_payload a), row_alert = a\<rparr>"

definition find_alert :: "string \<Rightarrow> db \<Rightarrow> AlertRow option" where
  "find_alert i d = row_get row_alert_id i (alerts d)"

definition alerts_add :: "SecurityAlert \<Rightarrow> unit io" where
  "alerts_add a = stage (alert_admissible (alert_row a)) (insert_alert (alert_row a))"

definition alerts_get :: "'e env_scheme \<Rightarrow> string \<Rightarrow> SecurityAlert option io" where
  "alerts_get env i = query env (\<lambda>d. map_option row_alert (find_alert i d))"

text \<open>Newest detection first, ties by identifier.\<close>

definition alerts_list_recent :: "'e env_scheme \<Rightarrow> nat \<Rightarrow> SecurityAlert list io" where
  "alerts_list_recent env limit = query env (\<lambda>d.
     map row_alert (take limit (sort_key (\<lambda>r. - row_detected_at r) (sort_key row_alert_id (alerts d)))))"

interpretation alert_repo: repository find_alert insert_alert alert_admissible row_alert_id
  by unfold_locales (simp_all add: find_alert_def insert_alert_def alert_admissible_def row_get_fresh row_get_snoc)

subsection \<open>Triage executions\<close>

definition find_execution :: "string \<Rightarrow> db \<Rightarrow> TriageExecutionRecord option" where
  "find_execution i d = row_get ex_execution_id i (triage_executions d)"

definition find_execution_by_key :: "string \<Rightarrow> db \<Rightarrow> TriageExecutionRecord option" where
  "find_execution_by_key k d = row_get idempotency_key k (triage_executions d)"

definition executions_add :: "TriageExecutionRecord \<Rightarrow> unit io" where
  "executions_add e = stage (execution_admissible e) (insert_execution e)"

definition executions_get :: "'e env_scheme \<Rightarrow> string \<Rightarrow> TriageExecutionRecord option io" where
  "executions_get env i = query env (find_execution i)"

text \<open>The row found by key is read back through its primary key.\<close>

definition executions_get_by_idempotency_key :: "'e env_scheme \<Rightarrow> string \<Rightarrow> TriageExecutionRecord option io" where
  "executions_get_by_idempotency_key env k = bindE (query env (find_execution_by_key k)) (\<lambda>row.
     case row of None \<Rightarrow> ret None | Some r \<Rightarrow> executions_get env (ex_execution_id r))"

definition executions_replace :: "'e env_scheme \<Rightarrow> TriageExecutionRecord \<Rightarrow> unit io" where
  "executions_replace env e = bindE (query env (find_execution (ex_execution_id e))) (\<lambda>row.
     case row of None \<Rightarrow> raise ValueError
     | Some _ \<Rightarrow> stage (\<lambda>_. True) (replace_execution e))"

definition executions_list_for_alert :: "'e env_scheme \<Rightarrow> string \<Rightarrow> TriageExecutionRecord list io" where
  "executions_list_for_alert env i = query env (\<lambda>d.
     sort_key (\<lambda>r. - created_at r) (sort_key ex_execution_id
       (filter (\<lambda>r. ex_alert_id r = i) (triage_executions d))))"

definition running_before :: "time \<Rightarrow> db \<Rightarrow> TriageExecutionRecord list" where
  "running_before cutoff d = sort_key updated_at (sort_key ex_execution_id
     (filter (\<lambda>r. ex_state r = TRunning \<and> updated_at r < cutoff) (triage_executions d)))"

definition executions_list_running_before :: "'e env_scheme \<Rightarrow> time \<Rightarrow> TriageExecutionRecord list io" where
  "executions_list_running_before env cutoff = query env (running_before cutoff)"

interpretation execution_repo: updatable_repository find_execution insert_execution execution_admissible
    ex_execution_id replace_execution update_execution
proof unfold_locales
  show "execution_admissible r d \<Longrightarrow> find_execution (ex_execution_id r) d = None" for r d
    by (simp add: find_execution_def execution_admissible_def row_get_fresh)
  show "find_execution (ex_execution_id r) d = None \<Longrightarrow>
      find_execution k (insert_execution r d) = (if k = ex_execution_id r then Some r else find_execution k d)" for r d k
    by (simp add: find_execution_def insert_execution_def row_get_snoc)
  show "find_execution (ex_execution_id r) d = Some x \<Longrightarrow> find_execution k (replace_execution r d) =
      (if k = ex_execution_id r then Some (update_execution r x) else find_execution k d)" for r d x k
    unfolding find_execution_def replace_execution_def
    by (simp add: row_get_map_update update_execution_def) (auto simp: option.map_ident)
qed

interpretation key_repo: repository find_execution_by_key insert_execution execution_admissible idempotency_key
  by unfold_locales (simp_all add: find_execution_by_key_def insert_execution_def execution_admissible_def row_get_fresh row_get_snoc)

subsection \<open>Tool invocations\<close>

definition invocations_add :: "ToolInvocationRecord \<Rightarrow> pydict option \<Rightarrow> unit io" where
  "invocations_add r res =
     stage (invocation_admissible \<lparr>row_invocation = r, row_tool_result = res\<rparr>)
       (insert_invocation \<lparr>row_invocation = r, row_tool_result = res\<rparr>)"

definition invocations_for :: "string \<Rightarrow> db \<Rightarrow> ToolInvocationRecord list" where
  "invocations_for i d = sort_key started_at (sort_key ir_call_id
     (filter (\<lambda>r. ir_execution_id r = i) (map row_invocation (tool_invocations d))))"

definition invocations_list_for_execution :: "'e env_scheme \<Rightarrow> string \<Rightarrow> ToolInvocationRecord list io" where
  "invocations_list_for_execution env i = query env (invocations_for i)"

subsection \<open>Triage results\<close>

definition result_row :: "string \<Rightarrow> string \<Rightarrow> TriageResult \<Rightarrow> TriageResultRow" where
  "result_row rid eid r = \<lparr>row_result_id = rid, row_result_execution = eid,
     row_result_alert = res_alert_id r, row_result = r\<rparr>"

definition find_result :: "string \<Rightarrow> db \<Rightarrow> TriageResultRow option" where
  "find_result eid d = row_get row_result_execution eid (triage_results d)"

definition results_add :: "string \<Rightarrow> string \<Rightarrow> TriageResult \<Rightarrow> unit io" where
  "results_add rid eid r = stage (result_admissible (result_row rid eid r)) (insert_result (result_row rid eid r))"

definition results_get_for_execution :: "'e env_scheme \<Rightarrow> string \<Rightarrow> TriageResult option io" where
  "results_get_for_execution env eid = query env (\<lambda>d. map_option row_result (find_result eid d))"

interpretation result_repo: repository find_result insert_result result_admissible row_result_execution
  by unfold_locales (simp_all add: find_result_def insert_result_def result_admissible_def row_get_fresh row_get_snoc)

subsection \<open>Recommended actions\<close>

definition action_row :: "(string \<Rightarrow> string) \<Rightarrow> string \<Rightarrow> ActionProposal \<Rightarrow> string \<Rightarrow> RecommendedActionRow" where
  "action_row sha eid a version = \<lparr>row_action_id = action_id a, row_action_execution = eid,
     row_action_digest = digest sha a, row_policy_version = version, row_action = a\<rparr>"

definition find_action :: "string \<Rightarrow> db \<Rightarrow> RecommendedActionRow option" where
  "find_action i d = row_get row_action_id i (recommended_actions_table d)"

definition actions_add :: "'e env_scheme \<Rightarrow> string \<Rightarrow> ActionProposal \<Rightarrow> string \<Rightarrow> unit io" where
  "actions_add env eid a version =
     stage (action_admissible (action_row (sha256 env) eid a version)) (insert_action (action_row (sha256 env) eid a version))"

definition actions_get :: "'e env_scheme \<Rightarrow> string \<Rightarrow> ActionProposal option io" where
  "actions_get env i = query env (\<lambda>d. map_option row_action (find_action i d))"

definition persisted_of :: "RecommendedActionRow \<Rightarrow> PersistedAction" where
  "persisted_of r = \<lparr>pa_execution_id = row_action_execution r, pa_policy_version = row_policy_version r,
     pa_action = row_action r\<rparr>"

definition actions_get_persisted :: "'e env_scheme \<Rightarrow> string \<Rightarrow> PersistedAction option io" where
  "actions_get_persisted env i = query env (\<lambda>d. map_option persisted_of (find_action i d))"

interpretation action_repo: repository find_action insert_action action_admissible row_action_id
  by unfold_locales (simp_all add: find_action_def insert_action_def action_admissible_def row_get_fresh row_get_snoc)

subsection \<open>Approvals\<close>

definition find_approval :: "string \<Rightarrow> db \<Rightarrow> ApprovalRecord option" where
  "find_approval i d = row_get ap_action_id i (approval_decisions d)"

definition approvals_add :: "ApprovalRecord \<Rightarrow> unit io" where
  "approvals_add a = stage (approval_admissible a) (insert_approval a)"

definition approvals_get :: "'e env_scheme \<Rightarrow> string \<Rightarrow> ApprovalRecord option io" where
  "approvals_get env i = query env (\<lambda>d. row_get approval_id i (approval_decisions d))"

definition approvals_get_for_action :: "'e env_scheme \<Rightarrow> string \<Rightarrow> ApprovalRecord option io" where
  "approvals_get_for_action env i = query env (find_approval i)"

interpretation approval_repo: repository find_approval insert_approval approval_admissible ap_action_id
  by unfold_locales (simp_all add: find_approval_def insert_approval_def approval_admissible_def row_get_fresh row_get_snoc)

subsection \<open>Action executions\<close>

definition find_action_execution :: "string \<Rightarrow> db \<Rightarrow> ActionExecutionRecord option" where
  "find_action_execution i d = row_get ax_action_id i (action_executions d)"

definition find_action_execution_by_id :: "string \<Rightarrow> db \<Rightarrow> ActionExecutionRecord option" where
  "find_action_execution_by_id i d = row_get action_execution_id i (action_executions d)"

definition action_executions_add :: "ActionExecutionRecord \<Rightarrow> unit io" where
  "action_executions_add x = stage (action_execution_admissible x) (insert_action_execution x)"

definition action_executions_get :: "'e env_scheme \<Rightarrow> string \<Rightarrow> ActionExecutionRecord option io" where
  "action_executions_get env i = bindE (query env (find_action_execution_by_id i)) (\<lambda>row.
     case row of None \<Rightarrow> ret None
     | Some r \<Rightarrow> (case validate_action_execution r of None \<Rightarrow> raise ValidationError | Some x \<Rightarrow> ret (Some x)))"

definition action_executions_get_for_action :: "'e env_scheme \<Rightarrow> string \<Rightarrow> ActionExecutionRecord option io" where
  "action_executions_get_for_action env i = bindE (query env (find_action_execution i)) (\<lambda>row.
     case row of None \<Rightarrow> ret None | Some r \<Rightarrow> action_executions_get env (action_execution_id r))"

definition action_executions_replace :: "'e env_scheme \<Rightarrow> ActionExecutionRecord \<Rightarrow> unit io" where
  "action_executions_replace env x = bindE (query env (find_action_execution_by_id (action_execution_id x))) (\<lambda>row.
     case row of None \<Rightarrow> raise ValueError
     | Some _ \<Rightarrow> stage (\<lambda>_. True) (replace_action_execution x))"

definition executing_before :: "time \<Rightarrow> db \<Rightarrow> ActionExecutionRecord list" where
  "executing_before cutoff d = sort_key ax_started_at (sort_key action_execution_id
     (filter (\<lambda>r. ax_state r = AExecuting \<and> ax_started_at r < cutoff) (action_executions d)))"

text \<open>Reading a list back fails if one of its rows fails to validate.\<close>

definition action_executions_list_executing_before :: "'e env_scheme \<Rightarrow> time \<Rightarrow> ActionExecutionRecord list io" where
  "action_executions_list_executing_before env cutoff = bindE (query env (executing_before cutoff)) (\<lambda>rows.
     case all_valid validate_action_execution rows of None \<Rightarrow> raise ValidationError | Some xs \<Rightarrow> ret xs)"

interpretation action_execution_repo: updatable_repository find_action_execution_by_id insert_action_execution
    action_execution_admissible action_execution_id replace_action_execution update_action_execution
proof unfold_locales
  show "action_execution_admissible r d \<Longrightarrow> find_action_execution_by_id (action_execution_id r) d = None" for r d
    by (simp add: find_action_execution_by_id_def action_execution_admissible_def row_get_fresh)
  show "find_action_execution_by_id (action_execution_id r) d = None \<Longrightarrow>
      find_action_execution_by_id k (insert_action_execution r d) =
        (if k = action_execution_id r then Some r else find_action_execution_by_id k d)" for r d k
    by (simp add: find_action_execution_by_id_def insert_action_execution_def row_get_snoc)
  show "find_action_execution_by_id (action_execution_id r) d = Some x \<Longrightarrow>
      find_action_execution_by_id k (replace_action_execution r d) =
        (if k = action_execution_id r then Some (update_action_execution r x) else find_action_execution_by_id k d)" for r d x k
    unfolding find_action_execution_by_id_def replace_action_execution_def
    by (simp add: row_get_map_update update_action_execution_def) (auto simp: option.map_ident)
qed

interpretation action_claim_repo: repository find_action_execution insert_action_execution
    action_execution_admissible ax_action_id
  by unfold_locales (simp_all add: find_action_execution_def insert_action_execution_def action_execution_admissible_def row_get_fresh row_get_snoc)

subsection \<open>Audit events\<close>

definition audit_append :: "AuditEvent \<Rightarrow> unit io" where
  "audit_append e = stage (event_admissible e) (insert_event e)"

definition events_for :: "string \<Rightarrow> string \<Rightarrow> db \<Rightarrow> AuditEvent list" where
  "events_for tt tid d = sort_key ev_occurred_at (sort_key event_id
     (filter (\<lambda>e. ev_target_type e = tt \<and> ev_target_id e = tid) (audit_events d)))"

definition audit_list_for_target :: "'e env_scheme \<Rightarrow> string \<Rightarrow> string \<Rightarrow> AuditEvent list io" where
  "audit_list_for_target env tt tid = query env (events_for tt tid)"

subsection \<open>Evaluations\<close>

definition find_run :: "string \<Rightarrow> db \<Rightarrow> EvaluationRunRecord option" where
  "find_run i d = row_get run_id i (evaluation_runs d)"

definition evaluations_add_run :: "EvaluationRunRecord \<Rightarrow> unit io" where
  "evaluations_add_run r = stage (run_admissible r) (insert_run r)"

definition evaluations_add_case :: "EvaluationCaseRecord \<Rightarrow> unit io" where
  "evaluations_add_case c = stage (case_admissible c) (insert_case c)"

definition evaluations_get_run :: "'e env_scheme \<Rightarrow> string \<Rightarrow> EvaluationRunRecord option io" where
  "evaluations_get_run env i = query env (find_run i)"

text \<open>The cases of a run, by scenario.\<close>

definition cases_of :: "string \<Rightarrow> db \<Rightarrow> EvaluationCaseRecord list" where
  "cases_of i d = sort_key case_scenario_id (filter (\<lambda>c. case_run_id c = i) (evaluation_case_results d))"

definition evaluations_list_cases :: "'e env_scheme \<Rightarrow> string \<Rightarrow> EvaluationCaseRecord list io" where
  "evaluations_list_cases env i = query env (cases_of i)"

interpretation run_repo: repository find_run insert_run run_admissible run_id
  by unfold_locales (simp_all add: find_run_def insert_run_def run_admissible_def row_get_fresh row_get_snoc)

definition find_case :: "string \<times> string \<Rightarrow> db \<Rightarrow> EvaluationCaseRecord option" where
  "find_case k d = row_get case_key k (evaluation_case_results d)"

interpretation case_repo: repository find_case insert_case case_admissible case_key
  by unfold_locales (simp_all add: find_case_def insert_case_def case_admissible_def row_get_fresh row_get_snoc)

end
