(* ===== verification/Transactions.thy ===== *)
theory Transactions
  imports Repositories
begin

text \<open>
  Reasoning about units of work: the precondition equations of the database operations, the
  composition rules for properties of the database that every operation keeps, the schema
  invariant, and the append-only audit trail.
\<close>

named_theorems keeps "operations keep a database property, rule by rule"

subsection \<open>Precondition equations\<close>

lemma wp_now [wp_simps]:
  "wp (now env) Q E w = Q (clock_now env (now_calls w)) (w\<lparr>now_calls := Suc (now_calls w)\<rparr>)"
  by (simp add: wp_def now_def)

lemma wp_monotonic_ms [wp_simps]:
  "wp (monotonic_ms env) Q E w = Q (clock_monotonic_ms env (monotonic_calls w)) (w\<lparr>monotonic_calls := Suc (monotonic_calls w)\<rparr>)"
  by (simp add: wp_def monotonic_ms_def)

lemma wp_next_id [wp_simps]:
  "wp (next_id env p) Q E w = Q (fresh_id env p (id_counts w p)) (w\<lparr>id_counts := (id_counts w)(p := Suc (id_counts w p))\<rparr>)"
  by (simp add: wp_def next_id_def)

lemma wp_db_call [wp_simps]:
  "wp (db_call env) Q E w = Q (db_fault env (db_calls w)) (w\<lparr>db_calls := Suc (db_calls w)\<rparr>)"
  by (simp add: wp_def db_call_def)

lemma wp_query [wp_simps]:
  "wp (query env f) Q E w = (case db_fault env (db_calls w) of
     Some name \<Rightarrow> E (DatabaseError name) (w\<lparr>db_calls := Suc (db_calls w)\<rparr>)
   | None \<Rightarrow> Q (f (session w)) (w\<lparr>db_calls := Suc (db_calls w)\<rparr>))"
  by (simp add: query_def wp_simps split: option.splits)

lemma wp_stage [wp_simps]:
  "wp (stage check write) Q E w =
     Q () (w\<lparr>session := write (session w), broken := (broken w \<or> \<not> check (session w))\<rparr>)"
  by (simp add: stage_def wp_simps)

lemma wp_rollback [wp_simps]: "wp rollback Q E w = Q () (w\<lparr>session := store w, broken := False\<rparr>)"
  by (simp add: rollback_def wp_simps)

lemma wp_commit [wp_simps]:
  "wp (commit env) Q E w =
     (let w' = w\<lparr>db_calls := Suc (db_calls w)\<rparr>
      in case db_fault env (db_calls w) of
           Some name \<Rightarrow> E (PersistenceError name) (w'\<lparr>session := store w, broken := False\<rparr>)
         | None \<Rightarrow> if broken w then E (PersistenceError (integrity_error env)) (w'\<lparr>session := store w, broken := False\<rparr>)
                   else Q () (w'\<lparr>store := session w\<rparr>))"
  by (simp add: commit_def write_fault_def wp_simps Let_def split: option.splits)

lemma wp_flush [wp_simps]:
  "wp (flush env) Q E w =
     (let w' = w\<lparr>db_calls := Suc (db_calls w)\<rparr>
      in case db_fault env (db_calls w) of
           Some name \<Rightarrow> E (PersistenceError name) (w'\<lparr>session := store w, broken := False\<rparr>)
         | None \<Rightarrow> if broken w then E (PersistenceError (integrity_error env)) (w'\<lparr>session := store w, broken := False\<rparr>)
                   else Q () w')"
  by (simp add: flush_def write_fault_def wp_simps Let_def split: option.splits)

text \<open>Entering, leaving and abandoning a unit of work.\<close>

abbreviation fresh_session :: "world \<Rightarrow> world" where
  "fresh_session w \<equiv> w\<lparr>session := store w, broken := False\<rparr>"

lemma wp_with_uow [wp_simps]:
  "wp (with_uow body) Q E w =
     wp body (\<lambda>x w'. Q x (fresh_session w')) (\<lambda>e w'. E e (fresh_session w')) (fresh_session w)"
  by (simp add: with_uow_def wp_def bindE_def catch_def rollback_def modify_def ret_def raise_def split: prod.splits sum.splits)

subsection \<open>Properties that operations keep\<close>

text \<open>
  A property of the database holds of the committed state and, unless a pending write is
  refused anyway, of the open session.
\<close>

definition sound_world :: "(db \<Rightarrow> bool) \<Rightarrow> world \<Rightarrow> bool" where
  "sound_world P w \<longleftrightarrow> P (store w) \<and> (broken w \<or> P (session w))"

definition keeps_db :: "(db \<Rightarrow> bool) \<Rightarrow> (world, 'x, 'a) op \<Rightarrow> bool" where
  "keeps_db P m \<longleftrightarrow> (\<forall>w. sound_world P w \<longrightarrow> wp m (\<lambda>_. sound_world P) (\<lambda>_. sound_world P) w)"

lemma keeps_dbI: "(\<And>w. sound_world P w \<Longrightarrow> wp m (\<lambda>_. sound_world P) (\<lambda>_. sound_world P) w) \<Longrightarrow> keeps_db P m"
  by (simp add: keeps_db_def)

lemma keeps_dbD: "keeps_db P m \<Longrightarrow> sound_world P w \<Longrightarrow> wp m (\<lambda>_. sound_world P) (\<lambda>_. sound_world P) w"
  by (simp add: keeps_db_def)

lemma keeps_ret [keeps]: "keeps_db P (ret x)"
  by (simp add: keeps_db_def wp_simps)

lemma keeps_raise [keeps]: "keeps_db P (raise e)"
  by (simp add: keeps_db_def wp_simps)

lemma keeps_bindE [keeps]:
  assumes "keeps_db P m" and "\<And>x. keeps_db P (f x)"
  shows "keeps_db P (bindE m f)"
proof (rule keeps_dbI)
  fix w assume "sound_world P w"
  then have "wp m (\<lambda>_. sound_world P) (\<lambda>_. sound_world P) w" by (rule keeps_dbD [OF assms(1)])
  then show "wp (bindE m f) (\<lambda>_. sound_world P) (\<lambda>_. sound_world P) w"
    unfolding wp_bindE by (rule wp_mono) (auto intro: keeps_dbD [OF assms(2)])
qed

lemma keeps_catch [keeps]:
  assumes "keeps_db P m" and "\<And>e. keeps_db P (h e)"
  shows "keeps_db P (catch m h)"
proof (rule keeps_dbI)
  fix w assume "sound_world P w"
  then have "wp m (\<lambda>_. sound_world P) (\<lambda>_. sound_world P) w" by (rule keeps_dbD [OF assms(1)])
  then show "wp (catch m h) (\<lambda>_. sound_world P) (\<lambda>_. sound_world P) w"
    unfolding wp_catch by (rule wp_mono) (auto intro: keeps_dbD [OF assms(2)])
qed

lemma keeps_tagged [keeps]: "keeps_db P m \<Longrightarrow> keeps_db P (tagged t m)"
  unfolding tagged_def by (intro keeps)

lemma keeps_if [keeps]: "keeps_db P m \<Longrightarrow> keeps_db P n \<Longrightarrow> keeps_db P (if b then m else n)"
  by simp

lemma keeps_option [keeps]:
  "keeps_db P m \<Longrightarrow> (\<And>x. keeps_db P (f x)) \<Longrightarrow> keeps_db P (case v of None \<Rightarrow> m | Some x \<Rightarrow> f x)"
  by (cases v) simp_all

lemma keeps_sum [keeps]:
  "(\<And>x. keeps_db P (f x)) \<Longrightarrow> (\<And>x. keeps_db P (g x)) \<Longrightarrow> keeps_db P (case v of Inl x \<Rightarrow> f x | Inr x \<Rightarrow> g x)"
  by (cases v) simp_all

lemma keeps_prod [keeps]: "(\<And>x y. keeps_db P (f x y)) \<Longrightarrow> keeps_db P (case v of (x, y) \<Rightarrow> f x y)"
  by (cases v) simp

lemma keeps_for_each [keeps]: "(\<And>x. keeps_db P (f x)) \<Longrightarrow> keeps_db P (for_each xs f)"
  by (induction xs) (auto intro!: keeps)

lemma keeps_gets [keeps]: "keeps_db P (gets f)"
  by (simp add: keeps_db_def wp_simps)

text \<open>Operations that leave the three database components alone.\<close>

lemma keeps_modify: "(\<And>w. store (f w) = store w \<and> session (f w) = session w \<and> broken (f w) = broken w) \<Longrightarrow> keeps_db P (modify f)"
  by (simp add: keeps_db_def wp_simps sound_world_def)

lemma keeps_services [keeps]:
  "keeps_db P (now env)" "keeps_db P (monotonic_ms env)" "keeps_db P (next_id env p)" "keeps_db P (query env f)"
  by (auto simp: keeps_db_def wp_simps sound_world_def split: option.splits)

lemma keeps_stage: "(\<And>d. P d \<Longrightarrow> check d \<Longrightarrow> P (write d)) \<Longrightarrow> keeps_db P (stage check write)"
  by (auto simp: keeps_db_def wp_simps sound_world_def)

lemma keeps_uow_ops [keeps]: "keeps_db P (flush env)" "keeps_db P (commit env)" "keeps_db P rollback"
  by (auto simp: keeps_db_def wp_simps sound_world_def Let_def split: option.splits)

lemma keeps_with_uow [keeps]: "keeps_db P body \<Longrightarrow> keeps_db P (with_uow body)"
  unfolding with_uow_def by (intro keeps)

text \<open>What a kept property says of a run.\<close>

lemma keeps_dbE:
  assumes "keeps_db P m" and "P (store w)" and "broken w \<or> P (session w)"
  shows "P (store (snd (m w)))"
proof -
  have "sound_world P w" using assms(2,3) by (simp add: sound_world_def)
  from keeps_dbD [OF assms(1) this] have "sound_world P (snd (m w))" by (simp add: wp_both)
  then show ?thesis by (simp add: sound_world_def)
qed

subsection \<open>The schema invariant\<close>

definition valid_alerts :: "db \<Rightarrow> bool" where
  "valid_alerts d \<longleftrightarrow> distinct (map row_alert_id (alerts d)) \<and> distinct (map row_payload_digest (alerts d))"

definition valid_executions :: "db \<Rightarrow> bool" where
  "valid_executions d \<longleftrightarrow> distinct (map ex_execution_id (triage_executions d))
     \<and> distinct (map idempotency_key (triage_executions d))
     \<and> ex_alert_id ` set (triage_executions d) \<subseteq> row_alert_id ` set (alerts d)
     \<and> (\<forall>e \<in> set (triage_executions d). \<forall>p. predecessor_execution_id e = Some p
          \<longrightarrow> p \<in> ex_execution_id ` set (triage_executions d))"

definition valid_invocations :: "db \<Rightarrow> bool" where
  "valid_invocations d \<longleftrightarrow> distinct (map (\<lambda>r. ir_call_id (row_invocation r)) (tool_invocations d))
     \<and> (\<lambda>r. ir_execution_id (row_invocation r)) ` set (tool_invocations d) \<subseteq> ex_execution_id ` set (triage_executions d)"

definition valid_results :: "db \<Rightarrow> bool" where
  "valid_results d \<longleftrightarrow> distinct (map row_result_id (triage_results d))
     \<and> distinct (map row_result_execution (triage_results d))
     \<and> row_result_execution ` set (triage_results d) \<subseteq> ex_execution_id ` set (triage_executions d)
     \<and> row_result_alert ` set (triage_results d) \<subseteq> row_alert_id ` set (alerts d)"

definition valid_actions :: "db \<Rightarrow> bool" where
  "valid_actions d \<longleftrightarrow> distinct (map row_action_id (recommended_actions_table d))
     \<and> row_action_execution ` set (recommended_actions_table d) \<subseteq> ex_execution_id ` set (triage_executions d)"

definition valid_approvals :: "db \<Rightarrow> bool" where
  "valid_approvals d \<longleftrightarrow> distinct (map approval_id (approval_decisions d))
     \<and> distinct (map ap_action_id (approval_decisions d))
     \<and> ap_action_id ` set (approval_decisions d) \<subseteq> row_action_id ` set (recommended_actions_table d)
     \<and> list_all approval_check (approval_decisions d)"

definition valid_action_executions :: "db \<Rightarrow> bool" where
  "valid_action_executions d \<longleftrightarrow> distinct (map action_execution_id (action_executions d))
     \<and> distinct (map ax_action_id (action_executions d))
     \<and> ax_action_id ` set (action_executions d) \<subseteq> row_action_id ` set (recommended_actions_table d)"

definition valid_audit :: "db \<Rightarrow> bool" where
  "valid_audit d \<longleftrightarrow> distinct (map event_id (audit_events d))"

definition valid_evaluations :: "db \<Rightarrow> bool" where
  "valid_evaluations d \<longleftrightarrow> distinct (map run_id (evaluation_runs d))
     \<and> distinct (map case_id (evaluation_case_results d)) \<and> distinct (map case_key (evaluation_case_results d))
     \<and> case_run_id ` set (evaluation_case_results d) \<subseteq> run_id ` set (evaluation_runs d)
     \<and> case_execution_id ` set (evaluation_case_results d) \<subseteq> ex_execution_id ` set (triage_executions d)"

definition valid_db :: "db \<Rightarrow> bool" where
  "valid_db d \<longleftrightarrow> valid_alerts d \<and> valid_executions d \<and> valid_invocations d \<and> valid_results d
     \<and> valid_actions d \<and> valid_approvals d \<and> valid_action_executions d \<and> valid_audit d
     \<and> valid_evaluations d"

lemmas valid_defs = valid_alerts_def valid_executions_def valid_invocations_def valid_results_def
  valid_actions_def valid_approvals_def valid_action_executions_def valid_audit_def
  valid_evaluations_def

lemma valid_empty: "valid_db empty_db"
  by (simp add: valid_db_def valid_defs empty_db_def)

lemma valid_insert_alert: "valid_db d \<Longrightarrow> alert_admissible r d \<Longrightarrow> valid_db (insert_alert r d)"
  by (auto simp: valid_db_def valid_defs insert_alert_def alert_admissible_def)

lemma valid_insert_execution:
  assumes "valid_db d" and "execution_admissible r d"
  shows "valid_db (insert_execution r d)"
proof -
  have "valid_executions (insert_execution r d)"
    using assms by (auto simp: valid_db_def valid_executions_def insert_execution_def execution_admissible_def split: option.splits)
  moreover have "valid_invocations (insert_execution r d)" "valid_results (insert_execution r d)"
    "valid_actions (insert_execution r d)" "valid_evaluations (insert_execution r d)"
    using assms
    by (auto simp: valid_db_def valid_invocations_def valid_results_def valid_actions_def valid_evaluations_def insert_execution_def)
  ultimately show ?thesis
    using assms by (simp add: valid_db_def valid_alerts_def valid_approvals_def valid_action_executions_def valid_audit_def insert_execution_def)
qed

lemma valid_insert_invocation: "valid_db d \<Longrightarrow> invocation_admissible r d \<Longrightarrow> valid_db (insert_invocation r d)"
  by (auto simp: valid_db_def valid_defs insert_invocation_def invocation_admissible_def)

lemma valid_insert_result: "valid_db d \<Longrightarrow> result_admissible r d \<Longrightarrow> valid_db (insert_result r d)"
  by (auto simp: valid_db_def valid_defs insert_result_def result_admissible_def)

lemma valid_insert_action: "valid_db d \<Longrightarrow> action_admissible r d \<Longrightarrow> valid_db (insert_action r d)"
  by (auto simp: valid_db_def valid_defs insert_action_def action_admissible_def)

lemma valid_insert_approval: "valid_db d \<Longrightarrow> approval_admissible r d \<Longrightarrow> valid_db (insert_approval r d)"
  by (auto simp: valid_db_def valid_defs insert_approval_def approval_admissible_def)

lemma valid_insert_action_execution:
  "valid_db d \<Longrightarrow> action_execution_admissible r d \<Longrightarrow> valid_db (insert_action_execution r d)"
  by (auto simp: valid_db_def valid_defs insert_action_execution_def action_execution_admissible_def)

lemma valid_insert_event: "valid_db d \<Longrightarrow> event_admissible r d \<Longrightarrow> valid_db (insert_event r d)"
  by (auto simp: valid_db_def valid_defs insert_event_def event_admissible_def)

lemma valid_insert_run: "valid_db d \<Longrightarrow> run_admissible r d \<Longrightarrow> valid_db (insert_run r d)"
  by (auto simp: valid_db_def valid_defs insert_run_def run_admissible_def)

lemma valid_insert_case: "valid_db d \<Longrightarrow> case_admissible r d \<Longrightarrow> valid_db (insert_case r d)"
  by (auto simp: valid_db_def valid_defs insert_case_def case_admissible_def)

lemma replace_execution_keys:
  "map ex_execution_id (triage_executions (replace_execution r d)) = map ex_execution_id (triage_executions d)"
  "map idempotency_key (triage_executions (replace_execution r d)) = map idempotency_key (triage_executions d)"
  "map ex_alert_id (triage_executions (replace_execution r d)) = map ex_alert_id (triage_executions d)"
  "map predecessor_execution_id (triage_executions (replace_execution r d)) = map predecessor_execution_id (triage_executions d)"
  by (auto simp: replace_execution_def update_execution_def)

lemma image_eqI2: "map f xs = map f ys \<Longrightarrow> f ` set xs = f ` set ys"
  by (metis set_map)

lemma valid_replace_execution:
  assumes "valid_db d"
  shows "valid_db (replace_execution r d)"
proof -
  note k = replace_execution_keys [of r d]
  note im = k [THEN image_eqI2]
  have frame: "alerts (replace_execution r d) = alerts d" "tool_invocations (replace_execution r d) = tool_invocations d"
    "triage_results (replace_execution r d) = triage_results d"
    "recommended_actions_table (replace_execution r d) = recommended_actions_table d"
    "approval_decisions (replace_execution r d) = approval_decisions d"
    "action_executions (replace_execution r d) = action_executions d" "audit_events (replace_execution r d) = audit_events d"
    "evaluation_runs (replace_execution r d) = evaluation_runs d"
    "evaluation_case_results (replace_execution r d) = evaluation_case_results d"
    by (simp_all add: replace_execution_def)
  have pred: "(\<forall>e \<in> set es. \<forall>p. predecessor_execution_id e = Some p \<longrightarrow> p \<in> S)
      \<longleftrightarrow> (\<forall>p. Some p \<in> predecessor_execution_id ` set es \<longrightarrow> p \<in> S)" for es S
    by force
  show ?thesis
    using assms unfolding valid_db_def valid_defs frame k im pred .
qed

lemma replace_action_execution_keys:
  "map action_execution_id (action_executions (replace_action_execution r d)) = map action_execution_id (action_executions d)"
  "map ax_action_id (action_executions (replace_action_execution r d)) = map ax_action_id (action_executions d)"
  "map ax_started_at (action_executions (replace_action_execution r d)) = map ax_started_at (action_executions d)"
  by (auto simp: replace_action_execution_def update_action_execution_def)

lemma valid_replace_action_execution:
  assumes "valid_db d"
  shows "valid_db (replace_action_execution r d)"
proof -
  note k = replace_action_execution_keys [of r d]
  note im = k [THEN image_eqI2]
  have frame: "alerts (replace_action_execution r d) = alerts d" "tool_invocations (replace_action_execution r d) = tool_invocations d"
    "triage_results (replace_action_execution r d) = triage_results d"
    "recommended_actions_table (replace_action_execution r d) = recommended_actions_table d"
    "approval_decisions (replace_action_execution r d) = approval_decisions d"
    "triage_executions (replace_action_execution r d) = triage_executions d" "audit_events (replace_action_execution r d) = audit_events d"
    "evaluation_runs (replace_action_execution r d) = evaluation_runs d"
    "evaluation_case_results (replace_action_execution r d) = evaluation_case_results d"
    by (simp_all add: replace_action_execution_def)
  show ?thesis using assms unfolding valid_db_def valid_defs frame k im .
qed

text \<open>Every repository operation keeps the schema invariant.\<close>

lemma keeps_valid [keeps]:
  "keeps_db valid_db (alerts_add a)" "keeps_db valid_db (executions_add e)" "keeps_db valid_db (invocations_add r res)"
  "keeps_db valid_db (results_add rid eid tr)" "keeps_db valid_db (actions_add env eid p v)"
  "keeps_db valid_db (approvals_add ap)" "keeps_db valid_db (action_executions_add x)" "keeps_db valid_db (audit_append ev)"
  "keeps_db valid_db (evaluations_add_run er)" "keeps_db valid_db (evaluations_add_case c)"
  unfolding alerts_add_def executions_add_def invocations_add_def results_add_def actions_add_def approvals_add_def
    action_executions_add_def audit_append_def evaluations_add_run_def evaluations_add_case_def
  by (rule keeps_stage, erule (1) valid_insert_alert valid_insert_execution valid_insert_invocation valid_insert_result
    valid_insert_action valid_insert_approval valid_insert_action_execution valid_insert_event valid_insert_run
    valid_insert_case)+

lemma keeps_valid_replace [keeps]:
  "keeps_db valid_db (executions_replace env e)" "keeps_db valid_db (action_executions_replace env x)"
  unfolding executions_replace_def action_executions_replace_def
  by (intro keeps keeps_stage valid_replace_execution valid_replace_action_execution; assumption)+

lemma keeps_reads [keeps]:
  "keeps_db P (alerts_get env i)" "keeps_db P (executions_get env i)" "keeps_db P (executions_get_by_idempotency_key env k)"
  "keeps_db P (executions_list_running_before env c)" "keeps_db P (results_get_for_execution env i)"
  "keeps_db P (actions_get_persisted env i)" "keeps_db P (approvals_get_for_action env i)"
  "keeps_db P (action_executions_get_for_action env i)" "keeps_db P (action_executions_list_executing_before env c)"
  "keeps_db P (invocations_list_for_execution env i)"
  unfolding alerts_get_def executions_get_def executions_get_by_idempotency_key_def executions_list_running_before_def
    results_get_for_execution_def actions_get_persisted_def approvals_get_for_action_def action_executions_get_for_action_def
    action_executions_get_def action_executions_list_executing_before_def invocations_list_for_execution_def
  by (intro keeps)+

subsection \<open>The audit trail only grows\<close>

definition audit_extends :: "AuditEvent list \<Rightarrow> db \<Rightarrow> bool" where
  "audit_extends old d \<longleftrightarrow> (\<exists>new. audit_events d = old @ new)"

lemma keeps_audit [keeps]:
  "keeps_db (audit_extends old) (alerts_add a)" "keeps_db (audit_extends old) (executions_add e)"
  "keeps_db (audit_extends old) (invocations_add r res)" "keeps_db (audit_extends old) (results_add rid eid tr)"
  "keeps_db (audit_extends old) (actions_add env eid p v)" "keeps_db (audit_extends old) (approvals_add ap)"
  "keeps_db (audit_extends old) (action_executions_add x)" "keeps_db (audit_extends old) (audit_append ev)"
  "keeps_db (audit_extends old) (evaluations_add_run er)" "keeps_db (audit_extends old) (evaluations_add_case c)"
  unfolding alerts_add_def executions_add_def invocations_add_def results_add_def actions_add_def approvals_add_def
    action_executions_add_def audit_append_def evaluations_add_run_def evaluations_add_case_def
  by (rule keeps_stage, auto simp: audit_extends_def insert_alert_def insert_execution_def insert_invocation_def
    insert_result_def insert_action_def insert_approval_def insert_action_execution_def insert_event_def
    insert_run_def insert_case_def)+

lemma keeps_audit_replace [keeps]:
  "keeps_db (audit_extends old) (executions_replace env e)" "keeps_db (audit_extends old) (action_executions_replace env x)"
  unfolding executions_replace_def action_executions_replace_def
  by (intro keeps keeps_stage; simp add: audit_extends_def replace_execution_def replace_action_execution_def)+

end
