(* ===== verification/Recovery.thy ===== *)
theory Recovery
  imports Transactions
begin

text \<open>
  Alert ingestion (\<open>application/alert_service.py\<close>) and recovery of stale work
  (\<open>application/recovery_service.py\<close>), with the event construction that all services share.
\<close>

text \<open>\<open>AuditEvent(...)\<close>: an event that fails validation raises.\<close>

definition mk_event :: "'e env_scheme \<Rightarrow> AuditEvent \<Rightarrow> AuditEvent io" where
  "mk_event env e = (case validate_event (event_size env) e of None \<Rightarrow> raise ValidationError | Some v \<Rightarrow> ret v)"

text \<open>A lifecycle transition inside a service: an illegal one raises.\<close>

definition checked :: "transition_error + 'a \<Rightarrow> 'a io" where
  "checked r = (case r of Inl e \<Rightarrow> raise (TransitionError e) | Inr x \<Rightarrow> ret x)"

definition required :: "'a option \<Rightarrow> 'a io" where
  "required v = (case v of None \<Rightarrow> raise ValidationError | Some x \<Rightarrow> ret x)"

lemma wp_mk_event [wp_simps]:
  "wp (mk_event env e) Q E w =
     (case validate_event (event_size env) e of None \<Rightarrow> E ValidationError w | Some v \<Rightarrow> Q v w)"
  by (simp add: mk_event_def wp_simps split: option.splits)

lemma wp_required [wp_simps]: "wp (required v) Q E w = (case v of None \<Rightarrow> E ValidationError w | Some x \<Rightarrow> Q x w)"
  by (simp add: required_def wp_simps split: option.splits)

lemma wp_checked [wp_simps]: "wp (checked r) Q E w = (case r of Inl e \<Rightarrow> E (TransitionError e) w | Inr x \<Rightarrow> Q x w)"
  by (simp add: checked_def wp_simps split: sum.splits)

lemma keeps_checks [keeps]: "keeps_db P (mk_event env e)" "keeps_db P (checked r)" "keeps_db P (required v)"
  unfolding mk_event_def checked_def required_def by (intro keeps)+

subsection \<open>Ingestion\<close>

record IngestionResult =
  ingested_alert :: SecurityAlert
  created :: bool

definition ingest :: "'e env_scheme \<Rightarrow> SecurityAlert \<Rightarrow> string \<Rightarrow> string \<Rightarrow> IngestionResult io" where
  "ingest env alert correlation_id actor_id = with_uow (
     bindE (alerts_get env (alert_id alert)) (\<lambda>existing.
     case existing of
       Some e \<Rightarrow> if e \<noteq> alert then raise AlertConflictError else ret \<lparr>ingested_alert = e, created = False\<rparr>
     | None \<Rightarrow>
         bindE (alerts_add alert) (\<lambda>_.
         bindE (next_id env ''audit'') (\<lambda>eid.
         bindE (now env) (\<lambda>t.
         bindE (mk_event env
           \<lparr>event_id = eid, event_type = ''alert.ingested'', ev_occurred_at = t,
            ev_target_type = ''security_alert'', ev_target_id = alert_id alert,
            ev_data = [(''source'', PStr (source alert)),
                       (''source_severity'', PStr (severity_value (source_severity alert)))],
            schema_version = ''1.0'', ev_execution_id = None, ev_correlation_id = Some correlation_id,
            ev_actor_id = Some actor_id, ev_outcome = Some AuditSuccess, ev_failure_category = None\<rparr>) (\<lambda>ev.
         bindE (audit_append ev) (\<lambda>_.
         bindE (commit env) (\<lambda>_.
         ret \<lparr>ingested_alert = alert, created = True\<rparr>))))))))"

subsection \<open>Recovery\<close>

definition STALE_EXECUTION :: string where
  "STALE_EXECUTION = ''STALE_EXECUTION''"

definition STALE_SIMULATED_ACTION :: string where
  "STALE_SIMULATED_ACTION = ''STALE_SIMULATED_ACTION''"

definition fail_stale_execution ::
  "'e env_scheme \<Rightarrow> time \<Rightarrow> string \<Rightarrow> string \<Rightarrow> TriageExecutionRecord \<Rightarrow> unit io" where
  "fail_stale_execution env t operator_id correlation_id execution =
     bindE (executions_replace env (execution\<lparr>ex_state := TFailed, updated_at := t,
       ex_failure_category := Some STALE_EXECUTION\<rparr>)) (\<lambda>_.
     bindE (next_id env ''audit'') (\<lambda>eid.
     bindE (mk_event env
       \<lparr>event_id = eid, event_type = ''triage.stale_execution_recovered'', ev_occurred_at = t,
        ev_target_type = ''triage_execution'', ev_target_id = ex_execution_id execution,
        ev_data = [(''failure_category'', PStr STALE_EXECUTION)], schema_version = ''1.0'',
        ev_execution_id = Some (ex_execution_id execution), ev_correlation_id = Some correlation_id,
        ev_actor_id = Some operator_id, ev_outcome = Some AuditFailed,
        ev_failure_category = Some STALE_EXECUTION\<rparr>) (\<lambda>ev.
     audit_append ev)))"

definition recover_stale_executions ::
  "'e env_scheme \<Rightarrow> int \<Rightarrow> string \<Rightarrow> string \<Rightarrow> nat io" where
  "recover_stale_executions env execution_threshold operator_id correlation_id =
     bindE (now env) (\<lambda>t.
     with_uow (
       bindE (executions_list_running_before env (t - execution_threshold)) (\<lambda>stale.
       bindE (for_each stale (fail_stale_execution env t operator_id correlation_id)) (\<lambda>_.
       bindE (commit env) (\<lambda>_.
       ret (length stale))))))"

definition fail_stale_action ::
  "'e env_scheme \<Rightarrow> time \<Rightarrow> string \<Rightarrow> string \<Rightarrow> ActionExecutionRecord \<Rightarrow> unit io" where
  "fail_stale_action env t operator_id correlation_id execution =
     bindE (checked (action_transition_to \<lparr>al_action_id = ax_action_id execution, al_state = AExecuting\<rparr> AFailed)) (\<lambda>failed.
     bindE (action_executions_replace env (execution\<lparr>ax_state := al_state failed, ax_completed_at := Some t,
       ax_outcome := Some ''SIMULATED_RECOVERY_FAILURE'', ax_failure_category := Some STALE_SIMULATED_ACTION\<rparr>)) (\<lambda>_.
     bindE (next_id env ''audit'') (\<lambda>eid.
     bindE (mk_event env
       \<lparr>event_id = eid, event_type = ''action.stale_simulation_recovered'', ev_occurred_at = t,
        ev_target_type = ''recommended_action'', ev_target_id = ax_action_id execution,
        ev_data = [(''action_execution_id'', PStr (action_execution_id execution)),
                   (''failure_category'', PStr STALE_SIMULATED_ACTION), (''mode'', PStr ''SIMULATED'')],
        schema_version = ''1.0'', ev_execution_id = None, ev_correlation_id = Some correlation_id,
        ev_actor_id = Some operator_id, ev_outcome = Some AuditFailed,
        ev_failure_category = Some STALE_SIMULATED_ACTION\<rparr>) (\<lambda>ev.
     audit_append ev))))"

definition recover_stale_actions ::
  "'e env_scheme \<Rightarrow> int \<Rightarrow> string \<Rightarrow> string \<Rightarrow> nat io" where
  "recover_stale_actions env action_threshold operator_id correlation_id =
     bindE (now env) (\<lambda>t.
     with_uow (
       bindE (action_executions_list_executing_before env (t - action_threshold)) (\<lambda>stale.
       bindE (for_each stale (fail_stale_action env t operator_id correlation_id)) (\<lambda>_.
       bindE (commit env) (\<lambda>_.
       ret (length stale))))))"

record RecoveryReport =
  stale_executions_failed :: nat
  stale_actions_failed :: nat

definition recover_all :: "'e env_scheme \<Rightarrow> int \<Rightarrow> int \<Rightarrow> string \<Rightarrow> string \<Rightarrow> RecoveryReport io" where
  "recover_all env execution_threshold action_threshold operator_id correlation_id =
     bindE (recover_stale_executions env execution_threshold operator_id correlation_id) (\<lambda>e.
     bindE (recover_stale_actions env action_threshold operator_id correlation_id) (\<lambda>a.
     ret \<lparr>stale_executions_failed = e, stale_actions_failed = a\<rparr>))"

lemma keeps_valid_ingest [keeps]: "keeps_db valid_db (ingest env alert cid actor)"
  unfolding ingest_def by (intro keeps)

lemma keeps_valid_recovery [keeps]:
  "keeps_db valid_db (recover_stale_executions env thr op cid)" "keeps_db valid_db (recover_stale_actions env thr op cid)"
  unfolding recover_stale_executions_def recover_stale_actions_def fail_stale_execution_def fail_stale_action_def
  by (intro keeps)+

lemma keeps_audit_recovery [keeps]:
  "keeps_db (audit_extends old) (ingest env alert cid actor)"
  "keeps_db (audit_extends old) (recover_stale_executions env thr op cid)"
  "keeps_db (audit_extends old) (recover_stale_actions env thr op cid)"
  unfolding recover_stale_executions_def recover_stale_actions_def fail_stale_execution_def fail_stale_action_def ingest_def
  by (intro keeps)+

end
