(* ===== verification/Approval_Workflow.thy ===== *)
theory Approval_Workflow
  imports Recovery
begin

text \<open>
  Human approval and simulated execution (\<open>application/approval_service.py\<close>), the reviewer
  authorization (\<open>application/ports/auth.py\<close>) and the simulated executor
  (\<open>adapters/actions/simulated.py\<close>).
\<close>

subsection \<open>Principals and authorization\<close>

datatype PrincipalRole = ANALYST | VIEWER | REVIEWER

record Principal =
  principal_id :: string
  role :: PrincipalRole
  development_only :: bool

type_synonym AuthorizationService = "string set"

definition default_reviewers :: AuthorizationService where
  "default_reviewers = {''development-reviewer''}"

definition may_view :: "Principal \<Rightarrow> bool" where
  "may_view p \<longleftrightarrow> role p \<in> {ANALYST, VIEWER, REVIEWER}"

definition may_ingest_or_triage :: "Principal \<Rightarrow> bool" where
  "may_ingest_or_triage p \<longleftrightarrow> role p \<in> {ANALYST, REVIEWER}"

definition may_review :: "AuthorizationService \<Rightarrow> Principal \<Rightarrow> bool" where
  "may_review svc p \<longleftrightarrow> role p = REVIEWER \<and> principal_id p \<in> svc"

definition is_authorized_reviewer_id :: "AuthorizationService \<Rightarrow> string \<Rightarrow> bool" where
  "is_authorized_reviewer_id svc i \<longleftrightarrow> i \<in> svc"

subsection \<open>Executors\<close>

record ActionExecutionResult =
  aer_mode :: string
  aer_outcome :: string
  aer_details :: pydict

text \<open>An executor answers its \<open>n\<close>-th call with an exception or a result.\<close>

record ActionExecutor =
  executor_mode :: string
  executor_execute :: "nat \<Rightarrow> ActionProposal \<Rightarrow> exn + ActionExecutionResult"

definition SimulatedActionExecutor :: ActionExecutor where
  "SimulatedActionExecutor =
     \<lparr>executor_mode = ''SIMULATED'',
      executor_execute = (\<lambda>_ action. Inr
        \<lparr>aer_mode = ''SIMULATED'', aer_outcome = ''SIMULATED_SUCCESS'',
         aer_details = [(''action_id'', PStr (action_id action)),
           (''catalog_action_id'', PStr (catalog_action_id action)),
           (''message'', PStr ''Simulation completed; no real remediation was attempted.'')]\<rparr>)\<rparr>"

record approval_service =
  svc_catalog :: ActionCatalog
  svc_executor :: ActionExecutor
  svc_authorization :: AuthorizationService
  approval_lifetime :: int

definition call_executor :: "ActionExecutor \<Rightarrow> ActionProposal \<Rightarrow> (exn + ActionExecutionResult) io" where
  "call_executor ex action = (\<lambda>w. (Inr (executor_execute ex (length (executed w)) action),
     w\<lparr>executed := executed w @ [action]\<rparr>))"

lemma wp_call_executor [wp_simps]:
  "wp (call_executor ex a) Q E w =
     Q (executor_execute ex (length (executed w)) a) (w\<lparr>executed := executed w @ [a]\<rparr>)"
  by (simp add: wp_def call_executor_def)

lemma keeps_call_executor [keeps]: "keeps_db P (call_executor ex a)"
  by (simp add: keeps_db_def wp_simps sound_world_def)

subsection \<open>Decisions\<close>

definition workflow_audit ::
  "'e env_scheme \<Rightarrow> string \<Rightarrow> string \<Rightarrow> string \<Rightarrow> (string \<times> string) list \<Rightarrow> AuditOutcome \<Rightarrow> AuditEvent io" where
  "workflow_audit env etype aid actor_id payload outcome =
     bindE (next_id env ''audit'') (\<lambda>eid.
     bindE (now env) (\<lambda>t.
     mk_event env
       \<lparr>event_id = eid, event_type = etype, ev_occurred_at = t, ev_target_type = ''recommended_action'',
        ev_target_id = aid, ev_data = map (\<lambda>(k, v). (k, PStr v)) payload, schema_version = ''1.0'',
        ev_execution_id = None, ev_correlation_id = None, ev_actor_id = Some actor_id,
        ev_outcome = Some outcome, ev_failure_category = None\<rparr>))"

text \<open>A new approval lifecycle, validated like every model.\<close>

definition new_approval_lifecycle :: "string \<Rightarrow> string \<Rightarrow> string \<Rightarrow> ApprovalLifecycle option" where
  "new_approval_lifecycle pid aid dig =
     (case (Identifier pid, Identifier aid, Sha256Digest dig) of
        (Some p, Some a, Some d) \<Rightarrow>
          Some \<lparr>pl_approval_id = p, pl_action_id = a, pl_action_digest = d, pl_state = PPending\<rparr>
      | _ \<Rightarrow> None)"

definition record_decision ::
  "'e env_scheme \<Rightarrow> approval_service \<Rightarrow> PersistedAction \<Rightarrow> string \<Rightarrow> string \<Rightarrow> string \<Rightarrow> ApprovalDecision
     \<Rightarrow> time \<Rightarrow> ApprovalRecord io" where
  "record_decision env svc persisted aid reviewer why dec t =
     bindE (next_id env ''approval-lifecycle'') (\<lambda>lid.
     bindE (required (new_approval_lifecycle lid aid (digest (sha256 env) (pa_action persisted)))) (\<lambda>lifecycle.
     bindE (checked (approval_transition_to lifecycle (if dec = Approve then PApproved else PRejected))) (\<lambda>_.
     bindE (next_id env ''approval'') (\<lambda>pid.
     bindE (required (validate_approval
       \<lparr>approval_id = pid, ap_action_id = aid, ap_action_digest = digest (sha256 env) (pa_action persisted),
        reviewer_id = reviewer, decision = dec, decided_at = t, reason = why,
        ap_policy_version = pa_policy_version persisted,
        expires_at = (if dec = Approve then Some (t + approval_lifetime svc) else None)\<rparr>)) (\<lambda>approval.
     bindE (approvals_add approval) (\<lambda>_.
     bindE (workflow_audit env (''action.'' @ decision_lower dec) aid reviewer
       [(''approval_id'', approval_id approval), (''action_digest'', ap_action_digest approval),
        (''policy_version'', ap_policy_version approval), (''decision'', decision_value (decision approval))]
       AuditSuccess) (\<lambda>ev.
     bindE (audit_append ev) (\<lambda>_.
     bindE (commit env) (\<lambda>_.
     ret approval)))))))))"

definition decide ::
  "'e env_scheme \<Rightarrow> approval_service \<Rightarrow> string \<Rightarrow> string \<Rightarrow> string \<Rightarrow> ApprovalDecision \<Rightarrow> ApprovalRecord io" where
  "decide env svc aid reviewer why dec =
     (if \<not> is_authorized_reviewer_id (svc_authorization svc) reviewer then raise (WorkflowError REVIEWER_INVALID)
      else
        bindE (now env) (\<lambda>t.
        with_uow (
          bindE (actions_get_persisted env aid) (\<lambda>found.
          case found of None \<Rightarrow> raise (WorkflowError ACTION_NOT_FOUND)
          | Some persisted \<Rightarrow>
              bindE (results_get_for_execution env (pa_execution_id persisted)) (\<lambda>result.
              case result of None \<Rightarrow> raise (WorkflowError APPROVAL_NOT_REQUIRED)
              | Some r \<Rightarrow>
                  if reference_from_proposal (sha256 env) (pa_action persisted) \<notin> set (actions_requiring_approval r)
                  then raise (WorkflowError APPROVAL_NOT_REQUIRED)
                  else
                    bindE (approvals_get_for_action env aid) (\<lambda>existing.
                    case existing of
                      Some e \<Rightarrow>
                        if decision e = dec \<and> reviewer_id e = reviewer \<and> reason e = why then ret e
                        else raise (WorkflowError DECISION_CONFLICT)
                    | None \<Rightarrow> record_decision env svc persisted aid reviewer why dec t))))))"

definition approve :: "'e env_scheme \<Rightarrow> approval_service \<Rightarrow> string \<Rightarrow> string \<Rightarrow> string \<Rightarrow> ApprovalRecord io" where
  "approve env svc aid reviewer why = decide env svc aid reviewer why Approve"

definition reject :: "'e env_scheme \<Rightarrow> approval_service \<Rightarrow> string \<Rightarrow> string \<Rightarrow> string \<Rightarrow> ApprovalRecord io" where
  "reject env svc aid reviewer why = decide env svc aid reviewer why Reject"

subsection \<open>Execution\<close>

text \<open>The gate in front of the executor: the code of the first failing condition.\<close>

definition denial_code ::
  "'e env_scheme \<Rightarrow> approval_service \<Rightarrow> PersistedAction \<Rightarrow> TriageResult option \<Rightarrow> ApprovalRecord option \<Rightarrow> time
     \<Rightarrow> WorkflowErrorCode option" where
  "denial_code env svc persisted result approval t =
     (case (catalog_lookup (svc_catalog svc) (catalog_action_id (pa_action persisted)), result) of
        (Some d, Some r) \<Rightarrow>
          if pa_action persisted \<notin> set (recommended_actions r) then Some STALE_APPROVAL
          else if reference_from_proposal (sha256 env) (pa_action persisted) \<notin> set (actions_requiring_approval r)
            then Some APPROVAL_NOT_REQUIRED
          else if execution_support d \<noteq> SIMULATED_ONLY \<or> executor_mode (svc_executor svc) \<noteq> ''SIMULATED''
            then Some EXECUTION_NOT_SUPPORTED
          else (case approval of
              None \<Rightarrow> Some APPROVAL_MISSING
            | Some a \<Rightarrow>
                if decision a = Reject then Some APPROVAL_REJECTED
                else if (case expires_at a of None \<Rightarrow> True | Some x \<Rightarrow> x \<le> t) then Some APPROVAL_EXPIRED
                else if ap_action_digest a \<noteq> digest (sha256 env) (pa_action persisted)
                    \<or> ap_policy_version a \<noteq> pa_policy_version persisted then Some STALE_APPROVAL
                else if \<not> is_authorized_reviewer_id (svc_authorization svc) (reviewer_id a) then Some REVIEWER_INVALID
                else None)
      | _ \<Rightarrow> Some STALE_APPROVAL)"

text \<open>The expired approval is walked through its lifecycle before the denial.\<close>

definition expire_approval :: "WorkflowErrorCode option \<Rightarrow> ApprovalRecord option \<Rightarrow> unit io" where
  "expire_approval code approval =
     (case (code, approval) of
        (Some APPROVAL_EXPIRED, Some a) \<Rightarrow>
          bindE (checked (approval_transition_to \<lparr>pl_approval_id = approval_id a, pl_action_id = ap_action_id a,
            pl_action_digest = ap_action_digest a, pl_state = PApproved\<rparr> PExpired)) (\<lambda>_. ret ())
      | _ \<Rightarrow> ret ())"

record ExecutionOutcome =
  outcome_record :: ActionExecutionRecord
  durable :: bool

text \<open>The denied branch: the denial is audited and committed before it is raised.\<close>

definition deny_execution ::
  "'e env_scheme \<Rightarrow> PersistedAction \<Rightarrow> string \<Rightarrow> string \<Rightarrow> WorkflowErrorCode
     \<Rightarrow> (ActionExecutionRecord + ActionExecutionRecord \<times> ActionProposal) io" where
  "deny_execution env persisted aid actor_id c =
     bindE (workflow_audit env ''action.execution_denied'' aid actor_id
       [(''reason_code'', workflow_code_value c), (''action_digest'', digest (sha256 env) (pa_action persisted))]
       AuditDenied) (\<lambda>ev.
     bindE (audit_append ev) (\<lambda>_.
     bindE (commit env) (\<lambda>_.
     raise (WorkflowError c))))"

text \<open>The granted branch: the record of the execution is committed before the executor runs.\<close>

definition claim_execution ::
  "'e env_scheme \<Rightarrow> PersistedAction \<Rightarrow> string \<Rightarrow> string \<Rightarrow> time
     \<Rightarrow> (ActionExecutionRecord + ActionExecutionRecord \<times> ActionProposal) io" where
  "claim_execution env persisted aid actor_id t =
     bindE (checked (action_transition_to \<lparr>al_action_id = aid, al_state = AApproved\<rparr> AExecuting)) (\<lambda>executing.
     bindE (next_id env ''action-execution'') (\<lambda>xid.
     bindE (required (validate_action_execution
       \<lparr>action_execution_id = xid, ax_action_id = aid, ax_state = al_state executing, ax_started_at = t,
        ax_completed_at = None, ax_outcome = None, ax_failure_category = None,
        ax_mode = ''SIMULATED'', ax_result = None\<rparr>)) (\<lambda>execution.
     bindE (action_executions_add execution) (\<lambda>_.
     bindE (workflow_audit env ''action.simulation_started'' aid actor_id
       [(''mode'', ''SIMULATED''), (''action_digest'', digest (sha256 env) (pa_action persisted))]
       AuditSuccess) (\<lambda>ev.
     bindE (audit_append ev) (\<lambda>_.
     bindE (commit env) (\<lambda>_.
     ret (Inr (execution, pa_action persisted)))))))))"

text \<open>
  The first unit of work of \<open>execute\<close>: an earlier success to return, or the record of the
  execution that has now been claimed, with its action.
\<close>

definition execute_begin ::
  "'e env_scheme \<Rightarrow> approval_service \<Rightarrow> string \<Rightarrow> string
     \<Rightarrow> (ActionExecutionRecord + ActionExecutionRecord \<times> ActionProposal) io" where
  "execute_begin env svc aid actor_id =
     (if \<not> is_authorized_reviewer_id (svc_authorization svc) actor_id then raise (WorkflowError REVIEWER_INVALID)
      else
        bindE (now env) (\<lambda>t.
        with_uow (
          bindE (actions_get_persisted env aid) (\<lambda>found.
          case found of None \<Rightarrow> raise (WorkflowError ACTION_NOT_FOUND)
          | Some persisted \<Rightarrow>
              bindE (results_get_for_execution env (pa_execution_id persisted)) (\<lambda>result.
              bindE (approvals_get_for_action env aid) (\<lambda>approval.
              bindE (action_executions_get_for_action env aid) (\<lambda>existing.
              if (case existing of None \<Rightarrow> False | Some x \<Rightarrow> ax_state x = ASucceeded) then ret (Inl (the existing))
              else
                let code = denial_code env svc persisted result approval t in
                bindE (expire_approval code approval) (\<lambda>_.
                case code of
                  Some c \<Rightarrow> deny_execution env persisted aid actor_id c
                | None \<Rightarrow> claim_execution env persisted aid actor_id t))))))))"

definition finish_failed :: "'e env_scheme \<Rightarrow> ActionExecutionRecord \<Rightarrow> string \<Rightarrow> unit io" where
  "finish_failed env execution actor_id =
     bindE (checked (action_transition_to \<lparr>al_action_id = ax_action_id execution, al_state = AExecuting\<rparr> AFailed)) (\<lambda>failed.
     bindE (now env) (\<lambda>t.
     with_uow (
       bindE (action_executions_replace env (execution\<lparr>ax_state := al_state failed, ax_completed_at := Some t,
         ax_outcome := Some ''SIMULATED_FAILURE'', ax_failure_category := Some ''SIMULATOR_FAILURE''\<rparr>)) (\<lambda>_.
       bindE (workflow_audit env ''action.simulation_failed'' (ax_action_id execution) actor_id
         [(''mode'', ''SIMULATED''), (''failure_code'', ''SIMULATOR_FAILURE'')] AuditFailed) (\<lambda>ev.
       bindE (audit_append ev) (\<lambda>_.
       commit env))))))"

definition finish_succeeded ::
  "'e env_scheme \<Rightarrow> ActionExecutionRecord \<Rightarrow> string \<Rightarrow> string \<Rightarrow> ActionExecutionResult \<Rightarrow> ExecutionOutcome io" where
  "finish_succeeded env execution aid actor_id simulated =
     bindE (checked (action_transition_to \<lparr>al_action_id = aid, al_state = AExecuting\<rparr> ASucceeded)) (\<lambda>succeeded.
     bindE (now env) (\<lambda>t.
     let completed = execution\<lparr>ax_state := al_state succeeded, ax_completed_at := Some t,
           ax_outcome := Some (aer_outcome simulated), ax_mode := aer_mode simulated,
           ax_result := Some (aer_details simulated)\<rparr> in
     bindE (catch (with_uow (
         bindE (action_executions_replace env completed) (\<lambda>_.
         bindE (workflow_audit env ''action.simulation_succeeded'' aid actor_id
           [(''mode'', aer_mode simulated), (''outcome'', aer_outcome simulated)] AuditSuccess) (\<lambda>ev.
         bindE (audit_append ev) (\<lambda>_.
         commit env)))))
       (\<lambda>_. raise (WorkflowError PERSISTENCE_FAILED))) (\<lambda>_.
     ret \<lparr>outcome_record = completed, durable = True\<rparr>)))"

text \<open>After the claim: the executor runs, and its answer is recorded.\<close>

definition execute_finish ::
  "'e env_scheme \<Rightarrow> approval_service \<Rightarrow> string \<Rightarrow> string \<Rightarrow> ActionExecutionRecord \<Rightarrow> ActionProposal \<Rightarrow> ExecutionOutcome io" where
  "execute_finish env svc aid actor_id execution action =
     bindE (call_executor (svc_executor svc) action) (\<lambda>answer.
     case answer of
       Inl _ \<Rightarrow> bindE (finish_failed env execution actor_id) (\<lambda>_. raise (WorkflowError EXECUTOR_FAILED))
     | Inr simulated \<Rightarrow> finish_succeeded env execution aid actor_id simulated)"

definition execute :: "'e env_scheme \<Rightarrow> approval_service \<Rightarrow> string \<Rightarrow> string \<Rightarrow> ExecutionOutcome io" where
  "execute env svc aid actor_id =
     bindE (execute_begin env svc aid actor_id) (\<lambda>r.
     case r of Inl done \<Rightarrow> ret \<lparr>outcome_record = done, durable = True\<rparr>
     | Inr (execution, action) \<Rightarrow> execute_finish env svc aid actor_id execution action)"

end
