(* ===== verification/Approval_Correct.thy ===== *)
theory Approval_Correct
  imports Approval_Workflow
begin

text \<open>
  Correctness of the approval workflow: what a claimed execution presupposes, that nothing
  else reaches the executor, that decisions are bound and final, and what a denial leaves.
\<close>

subsection \<open>Authorized executions\<close>

text \<open>The stored facts that justify one action execution.\<close>

definition authorized_execution :: "(string \<Rightarrow> string) \<Rightarrow> string set \<Rightarrow> db \<Rightarrow> ActionExecutionRecord \<Rightarrow> bool" where
  "authorized_execution sha reviewers d x \<longleftrightarrow>
     (\<exists>row ap res. find_action (ax_action_id x) d = Some row \<and> find_approval (ax_action_id x) d = Some ap
        \<and> find_result (row_action_execution row) d = Some res
        \<and> decision ap = Approve \<and> reviewer_id ap \<in> reviewers
        \<and> ap_action_digest ap = digest sha (row_action row) \<and> ap_policy_version ap = row_policy_version row
        \<and> (\<exists>e. expires_at ap = Some e \<and> ax_started_at x < e)
        \<and> row_action row \<in> set (recommended_actions (row_result res))
        \<and> reference_from_proposal sha (row_action row) \<in> set (actions_requiring_approval (row_result res)))"

definition all_authorized :: "(string \<Rightarrow> string) \<Rightarrow> string set \<Rightarrow> db \<Rightarrow> bool" where
  "all_authorized sha reviewers d \<longleftrightarrow> (\<forall>x \<in> set (action_executions d). authorized_execution sha reviewers d x)"

lemma authorized_mono:
  assumes "authorized_execution sha reviewers d x"
    and "\<And>i r. find_action i d = Some r \<Longrightarrow> find_action i d' = Some r"
    and "\<And>i r. find_approval i d = Some r \<Longrightarrow> find_approval i d' = Some r"
    and "\<And>i r. find_result i d = Some r \<Longrightarrow> find_result i d' = Some r"
    and "ax_action_id x' = ax_action_id x" "ax_started_at x' = ax_started_at x"
  shows "authorized_execution sha reviewers d' x'"
proof -
  from assms(1) obtain row ap res where
    f: "find_action (ax_action_id x) d = Some row" "find_approval (ax_action_id x) d = Some ap"
      "find_result (row_action_execution row) d = Some res" and
    r: "decision ap = Approve \<and> reviewer_id ap \<in> reviewers
        \<and> ap_action_digest ap = digest sha (row_action row) \<and> ap_policy_version ap = row_policy_version row
        \<and> (\<exists>e. expires_at ap = Some e \<and> ax_started_at x < e)
        \<and> row_action row \<in> set (recommended_actions (row_result res))
        \<and> reference_from_proposal sha (row_action row) \<in> set (actions_requiring_approval (row_result res))"
    unfolding authorized_execution_def by blast
  show ?thesis
    unfolding authorized_execution_def assms(5,6)
    using assms(2) [OF f(1)] assms(3) [OF f(2)] assms(4) [OF f(3)] r by blast
qed

lemma all_authorized_mono:
  assumes "all_authorized sha reviewers d" and "action_executions d' = action_executions d"
    and "\<And>i r. find_action i d = Some r \<Longrightarrow> find_action i d' = Some r"
    and "\<And>i r. find_approval i d = Some r \<Longrightarrow> find_approval i d' = Some r"
    and "\<And>i r. find_result i d = Some r \<Longrightarrow> find_result i d' = Some r"
  shows "all_authorized sha reviewers d'"
  using assms(1) unfolding all_authorized_def assms(2) by (blast intro: authorized_mono assms(3-5))

lemmas find_defs = find_alert_def find_execution_def find_execution_by_key_def find_result_def find_action_def
  find_approval_def find_action_execution_def find_action_execution_by_id_def

lemmas write_defs = insert_alert_def insert_execution_def insert_invocation_def insert_result_def insert_action_def
  insert_approval_def insert_action_execution_def insert_event_def replace_execution_def replace_action_execution_def

text \<open>No write of another table touches the facts, and inserts never hide a row.\<close>

lemma authorized_writes:
  assumes "all_authorized sha reviewers d"
  shows "all_authorized sha reviewers (insert_alert r1 d)" "all_authorized sha reviewers (insert_execution r2 d)"
    "all_authorized sha reviewers (insert_invocation r3 d)" "all_authorized sha reviewers (insert_event r4 d)"
    "all_authorized sha reviewers (replace_execution r5 d)"
    "result_admissible r6 d \<Longrightarrow> all_authorized sha reviewers (insert_result r6 d)"
    "action_admissible r7 d \<Longrightarrow> all_authorized sha reviewers (insert_action r7 d)"
    "approval_admissible r8 d \<Longrightarrow> all_authorized sha reviewers (insert_approval r8 d)"
    "all_authorized sha reviewers (replace_action_execution r9 d)"
proof -
  show "all_authorized sha reviewers (insert_alert r1 d)" "all_authorized sha reviewers (insert_execution r2 d)"
    "all_authorized sha reviewers (insert_invocation r3 d)" "all_authorized sha reviewers (insert_event r4 d)"
    "all_authorized sha reviewers (replace_execution r5 d)"
    by (rule all_authorized_mono [OF assms]; simp add: find_defs write_defs)+
  show "result_admissible r6 d \<Longrightarrow> all_authorized sha reviewers (insert_result r6 d)"
    by (rule all_authorized_mono [OF assms]) (simp_all add: result_repo.add_keeps, simp_all add: find_defs write_defs)
  show "action_admissible r7 d \<Longrightarrow> all_authorized sha reviewers (insert_action r7 d)"
    by (rule all_authorized_mono [OF assms]) (simp_all add: action_repo.add_keeps, simp_all add: find_defs write_defs)
  show "approval_admissible r8 d \<Longrightarrow> all_authorized sha reviewers (insert_approval r8 d)"
    by (rule all_authorized_mono [OF assms]) (simp_all add: approval_repo.add_keeps, simp_all add: find_defs write_defs)
  have upd: "ax_action_id (update_action_execution r9 x) = ax_action_id x"
    "ax_started_at (update_action_execution r9 x) = ax_started_at x" for x
    by (simp_all add: update_action_execution_def)
  show "all_authorized sha reviewers (replace_action_execution r9 d)"
    unfolding all_authorized_def
  proof
    fix y assume "y \<in> set (action_executions (replace_action_execution r9 d))"
    then obtain x where x: "x \<in> set (action_executions d)" "y = x \<or> y = update_action_execution r9 x"
      by (auto simp: replace_action_execution_def split: if_splits)
    have "authorized_execution sha reviewers d x" using assms x(1) by (simp add: all_authorized_def)
    then show "authorized_execution sha reviewers (replace_action_execution r9 d) y"
      by (rule authorized_mono) (use x(2) upd in \<open>auto simp: find_defs write_defs\<close>)
  qed
qed

lemma keeps_authorized [keeps]:
  "keeps_db (all_authorized sha rs) (alerts_add a)" "keeps_db (all_authorized sha rs) (executions_add e)"
  "keeps_db (all_authorized sha rs) (invocations_add r res)" "keeps_db (all_authorized sha rs) (results_add rid eid tr)"
  "keeps_db (all_authorized sha rs) (actions_add env eid p v)" "keeps_db (all_authorized sha rs) (approvals_add ap)"
  "keeps_db (all_authorized sha rs) (audit_append ev)" "keeps_db (all_authorized sha rs) (executions_replace env e)"
  "keeps_db (all_authorized sha rs) (action_executions_replace env x)"
  unfolding alerts_add_def executions_add_def invocations_add_def results_add_def actions_add_def approvals_add_def
    audit_append_def executions_replace_def action_executions_replace_def
  by (intro keeps keeps_stage authorized_writes; assumption)+

text \<open>Stored action identifiers are identifiers, so a lookup key found in the table is stable.\<close>

definition identified_actions :: "db \<Rightarrow> bool" where
  "identified_actions d \<longleftrightarrow> (\<forall>r \<in> set (recommended_actions_table d). Identifier (row_action_id r) = Some (row_action_id r))"

lemma find_action_id:
  "identified_actions d \<Longrightarrow> find_action i d = Some row \<Longrightarrow> Identifier i = Some i \<and> row_action_id row = i"
  unfolding find_action_def identified_actions_def by (auto dest: row_get_SomeD)

lemma denial_code_None:
  assumes "denial_code env svc persisted result approval t = None"
  shows "\<exists>r a e. result = Some r \<and> approval = Some a \<and> decision a = Approve \<and> expires_at a = Some e \<and> t < e
    \<and> pa_action persisted \<in> set (recommended_actions r)
    \<and> reference_from_proposal (sha256 env) (pa_action persisted) \<in> set (actions_requiring_approval r)
    \<and> ap_action_digest a = digest (sha256 env) (pa_action persisted) \<and> ap_policy_version a = pa_policy_version persisted
    \<and> reviewer_id a \<in> svc_authorization svc"
  using assms by (cases approval; cases result; cases "decision (the approval)")
    (auto simp: denial_code_def is_authorized_reviewer_id_def split: option.splits if_splits)

lemma wp_audit [wp_simps]:
  "wp (workflow_audit env t aid actor payload out) Q E w =
     (let w' = w\<lparr>id_counts := (id_counts w)(''audit'' := Suc (id_counts w ''audit'')), now_calls := Suc (now_calls w)\<rparr>
      in case validate_event (event_size env)
           \<lparr>event_id = fresh_id env ''audit'' (id_counts w ''audit''), event_type = t,
            ev_occurred_at = clock_now env (now_calls w), ev_target_type = ''recommended_action'', ev_target_id = aid,
            ev_data = map (\<lambda>(k, v). (k, PStr v)) payload, schema_version = ''1.0'', ev_execution_id = None,
            ev_correlation_id = None, ev_actor_id = Some actor, ev_outcome = Some out, ev_failure_category = None\<rparr> of
           None \<Rightarrow> E ValidationError w' | Some ev \<Rightarrow> Q ev w')"
  by (simp add: workflow_audit_def wp_simps Let_def)

lemma checked_steps [simp]:
  "checked (action_transition_to \<lparr>al_action_id = i, al_state = AApproved\<rparr> AExecuting) = ret \<lparr>al_action_id = i, al_state = AExecuting\<rparr>"
  "checked (action_transition_to \<lparr>al_action_id = i, al_state = AExecuting\<rparr> AFailed) = ret \<lparr>al_action_id = i, al_state = AFailed\<rparr>"
  "checked (action_transition_to \<lparr>al_action_id = i, al_state = AExecuting\<rparr> ASucceeded) = ret \<lparr>al_action_id = i, al_state = ASucceeded\<rparr>"
  by (simp_all add: checked_def action_transition_to_def)

lemma wp_expire_approval [wp_simps]: "wp (expire_approval code approval) Q E w = Q () w"
  by (auto simp: expire_approval_def checked_def approval_transition_to_def wp_simps
      split: option.splits WorkflowErrorCode.splits)


subsection \<open>Claiming an execution\<close>

lemma claim_authorized:
  assumes "identified_actions d" "find_action aid d = Some row"
    and "denial_code env svc (persisted_of row) (map_option row_result (find_result (row_action_execution row) d))
        (find_approval aid d) t = None"
    and "validate_action_execution \<lparr>action_execution_id = xid, ax_action_id = aid, ax_state = AExecuting, ax_started_at = t,
       ax_completed_at = None, ax_outcome = None, ax_failure_category = None, ax_mode = ''SIMULATED'', ax_result = None\<rparr> = Some x"
  shows "ax_action_id x = aid \<and> ax_state x = AExecuting \<and> ax_started_at x = t
    \<and> authorized_execution (sha256 env) (svc_authorization svc) d x"
proof -
  note i = find_action_id [OF assms(1,2)]
  have x: "ax_action_id x = aid" "ax_state x = AExecuting" "ax_started_at x = t"
    using validate_action_execution_SomeD [OF assms(4)] i by simp_all
  show ?thesis
    using denial_code_None [OF assms(3)] assms(2)
    unfolding x authorized_execution_def
    by (auto simp: persisted_of_def)
qed

lemma authorized_frame:
  "authorized_execution sha rs (insert_event ev (insert_action_execution y d)) x = authorized_execution sha rs d x"
  by (simp add: authorized_execution_def find_defs write_defs)

text \<open>What a claim that commits has written.\<close>

definition claimed :: "'e env_scheme \<Rightarrow> approval_service \<Rightarrow> string \<Rightarrow> time \<Rightarrow> db \<Rightarrow> db \<Rightarrow> ActionExecutionRecord \<Rightarrow> ActionProposal \<Rightarrow> bool" where
  "claimed env svc aid t d d' x a \<longleftrightarrow>
     (\<exists>ev. d' = insert_event ev (insert_action_execution x d)
        \<and> event_admissible ev d \<and> event_type ev = ''action.simulation_started'')
     \<and> action_execution_admissible x d
     \<and> ax_action_id x = aid \<and> ax_state x = AExecuting \<and> ax_started_at x = t
     \<and> map_option row_action (find_action aid d) = Some a
     \<and> authorized_execution (sha256 env) (svc_authorization svc) d' x"

lemmas identifier_eval = Identifier_def constrained_def strip_with_def is_space_def is_alnum_def is_ident_char_def Let_def

lemma workflow_event_types [simp]:
  "Identifier ''action.execution_denied'' = Some ''action.execution_denied''"
  "Identifier ''action.simulation_started'' = Some ''action.simulation_started''"
  "Identifier ''action.simulation_failed'' = Some ''action.simulation_failed''"
  "Identifier ''action.simulation_succeeded'' = Some ''action.simulation_succeeded''"
  "Identifier ''action.approved'' = Some ''action.approved''" "Identifier ''action.rejected'' = Some ''action.rejected''"
  by (simp_all add: identifier_eval)

lemma deny_execution_wp:
  assumes "store w = session w" and "Identifier aid = Some aid"
  shows "wp (deny_execution env persisted aid actor c) (\<lambda>_ _. False)
    (\<lambda>e w'. executed w' = executed w \<and> (store w' = store w \<and> e \<noteq> WorkflowError c \<or>
        e = WorkflowError c \<and> (\<exists>ev. store w' = insert_event ev (store w) \<and> event_type ev = ''action.execution_denied''
           \<and> ev_outcome ev = Some AuditDenied \<and> ev_target_id ev = aid))) w"
  using assms
  unfolding deny_execution_def audit_append_def
  by (auto simp: wp_simps Let_def split: option.split dest!: validate_event_SomeD)

lemma claim_execution_wp:
  assumes w: "store w = session w" "\<not> broken w"
    and ids: "identified_actions (store w)" "find_action aid (store w) = Some row"
    and granted: "denial_code env svc (persisted_of row)
        (map_option row_result (find_result (row_action_execution row) (store w))) (find_approval aid (store w)) t = None"
  shows "wp (claim_execution env (persisted_of row) aid actor t)
    (\<lambda>r w'. executed w' = executed w \<and> (\<exists>x a. r = Inr (x, a) \<and> claimed env svc aid t (store w) (store w') x a))
    (\<lambda>e w'. executed w' = executed w \<and> store w' = store w) w"
proof -
  have adm: "event_admissible ev (insert_action_execution x d) = event_admissible ev d" for ev x d
    by (simp add: event_admissible_def insert_action_execution_def)
  note ids' = ids [unfolded w(1)] granted [unfolded w(1)]
  show ?thesis
    using w unfolding claim_execution_def action_executions_add_def audit_append_def
    by (simp add: wp_simps Let_def split: option.split)
      (auto simp: claimed_def authorized_frame ids' persisted_of_def adm
        dest: claim_authorized [OF ids'] dest!: validate_event_SomeD)
qed

text \<open>The three ways the first unit of work of an execution ends.\<close>

definition begin_returns :: "'e env_scheme \<Rightarrow> approval_service \<Rightarrow> string \<Rightarrow> string \<Rightarrow> world
    \<Rightarrow> ActionExecutionRecord + ActionExecutionRecord \<times> ActionProposal \<Rightarrow> world \<Rightarrow> bool" where
  "begin_returns env svc aid actor w r w' \<longleftrightarrow> executed w' = executed w
     \<and> is_authorized_reviewer_id (svc_authorization svc) actor
     \<and> (case r of Inl x \<Rightarrow> store w' = store w \<and> ax_state x = ASucceeded
        | Inr (x, a) \<Rightarrow> find_action_execution aid (store w) = None
            \<and> claimed env svc aid (clock_now env (now_calls w)) (store w) (store w') x a)"

definition denial_event :: "string \<Rightarrow> AuditEvent \<Rightarrow> bool" where
  "denial_event aid ev \<longleftrightarrow> event_type ev = ''action.execution_denied'' \<and> ev_outcome ev = Some AuditDenied \<and> ev_target_id ev = aid"

definition begin_raises :: "string \<Rightarrow> world \<Rightarrow> exn \<Rightarrow> world \<Rightarrow> bool" where
  "begin_raises aid w e w' \<longleftrightarrow> executed w' = executed w \<and> (store w' = store w \<or>
     (\<exists>c ev. e = WorkflowError c \<and> store w' = insert_event ev (store w) \<and> denial_event aid ev))"

lemma execute_begin_wp:
  assumes ids: "identified_actions (store w)"
  shows "wp (execute_begin env svc aid actor) (begin_returns env svc aid actor w) (begin_raises aid w) w"
proof -
  let ?Q = "begin_returns env svc aid actor w" and ?E = "begin_raises aid w"
  have Q_Inl: "?Q (Inl x) w'" if "executed w' = executed w" "store w' = store w" "ax_state x = ASucceeded"
    "is_authorized_reviewer_id (svc_authorization svc) actor" for x w'
    using that by (simp add: begin_returns_def)
  have E_same: "?E e w'" if "executed w' = executed w" "store w' = store w" for e w'
    using that by (simp add: begin_raises_def denial_event_def)
  have deny: "wp (deny_execution env (persisted_of row) aid actor c) (\<lambda>x w'. ?Q x (fresh_session w')) (\<lambda>e w'. ?E e (fresh_session w')) v"
    if "store v = store w" "session v = store w" "executed v = executed w" "find_action aid (store w) = Some row" for v row c
    by (rule wp_mono [OF deny_execution_wp]) (use that find_action_id [OF ids that(4)] in \<open>auto simp: begin_raises_def denial_event_def\<close>)
  have claim: "wp (claim_execution env (persisted_of row) aid actor t) (\<lambda>x w'. ?Q x (fresh_session w')) (\<lambda>e w'. ?E e (fresh_session w')) v"
    if "store v = store w" "session v = store w" "\<not> broken v" "executed v = executed w" "find_action aid (store w) = Some row"
      "denial_code env svc (persisted_of row)
        (map_option row_result (find_result (row_action_execution row) (store w))) (find_approval aid (store w)) t = None"
      "is_authorized_reviewer_id (svc_authorization svc) actor" "t = clock_now env (now_calls w)" for v row t
  proof (rule wp_mono [OF claim_execution_wp [where row = row and svc = svc]])
    show "store v = session v" "\<not> broken v" "identified_actions (store v)" "find_action aid (store v) = Some row"
      "denial_code env svc (persisted_of row)
        (map_option row_result (find_result (row_action_execution row) (store v))) (find_approval aid (store v)) t = None"
      using that ids by simp_all
  next
    fix r :: "ActionExecutionRecord + ActionExecutionRecord \<times> ActionProposal" and w' :: world
    assume "executed w' = executed v \<and> (\<exists>x a. r = Inr (x, a) \<and> claimed env svc aid t (store v) (store w') x a)"
    then obtain x a where r: "r = Inr (x, a)" "claimed env svc aid t (store w) (store w') x a" "executed w' = executed w"
      unfolding \<open>store v = store w\<close> \<open>executed v = executed w\<close> by blast
    have "find_action_execution aid (store w) = None"
      using r(2) action_claim_repo.admissible_fresh [of x "store w"] by (simp add: claimed_def)
    then show "?Q r (fresh_session w')" using r \<open>is_authorized_reviewer_id (svc_authorization svc) actor\<close>
      \<open>t = clock_now env (now_calls w)\<close> by (simp add: begin_returns_def)
  next
    show "?E e (fresh_session w')" if "executed w' = executed v \<and> store w' = store v" for e w'
      using that \<open>store v = store w\<close> \<open>executed v = executed w\<close> by (simp add: begin_raises_def denial_event_def)
  qed
  have pid: "pa_execution_id (persisted_of row) = row_action_execution row" for row
    by (simp add: persisted_of_def)
  show ?thesis
    unfolding execute_begin_def actions_get_persisted_def results_get_for_execution_def approvals_get_for_action_def
      action_executions_get_for_action_def action_executions_get_def
    by (simp add: wp_simps Let_def split: option.split)
      (auto simp: pid intro!: deny claim Q_Inl E_same)
qed


subsection \<open>After the claim\<close>

lemma finish_failed_wp:
  "wp (finish_failed env x actor) (\<lambda>_ w'. executed w' = executed w) (\<lambda>_ w'. executed w' = executed w) w"
  by (simp add: finish_failed_def action_executions_replace_def audit_append_def wp_simps Let_def split: option.split)

lemma finish_succeeded_wp:
  "wp (finish_succeeded env x aid actor r) (\<lambda>_ w'. executed w' = executed w) (\<lambda>_ w'. executed w' = executed w) w"
  by (simp add: finish_succeeded_def action_executions_replace_def audit_append_def wp_simps Let_def split: option.split)

lemma execute_finish_wp:
  "wp (execute_finish env svc aid actor x a) (\<lambda>_ w'. executed w' = executed w @ [a]) (\<lambda>_ w'. executed w' = executed w @ [a]) w"
proof -
  let ?w = "w\<lparr>executed := executed w @ [a]\<rparr>"
  have ff: "wp (finish_failed env x actor) (\<lambda>_ w'. executed w' = executed w @ [a]) (\<lambda>_ w'. executed w' = executed w @ [a]) ?w"
    using finish_failed_wp [of env x actor ?w] by simp
  have fs: "wp (finish_succeeded env x aid actor r) (\<lambda>_ w'. executed w' = executed w @ [a]) (\<lambda>_ w'. executed w' = executed w @ [a]) ?w" for r
    using finish_succeeded_wp [of env x aid actor r ?w] by simp
  show ?thesis
    by (simp add: execute_finish_def wp_simps ff fs split: sum.split)
qed

lemma execute_cases:
  obtains (stopped) "executed (snd (execute env svc aid actor w)) = executed (snd (execute_begin env svc aid actor w))"
      "store (snd (execute env svc aid actor w)) = store (snd (execute_begin env svc aid actor w))"
    | (ran) x a where "fst (execute_begin env svc aid actor w) = Inr (Inr (x, a))"
      "execute env svc aid actor w = execute_finish env svc aid actor x a (snd (execute_begin env svc aid actor w))"
proof (cases "execute_begin env svc aid actor w")
  case (Pair r w1)
  show ?thesis
  proof (cases r)
    case (Inl e)
    then show ?thesis using Pair stopped by (simp add: execute_def bindE_def)
  next
    case (Inr y)
    show ?thesis
    proof (cases y)
      case (Inl x)
      then show ?thesis using Pair Inr stopped by (simp add: execute_def bindE_def ret_def)
    next
      case (Inr xa)
      then show ?thesis using Pair \<open>r = Inr y\<close> ran by (cases xa) (simp add: execute_def bindE_def)
    qed
  qed
qed

subsection \<open>Decisions\<close>

text \<open>What a new decision records.\<close>

definition recorded ::
  "'e env_scheme \<Rightarrow> approval_service \<Rightarrow> string \<Rightarrow> string \<Rightarrow> ApprovalDecision \<Rightarrow> db \<Rightarrow> db \<Rightarrow> ApprovalRecord \<Rightarrow> bool" where
  "recorded env svc aid reviewer dec d d' ap \<longleftrightarrow>
     (\<exists>ev row. d' = insert_event ev (insert_approval ap d) \<and> event_admissible ev d
        \<and> event_type ev = ''action.'' @ decision_lower dec
        \<and> find_action aid d = Some row \<and> Sha256Digest (digest (sha256 env) (row_action row)) = Some (ap_action_digest ap)
        \<and> Version (row_policy_version row) = Some (ap_policy_version ap))
     \<and> approval_admissible ap d \<and> ap_action_id ap = aid \<and> Identifier reviewer = Some (reviewer_id ap)
     \<and> decision ap = dec \<and> expires_at ap = (if dec = Approve then Some (decided_at ap + approval_lifetime svc) else None)"

lemma validate_approval_fields:
  "validate_approval a = Some r \<Longrightarrow> Identifier (ap_action_id a) = Some (ap_action_id r)
     \<and> Sha256Digest (ap_action_digest a) = Some (ap_action_digest r) \<and> Identifier (reviewer_id a) = Some (reviewer_id r)
     \<and> Version (ap_policy_version a) = Some (ap_policy_version r) \<and> NonEmptyText (reason a) = Some (reason r)
     \<and> decision r = decision a \<and> expires_at r = expires_at a \<and> decided_at r = decided_at a"
  by (auto simp: validate_approval_def Let_def split: option.splits if_splits)

lemma record_decision_wp:
  assumes w: "store w = session w" "\<not> broken w"
    and ids: "identified_actions (store w)" "find_action aid (store w) = Some row"
  shows "wp (record_decision env svc (persisted_of row) aid reviewer why dec t)
    (\<lambda>ap w'. executed w' = executed w \<and> recorded env svc aid reviewer dec (store w) (store w') ap)
    (\<lambda>e w'. executed w' = executed w \<and> store w' = store w) w"
proof -
  have adm: "event_admissible ev (insert_approval x d) = event_admissible ev d" for ev x d
    by (simp add: event_admissible_def insert_approval_def)
  note ids' = ids [unfolded w(1)]
  have etype: "Identifier (''action.'' @ decision_lower dec) = Some (''action.'' @ decision_lower dec)" for dec
    by (cases dec) simp_all
  show ?thesis
    using w find_action_id [OF ids]
    unfolding record_decision_def approvals_add_def audit_append_def
    apply (simp add: wp_simps Let_def etype split: option.split sum.split split del: if_split)
    apply (clarsimp simp: persisted_of_def dest!: validate_event_SomeD validate_approval_fields split del: if_split)
    subgoal for ap ev
      using etype [of "decision ap"] ids' by (auto simp: recorded_def adm)
    done
qed

definition decide_returns :: "'e env_scheme \<Rightarrow> approval_service \<Rightarrow> string \<Rightarrow> string \<Rightarrow> string \<Rightarrow> ApprovalDecision
    \<Rightarrow> world \<Rightarrow> ApprovalRecord \<Rightarrow> world \<Rightarrow> bool" where
  "decide_returns env svc aid reviewer why dec w ap w' \<longleftrightarrow> executed w' = executed w
     \<and> is_authorized_reviewer_id (svc_authorization svc) reviewer
     \<and> (store w' = store w \<and> find_approval aid (store w) = Some ap \<and> decision ap = dec \<and> reviewer_id ap = reviewer
          \<and> reason ap = why
        \<or> find_approval aid (store w) = None \<and> recorded env svc aid reviewer dec (store w) (store w') ap)"

definition unchanged :: "world \<Rightarrow> exn \<Rightarrow> world \<Rightarrow> bool" where
  "unchanged w e w' \<longleftrightarrow> executed w' = executed w \<and> store w' = store w"

lemma decide_wp:
  assumes ids: "identified_actions (store w)"
  shows "wp (decide env svc aid reviewer why dec) (decide_returns env svc aid reviewer why dec w) (unchanged w) w"
proof -
  have rec: "wp (record_decision env svc (persisted_of row) aid reviewer why dec t)
      (\<lambda>x w'. decide_returns env svc aid reviewer why dec w x (fresh_session w')) (\<lambda>e w'. unchanged w e (fresh_session w')) v"
    if "store v = store w" "session v = store w" "\<not> broken v" "executed v = executed w" "find_action aid (store w) = Some row"
      "find_approval aid (store w) = None" "is_authorized_reviewer_id (svc_authorization svc) reviewer" for v row t
    by (rule wp_mono [OF record_decision_wp [where row = row]])
      (use that ids in \<open>auto simp: decide_returns_def unchanged_def\<close>)
  have same: "decide_returns env svc aid (reviewer_id ap) (reason ap) (decision ap) w ap w'"
    if "executed w' = executed w" "store w' = store w" "find_approval aid (store w) = Some ap"
      "is_authorized_reviewer_id (svc_authorization svc) (reviewer_id ap)" for ap w'
    using that by (simp add: decide_returns_def)
  have un: "unchanged w e w'" if "executed w' = executed w" "store w' = store w" for e w'
    using that by (simp add: unchanged_def)
  show ?thesis
    unfolding decide_def actions_get_persisted_def results_get_for_execution_def approvals_get_for_action_def
    by (simp add: wp_simps Let_def split: option.split) (auto intro!: rec same un)
qed

end
