(* ===== verification/Approval_Properties.thy ===== *)
theory Approval_Properties
  imports Approval_Correct
begin

text \<open>
  Properties of the approval workflow: only authorized actions reach the executor, denials
  are audited, decisions are bound to the exact action and repeat safely, and an approved
  action does execute when its services answer.
\<close>

lemma authorizedE:
  assumes "authorized_execution sha rs d x"
  obtains row ap res e where "find_action (ax_action_id x) d = Some row" "find_approval (ax_action_id x) d = Some ap"
    "find_result (row_action_execution row) d = Some res" "decision ap = Approve" "reviewer_id ap \<in> rs"
    "ap_action_digest ap = digest sha (row_action row)" "ap_policy_version ap = row_policy_version row"
    "expires_at ap = Some e" "ax_started_at x < e" "row_action row \<in> set (recommended_actions (row_result res))"
    "reference_from_proposal sha (row_action row) \<in> set (actions_requiring_approval (row_result res))"
  using assms unfolding authorized_execution_def by blast

lemma claimed_frame:
  assumes "claimed env svc aid t d d' x a"
  shows "authorized_execution (sha256 env) (svc_authorization svc) d x"
    and "action_executions d' = action_executions d @ [x]" and "ax_action_id x = aid" and "ax_started_at x = t"
    and "ax_state x = AExecuting" and "map_option row_action (find_action aid d) = Some a"
proof -
  show "authorized_execution (sha256 env) (svc_authorization svc) d x"
    using assms by (auto simp: claimed_def authorized_frame)
  show "action_executions d' = action_executions d @ [x]" "ax_action_id x = aid" "ax_started_at x = t"
    "ax_state x = AExecuting" "map_option row_action (find_action aid d) = Some a"
    using assms by (auto simp: claimed_def insert_event_def insert_action_execution_def)
qed

lemma approval_added: "approval_admissible ap d \<Longrightarrow>
    find_approval (ap_action_id ap) (insert_event ev (insert_approval ap d)) = Some ap"
  using approval_repo.add_lookup [of ap d] by (simp add: find_approval_def insert_event_def)

text \<open>The stored facts under which an action may be handed to the executor at time \<open>t\<close>.\<close>

definition approved_action :: "'e env_scheme \<Rightarrow> approval_service \<Rightarrow> string \<Rightarrow> time \<Rightarrow> db \<Rightarrow> ActionProposal \<Rightarrow> bool" where
  "approved_action env svc aid t d a \<longleftrightarrow>
     (\<exists>row ap res e. find_action aid d = Some row \<and> find_approval aid d = Some ap
        \<and> find_result (row_action_execution row) d = Some res \<and> a = row_action row
        \<and> decision ap = Approve \<and> is_authorized_reviewer_id (svc_authorization svc) (reviewer_id ap)
        \<and> ap_action_digest ap = digest (sha256 env) (row_action row)
        \<and> ap_policy_version ap = row_policy_version row
        \<and> expires_at ap = Some e \<and> t < e
        \<and> row_action row \<in> set (recommended_actions (row_result res))
        \<and> reference_from_proposal (sha256 env) (row_action row) \<in> set (actions_requiring_approval (row_result res)))"

lemma execute_runs_approved:
  assumes "identified_actions (store w)"
  shows "executed (snd (execute env svc aid actor w)) = executed w
    \<or> (is_authorized_reviewer_id (svc_authorization svc) actor \<and> find_action_execution aid (store w) = None
       \<and> (\<exists>a. approved_action env svc aid (clock_now env (now_calls w)) (store w) a
              \<and> executed (snd (execute env svc aid actor w)) = executed w @ [a]))"
proof (cases rule: execute_cases [of env svc aid actor w])
  case stopped
  have "executed (snd (execute_begin env svc aid actor w)) = executed w"
    using execute_begin_wp [OF assms, of env svc aid actor]
    by (auto simp: wp_def begin_returns_def begin_raises_def split: prod.splits sum.splits)
  then show ?thesis using stopped by simp
next
  case (ran x a)
  have b: "begin_returns env svc aid actor w (Inr (x, a)) (snd (execute_begin env svc aid actor w))"
    by (rule wp_Inr [OF execute_begin_wp [OF assms]]) (use ran(1) in \<open>simp add: prod_eq_iff\<close>)
  then have c: "claimed env svc aid (clock_now env (now_calls w)) (store w) (store (snd (execute_begin env svc aid actor w))) x a"
    and none: "find_action_execution aid (store w) = None" and auth: "is_authorized_reviewer_id (svc_authorization svc) actor"
    and ex: "executed (snd (execute_begin env svc aid actor w)) = executed w"
    by (simp_all add: begin_returns_def)
  have run: "executed (snd (execute env svc aid actor w)) = executed w @ [a]"
    using wp_both [of "execute_finish env svc aid actor x a" "\<lambda>w'. executed w' = executed w @ [a]"]
      execute_finish_wp [of env svc aid actor x a "snd (execute_begin env svc aid actor w)"] ran(2) ex by simp
  note f = claimed_frame [OF c]
  obtain row ap res e where
    "find_action aid (store w) = Some row" "find_approval aid (store w) = Some ap"
    "find_result (row_action_execution row) (store w) = Some res" "decision ap = Approve"
    "reviewer_id ap \<in> svc_authorization svc"
    "ap_action_digest ap = digest (sha256 env) (row_action row)" "ap_policy_version ap = row_policy_version row"
    "expires_at ap = Some e" "clock_now env (now_calls w) < e" "row_action row \<in> set (recommended_actions (row_result res))"
    "reference_from_proposal (sha256 env) (row_action row) \<in> set (actions_requiring_approval (row_result res))"
    using authorizedE [OF f(1)] unfolding f(3,4) by blast
  then show ?thesis using none auth run f(6) by (auto simp: is_authorized_reviewer_id_def approved_action_def)
qed

text \<open>C1: a call of \<open>execute\<close> hands at most one action to the executor, and only when an authorized
  reviewer asks, no execution of the action was ever recorded, and the stored action carries an
  unexpired approval by an authorized reviewer that is bound to its digest and policy version and
  was required by the stored triage result that recommended it.\<close>

theorem executor_runs_only_authorized:
  assumes "identified_actions (store w)"
  shows "executed (snd (execute env svc aid actor w)) = executed w
    \<or> (is_authorized_reviewer_id (svc_authorization svc) actor \<and> find_action_execution aid (store w) = None
       \<and> (\<exists>row ap res e. find_action aid (store w) = Some row \<and> find_approval aid (store w) = Some ap
           \<and> find_result (row_action_execution row) (store w) = Some res
           \<and> executed (snd (execute env svc aid actor w)) = executed w @ [row_action row]
           \<and> decision ap = Approve \<and> is_authorized_reviewer_id (svc_authorization svc) (reviewer_id ap)
           \<and> ap_action_digest ap = digest (sha256 env) (row_action row)
           \<and> ap_policy_version ap = row_policy_version row
           \<and> expires_at ap = Some e \<and> clock_now env (now_calls w) < e
           \<and> row_action row \<in> set (recommended_actions (row_result res))
           \<and> reference_from_proposal (sha256 env) (row_action row) \<in> set (actions_requiring_approval (row_result res))))"
  using execute_runs_approved [OF assms, of env svc aid actor] unfolding approved_action_def by blast

text \<open>C20: when the gate stops an execution, the executor is not called and the database either is
  untouched or gains exactly one event, the denial of this action.\<close>

theorem execution_stopped_leaves_denial:
  assumes "identified_actions (store w)" and "fst (execute_begin env svc aid actor w) = Inl e"
  shows "fst (execute env svc aid actor w) = Inl e \<and> executed (snd (execute env svc aid actor w)) = executed w
    \<and> (store (snd (execute env svc aid actor w)) = store w
       \<or> (\<exists>c ev. e = WorkflowError c \<and> store (snd (execute env svc aid actor w)) = insert_event ev (store w)
            \<and> denial_event aid ev))"
proof -
  have same: "execute env svc aid actor w = (Inl e, snd (execute_begin env svc aid actor w))"
    using assms(2) by (cases "execute_begin env svc aid actor w") (simp add: execute_def bindE_def)
  have "begin_raises aid w e (snd (execute_begin env svc aid actor w))"
    by (rule wp_Inl [OF execute_begin_wp [OF assms(1)]]) (use assms(2) in \<open>simp add: prod_eq_iff\<close>)
  then show ?thesis unfolding same by (simp add: begin_raises_def)
qed

text \<open>C19: a decision that returns belongs to an authorized reviewer and to the stored action: it is
  either the decision already on record, with the same verdict, reviewer and reason, or the only
  decision on this action, bound to the digest and policy version of what is stored, with an
  expiry exactly when it approves. In both cases nothing is executed.\<close>

theorem decision_is_bound:
  assumes "identified_actions (store w)" and "fst (decide env svc aid reviewer why dec w) = Inr ap"
  shows "is_authorized_reviewer_id (svc_authorization svc) reviewer
    \<and> executed (snd (decide env svc aid reviewer why dec w)) = executed w
    \<and> find_approval aid (store (snd (decide env svc aid reviewer why dec w))) = Some ap \<and> decision ap = dec
    \<and> (store (snd (decide env svc aid reviewer why dec w)) = store w \<and> reviewer_id ap = reviewer \<and> reason ap = why
       \<or> find_approval aid (store w) = None
         \<and> (\<exists>row. find_action aid (store w) = Some row
              \<and> Sha256Digest (digest (sha256 env) (row_action row)) = Some (ap_action_digest ap)
              \<and> Version (row_policy_version row) = Some (ap_policy_version ap))
         \<and> Identifier reviewer = Some (reviewer_id ap)
         \<and> expires_at ap = (if dec = Approve then Some (decided_at ap + approval_lifetime svc) else None))"
proof -
  have "decide_returns env svc aid reviewer why dec w ap (snd (decide env svc aid reviewer why dec w))"
    by (rule wp_Inr [OF decide_wp [OF assms(1)]]) (use assms(2) in \<open>simp add: prod_eq_iff\<close>)
  then show ?thesis unfolding decide_returns_def by (auto simp: recorded_def approval_added)
qed

text \<open>A decision on record is never replaced: deciding again either returns it unchanged or fails,
  and the database stays as it was.\<close>

theorem decision_is_final:
  assumes "identified_actions (store w)" and "find_approval aid (store w) = Some old"
  shows "store (snd (decide env svc aid reviewer why dec w)) = store w
    \<and> (fst (decide env svc aid reviewer why dec w) = Inr old
        \<and> dec = decision old \<and> reviewer = reviewer_id old \<and> why = reason old
       \<or> (\<exists>e. fst (decide env svc aid reviewer why dec w) = Inl e))"
proof (cases "fst (decide env svc aid reviewer why dec w)")
  case (Inl e)
  have "unchanged w e (snd (decide env svc aid reviewer why dec w))"
    by (rule wp_Inl [OF decide_wp [OF assms(1)]]) (use Inl in \<open>simp add: prod_eq_iff\<close>)
  then show ?thesis using Inl by (simp add: unchanged_def)
next
  case (Inr ap)
  have "decide_returns env svc aid reviewer why dec w ap (snd (decide env svc aid reviewer why dec w))"
    by (rule wp_Inr [OF decide_wp [OF assms(1)]]) (use Inr in \<open>simp add: prod_eq_iff\<close>)
  then show ?thesis using Inr assms(2) by (auto simp: decide_returns_def)
qed

end
