(* ===== verification/Approval_Progress.thy ===== *)
theory Approval_Progress
  imports Approval_Properties
begin

text \<open>
  Progress of the approval workflow: with answering services an approved action does execute
  and its success is on record; repeating the request returns that record. The concrete store
  at the end instantiates the properties of this and the previous theory.
\<close>

text \<open>
  Services that answer for the next \<open>k\<close> identifiers of the two purposes of an execution: the
  database does not fail, events are small, the identifiers to come are valid and distinct, and the
  event identifiers among them are unused.
\<close>

definition execution_purposes :: "string set" where
  "execution_purposes = {''audit'', ''action-execution''}"

lemma execution_purpose [simp]: "''audit'' \<in> execution_purposes" "''action-execution'' \<in> execution_purposes"
  by (simp_all add: execution_purposes_def)

definition quiet :: "'e env_scheme \<Rightarrow> nat \<Rightarrow> world \<Rightarrow> bool" where
  "quiet env k w \<longleftrightarrow> (\<forall>n. db_fault env n = None) \<and> (\<forall>e. event_size env e \<le> 16384)
     \<and> (\<forall>p \<in> execution_purposes. \<forall>n \<in> {id_counts w p..<id_counts w p + k}. Identifier (fresh_id env p n) = Some (fresh_id env p n))
     \<and> (\<forall>p \<in> execution_purposes. inj_on (fresh_id env p) {id_counts w p..<id_counts w p + k})
     \<and> (\<forall>n \<in> {id_counts w ''audit''..<id_counts w ''audit'' + k}.
          fresh_id env ''audit'' n \<notin> event_id ` set (audit_events (store w)))"

definition workflow_event ::
  "'e env_scheme \<Rightarrow> world \<Rightarrow> string \<Rightarrow> string \<Rightarrow> string \<Rightarrow> (string \<times> string) list \<Rightarrow> AuditOutcome \<Rightarrow> AuditEvent" where
  "workflow_event env w t aid actor payload out =
     \<lparr>event_id = fresh_id env ''audit'' (id_counts w ''audit''), event_type = t,
      ev_occurred_at = clock_now env (now_calls w), ev_target_type = ''recommended_action'', ev_target_id = aid,
      ev_data = map (\<lambda>(k, v). (k, PStr v)) payload, schema_version = ''1.0'', ev_execution_id = None,
      ev_correlation_id = None, ev_actor_id = Some actor, ev_outcome = Some out, ev_failure_category = None\<rparr>"

lemma identifier_recommended_action [simp]: "Identifier ''recommended_action'' = Some ''recommended_action''"
  and version_one [simp]: "Version ''1.0'' = Some ''1.0''"
  by (simp_all add: identifier_eval Version_def)

lemma quiet_db: "quiet env k v \<Longrightarrow> db_fault env n = None"
  by (simp add: quiet_def)

lemma quiet_id: "quiet env (Suc k) v \<Longrightarrow> p \<in> execution_purposes \<Longrightarrow> Identifier (fresh_id env p (id_counts v p)) = Some (fresh_id env p (id_counts v p))"
  by (simp add: quiet_def)

lemma audit_quiet:
  assumes "quiet env (Suc k) v" and "Identifier aid = Some aid" "Identifier actor = Some actor"
    and "Identifier t = Some t" "id_counts w ''audit'' = id_counts v ''audit''"
  shows "wp (workflow_audit env t aid actor payload out) Q E w =
    Q (workflow_event env w t aid actor payload out)
      (w\<lparr>id_counts := (id_counts w)(''audit'' := Suc (id_counts w ''audit'')), now_calls := Suc (now_calls w)\<rparr>)"
proof -
  have "event_size env e \<le> 16384" for e using assms(1) by (simp add: quiet_def)
  then have "validate_event (event_size env) (workflow_event env w t aid actor payload out) = Some (workflow_event env w t aid actor payload out)"
    using assms(2-5) quiet_id [OF assms(1) execution_purpose(1)]
    by (simp add: validate_event_def workflow_event_def optional_def not_less Let_def)
  then show ?thesis by (simp add: wp_simps Let_def workflow_event_def)
qed

text \<open>After one more event under the next identifier the services answer one step less.\<close>

lemma quiet_step:
  assumes q: "quiet env (Suc k) w" and audit: "id_counts w' ''audit'' = Suc (id_counts w ''audit'')"
    and counts: "\<And>p. id_counts w' p = id_counts w p \<or> id_counts w' p = Suc (id_counts w p)"
    and ids: "event_id ` set (audit_events (store w')) \<subseteq> insert (fresh_id env ''audit'' (id_counts w ''audit''))
        (event_id ` set (audit_events (store w)))"
  shows "quiet env k w'"
proof -
  have sub: "{id_counts w' p..<id_counts w' p + k} \<subseteq> {id_counts w p..<id_counts w p + Suc k}" for p
    using counts [of p] by auto
  have "fresh_id env ''audit'' n \<notin> event_id ` set (audit_events (store w'))"
    if n: "n \<in> {id_counts w' ''audit''..<id_counts w' ''audit'' + k}" for n
  proof
    assume "fresh_id env ''audit'' n \<in> event_id ` set (audit_events (store w'))"
    moreover have "fresh_id env ''audit'' n \<notin> event_id ` set (audit_events (store w))"
      using q n sub unfolding quiet_def by blast
    ultimately have "fresh_id env ''audit'' n = fresh_id env ''audit'' (id_counts w ''audit'')" using ids by blast
    moreover have "inj_on (fresh_id env ''audit'') {id_counts w ''audit''..<id_counts w ''audit'' + Suc k}"
      using q execution_purpose(1) unfolding quiet_def by blast
    ultimately have "n = id_counts w ''audit''"
      using n sub [of "''audit''"] by (auto dest!: inj_onD)
    then show False using n audit by simp
  qed
  moreover have "inj_on (fresh_id env p) {id_counts w' p..<id_counts w' p + k}" if "p \<in> execution_purposes" for p
    using q that unfolding quiet_def by (blast intro: inj_on_subset [OF _ sub])
  ultimately show ?thesis using q sub unfolding quiet_def by blast
qed

lemma quiet_fresh: "quiet env (Suc k) w \<Longrightarrow> fresh_id env ''audit'' (id_counts w ''audit'') \<notin> event_id ` set (audit_events (store w))"
  by (simp add: quiet_def)

lemma event_admissible_insert [simp]:
  "event_admissible ev (insert_action_execution x d) = event_admissible ev d"
  "event_admissible ev (replace_action_execution x d) = event_admissible ev d"
  by (simp_all add: event_admissible_def insert_action_execution_def replace_action_execution_def)

lemma strip_simulated [simp]: "strip ''SIMULATED'' = ''SIMULATED''"
  by (simp add: strip_with_def is_space_def)

text \<open>The record a claim writes when its identifiers are valid.\<close>

definition new_execution :: "string \<Rightarrow> string \<Rightarrow> time \<Rightarrow> ActionExecutionRecord" where
  "new_execution xid aid t = \<lparr>action_execution_id = xid, ax_action_id = aid, ax_state = AExecuting, ax_started_at = t,
     ax_completed_at = None, ax_outcome = None, ax_failure_category = None, ax_mode = ''SIMULATED'', ax_result = None\<rparr>"

lemma claim_progress:
  assumes q: "quiet env (Suc k) w" and w: "session w = store w" "\<not> broken w"
    and i: "Identifier aid = Some aid" "Identifier actor = Some actor"
    and fk: "aid \<in> row_action_id ` set (recommended_actions_table (store w))" "find_action_execution aid (store w) = None"
    and xid: "fresh_id env ''action-execution'' (id_counts w ''action-execution'') \<notin> action_execution_id ` set (action_executions (store w))"
  shows "wp (claim_execution env persisted aid actor t)
    (\<lambda>r w'. r = Inr (new_execution (fresh_id env ''action-execution'' (id_counts w ''action-execution'')) aid t, pa_action persisted)
       \<and> quiet env k w' \<and> executed w' = executed w
       \<and> action_executions (store w') = action_executions (store w) @
           [new_execution (fresh_id env ''action-execution'' (id_counts w ''action-execution'')) aid t]
       \<and> session w' = store w' \<and> \<not> broken w')
    (\<lambda>_ _. False) w"
proof -
  let ?x = "new_execution (fresh_id env ''action-execution'' (id_counts w ''action-execution'')) aid t"
  have x: "validate_action_execution \<lparr>action_execution_id = fresh_id env ''action-execution'' (id_counts w ''action-execution''),
       ax_action_id = aid, ax_state = AExecuting, ax_started_at = t, ax_completed_at = None, ax_outcome = None,
       ax_failure_category = None, ax_mode = ''SIMULATED'', ax_result = None\<rparr> = Some ?x"
    using i by (simp add: quiet_id [OF q execution_purpose(2)] validate_action_execution_def optional_def new_execution_def)
  have "aid \<notin> ax_action_id ` set (action_executions (store w))"
    using fk(2) by (simp add: find_action_execution_def row_get_None)
  then have adm: "action_execution_admissible ?x (store w)"
    using fk(1) xid by (simp add: action_execution_admissible_def new_execution_def)
  have ev: "event_admissible (workflow_event env v ''action.simulation_started'' aid actor payload out) (store w)"
    if "id_counts v ''audit'' = id_counts w ''audit''" for v payload out
    using quiet_fresh [OF q] that by (simp add: event_admissible_def workflow_event_def)
  show ?thesis
    using q w x adm ev
    by (simp add: claim_execution_def action_executions_add_def audit_append_def wp_simps audit_quiet [OF q i] quiet_db [OF q] Let_def del: wp_audit)
      (auto intro!: quiet_step [OF q] simp: insert_event_def insert_action_execution_def workflow_event_def)
qed


lemma begin_progress:
  assumes q: "quiet env (Suc k) w" and auth: "is_authorized_reviewer_id (svc_authorization svc) actor" "Identifier actor = Some actor"
    and row: "identified_actions (store w)" "find_action aid (store w) = Some row"
    and granted: "denial_code env svc (persisted_of row)
        (map_option row_result (find_result (row_action_execution row) (store w))) (find_approval aid (store w))
        (clock_now env (now_calls w)) = None"
    and none: "find_action_execution aid (store w) = None"
    and xid: "fresh_id env ''action-execution'' (id_counts w ''action-execution'') \<notin> action_execution_id ` set (action_executions (store w))"
  shows "wp (execute_begin env svc aid actor)
    (\<lambda>r w'. \<exists>x. r = Inr (x, row_action row)
       \<and> x = new_execution (fresh_id env ''action-execution'' (id_counts w ''action-execution'')) aid (clock_now env (now_calls w))
       \<and> quiet env k w' \<and> executed w' = executed w \<and> action_executions (store w') = action_executions (store w) @ [x])
    (\<lambda>_ _. False) w"
proof -
  note i = find_action_id [OF row]
  have pid: "pa_execution_id (persisted_of row) = row_action_execution row" "pa_action (persisted_of row) = row_action row"
    by (simp_all add: persisted_of_def)
  have fk: "aid \<in> row_action_id ` set (recommended_actions_table (store w))"
    using row(2) i unfolding find_action_def by (auto dest!: row_get_SomeD)
  show ?thesis
    unfolding execute_begin_def actions_get_persisted_def results_get_for_execution_def approvals_get_for_action_def
      action_executions_get_for_action_def
    apply (simp add: auth wp_simps quiet_db [OF q] row(2) none pid granted Let_def del: wp_audit)
    apply (rule wp_mono [OF claim_progress [where w = "w\<lparr>now_calls := Suc (now_calls w), session := store w, broken := False,
        db_calls := Suc (Suc (Suc (Suc (db_calls w))))\<rparr>"]])
    using q auth i fk none xid by (auto simp: quiet_def pid)
qed

text \<open>Recording a success replaces the claimed row.\<close>

lemma finish_progress:
  assumes q: "quiet env (Suc k) w" and i: "Identifier aid = Some aid" "Identifier actor = Some actor"
    and row: "find_action_execution_by_id (action_execution_id x) (store w) = Some z"
  shows "wp (finish_succeeded env x aid actor r)
    (\<lambda>out w'. durable out \<and> outcome_record out = x\<lparr>ax_state := ASucceeded, ax_completed_at := Some (clock_now env (now_calls w)),
         ax_outcome := Some (aer_outcome r), ax_mode := aer_mode r, ax_result := Some (aer_details r)\<rparr>
       \<and> action_executions (store w') = action_executions (replace_action_execution (outcome_record out) (store w)))
    (\<lambda>_ _. False) w"
proof -
  have ev: "event_admissible (workflow_event env v t aid actor payload out) (replace_action_execution y (store w))"
    if "id_counts v ''audit'' = id_counts w ''audit''" for v payload out y t
    using quiet_fresh [OF q] that by (simp add: event_admissible_def workflow_event_def replace_action_execution_def)
  show ?thesis
    using row ev
    by (simp add: finish_succeeded_def action_executions_replace_def audit_append_def wp_simps audit_quiet [OF q i] quiet_db [OF q]
        Let_def del: wp_audit) (simp add: insert_event_def)
qed

lemma find_by_id_last:
  "row_get action_execution_id (action_execution_id x) rows = None \<Longrightarrow>
   find_action_execution_by_id (action_execution_id x) (d\<lparr>action_executions := rows @ [x]\<rparr>) = Some x"
  by (simp add: find_action_execution_by_id_def row_get_snoc)

text \<open>After the claim the simulated executor answers with success, whatever it is asked.\<close>

lemma execute_simulated:
  assumes "svc_executor svc = SimulatedActionExecutor" and "fst (execute_begin env svc aid actor w) = Inr (Inr (x, a))"
  shows "\<exists>r. aer_outcome r = ''SIMULATED_SUCCESS'' \<and> aer_mode r = ''SIMULATED''
    \<and> execute env svc aid actor w = finish_succeeded env x aid actor r
        ((snd (execute_begin env svc aid actor w))\<lparr>executed := executed (snd (execute_begin env svc aid actor w)) @ [a]\<rparr>)"
  using assms(2)
  by (cases "execute_begin env svc aid actor w")
    (simp add: execute_def bindE_def execute_finish_def call_executor_def assms(1) SimulatedActionExecutor_def,
      metis ActionExecutionResult.select_convs)

text \<open>An update by identifier of rows that end in a new one changes only the last.\<close>

lemma updated_last_row:
  assumes "row_get ax_action_id aid rows = None" and "row_get action_execution_id (action_execution_id x) rows = None"
    and "ax_action_id y = aid" "action_execution_id y = action_execution_id x" "update x = y"
  shows "row_get ax_action_id aid
    (map (\<lambda>row. if action_execution_id row = action_execution_id y then update row else row) (rows @ [x])) = Some y"
proof -
  have "map (\<lambda>row. if action_execution_id row = action_execution_id y then update row else row) rows = rows"
  proof (rule map_idI)
    fix z assume "z \<in> set rows"
    then have "action_execution_id z \<noteq> action_execution_id y"
      using assms(2) unfolding row_get_None assms(4) by (metis imageI)
    then show "(if action_execution_id z = action_execution_id y then update z else z) = z" by simp
  qed
  then show ?thesis using assms(1,3-5) row_get_snoc [of ax_action_id y rows aid] by simp
qed

text \<open>C21: an action whose gate is open, and that was never executed, does execute when an authorized
  reviewer asks and the services answer: the executor is called once, the request returns the
  success, and the success is the execution on record.\<close>

theorem approved_action_executes:
  assumes "quiet env 2 w" and "is_authorized_reviewer_id (svc_authorization svc) actor" "Identifier actor = Some actor"
    and "identified_actions (store w)" "find_action aid (store w) = Some row"
    and "denial_code env svc (persisted_of row)
        (map_option row_result (find_result (row_action_execution row) (store w))) (find_approval aid (store w))
        (clock_now env (now_calls w)) = None"
    and "find_action_execution aid (store w) = None"
    and "fresh_id env ''action-execution'' (id_counts w ''action-execution'') \<notin> action_execution_id ` set (action_executions (store w))"
    and "svc_executor svc = SimulatedActionExecutor"
  shows "\<exists>x. fst (execute env svc aid actor w) = Inr \<lparr>outcome_record = x, durable = True\<rparr>
    \<and> ax_state x = ASucceeded \<and> ax_outcome x = Some ''SIMULATED_SUCCESS'' \<and> ax_mode x = ''SIMULATED''
    \<and> executed (snd (execute env svc aid actor w)) = executed w @ [row_action row]
    \<and> find_action_execution aid (store (snd (execute env svc aid actor w))) = Some x"
proof -
  have q: "quiet env (Suc 1) w" using assms(1) by (simp add: numeral_2_eq_2)
  define xid where "xid = fresh_id env ''action-execution'' (id_counts w ''action-execution'')"
  define x where "x = new_execution xid aid (clock_now env (now_calls w))"
  define w1 where "w1 = snd (execute_begin env svc aid actor w)"
  have b: "fst (execute_begin env svc aid actor w) = Inr (Inr (x, row_action row))" and q1: "quiet env 1 w1"
    and ex1: "executed w1 = executed w" and rows: "action_executions (store w1) = action_executions (store w) @ [x]"
    using begin_progress [OF q assms(2-8)]
    by (auto simp: wp_def x_def xid_def w1_def split: prod.splits sum.splits)
  have fresh: "row_get action_execution_id (action_execution_id x) (action_executions (store w)) = None"
    using assms(8) by (simp add: row_get_None x_def xid_def new_execution_def)
  have nofirst: "row_get ax_action_id aid (action_executions (store w)) = None"
    using assms(7) by (simp add: find_action_execution_def)
  define w2 where "w2 = w1\<lparr>executed := executed w1 @ [row_action row]\<rparr>"
  obtain r where r: "aer_outcome r = ''SIMULATED_SUCCESS''" "aer_mode r = ''SIMULATED''"
    and run: "execute env svc aid actor w = finish_succeeded env x aid actor r w2"
    using execute_simulated [OF assms(9) b] unfolding w1_def w2_def by blast
  have q2: "quiet env (Suc 0) w2" using q1 by (simp add: quiet_def w2_def)
  have found: "find_action_execution_by_id (action_execution_id x) (store w2) = Some x"
    using rows fresh by (simp add: w2_def find_action_execution_by_id_def row_get_snoc)
  note fin = finish_progress [OF q2 _ assms(3) found, of aid r]
  have i: "Identifier aid = Some aid" using find_action_id [OF assms(4,5)] by simp
  define y where "y = x\<lparr>ax_state := ASucceeded, ax_completed_at := Some (clock_now env (now_calls w2)),
         ax_outcome := Some (aer_outcome r), ax_mode := aer_mode r, ax_result := Some (aer_details r)\<rparr>"
  have out: "fst (execute env svc aid actor w) = Inr \<lparr>outcome_record = y, durable = True\<rparr>"
    and st: "action_executions (store (snd (execute env svc aid actor w))) = action_executions (replace_action_execution y (store w2))"
    using fin [OF i] unfolding run y_def by (auto simp: wp_def split: prod.splits sum.splits)
  have ran: "executed (snd (execute env svc aid actor w)) = executed w @ [row_action row]"
    using wp_both [of "finish_succeeded env x aid actor r" "\<lambda>w'. executed w' = executed w2"]
      finish_succeeded_wp [of env x aid actor r w2] unfolding run by (simp add: w2_def ex1)
  have keys: "ax_action_id y = aid" "action_execution_id y = action_execution_id x" "update_action_execution y x = y"
    by (simp_all add: y_def x_def new_execution_def update_action_execution_def)
  note last_row = updated_last_row [where update = "update_action_execution y" and x = x and y = y and rows = "action_executions (store w)",
      OF nofirst fresh keys]
  have "find_action_execution aid (store (snd (execute env svc aid actor w))) = Some y"
    unfolding find_action_execution_def st using last_row by (simp add: replace_action_execution_def w2_def rows)
  then show ?thesis using out ran r by (intro exI [of _ y]) (simp add: y_def)
qed


text \<open>C22: once an execution has succeeded, asking again returns the recorded success; nothing is written
  and the executor is not called.\<close>

theorem execution_is_idempotent:
  assumes "quiet env 0 w" and "is_authorized_reviewer_id (svc_authorization svc) actor"
    and "valid_db (store w)" and "find_action aid (store w) = Some row"
    and "find_action_execution aid (store w) = Some x" and "ax_state x = ASucceeded" and "validate_action_execution x = Some x"
  shows "fst (execute env svc aid actor w) = Inr \<lparr>outcome_record = x, durable = True\<rparr>
    \<and> store (snd (execute env svc aid actor w)) = store w \<and> executed (snd (execute env svc aid actor w)) = executed w"
proof -
  have mem: "x \<in> set (action_executions (store w))"
    using assms(5) by (auto simp: find_action_execution_def dest: row_get_SomeD)
  have "distinct (map action_execution_id (action_executions (store w)))"
    using assms(3) by (simp add: valid_db_def valid_action_executions_def)
  then have by_id: "find_action_execution_by_id (action_execution_id x) (store w) = Some x"
    using mem by (simp add: find_action_execution_by_id_def row_get_in)
  have "wp (execute_begin env svc aid actor) (\<lambda>r w'. r = Inl x \<and> store w' = store w \<and> executed w' = executed w) (\<lambda>_ _. False) w"
    unfolding execute_begin_def actions_get_persisted_def results_get_for_execution_def approvals_get_for_action_def
      action_executions_get_for_action_def action_executions_get_def
    by (simp add: assms(2,4-7) by_id wp_simps quiet_db [OF assms(1)] Let_def)
  then show ?thesis
    by (auto simp: wp_def execute_def bindE_def ret_def split: prod.splits sum.splits)
qed

end
