(* ===== verification/Approval_Example.thy ===== *)
theory Approval_Example
  imports Approval_Progress Gateway_Correct
begin

text \<open>
  A concrete store with one approved action, on which the properties of the approval workflow
  are instantiated.
\<close>

definition sample_env :: env where
  "sample_env = \<lparr>clock_now = (\<lambda>n. 100 + int n), clock_monotonic_ms = int, fresh_id = (\<lambda>p n. ''id-'' @ replicate (min n 100) (CHR ''i'')),
     db_fault = (\<lambda>_. None), integrity_error = ''IntegrityError'', sha256 = (\<lambda>_. replicate 64 (CHR ''0'')),
     event_size = (\<lambda>_. 0)\<rparr>"

definition sample_action :: ActionProposal where
  "sample_action = \<lparr>catalog_action_id = ''revoke_sessions'', target = UserEntityReference ''alice'', parameters = [],
     rationale = ''stop access'', action_id = ''action-1''\<rparr>"

definition sample_result :: TriageResult where
  "sample_result = \<lparr>res_alert_id = ''alert-1'', disposition = MALICIOUS, confidence = 9/10, severity = HIGH, evidence = [],
     reasoning_summary = ''theft'', recommended_actions = [sample_action],
     actions_requiring_approval = [reference_from_proposal (sha256 sample_env) sample_action],
     escalation_required = False, escalation_reason = None, tool_calls = [], res_timestamp = 20\<rparr>"

definition sample_approval :: ApprovalRecord where
  "sample_approval = \<lparr>approval_id = ''approval-1'', ap_action_id = ''action-1'',
     ap_action_digest = digest (sha256 sample_env) sample_action, reviewer_id = ''rev'', decision = Approve,
     decided_at = 50, reason = ''agreed'', ap_policy_version = ''1.0.0'', expires_at = Some 1000\<rparr>"

definition sample_execution :: TriageExecutionRecord where
  "sample_execution = \<lparr>ex_execution_id = ''exec-1'', ex_alert_id = ''alert-1'', ex_state = TCompleted, idempotency_key = ''key-1'',
     created_at = 10, updated_at = 20, predecessor_execution_id = None, ex_failure_category = None\<rparr>"

definition sample_db :: db where
  "sample_db = \<lparr>alerts = [alert_row sample_alert], triage_executions = [sample_execution], tool_invocations = [],
     triage_results = [result_row ''result-1'' ''exec-1'' sample_result],
     recommended_actions_table = [action_row (sha256 sample_env) ''exec-1'' sample_action ''1.0.0''],
     approval_decisions = [sample_approval], action_executions = [], audit_events = [],
     evaluation_runs = [], evaluation_case_results = []\<rparr>"

definition world_of :: "db \<Rightarrow> world" where
  "world_of d = \<lparr>store = d, session = d, broken = False, now_calls = 0, monotonic_calls = 0, id_counts = (\<lambda>_. 0),
     db_calls = 0, gateway_calls = 0, reasoner_calls = 0, executed = []\<rparr>"

lemma world_of_sels [simp]:
  "store (world_of d) = d" "executed (world_of d) = []" "id_counts (world_of d) p = 0" "now_calls (world_of d) = 0"
  "db_calls (world_of d) = 0"
  by (simp_all add: world_of_def)

definition sample_service :: approval_service where
  "sample_service = \<lparr>svc_catalog = the_catalog, svc_executor = SimulatedActionExecutor, svc_authorization = {''rev''},
     approval_lifetime = 900\<rparr>"

lemma sample_ids [simp]: "Identifier ''action-1'' = Some ''action-1''" "Identifier ''rev'' = Some ''rev''"
  "Identifier ''id-'' = Some ''id-''" "Identifier ''id-i'' = Some ''id-i''" "Identifier ''xid-1'' = Some ''xid-1''"
  by (simp_all add: identifier_eval)

lemma sample_rows:
  "identified_actions sample_db"
  "find_action ''action-1'' sample_db = Some (action_row (sha256 sample_env) ''exec-1'' sample_action ''1.0.0'')"
  "find_result ''exec-1'' sample_db = Some (result_row ''result-1'' ''exec-1'' sample_result)"
  "find_approval ''action-1'' sample_db = Some sample_approval" "find_action_execution ''action-1'' sample_db = None"
  by (simp_all add: identified_actions_def sample_db_def action_row_def find_defs row_get_Cons sample_action_def
      result_row_def sample_approval_def)

lemma sample_quiet: "quiet sample_env 2 (world_of sample_db)"
proof -
  have two: "n < Suc (Suc 0) \<longleftrightarrow> n = 0 \<or> n = 1" for n :: nat by auto
  show ?thesis
    by (auto simp: quiet_def sample_env_def two sample_db_def inj_on_def)
qed

lemma sample_granted:
  "denial_code sample_env sample_service (persisted_of (action_row (sha256 sample_env) ''exec-1'' sample_action ''1.0.0''))
     (Some sample_result) (Some sample_approval) 100 = None"
proof -
  have d: "\<exists>d. catalog_lookup the_catalog ''revoke_sessions'' = Some d"
    by (simp add: catalog_lookup_def the_catalog_def initial_definitions_def)
  have es: "execution_support d = SIMULATED_ONLY" for d by (cases "execution_support d") simp
  obtain d where "catalog_lookup the_catalog ''revoke_sessions'' = Some d" using d by blast
  then show ?thesis
    by (simp add: denial_code_def persisted_of_def action_row_def sample_result_def sample_approval_def sample_service_def
        SimulatedActionExecutor_def)
      (simp add: sample_action_def is_authorized_reviewer_id_def es)
qed

theorem approved_action_executes_witness:
  "\<exists>x. fst (execute sample_env sample_service ''action-1'' ''rev'' (world_of sample_db)) = Inr \<lparr>outcome_record = x, durable = True\<rparr>
    \<and> ax_state x = ASucceeded
    \<and> executed (snd (execute sample_env sample_service ''action-1'' ''rev'' (world_of sample_db))) = [sample_action]"
proof -
  have "is_authorized_reviewer_id (svc_authorization sample_service) ''rev''" "svc_executor sample_service = SimulatedActionExecutor"
    by (simp_all add: sample_service_def is_authorized_reviewer_id_def)
  moreover have "denial_code sample_env sample_service (persisted_of (action_row (sha256 sample_env) ''exec-1'' sample_action ''1.0.0''))
      (map_option row_result (find_result (row_action_execution (action_row (sha256 sample_env) ''exec-1'' sample_action ''1.0.0''))
        (store (world_of sample_db)))) (find_approval ''action-1'' (store (world_of sample_db)))
      (clock_now sample_env (now_calls (world_of sample_db))) = None"
  proof -
    have a: "row_action_execution (action_row (sha256 sample_env) ''exec-1'' sample_action ''1.0.0'') = ''exec-1''"
      "row_result (result_row ''result-1'' ''exec-1'' sample_result) = sample_result" "clock_now sample_env 0 = 100"
      by (simp_all add: action_row_def result_row_def sample_env_def)
    show ?thesis using sample_granted by (simp add: a sample_rows)
  qed
  moreover have "fresh_id sample_env ''action-execution'' (id_counts (world_of sample_db) ''action-execution'')
      \<notin> action_execution_id ` set (action_executions (store (world_of sample_db)))"
    by (simp add: sample_db_def)
  moreover have "row_action (action_row (sha256 sample_env) ''exec-1'' sample_action ''1.0.0'') = sample_action"
    by (simp add: action_row_def)
  ultimately show ?thesis
    using approved_action_executes [OF sample_quiet, of sample_service "''rev''" "''action-1''"] sample_rows by force
qed

theorem executor_runs_only_authorized_witness:
  "executed (snd (execute sample_env sample_service ''action-1'' ''rev'' (world_of sample_db))) = []
    \<or> executed (snd (execute sample_env sample_service ''action-1'' ''rev'' (world_of sample_db))) = [sample_action]"
  using executor_runs_only_authorized [of "world_of sample_db" sample_env sample_service "''action-1''" "''rev''"] sample_rows(1,2)
  by (auto simp: action_row_def)

theorem execution_stopped_leaves_denial_witness:
  "fst (execute sample_env sample_service ''action-1'' ''mallory'' (world_of sample_db)) = Inl (WorkflowError REVIEWER_INVALID)"
proof -
  have "fst (execute_begin sample_env sample_service ''action-1'' ''mallory'' (world_of sample_db)) = Inl (WorkflowError REVIEWER_INVALID)"
    by (simp add: execute_begin_def sample_service_def is_authorized_reviewer_id_def raise_def)
  from execution_stopped_leaves_denial [OF _ this] sample_rows(1) show ?thesis by simp
qed

lemma sample_replayed:
  "fst (decide sample_env sample_service ''action-1'' ''rev'' ''agreed'' Approve (world_of sample_db)) = Inr sample_approval"
proof -
  have r: "pa_execution_id (persisted_of (action_row (sha256 sample_env) ''exec-1'' sample_action ''1.0.0'')) = ''exec-1''"
    "pa_action (persisted_of (action_row (sha256 sample_env) ''exec-1'' sample_action ''1.0.0'')) = sample_action"
    "row_result (result_row ''result-1'' ''exec-1'' sample_result) = sample_result"
    "reference_from_proposal (sha256 sample_env) sample_action \<in> set (actions_requiring_approval sample_result)"
    "decision sample_approval = Approve" "reviewer_id sample_approval = ''rev''" "reason sample_approval = ''agreed''"
    by (simp_all add: persisted_of_def action_row_def result_row_def sample_result_def sample_approval_def)
  have "wp (decide sample_env sample_service ''action-1'' ''rev'' ''agreed'' Approve) (\<lambda>ap _. ap = sample_approval) (\<lambda>_ _. False) (world_of sample_db)"
    unfolding decide_def actions_get_persisted_def results_get_for_execution_def approvals_get_for_action_def
    by (simp add: wp_simps quiet_db [OF sample_quiet] sample_rows r)
      (simp add: sample_service_def is_authorized_reviewer_id_def)
  then show ?thesis by (auto simp: wp_def split: prod.splits sum.splits)
qed

theorem decision_is_bound_witness:
  "find_approval ''action-1'' (store (snd (decide sample_env sample_service ''action-1'' ''rev'' ''agreed'' Approve (world_of sample_db))))
     = Some sample_approval"
  using decision_is_bound [OF _ sample_replayed] sample_rows(1) by simp

theorem decision_is_final_witness:
  "store (snd (decide sample_env sample_service ''action-1'' ''rev'' ''no'' Reject (world_of sample_db))) = sample_db"
  using decision_is_final [of "world_of sample_db" "''action-1''" sample_approval sample_env sample_service "''rev''" "''no''" Reject]
  by (simp add: sample_rows)

definition sample_success :: ActionExecutionRecord where
  "sample_success = \<lparr>action_execution_id = ''xid-1'', ax_action_id = ''action-1'', ax_state = ASucceeded, ax_started_at = 100,
     ax_completed_at = Some 101, ax_outcome = None, ax_failure_category = None, ax_mode = ''SIMULATED'', ax_result = None\<rparr>"

theorem execution_is_idempotent_witness:
  "fst (execute sample_env sample_service ''action-1'' ''rev'' (world_of (sample_db\<lparr>action_executions := [sample_success]\<rparr>)))
     = Inr \<lparr>outcome_record = sample_success, durable = True\<rparr>"
proof -
  let ?d = "sample_db\<lparr>action_executions := [sample_success]\<rparr>"
  have "quiet sample_env 0 (world_of ?d)" by (simp add: quiet_def sample_env_def)
  moreover have "is_authorized_reviewer_id (svc_authorization sample_service) ''rev''"
    by (simp add: sample_service_def is_authorized_reviewer_id_def)
  moreover have "valid_db (store (world_of ?d))"
    by (simp add: valid_db_def valid_defs sample_db_def sample_success_def approval_check_def sample_approval_def
        action_row_def sample_action_def result_row_def sample_result_def alert_row_def sample_alert_def sample_execution_def)
  moreover have "find_action ''action-1'' (store (world_of ?d)) = Some (action_row (sha256 sample_env) ''exec-1'' sample_action ''1.0.0'')"
    using sample_rows(2) by (simp add: find_action_def)
  moreover have "find_action_execution ''action-1'' (store (world_of ?d)) = Some sample_success" "ax_state sample_success = ASucceeded"
    by (simp_all add: find_action_execution_def row_get_Cons sample_success_def)
  moreover have "validate_action_execution sample_success = Some sample_success"
    by (simp add: validate_action_execution_def sample_success_def optional_def)
  ultimately show ?thesis by (rule execution_is_idempotent [THEN conjunct1])
qed

end
