(* ===== verification/Recovery_Correct.thy ===== *)
theory Recovery_Correct
  imports Approval_Example
begin

text \<open>
  Correctness of recovery: exactly the stale rows are failed, each with one audit event, in one
  transaction; nothing else changes and no action is run.
\<close>

definition fail_row :: "time \<Rightarrow> TriageExecutionRecord \<Rightarrow> TriageExecutionRecord" where
  "fail_row t r = r\<lparr>ex_state := TFailed, updated_at := t, ex_failure_category := Some STALE_EXECUTION\<rparr>"

definition fail_action_row :: "time \<Rightarrow> ActionExecutionRecord \<Rightarrow> ActionExecutionRecord \<Rightarrow> ActionExecutionRecord" where
  "fail_action_row t x r = r\<lparr>ax_state := AFailed, ax_completed_at := Some t,
     ax_outcome := Some ''SIMULATED_RECOVERY_FAILURE'', ax_failure_category := Some STALE_SIMULATED_ACTION,
     ax_mode := ax_mode x, ax_result := ax_result x\<rparr>"

text \<open>Failing the rows of the given identifiers, as one change of the table.\<close>

definition fail_rows :: "time \<Rightarrow> string set \<Rightarrow> TriageExecutionRecord list \<Rightarrow> TriageExecutionRecord list" where
  "fail_rows t ids = map (\<lambda>r. if ex_execution_id r \<in> ids then fail_row t r else r)"

lemma fail_row_id [simp]: "ex_execution_id (fail_row t r) = ex_execution_id r"
  by (simp add: fail_row_def)

lemma fail_rows_step:
  "fail_rows t ids (fail_rows t {i} rows) = fail_rows t (insert i ids) rows"
  by (auto simp: fail_rows_def fail_row_def)

lemma replace_fails:
  "replace_execution (e\<lparr>ex_state := TFailed, updated_at := t, ex_failure_category := Some STALE_EXECUTION\<rparr>) d
     = d\<lparr>triage_executions := fail_rows t {ex_execution_id e} (triage_executions d)\<rparr>"
  by (simp add: replace_execution_def fail_rows_def fail_row_def update_execution_def)

text \<open>The effect of a recovery loop on the open session.\<close>

definition recovered_session :: "time \<Rightarrow> TriageExecutionRecord list \<Rightarrow> world \<Rightarrow> world \<Rightarrow> bool" where
  "recovered_session t es w w' \<longleftrightarrow> store w' = store w \<and> executed w' = executed w \<and>
     (\<exists>evs. length evs = length es \<and> map ev_execution_id evs = map (Some \<circ> ex_execution_id) es
        \<and> session w' = (session w)\<lparr>triage_executions := fail_rows t (ex_execution_id ` set es) (triage_executions (session w)),
             audit_events := audit_events (session w) @ evs\<rparr>)"

definition stable_ids :: "TriageExecutionRecord list \<Rightarrow> bool" where
  "stable_ids es \<longleftrightarrow> (\<forall>e \<in> set es. Identifier (ex_execution_id e) = Some (ex_execution_id e))"

lemma recovered_one:
  assumes "ev_execution_id ev = Some (ex_execution_id e)" "store w' = store w" "executed w' = executed w"
    and "session w' = (session w)\<lparr>triage_executions := fail_rows t {ex_execution_id e} (triage_executions (session w)),
             audit_events := audit_events (session w) @ [ev]\<rparr>"
  shows "recovered_session t [e] w w'"
  unfolding recovered_session_def by (intro conjI exI [of _ "[ev]"]) (simp_all add: assms)

lemma fail_one_wp:
  assumes "Identifier (ex_execution_id e) = Some (ex_execution_id e)"
  shows "wp (fail_stale_execution env t op cid e) (\<lambda>_. recovered_session t [e] w)
    (\<lambda>_ w'. store w' = store w \<and> executed w' = executed w) w"
proof -
  have ok: "ev_execution_id ev = Some (ex_execution_id e)"
    if "validate_event sz \<lparr>event_id = i, event_type = et, ev_occurred_at = t', ev_target_type = tt, ev_target_id = tid,
      ev_data = dat, schema_version = sv, ev_execution_id = Some (ex_execution_id e), ev_correlation_id = c, ev_actor_id = ac,
      ev_outcome = out, ev_failure_category = fc\<rparr> = Some ev" for sz i et t' tt tid dat sv c ac out fc ev
    using validate_event_SomeD [OF that] assms by (simp add: optional_def)
  show ?thesis
    by (simp add: fail_stale_execution_def executions_replace_def audit_append_def wp_simps replace_fails insert_event_def
        split: option.split) (auto intro!: recovered_one dest: ok)
qed

lemma recovered_append:
  assumes "recovered_session t [e] w w1" and "recovered_session t es w1 w2"
  shows "recovered_session t (e # es) w w2"
proof -
  from assms(1) obtain ev where ev: "length ev = length [e]" "map ev_execution_id ev = map (Some \<circ> ex_execution_id) [e]"
    "session w1 = (session w)\<lparr>triage_executions := fail_rows t (ex_execution_id ` set [e]) (triage_executions (session w)),
       audit_events := audit_events (session w) @ ev\<rparr>" "store w1 = store w" "executed w1 = executed w"
    unfolding recovered_session_def by blast
  from assms(2) obtain evs where evs: "length evs = length es" "map ev_execution_id evs = map (Some \<circ> ex_execution_id) es"
    "session w2 = (session w1)\<lparr>triage_executions := fail_rows t (ex_execution_id ` set es) (triage_executions (session w1)),
       audit_events := audit_events (session w1) @ evs\<rparr>" "store w2 = store w1" "executed w2 = executed w1"
    unfolding recovered_session_def by blast
  show ?thesis
    unfolding recovered_session_def
  proof (intro conjI exI [of _ "ev @ evs"])
    show "map ev_execution_id (ev @ evs) = map (Some \<circ> ex_execution_id) (e # es)" using ev(2) evs(2) by simp
  qed (simp_all add: ev(1,3-5) evs(1,3-5) fail_rows_step)
qed

lemma fail_all_wp:
  assumes "stable_ids es"
  shows "wp (for_each es (fail_stale_execution env t op cid)) (\<lambda>_. recovered_session t es w)
    (\<lambda>_ w'. store w' = store w \<and> executed w' = executed w) w"
  using assms
proof (induction es arbitrary: w)
  case Nil
  then show ?case by (simp add: wp_simps recovered_session_def fail_rows_def)
next
  case (Cons e es)
  have one: "wp (fail_stale_execution env t op cid e) (\<lambda>_. recovered_session t [e] w)
      (\<lambda>_ w'. store w' = store w \<and> executed w' = executed w) w"
    by (rule fail_one_wp) (use Cons.prems in \<open>simp add: stable_ids_def\<close>)
  have rest: "wp (for_each es (fail_stale_execution env t op cid)) (\<lambda>_. recovered_session t (e # es) w)
      (\<lambda>_ w'. store w' = store w \<and> executed w' = executed w) w1" if "recovered_session t [e] w w1" for w1
  proof -
    have "stable_ids es" using Cons.prems by (simp add: stable_ids_def)
    from Cons.IH [OF this, of w1] show ?thesis
    proof (rule wp_mono)
      show "recovered_session t (e # es) w w2" if "recovered_session t es w1 w2" for w2
        using \<open>recovered_session t [e] w w1\<close> that by (rule recovered_append)
    qed (use that in \<open>simp add: recovered_session_def\<close>)
  qed
  show ?case unfolding for_each.simps wp_bindE by (rule wp_mono [OF one]) (auto intro: rest)
qed

lemma recover_executions_wp:
  assumes "stable_ids (triage_executions (store w))"
  shows "wp (recover_stale_executions env thr op cid)
    (\<lambda>n w'. executed w' = executed w \<and> n = length (running_before (clock_now env (now_calls w) - thr) (store w))
       \<and> (\<exists>evs. length evs = n \<and> store w' = (store w)\<lparr>triage_executions := fail_rows (clock_now env (now_calls w))
             (ex_execution_id ` set (running_before (clock_now env (now_calls w) - thr) (store w))) (triage_executions (store w)),
             audit_events := audit_events (store w) @ evs\<rparr>))
    (\<lambda>_ w'. executed w' = executed w \<and> store w' = store w) w"
proof -
  let ?t = "clock_now env (now_calls w)" and ?es = "running_before (clock_now env (now_calls w) - thr) (store w)"
  have st: "stable_ids ?es" using assms by (auto simp: stable_ids_def running_before_def)
  let ?v = "w\<lparr>now_calls := Suc (now_calls w), session := store w, broken := False, db_calls := Suc (db_calls w)\<rparr>"
  show ?thesis
    unfolding recover_stale_executions_def executions_list_running_before_def
    apply (simp add: wp_simps split: option.split)
    apply (rule impI, rule wp_mono [OF fail_all_wp [OF st, of env ?t op cid ?v]])
     apply (auto simp: recovered_session_def wp_simps Let_def split: option.split)
    done
qed

text \<open>C23: recovery of stale triage executions fails exactly the running executions last updated before
  the cutoff, reports how many they were, writes one audit event for each, runs no action and
  changes nothing else; when it raises, the database is unchanged.\<close>

theorem recovery_fails_exactly_the_stale:
  assumes "valid_db (store w)" and "stable_ids (triage_executions (store w))"
  shows "executed (snd (recover_stale_executions env thr op cid w)) = executed w
    \<and> (case fst (recover_stale_executions env thr op cid w) of
        Inl e \<Rightarrow> store (snd (recover_stale_executions env thr op cid w)) = store w
      | Inr n \<Rightarrow> n = length (filter (\<lambda>r. ex_state r = TRunning \<and> updated_at r < clock_now env (now_calls w) - thr)
                    (triage_executions (store w)))
          \<and> (\<exists>evs. length evs = n \<and> store (snd (recover_stale_executions env thr op cid w)) =
              (store w)\<lparr>triage_executions := map (\<lambda>r. if ex_state r = TRunning \<and> updated_at r < clock_now env (now_calls w) - thr
                  then fail_row (clock_now env (now_calls w)) r else r) (triage_executions (store w)),
                audit_events := audit_events (store w) @ evs\<rparr>))"
proof -
  let ?t = "clock_now env (now_calls w)" and ?rows = "triage_executions (store w)"
  have dist: "distinct (map ex_execution_id ?rows)" using assms(1) by (simp add: valid_db_def valid_executions_def)
  have stale: "ex_execution_id r \<in> ex_execution_id ` set (running_before (?t - thr) (store w))
      \<longleftrightarrow> ex_state r = TRunning \<and> updated_at r < ?t - thr" if "r \<in> set ?rows" for r
    using that dist by (auto simp: running_before_def distinct_map inj_on_def)
  have rows: "fail_rows ?t (ex_execution_id ` set (running_before (?t - thr) (store w))) ?rows =
      map (\<lambda>r. if ex_state r = TRunning \<and> updated_at r < ?t - thr then fail_row ?t r else r) ?rows"
    unfolding fail_rows_def by (rule map_cong) (simp_all add: stale)
  show ?thesis
    using recover_executions_wp [OF assms(2), of env thr op cid] unfolding rows
    by (auto simp: wp_def running_before_def split: prod.splits sum.splits)
qed

theorem recovery_fails_exactly_the_stale_witness:
  "executed (snd (recover_stale_executions sample_env 10 ''op'' ''c''
     (world_of (sample_db\<lparr>triage_executions := [sample_execution\<lparr>ex_state := TRunning\<rparr>]\<rparr>)))) = []"
proof -
  let ?d = "sample_db\<lparr>triage_executions := [sample_execution\<lparr>ex_state := TRunning\<rparr>]\<rparr>"
  have "valid_db (store (world_of ?d))"
    by (simp add: valid_db_def valid_defs sample_db_def approval_check_def sample_approval_def
        action_row_def sample_action_def result_row_def sample_result_def alert_row_def sample_alert_def sample_execution_def)
  moreover have "stable_ids (triage_executions (store (world_of ?d)))"
    by (simp add: stable_ids_def sample_execution_def identifier_eval)
  ultimately show ?thesis using recovery_fails_exactly_the_stale [of "world_of ?d" sample_env 10 "''op''" "''c''"] by simp
qed

end
