(* ===== verification/Orchestrator.thy ===== *)
theory Orchestrator
  imports Policy_Correct Recovery Gateway_Correct
begin

text \<open>
  The bounded orchestration of a reasoner (\<open>application/orchestration_contracts.py\<close>,
  \<open>application/ports/reasoner.py\<close>, \<open>application/orchestrator.py\<close>). The reasoner is advisory and
  unknown: its answer to its \<open>n\<close>-th call is a parameter, and so are the answers of the evidence
  tools and the serialized size of a context. The gateway reads the orchestrator's clock, as the
  composition root wires it.
\<close>

subsection \<open>Contracts\<close>

datatype ReasonerStep =
    ReasonerToolCall string pydict "string option"
  | ReasonerCandidate CandidateAssessment

record AccumulatedEvidence =
  acc_reference :: EvidenceReference
  acc_tool_call :: ToolCallReference
  acc_outcome :: pydict

record ReasonerActionSemantics =
  ras_catalog_action_id :: string
  ras_target_types :: "EntityType list"
  ras_objective :: string
  ras_category :: string
  ras_evidence_considerations :: string
  ras_blast_radius :: string
  ras_reversibility :: string
  ras_excessive_when :: string
  ras_reasonable_combinations :: "string list"

record ReasonerContext =
  rc_execution_id :: string
  rc_correlation_id :: string
  rc_alert :: SecurityAlert
  rc_evidence :: "AccumulatedEvidence list"
  authorized_tool_targets :: "AuthorizedToolTarget list"
  action_semantics :: "ReasonerActionSemantics list"
  iteration :: nat
  remaining_iterations :: nat
  remaining_total_tool_calls :: int

datatype OrchestrationReasonCode =
    COMPLETED | IDEMPOTENT_REPLAY | REASONER_FAILURE | INVALID_REASONER_OUTPUT | ITERATION_LIMIT
  | DEADLINE_EXCEEDED | TOOL_REQUEST_DENIED | TOOL_FAILURE | CONTEXT_LIMIT
  | EVIDENCE_REFERENCE_VIOLATION | POLICY_SAFE_REVIEW | PERSISTENCE_FAILURE

fun orchestration_reason_value :: "OrchestrationReasonCode \<Rightarrow> string" where
  "orchestration_reason_value COMPLETED = ''COMPLETED''"
| "orchestration_reason_value IDEMPOTENT_REPLAY = ''IDEMPOTENT_REPLAY''"
| "orchestration_reason_value REASONER_FAILURE = ''REASONER_FAILURE''"
| "orchestration_reason_value INVALID_REASONER_OUTPUT = ''INVALID_REASONER_OUTPUT''"
| "orchestration_reason_value ITERATION_LIMIT = ''ITERATION_LIMIT''"
| "orchestration_reason_value DEADLINE_EXCEEDED = ''DEADLINE_EXCEEDED''"
| "orchestration_reason_value TOOL_REQUEST_DENIED = ''TOOL_REQUEST_DENIED''"
| "orchestration_reason_value TOOL_FAILURE = ''TOOL_FAILURE''"
| "orchestration_reason_value CONTEXT_LIMIT = ''CONTEXT_LIMIT''"
| "orchestration_reason_value EVIDENCE_REFERENCE_VIOLATION = ''EVIDENCE_REFERENCE_VIOLATION''"
| "orchestration_reason_value POLICY_SAFE_REVIEW = ''POLICY_SAFE_REVIEW''"
| "orchestration_reason_value PERSISTENCE_FAILURE = ''PERSISTENCE_FAILURE''"

record OrchestrationOutcome =
  out_execution_id :: string
  out_correlation_id :: string
  out_durable :: bool
  out_reason_code :: OrchestrationReasonCode
  out_result :: "TriageResult option"
  out_policy_decision :: "PolicyDecision option"

text \<open>\<open>OrchestrationOutcome(...)\<close> strips and checks its two identifiers; results and decisions are validated already.\<close>

definition validate_orchestration_outcome :: "OrchestrationOutcome \<Rightarrow> OrchestrationOutcome option" where
  "validate_orchestration_outcome out =
     (case Identifier (out_execution_id out) of None \<Rightarrow> None
      | Some e \<Rightarrow>
     (case Identifier (out_correlation_id out) of None \<Rightarrow> None
      | Some c \<Rightarrow> Some (out\<lparr>out_execution_id := e, out_correlation_id := c\<rparr>)))"

record OrchestrationLimits =
  max_iterations :: nat
  deadline_ms :: int
  max_evidence_items :: nat
  max_context_bytes :: int

definition validate_orchestration_limits :: "OrchestrationLimits \<Rightarrow> OrchestrationLimits option" where
  "validate_orchestration_limits l =
     (if 1 \<le> max_iterations l \<and> max_iterations l \<le> 100 \<and> 1 \<le> deadline_ms l \<and> deadline_ms l \<le> 30000
        \<and> 1 \<le> max_evidence_items l \<and> max_evidence_items l \<le> 100
        \<and> 1024 \<le> max_context_bytes l \<and> max_context_bytes l \<le> 5000000
      then Some l else None)"

text \<open>
  What the worker thread of a reasoner call delivers: nothing before the deadline, an exception,
  or an object, which the step adapter validates (\<open>None\<close> where it raises).
\<close>

datatype reasoner_reply = ReasonerTimeout | ReasonerRaised | ReasonerReturned "ReasonerStep option"

record orchestrator =
  orc_registry :: ToolRegistry
  orc_catalog :: ActionCatalog
  orc_limits :: OrchestrationLimits
  orc_gateway_limits :: GatewayLimits
  orc_action_semantics :: "ReasonerActionSemantics list"
  reasoner_guidance_enabled :: bool
  reasoner :: "nat \<Rightarrow> ReasonerContext \<Rightarrow> reasoner_reply"
  tool_answer :: "nat \<Rightarrow> EvidenceTool \<Rightarrow> pydict \<Rightarrow> int \<Rightarrow> tool_reply"
  ip_parser :: "pyval \<Rightarrow> string option"
  context_size :: "ReasonerContext \<Rightarrow> int"

subsection \<open>Audit and persistence of failures\<close>

definition orch_audit :: "'e env_scheme \<Rightarrow> string \<Rightarrow> string \<Rightarrow> string \<Rightarrow> pydict \<Rightarrow> AuditOutcome \<Rightarrow> AuditEvent io" where
  "orch_audit env etype eid cid payload outcome =
     bindE (next_id env ''audit'') (\<lambda>aid.
     bindE (now env) (\<lambda>t.
     mk_event env
       \<lparr>event_id = aid, event_type = etype, ev_occurred_at = t, ev_target_type = ''triage_execution'',
        ev_target_id = eid, ev_data = payload, schema_version = ''1.0'', ev_execution_id = Some eid,
        ev_correlation_id = Some cid, ev_actor_id = Some ''system-orchestrator'', ev_outcome = Some outcome,
        ev_failure_category = None\<rparr>))"

definition not_persisted :: "string \<Rightarrow> string \<Rightarrow> OrchestrationOutcome" where
  "not_persisted eid cid =
     \<lparr>out_execution_id = eid, out_correlation_id = cid, out_durable = False,
      out_reason_code = PERSISTENCE_FAILURE, out_result = None, out_policy_decision = None\<rparr>"

text \<open>Building the outcome validates both identifiers, so a malformed one raises here too.\<close>

definition persistence_failure :: "string \<Rightarrow> string \<Rightarrow> OrchestrationOutcome io" where
  "persistence_failure eid cid = required (validate_orchestration_outcome (not_persisted eid cid))"

definition record_persistence_failure ::
  "'e env_scheme \<Rightarrow> string \<Rightarrow> string \<Rightarrow> string \<Rightarrow> string \<Rightarrow> string \<Rightarrow> unit io" where
  "record_persistence_failure env eid cid categ stg exception_type =
     catch (with_uow (
       bindE (executions_get env eid) (\<lambda>existing.
       case existing of None \<Rightarrow> ret ()
       | Some e \<Rightarrow>
           if ex_state e \<noteq> TRunning then ret ()
           else
             bindE (now env) (\<lambda>t.
             bindE (executions_replace env (e\<lparr>ex_state := TFailed, updated_at := t,
               ex_failure_category := Some categ\<rparr>)) (\<lambda>_.
             bindE (orch_audit env ''triage.persistence_failed'' eid cid
               [(''failure_category'', PStr categ), (''stage'', PStr stg), (''exception_type'', PStr exception_type)]
               AuditFailed) (\<lambda>ev.
             bindE (audit_append ev) (\<lambda>_.
             commit env)))))))
     (\<lambda>(_ :: exn). ret ())"

text \<open>The handler of the persisting methods: record the failure, answer \<open>False\<close>.\<close>

definition on_failure ::
  "'e env_scheme \<Rightarrow> string \<Rightarrow> string \<Rightarrow> string \<Rightarrow> (world, string \<times> exn, bool) op \<Rightarrow> bool io" where
  "on_failure env eid cid categ body =
     catch body (\<lambda>(stg, e).
       bindE (record_persistence_failure env eid cid categ stg (root_exception_type e)) (\<lambda>_. ret False))"

subsection \<open>Replay, start, tool and final persistence\<close>

definition find_replay :: "'e env_scheme \<Rightarrow> string \<Rightarrow> string \<Rightarrow> string \<Rightarrow> OrchestrationOutcome option io" where
  "find_replay env key eid cid =
     catch (with_uow (
       bindE (executions_get_by_idempotency_key env key) (\<lambda>existing.
       case existing of None \<Rightarrow> ret None
       | Some e \<Rightarrow>
           bindE (results_get_for_execution env (ex_execution_id e)) (\<lambda>result.
           bindE (required (validate_orchestration_outcome
             \<lparr>out_execution_id = ex_execution_id e, out_correlation_id = cid, out_durable = True,
              out_reason_code = IDEMPOTENT_REPLAY, out_result = result, out_policy_decision = None\<rparr>)) (\<lambda>out.
           ret (Some out))))))
     (\<lambda>(_ :: exn). bindE (persistence_failure eid cid) (\<lambda>out. ret (Some out)))"

definition persist_start :: "'e env_scheme \<Rightarrow> SecurityAlert \<Rightarrow> string \<Rightarrow> string \<Rightarrow> string \<Rightarrow> bool io" where
  "persist_start env alert key eid cid =
     bindE (now env) (\<lambda>t.
     on_failure env eid cid ''START_PERSISTENCE_FAILED'' (
       bindE (with_uow (
         bindE (tagged ''load_alert'' (alerts_get env (alert_id alert))) (\<lambda>found.
         bindE (case found of Some _ \<Rightarrow> ret ()
           | None \<Rightarrow> bindE (tagged ''persist_alert'' (alerts_add alert)) (\<lambda>_. tagged ''flush_alert'' (flush env))) (\<lambda>_.
         bindE (tagged ''persist_execution''
           (bindE (required (validate_execution
             \<lparr>ex_execution_id = eid, ex_alert_id = alert_id alert, ex_state = TRunning, idempotency_key = key,
              created_at = t, updated_at = t, predecessor_execution_id = None, ex_failure_category = None\<rparr>)) executions_add)) (\<lambda>_.
         bindE (tagged ''append_start_audit''
           (bindE (orch_audit env ''triage.execution_started'' eid cid [(''state'', PStr ''RUNNING'')] AuditSuccess) audit_append)) (\<lambda>_.
         tagged ''commit_start'' (commit env))))))) (\<lambda>_. ret True)))"

definition persist_tool ::
  "'e env_scheme \<Rightarrow> ToolInvocationRecord \<Rightarrow> pydict option \<Rightarrow> string option \<Rightarrow> bool io" where
  "persist_tool env call result goal =
     on_failure env (ir_execution_id call) (ir_correlation_id call) ''TOOL_PERSISTENCE_FAILED'' (
       bindE (with_uow (
         bindE (tagged ''persist_tool_invocation'' (invocations_add call result)) (\<lambda>_.
         bindE (tagged ''append_tool_audit''
           (bindE (orch_audit env ''triage.tool_invoked'' (ir_execution_id call) (ir_correlation_id call)
             ([(''call_id'', PStr (ir_call_id call)), (''tool_name'', PStr (ir_tool_name call)),
               (''authorization'', PStr (authorization_value (ir_authorization call))),
               (''outcome'', PStr (gateway_status_value (ir_outcome call)))]
              @ (case goal of None \<Rightarrow> [] | Some g \<Rightarrow> [(''evidence_goal'', PStr g)]))
             (if ir_outcome call = SUCCESS then AuditSuccess else AuditDenied)) audit_append)) (\<lambda>_.
         tagged ''commit_tool_iteration'' (commit env))))) (\<lambda>_. ret True))"

definition terminal_state :: "PolicyDecision \<Rightarrow> TriageExecutionState" where
  "terminal_state d = (if disposition (pd_result d) = NEEDS_REVIEW then TNeedsReview else TCompleted)"

definition persist_final ::
  "'e env_scheme \<Rightarrow> string \<Rightarrow> string \<Rightarrow> PolicyDecision \<Rightarrow> OrchestrationReasonCode \<Rightarrow> bool io" where
  "persist_final env eid cid dec rcode =
     on_failure env eid cid ''FINALIZATION_FAILED'' (with_uow (
       bindE (tagged ''load_execution'' (executions_get env eid)) (\<lambda>existing.
       case existing of None \<Rightarrow> ret False
       | Some e \<Rightarrow>
           bindE (tagged ''persist_actions''
             (for_each (recommended_actions (pd_result dec)) (\<lambda>a. actions_add env eid a (pd_policy_version dec)))) (\<lambda>_.
           bindE (if recommended_actions (pd_result dec) = [] then ret () else tagged ''flush_actions'' (flush env)) (\<lambda>_.
           bindE (tagged ''persist_result''
             (bindE (next_id env ''result'') (\<lambda>rid. results_add rid eid (pd_result dec)))) (\<lambda>_.
           bindE (tagged ''transition_execution''
             (bindE (now env) (\<lambda>t. executions_replace env (e\<lparr>ex_state := terminal_state dec, updated_at := t\<rparr>)))) (\<lambda>_.
           bindE (tagged ''append_audit''
             (bindE (orch_audit env ''triage.policy_enforced'' eid cid
               [(''policy_version'', PStr (pd_policy_version dec)),
                (''reason_codes'', PList (map (\<lambda>r. PStr (reason_value r)) (pd_reason_codes dec))),
                (''orchestration_reason'', PStr (orchestration_reason_value rcode)),
                (''disposition'', PStr (disposition_value (disposition (pd_result dec))))] AuditSuccess) audit_append)) (\<lambda>_.
           bindE (tagged ''append_audit''
             (bindE (orch_audit env ''triage.execution_terminal'' eid cid
               [(''state'', PStr (triage_state_value (terminal_state dec)))] AuditSuccess) audit_append)) (\<lambda>_.
           bindE (tagged ''commit'' (commit env)) (\<lambda>_.
           ret True))))))))))"

subsection \<open>Evidence\<close>

text \<open>\<open>str(value)\<close> of a scalar; the provenance of an outcome holds only strings.\<close>

fun str_of :: "pyval \<Rightarrow> string" where
  "str_of PNone = ''None''"
| "str_of (PBool b) = (if b then ''True'' else ''False'')"
| "str_of (PInt i) = int_text i"
| "str_of (PFloat t) = t"
| "str_of (PStr s) = s"
| "str_of _ = []"

definition get_text :: "string \<Rightarrow> string \<Rightarrow> pydict \<Rightarrow> string" where
  "get_text k dflt d = (case dict_get k d of None \<Rightarrow> dflt | Some v \<Rightarrow> str_of v)"

definition provenance_of :: "pydict \<Rightarrow> pydict" where
  "provenance_of outcome = (case dict_get ''provenance'' outcome of Some (PDict d) \<Rightarrow> d | _ \<Rightarrow> [])"

definition to_evidence :: "'e env_scheme \<Rightarrow> ToolInvocationRecord \<Rightarrow> pydict \<Rightarrow> AccumulatedEvidence io" where
  "to_evidence env call outcome =
     (let status = get_text ''status'' ''UNKNOWN'' outcome in
     bindE (required (validate_tool_call
       \<lparr>invocation_id = ir_call_id call, tc_tool_name = ir_tool_name call,
        tc_tool_version = get_text ''tool_version'' ''unknown'' (provenance_of outcome), called_at = started_at call,
        tc_summary = ir_tool_name call @ '' returned '' @ status @ ''.''\<rparr>)) (\<lambda>tcall.
     bindE (next_id env ''evidence'') (\<lambda>eid.
     bindE (required (validate_evidence
       \<lparr>evidence_id = eid, source_type = ir_tool_name call, source_reference = ir_call_id call,
        collected_at = completed_at call,
        source_version = get_text ''fixture_version'' ''unknown'' (provenance_of outcome),
        ev_summary = ''Sanitized '' @ ir_tool_name call @ '' outcome: '' @ status @ ''.'',
        tool_invocation_id = Some (ir_call_id call)\<rparr>)) (\<lambda>reference.
     ret \<lparr>acc_reference = reference, acc_tool_call = tcall, acc_outcome = outcome\<rparr>))))"

text \<open>A later item with the same identifier wins, as in the dictionaries the code builds.\<close>

definition candidate_references_are_valid :: "CandidateAssessment \<Rightarrow> AccumulatedEvidence list \<Rightarrow> bool" where
  "candidate_references_are_valid c acc \<longleftrightarrow>
     list_all (\<lambda>e. row_get evidence_id (evidence_id e) (rev (map acc_reference acc)) = Some e) (cand_evidence c)
     \<and> list_all (\<lambda>t. row_get invocation_id (invocation_id t) (rev (map acc_tool_call acc)) = Some t) (cand_tool_calls c)"

subsection \<open>One iteration and the loop\<close>

definition build_context ::
  "orchestrator \<Rightarrow> SecurityAlert \<Rightarrow> string \<Rightarrow> string \<Rightarrow> ToolExecutionContext \<Rightarrow> AccumulatedEvidence list
     \<Rightarrow> nat \<Rightarrow> ReasonerContext option" where
  "build_context orc alert eid cid ctx acc it =
     map_option (\<lambda>targets.
       \<lparr>rc_execution_id = eid, rc_correlation_id = cid, rc_alert = alert, rc_evidence = acc,
        authorized_tool_targets = targets,
        action_semantics = (if reasoner_guidance_enabled orc then orc_action_semantics orc else []),
        iteration = it, remaining_iterations = max_iterations (orc_limits orc) - it,
        remaining_total_tool_calls = max 0 (limit_total_calls (orc_gateway_limits orc) - total_calls ctx)\<rparr>)
     (if reasoner_guidance_enabled orc
      then all_valid from_scope_key (sorted_set (map scope_key (entities alert))) else Some [])"

definition ask_reasoner :: "orchestrator \<Rightarrow> ReasonerContext \<Rightarrow> reasoner_reply io" where
  "ask_reasoner orc context = (\<lambda>w. (Inr (reasoner orc (reasoner_calls w) context),
     w\<lparr>reasoner_calls := Suc (reasoner_calls w)\<rparr>))"

definition tick_gateway :: "nat io" where
  "tick_gateway = (\<lambda>w. (Inr (gateway_calls w), w\<lparr>gateway_calls := Suc (gateway_calls w)\<rparr>))"

text \<open>The gateway call, with the two readings of each clock that it makes.\<close>

definition gateway_call ::
  "'e env_scheme \<Rightarrow> orchestrator \<Rightarrow> ProposedToolRequest \<Rightarrow> ToolExecutionContext
     \<Rightarrow> (GatewayResult \<times> ToolExecutionContext) io" where
  "gateway_call env orc p ctx =
     bindE (now env) (\<lambda>t0.
     bindE (monotonic_ms env) (\<lambda>m0.
     bindE tick_gateway (\<lambda>n.
     bindE (now env) (\<lambda>t1.
     bindE (monotonic_ms env) (\<lambda>m1.
     ret (invoke (ip_parser orc) (orc_registry orc) (tool_answer orc n)
       \<lparr>start_now = t0, start_ns = m0 * 1000000, finish_now = t1, finish_ns = m1 * 1000000\<rparr> p ctx))))))"

datatype loop_end =
    Terminated OrchestrationReasonCode
  | Proposed CandidateAssessment
  | NotPersisted

type_synonym loop_state = "ToolExecutionContext \<times> AccumulatedEvidence list"

definition tool_step ::
  "'e env_scheme \<Rightarrow> orchestrator \<Rightarrow> loop_state \<Rightarrow> string \<Rightarrow> pydict \<Rightarrow> string option \<Rightarrow> (loop_end + loop_state) io" where
  "tool_step env orc st tname args goal =
     bindE (next_id env ''tool-invocation'') (\<lambda>iid.
     bindE (required (Identifier iid)) (\<lambda>cid.
     bindE (gateway_call env orc \<lparr>call_id = cid, proposed_tool = tname, arguments = args\<rparr> (fst st)) (\<lambda>(result, ctx).
     let call = last (invocation_records ctx) in
     bindE (persist_tool env call (gr_result result) goal) (\<lambda>ok.
     if \<not> ok then ret (Inl NotPersisted)
     else if gr_status result \<noteq> SUCCESS
       then ret (Inl (Terminated (if gr_authorization result = DENIED then TOOL_REQUEST_DENIED else TOOL_FAILURE)))
     else if length (snd st) \<ge> max_evidence_items (orc_limits orc) then ret (Inl (Terminated CONTEXT_LIMIT))
     else
       bindE (to_evidence env call (case gr_result result of Some d \<Rightarrow> d | None \<Rightarrow> [])) (\<lambda>item.
       ret (Inr (ctx, snd st @ [item])))))))"

definition iteration_step ::
  "'e env_scheme \<Rightarrow> orchestrator \<Rightarrow> SecurityAlert \<Rightarrow> string \<Rightarrow> string \<Rightarrow> int \<Rightarrow> nat \<Rightarrow> loop_state
     \<Rightarrow> (loop_end + loop_state) io" where
  "iteration_step env orc alert eid cid started it st =
     bindE (monotonic_ms env) (\<lambda>m.
     if m - started \<ge> deadline_ms (orc_limits orc) then ret (Inl (Terminated DEADLINE_EXCEEDED))
     else
       bindE (required (build_context orc alert eid cid (fst st) (snd st) it)) (\<lambda>context.
       if context_size orc context > max_context_bytes (orc_limits orc) then ret (Inl (Terminated CONTEXT_LIMIT))
       else
         bindE (ask_reasoner orc context) (\<lambda>reply.
         case reply of
           ReasonerTimeout \<Rightarrow> ret (Inl (Terminated DEADLINE_EXCEEDED))
         | ReasonerRaised \<Rightarrow> ret (Inl (Terminated REASONER_FAILURE))
         | ReasonerReturned None \<Rightarrow> ret (Inl (Terminated INVALID_REASONER_OUTPUT))
         | ReasonerReturned (Some (ReasonerCandidate c)) \<Rightarrow>
             ret (Inl (if candidate_references_are_valid c (snd st) then Proposed c
                       else Terminated EVIDENCE_REFERENCE_VIOLATION))
         | ReasonerReturned (Some (ReasonerToolCall tname args goal)) \<Rightarrow> tool_step env orc st tname args goal)))"

fun run_loop ::
  "'e env_scheme \<Rightarrow> orchestrator \<Rightarrow> SecurityAlert \<Rightarrow> string \<Rightarrow> string \<Rightarrow> int \<Rightarrow> nat \<Rightarrow> loop_state \<Rightarrow> loop_end io" where
  "run_loop env orc alert eid cid started 0 st = ret (Terminated ITERATION_LIMIT)"
| "run_loop env orc alert eid cid started (Suc n) st =
     bindE (iteration_step env orc alert eid cid started (max_iterations (orc_limits orc) - n) st) (\<lambda>r.
     case r of Inl e \<Rightarrow> ret e | Inr st' \<Rightarrow> run_loop env orc alert eid cid started n st')"

subsection \<open>The run\<close>

text \<open>The policy consumes action identifiers from the shared generator.\<close>

definition policy_decision ::
  "'e env_scheme \<Rightarrow> orchestrator \<Rightarrow> SecurityAlert \<Rightarrow> CandidateAssessment option \<Rightarrow> PolicyDecision io" where
  "policy_decision env orc alert payload =
     bindE (now env) (\<lambda>t. \<lambda>w.
       let (d, n) = evaluate_untrusted (sha256 env) (orc_catalog orc) (fresh_id env ''action'') (id_counts w ''action'')
             payload (alert_id alert) (scope_from_entities (entities alert)) t
       in (Inr d, w\<lparr>id_counts := (id_counts w)(''action'' := n)\<rparr>))"

definition finalize ::
  "'e env_scheme \<Rightarrow> string \<Rightarrow> string \<Rightarrow> PolicyDecision \<Rightarrow> OrchestrationReasonCode \<Rightarrow> OrchestrationOutcome io" where
  "finalize env eid cid dec rcode =
     bindE (persist_final env eid cid dec rcode) (\<lambda>ok.
     if \<not> ok then persistence_failure eid cid
     else required (validate_orchestration_outcome
       \<lparr>out_execution_id = eid, out_correlation_id = cid, out_durable = True, out_reason_code = rcode,
        out_result = Some (pd_result dec), out_policy_decision = Some dec\<rparr>))"

definition conclude ::
  "'e env_scheme \<Rightarrow> orchestrator \<Rightarrow> SecurityAlert \<Rightarrow> string \<Rightarrow> string \<Rightarrow> loop_end \<Rightarrow> OrchestrationOutcome io" where
  "conclude env orc alert eid cid e =
     (case e of
        NotPersisted \<Rightarrow> persistence_failure eid cid
      | Terminated code \<Rightarrow>
          bindE (policy_decision env orc alert None) (\<lambda>dec. finalize env eid cid dec code)
      | Proposed c \<Rightarrow>
          bindE (policy_decision env orc alert (Some c)) (\<lambda>dec.
          finalize env eid cid dec
            (if disposition (pd_result dec) = NEEDS_REVIEW then POLICY_SAFE_REVIEW else COMPLETED)))"

definition run :: "'e env_scheme \<Rightarrow> orchestrator \<Rightarrow> SecurityAlert \<Rightarrow> string \<Rightarrow> string \<Rightarrow> string \<Rightarrow> OrchestrationOutcome io" where
  "run env orc alert key eid cid =
     bindE (find_replay env key eid cid) (\<lambda>replay.
     case replay of Some out \<Rightarrow> ret out
     | None \<Rightarrow>
         bindE (persist_start env alert key eid cid) (\<lambda>started_ok.
         if \<not> started_ok then persistence_failure eid cid
         else
           bindE (monotonic_ms env) (\<lambda>started.
           bindE (run_loop env orc alert eid cid started (max_iterations (orc_limits orc))
             (new_context eid cid (from_alert alert) (orc_gateway_limits orc), [])) (\<lambda>e.
           conclude env orc alert eid cid e))))"

end
