(* ===== verification/Orchestrator_Steps.thy ===== *)
theory Orchestrator_Steps
  imports Orchestrator
begin

text \<open>
  What each persisting step of a run does to the committed database, and what the loop and the
  services around it leave alone.
\<close>

text \<open>The parts of the world that no database step touches.\<close>

definition same_calls :: "world \<Rightarrow> world \<Rightarrow> bool" where
  "same_calls w w' \<longleftrightarrow> executed w' = executed w \<and> reasoner_calls w' = reasoner_calls w \<and> gateway_calls w' = gateway_calls w"

lemma same_calls_refl [simp]: "same_calls w w"
  by (simp add: same_calls_def)

lemma same_calls_updates [simp]:
  "same_calls w (w'\<lparr>now_calls := a\<rparr>) = same_calls w w'" "same_calls w (w'\<lparr>db_calls := a\<rparr>) = same_calls w w'"
  "same_calls w (w'\<lparr>session := d\<rparr>) = same_calls w w'" "same_calls w (w'\<lparr>store := d\<rparr>) = same_calls w w'"
  "same_calls w (w'\<lparr>broken := b\<rparr>) = same_calls w w'" "same_calls w (w'\<lparr>id_counts := f\<rparr>) = same_calls w w'"
  "same_calls w (w'\<lparr>monotonic_calls := a\<rparr>) = same_calls w w'"
  "same_calls (w\<lparr>now_calls := a\<rparr>) w' = same_calls w w'" "same_calls (w\<lparr>monotonic_calls := a\<rparr>) w' = same_calls w w'"
  "same_calls (w\<lparr>id_counts := f\<rparr>) w' = same_calls w w'"
  by (simp_all add: same_calls_def)

text \<open>Nothing was committed and nothing outside was called.\<close>

definition clean :: "world \<Rightarrow> world \<Rightarrow> bool" where
  "clean w w' \<longleftrightarrow> same_calls w w' \<and> store w' = store w"

lemma clean_refl [simp]: "clean w w"
  by (simp add: clean_def)

lemma clean_updates [simp]:
  "clean w (w'\<lparr>now_calls := a\<rparr>) = clean w w'" "clean w (w'\<lparr>db_calls := a\<rparr>) = clean w w'"
  "clean w (w'\<lparr>session := d\<rparr>) = clean w w'" "clean w (w'\<lparr>broken := b\<rparr>) = clean w w'"
  "clean w (w'\<lparr>id_counts := f\<rparr>) = clean w w'" "clean w (w'\<lparr>monotonic_calls := a\<rparr>) = clean w w'"
  by (simp_all add: clean_def)

lemma same_calls_trans: "same_calls w w1 \<Longrightarrow> same_calls w1 w2 \<Longrightarrow> same_calls w w2"
  by (simp add: same_calls_def)

text \<open>The only mark a failed step may leave: the running execution is failed, with an event.\<close>

definition failure_mark :: "string \<Rightarrow> db \<Rightarrow> db \<Rightarrow> bool" where
  "failure_mark eid d d' \<longleftrightarrow> d' = d \<or>
     (\<exists>e t c ev. find_execution eid d = Some e \<and> ex_state e = TRunning \<and> event_type ev = ''triage.persistence_failed''
        \<and> d' = insert_event ev (replace_execution (e\<lparr>ex_state := TFailed, updated_at := t, ex_failure_category := Some c\<rparr>) d))"

lemmas identifier_eval = Identifier_def constrained_def strip_with_def is_space_def is_alnum_def is_ident_char_def Let_def

lemma triage_event_types [simp]:
  "Identifier ''triage.persistence_failed'' = Some ''triage.persistence_failed''"
  "Identifier ''triage.execution_started'' = Some ''triage.execution_started''"
  "Identifier ''triage.tool_invoked'' = Some ''triage.tool_invoked''"
  "Identifier ''triage.policy_enforced'' = Some ''triage.policy_enforced''"
  "Identifier ''triage.execution_terminal'' = Some ''triage.execution_terminal''"
  by (simp_all add: identifier_eval)

text \<open>An orchestrator event, abstracted to its type.\<close>

lemma orch_audit_wp:
  assumes "Identifier et = Some et"
    and "\<And>ev w'. event_type ev = et \<Longrightarrow> same_calls w w' \<Longrightarrow> store w' = store w \<Longrightarrow> session w' = session w \<Longrightarrow>
      broken w' = broken w \<Longrightarrow> Q ev w'"
    and "\<And>w'. same_calls w w' \<Longrightarrow> store w' = store w \<Longrightarrow> session w' = session w \<Longrightarrow> broken w' = broken w \<Longrightarrow> E ValidationError w'"
  shows "wp (orch_audit env et eid cid payload out) Q E w"
  unfolding orch_audit_def using assms(1)
  by (auto simp: wp_simps same_calls_def split: option.split intro!: assms(2,3) dest!: validate_event_SomeD)

definition failure_post :: "string \<Rightarrow> world \<Rightarrow> world \<Rightarrow> bool" where
  "failure_post eid w w' \<longleftrightarrow> same_calls w w' \<and> failure_mark eid (store w) (store w')"

lemma failure_post_fresh [simp]: "failure_post eid w (fresh_session w') = failure_post eid w w'"
  by (simp add: failure_post_def same_calls_def)

lemma failure_post_same: "same_calls w w' \<Longrightarrow> store w' = store w \<Longrightarrow> failure_post eid w w'"
  by (simp add: failure_post_def failure_mark_def)

lemma record_failure_wp:
  "wp (record_persistence_failure env eid cid cat stg ext) (\<lambda>_. failure_post eid w) (\<lambda>_ _. False) w"
proof -
  have tail: "wp (audit_append ev) (\<lambda>_. wp (commit env) (\<lambda>_. failure_post eid w) (\<lambda>_. failure_post eid w)) (\<lambda>_. failure_post eid w) v"
    if "same_calls w v" "store v = store w" "find_execution eid (store w) = Some e" "ex_state e = TRunning"
      "session v = replace_execution (e\<lparr>ex_state := TFailed, updated_at := t, ex_failure_category := Some cat\<rparr>) (store w)"
      "event_type ev = ''triage.persistence_failed''" for v e t ev
    using that by (auto simp: audit_append_def wp_simps Let_def same_calls_def failure_mark_def failure_post_def split: option.split)
  have audit: "wp (orch_audit env ''triage.persistence_failed'' eid cid payload AuditFailed)
      (\<lambda>ev. wp (audit_append ev) (\<lambda>_. wp (commit env) (\<lambda>_. failure_post eid w) (\<lambda>_. failure_post eid w)) (\<lambda>_. failure_post eid w))
      (\<lambda>_. failure_post eid w) v"
    if "same_calls w v" "store v = store w" "find_execution eid (store w) = Some e" "ex_state e = TRunning"
      "session v = replace_execution (e\<lparr>ex_state := TFailed, updated_at := t, ex_failure_category := Some cat\<rparr>) (store w)"
    for v e t payload
    by (rule orch_audit_wp)
      (use that in \<open>auto simp: wp_bindE intro!: tail failure_post_same elim: same_calls_trans\<close>)
  show ?thesis
    unfolding record_persistence_failure_def executions_get_def executions_replace_def
    by (simp add: wp_simps split: option.split) (auto simp: same_calls_def intro!: audit failure_post_same)
qed


text \<open>A persisting method either does its work or answers \<open>False\<close> after at most the failure mark.\<close>

lemma on_failure_wp:
  assumes "wp body Q (\<lambda>_. clean w) w"
    and "\<And>w'. failure_post eid w w' \<Longrightarrow> Q False w'"
  shows "wp (on_failure env eid cid cat body) Q E w"
proof -
  have "wp (record_persistence_failure env eid cid cat stg ext) (\<lambda>_. Q False) E w1"
    if "same_calls w w1" "store w1 = store w" for stg ext w1
  proof (rule wp_mono [OF record_failure_wp])
    show "Q False w2" if "failure_post eid w1 w2" for w2
      by (rule assms(2)) (use that \<open>same_calls w w1\<close> \<open>store w1 = store w\<close> in \<open>auto simp: failure_post_def same_calls_def\<close>)
  qed simp
  then show ?thesis
    unfolding on_failure_def wp_catch by (intro wp_mono [OF assms(1)]) (auto simp: wp_simps clean_def split: prod.split)
qed

text \<open>The end of every unit of work: an event, then the commit.\<close>

lemma append_commit_wp:
  assumes et: "Identifier et = Some et" and v: "clean w v"
    and fin: "\<And>ev w'. event_type ev = et \<Longrightarrow> \<not> broken v \<Longrightarrow> event_admissible ev (session v) \<Longrightarrow> same_calls w w' \<Longrightarrow>
      store w' = insert_event ev (session v) \<Longrightarrow> Q () w'"
    and err: "\<And>e w'. clean w w' \<Longrightarrow> E1 e w'" "\<And>e w'. clean w w' \<Longrightarrow> E2 e w'" "\<And>e w'. clean w w' \<Longrightarrow> E3 e w'"
  shows "wp (orch_audit env et eid cid payload out) (\<lambda>ev. wp (audit_append ev) (\<lambda>_. wp (commit env) Q E1) E2) E3 v"
proof (rule orch_audit_wp [OF et])
  fix ev :: AuditEvent and w'
  assume w': "event_type ev = et" "same_calls v w'" "store w' = store v" "session w' = session v" "broken w' = broken v"
  have sc: "same_calls w w'" using same_calls_trans [of w v w'] v w'(2) by (simp add: clean_def)
  show "wp (audit_append ev) (\<lambda>_. wp (commit env) Q E1) E2 w'"
    using w' sc v by (auto simp: audit_append_def wp_simps Let_def clean_def split: option.split intro!: fin err)
next
  show "E3 ValidationError w'" if "same_calls v w'" "store w' = store v" for w'
    using that v same_calls_trans [of w v w'] by (intro err) (simp add: clean_def)
qed

subsection \<open>Start\<close>

text \<open>The database after a start that was persisted.\<close>

definition with_alert :: "SecurityAlert \<Rightarrow> db \<Rightarrow> db" where
  "with_alert alert d = (if find_alert (alert_id alert) d = None then insert_alert (alert_row alert) d else d)"

definition started :: "SecurityAlert \<Rightarrow> string \<Rightarrow> string \<Rightarrow> db \<Rightarrow> db \<Rightarrow> bool" where
  "started alert key eid d d' \<longleftrightarrow>
     (find_alert (alert_id alert) d = None \<longrightarrow> alert_admissible (alert_row alert) d)
     \<and> (\<exists>x ev. execution_admissible x (with_alert alert d) \<and> d' = insert_event ev (insert_execution x (with_alert alert d))
        \<and> event_type ev = ''triage.execution_started''
        \<and> ex_state x = TRunning \<and> Identifier eid = Some (ex_execution_id x) \<and> Identifier key = Some (idempotency_key x)
        \<and> Identifier (alert_id alert) = Some (ex_alert_id x))"

lemma validate_execution_SomeD:
  "validate_execution e = Some x \<Longrightarrow> Identifier (ex_execution_id e) = Some (ex_execution_id x)
     \<and> Identifier (ex_alert_id e) = Some (ex_alert_id x) \<and> Identifier (idempotency_key e) = Some (idempotency_key x)
     \<and> ex_state x = ex_state e \<and> updated_at x = updated_at e \<and> created_at x = created_at e"
  by (auto simp: validate_execution_def split: option.splits)

definition start_post :: "SecurityAlert \<Rightarrow> string \<Rightarrow> string \<Rightarrow> world \<Rightarrow> bool \<Rightarrow> world \<Rightarrow> bool" where
  "start_post alert key eid w ok w' \<longleftrightarrow> same_calls w w' \<and>
     (if ok then started alert key eid (store w) (store w') else failure_mark eid (store w) (store w'))"

lemma start_commit_wp:
  assumes v: "clean w v" "session v = insert_execution x (with_alert alert (store w))"
      "\<not> broken v \<Longrightarrow> execution_admissible x (with_alert alert (store w))"
      "\<not> broken v \<Longrightarrow> find_alert (alert_id alert) (store w) = None \<Longrightarrow> alert_admissible (alert_row alert) (store w)"
    and x: "ex_state x = TRunning" "Identifier eid = Some (ex_execution_id x)" "Identifier key = Some (idempotency_key x)"
      "Identifier (alert_id alert) = Some (ex_alert_id x)"
  shows "wp (orch_audit env ''triage.execution_started'' eid cid payload AuditSuccess)
      (\<lambda>ev. wp (audit_append ev) (\<lambda>_. wp (commit env) (\<lambda>_ w'. start_post alert key eid w True (fresh_session w'))
         (\<lambda>_ w'. clean w (fresh_session w'))) (\<lambda>_ w'. clean w (fresh_session w'))) (\<lambda>_ w'. clean w (fresh_session w')) v"
proof (rule append_commit_wp [where w = w])
  fix ev :: AuditEvent and w' assume w': "event_type ev = ''triage.execution_started''" "\<not> broken v" "same_calls w w'"
    "store w' = insert_event ev (session v)"
  have "started alert key eid (store w) (store w')"
    unfolding started_def w'(4) v(2)
    by (intro conjI impI exI [of _ x] exI [of _ ev]) (use v(3,4) x w'(1,2) in simp_all)
  then show "start_post alert key eid w True (fresh_session w')" using w'(3) by (simp add: start_post_def)
qed (use v(1) in \<open>simp_all add: clean_def\<close>)

lemma persist_start_wp: "wp (persist_start env alert key eid cid) (start_post alert key eid w) (\<lambda>_ _. False) w"
  unfolding persist_start_def wp_bindE wp_now
proof (rule on_failure_wp)
  let ?v = "w\<lparr>now_calls := Suc (now_calls w)\<rparr>"
  show "start_post alert key eid w False w'" if "failure_post eid ?v w'" for w'
    using that by (simp add: failure_post_def start_post_def)
  have clean: "clean w w' \<longleftrightarrow> clean ?v w'" for w' by (simp add: clean_def)
  show "wp (bindE (with_uow (
         bindE (tagged ''load_alert'' (alerts_get env (alert_id alert))) (\<lambda>found.
         bindE (case found of Some _ \<Rightarrow> ret ()
           | None \<Rightarrow> bindE (tagged ''persist_alert'' (alerts_add alert)) (\<lambda>_. tagged ''flush_alert'' (flush env))) (\<lambda>_.
         bindE (tagged ''persist_execution''
           (bindE (required (validate_execution
             \<lparr>ex_execution_id = eid, ex_alert_id = alert_id alert, ex_state = TRunning, idempotency_key = key,
              created_at = clock_now env (now_calls w), updated_at = clock_now env (now_calls w), predecessor_execution_id = None,
              ex_failure_category = None\<rparr>)) executions_add)) (\<lambda>_.
         bindE (tagged ''append_start_audit''
           (bindE (orch_audit env ''triage.execution_started'' eid cid [(''state'', PStr ''RUNNING'')] AuditSuccess) audit_append)) (\<lambda>_.
         tagged ''commit_start'' (commit env))))))) (\<lambda>_. ret True))
     (start_post alert key eid w) (\<lambda>_. clean ?v) ?v"
    unfolding alerts_get_def alerts_add_def executions_add_def clean [symmetric]
    by (simp add: wp_simps Let_def clean_def split: option.split)
      (auto simp: with_alert_def intro!: start_commit_wp [unfolded clean_def, simplified] dest!: validate_execution_SomeD)
qed

subsection \<open>Tool calls\<close>

definition invoked :: "ToolInvocationRecord \<Rightarrow> pydict option \<Rightarrow> db \<Rightarrow> db \<Rightarrow> bool" where
  "invoked call res d d' \<longleftrightarrow> (\<exists>ev. event_type ev = ''triage.tool_invoked''
     \<and> invocation_admissible \<lparr>row_invocation = call, row_tool_result = res\<rparr> d
     \<and> d' = insert_event ev (insert_invocation \<lparr>row_invocation = call, row_tool_result = res\<rparr> d))"

definition tool_post :: "ToolInvocationRecord \<Rightarrow> pydict option \<Rightarrow> world \<Rightarrow> bool \<Rightarrow> world \<Rightarrow> bool" where
  "tool_post call res w ok w' \<longleftrightarrow> same_calls w w' \<and>
     (if ok then invoked call res (store w) (store w') else failure_mark (ir_execution_id call) (store w) (store w'))"

lemma tool_commit_wp:
  assumes v: "clean w v" "session v = insert_invocation \<lparr>row_invocation = call, row_tool_result = res\<rparr> (store w)"
      "\<not> broken v \<Longrightarrow> invocation_admissible \<lparr>row_invocation = call, row_tool_result = res\<rparr> (store w)"
  shows "wp (orch_audit env ''triage.tool_invoked'' eid cid payload out)
      (\<lambda>ev. wp (audit_append ev) (\<lambda>_. wp (commit env) (\<lambda>_ w'. tool_post call res w True (fresh_session w'))
         (\<lambda>_ w'. clean w (fresh_session w'))) (\<lambda>_ w'. clean w (fresh_session w'))) (\<lambda>_ w'. clean w (fresh_session w')) v"
proof (rule append_commit_wp [where w = w])
  fix ev :: AuditEvent and w' assume w': "event_type ev = ''triage.tool_invoked''" "\<not> broken v" "same_calls w w'"
    "store w' = insert_event ev (session v)"
  have "invoked call res (store w) (store w')"
    unfolding invoked_def w'(4) v(2) by (rule exI [of _ ev]) (use v(3) w'(1,2) in simp)
  then show "tool_post call res w True (fresh_session w')" using w'(3) by (simp add: tool_post_def)
qed (use v(1) in \<open>simp_all add: clean_def\<close>)

lemma persist_tool_wp: "wp (persist_tool env call res goal) (tool_post call res w) (\<lambda>_ _. False) w"
  unfolding persist_tool_def
proof (rule on_failure_wp)
  show "tool_post call res w False w'" if "failure_post (ir_execution_id call) w w'" for w'
    using that by (simp add: failure_post_def tool_post_def)
qed (simp only: invocations_add_def wp_simps, rule tool_commit_wp, simp_all add: clean_def)

subsection \<open>Finalization\<close>

fun actions_clash :: "(string \<Rightarrow> string) \<Rightarrow> string \<Rightarrow> string \<Rightarrow> ActionProposal list \<Rightarrow> db \<Rightarrow> bool" where
  "actions_clash sha eid v [] d = False"
| "actions_clash sha eid v (a # as) d = (\<not> action_admissible (action_row sha eid a v) d
     \<or> actions_clash sha eid v as (insert_action (action_row sha eid a v) d))"

definition with_actions :: "(string \<Rightarrow> string) \<Rightarrow> string \<Rightarrow> string \<Rightarrow> ActionProposal list \<Rightarrow> db \<Rightarrow> db" where
  "with_actions sha eid v as d =
     d\<lparr>recommended_actions_table := recommended_actions_table d @ map (\<lambda>a. action_row sha eid a v) as\<rparr>"

lemma wp_add_actions:
  "wp (for_each as (\<lambda>a. actions_add env eid a v)) Q E w =
     Q () (w\<lparr>session := with_actions (sha256 env) eid v as (session w),
              broken := (broken w \<or> actions_clash (sha256 env) eid v as (session w))\<rparr>)"
  by (induction as arbitrary: w) (simp_all add: with_actions_def actions_add_def insert_action_def wp_simps disj_assoc)

text \<open>The database after a finalization that was persisted.\<close>

definition final_rows :: "(string \<Rightarrow> string) \<Rightarrow> string \<Rightarrow> PolicyDecision \<Rightarrow> string \<Rightarrow> db \<Rightarrow> db" where
  "final_rows sha eid dec rid d = insert_result (result_row rid eid (pd_result dec))
     (with_actions sha eid (pd_policy_version dec) (recommended_actions (pd_result dec)) d)"

definition final_admissible :: "(string \<Rightarrow> string) \<Rightarrow> string \<Rightarrow> PolicyDecision \<Rightarrow> string \<Rightarrow> db \<Rightarrow> bool" where
  "final_admissible sha eid dec rid d \<longleftrightarrow>
     \<not> actions_clash sha eid (pd_policy_version dec) (recommended_actions (pd_result dec)) d
     \<and> result_admissible (result_row rid eid (pd_result dec))
         (with_actions sha eid (pd_policy_version dec) (recommended_actions (pd_result dec)) d)"

definition finalized :: "(string \<Rightarrow> string) \<Rightarrow> string \<Rightarrow> PolicyDecision \<Rightarrow> db \<Rightarrow> db \<Rightarrow> bool" where
  "finalized sha eid dec d d' \<longleftrightarrow> (\<exists>e t rid ev1 ev2.
     find_execution eid d = Some e \<and> final_admissible sha eid dec rid d
     \<and> event_type ev1 = ''triage.policy_enforced'' \<and> event_type ev2 = ''triage.execution_terminal''
     \<and> d' = insert_event ev2 (insert_event ev1
          (replace_execution (e\<lparr>ex_state := terminal_state dec, updated_at := t\<rparr>) (final_rows sha eid dec rid d))))"

definition final_post :: "(string \<Rightarrow> string) \<Rightarrow> string \<Rightarrow> PolicyDecision \<Rightarrow> world \<Rightarrow> bool \<Rightarrow> world \<Rightarrow> bool" where
  "final_post sha eid dec w ok w' \<longleftrightarrow> same_calls w w' \<and>
     (if ok then finalized sha eid dec (store w) (store w') else failure_mark eid (store w) (store w'))"

lemma final_commit_wp:
  assumes e: "find_execution eid (store w) = Some e"
    and v: "clean w v" "session v = insert_event ev1
        (replace_execution (e\<lparr>ex_state := terminal_state dec, updated_at := t\<rparr>) (final_rows sha eid dec rid (store w)))"
      "\<not> broken v \<Longrightarrow> final_admissible sha eid dec rid (store w)" "event_type ev1 = ''triage.policy_enforced''"
  shows "wp (orch_audit env ''triage.execution_terminal'' eid cid payload out)
      (\<lambda>ev. wp (audit_append ev) (\<lambda>_. wp (commit env) (\<lambda>_ w'. final_post sha eid dec w True (fresh_session w'))
         (\<lambda>_ w'. clean w (fresh_session w'))) (\<lambda>_ w'. clean w (fresh_session w'))) (\<lambda>_ w'. clean w (fresh_session w')) v"
proof (rule append_commit_wp [where w = w])
  fix ev :: AuditEvent and w' assume w': "event_type ev = ''triage.execution_terminal''" "\<not> broken v" "same_calls w w'"
    "store w' = insert_event ev (session v)"
  have "finalized sha eid dec (store w) (store w')"
    unfolding finalized_def w'(4) v(2)
    by (intro exI [of _ e] exI [of _ t] exI [of _ rid] exI [of _ ev1] exI [of _ ev]) (use e v(3,4) w'(1,2) in simp)
  then show "final_post sha eid dec w True (fresh_session w')" using w'(3) by (simp add: final_post_def)
qed (use v(1) in \<open>simp_all add: clean_def\<close>)

lemma final_events_wp:
  assumes e: "find_execution eid (store w) = Some e"
    and v: "clean w v" "session v = replace_execution (e\<lparr>ex_state := terminal_state dec, updated_at := t\<rparr>)
        (final_rows sha eid dec rid (store w))"
      "\<not> broken v \<Longrightarrow> final_admissible sha eid dec rid (store w)"
  shows "wp (orch_audit env ''triage.policy_enforced'' eid cid payload out)
      (\<lambda>ev. wp (audit_append ev)
        (\<lambda>_. wp (orch_audit env ''triage.execution_terminal'' eid cid payload' out')
          (\<lambda>ev. wp (audit_append ev) (\<lambda>_. wp (commit env) (\<lambda>_ w'. final_post sha eid dec w True (fresh_session w'))
             (\<lambda>_ w'. clean w (fresh_session w'))) (\<lambda>_ w'. clean w (fresh_session w'))) (\<lambda>_ w'. clean w (fresh_session w')))
        (\<lambda>_ w'. clean w (fresh_session w'))) (\<lambda>_ w'. clean w (fresh_session w')) v"
proof (rule orch_audit_wp)
  fix ev :: AuditEvent and w'
  assume w': "event_type ev = ''triage.policy_enforced''" "same_calls v w'" "store w' = store v" "session w' = session v"
    "broken w' = broken v"
  have sc: "same_calls w w'" using same_calls_trans [of w v w'] v(1) w'(2) by (simp add: clean_def)
  show "wp (audit_append ev) (\<lambda>_. wp (orch_audit env ''triage.execution_terminal'' eid cid payload' out')
          (\<lambda>ev. wp (audit_append ev) (\<lambda>_. wp (commit env) (\<lambda>_ w'. final_post sha eid dec w True (fresh_session w'))
             (\<lambda>_ w'. clean w (fresh_session w'))) (\<lambda>_ w'. clean w (fresh_session w'))) (\<lambda>_ w'. clean w (fresh_session w')))
        (\<lambda>_ w'. clean w (fresh_session w')) w'"
    unfolding audit_append_def [of ev] wp_stage
    by (rule final_commit_wp [OF e, where ?ev1.0 = ev and t = t and rid = rid]) (use v w' sc in \<open>auto simp: clean_def\<close>)
next
  show "clean w (fresh_session w')" if "same_calls v w'" "store w' = store v" for w'
    using that v(1) same_calls_trans [of w v w'] by (simp add: clean_def)
qed simp

lemma find_execution_with_final [simp]:
  "find_execution i (insert_result r d) = find_execution i d"
  "find_execution i (with_actions sha eid v as d) = find_execution i d"
  "with_actions sha eid v [] d = d"
  by (simp_all add: find_execution_def insert_result_def with_actions_def)

lemma find_execution_SomeD: "find_execution i d = Some e \<Longrightarrow> ex_execution_id e = i"
  by (auto simp: find_execution_def dest: row_get_SomeD)

lemma final_post_clean: "clean w w' \<Longrightarrow> final_post sha eid dec w False w'"
  by (simp add: clean_def final_post_def failure_mark_def)

lemma final_rows_wp:
  assumes "session v = replace_execution (e\<lparr>ex_state := terminal_state dec, updated_at := t\<rparr>)
        (insert_result (result_row rid eid (pd_result dec)) D)"
    and "D = with_actions sha eid (pd_policy_version dec) (recommended_actions (pd_result dec)) (store w)"
    and "find_execution eid (store w) = Some e" "clean w v"
    and "\<not> broken v \<Longrightarrow> \<not> actions_clash sha eid (pd_policy_version dec) (recommended_actions (pd_result dec)) (store w)
        \<and> result_admissible (result_row rid eid (pd_result dec)) D"
  shows "wp (orch_audit env ''triage.policy_enforced'' eid cid payload out)
      (\<lambda>ev. wp (audit_append ev)
        (\<lambda>_. wp (orch_audit env ''triage.execution_terminal'' eid cid payload' out')
          (\<lambda>ev. wp (audit_append ev) (\<lambda>_. wp (commit env) (\<lambda>_ w'. final_post sha eid dec w True (fresh_session w'))
             (\<lambda>_. clean w)) (\<lambda>_. clean w)) (\<lambda>_. clean w)) (\<lambda>_. clean w)) (\<lambda>_. clean w) v"
  using final_events_wp [OF assms(3,4), of t dec sha rid env cid payload out payload' out'] assms(1,2,5)
  by (simp add: final_rows_def final_admissible_def)

lemma persist_final_wp: "wp (persist_final env eid cid dec rcode) (final_post (sha256 env) eid dec w) (\<lambda>_ _. False) w"
  unfolding persist_final_def
proof (rule on_failure_wp)
  show "final_post (sha256 env) eid dec w False w'" if "failure_post eid w w'" for w'
    using that by (simp add: failure_post_def final_post_def)
  show "wp (with_uow (
       bindE (tagged ''load_execution'' (executions_get env eid)) (\<lambda>existing.
       case existing of None \<Rightarrow> ret False
       | Some e \<Rightarrow>
           bindE (tagged ''persist_actions''
             (for_each (recommended_actions (pd_result dec)) (\<lambda>a. actions_add env eid a (pd_policy_version dec)))) (\<lambda>_.
           bindE (if recommended_actions (pd_result dec) = [] then ret () else tagged ''flush_actions'' (flush env)) (\<lambda>_.
           bindE (tagged ''persist_result''
             (bindE (next_id env ''result'') (\<lambda>rid. results_add rid eid (pd_result dec)))) (\<lambda>_.
           bindE (tagged ''transition_execution''
             (bindE (now env) (\<lambda>t. executions_replace env (e\<lparr>ex_state := terminal_state dec, updated_at := t\<rparr>)))) (\<lambda>_.
           bindE (tagged ''append_audit''
             (bindE (orch_audit env ''triage.policy_enforced'' eid cid
               [(''policy_version'', PStr (pd_policy_version dec)),
                (''reason_codes'', PList (map (\<lambda>r. PStr (reason_value r)) (pd_reason_codes dec))),
                (''orchestration_reason'', PStr (orchestration_reason_value rcode)),
                (''disposition'', PStr (disposition_value (disposition (pd_result dec))))] AuditSuccess) audit_append)) (\<lambda>_.
           bindE (tagged ''append_audit''
             (bindE (orch_audit env ''triage.execution_terminal'' eid cid
               [(''state'', PStr (triage_state_value (terminal_state dec)))] AuditSuccess) audit_append)) (\<lambda>_.
           bindE (tagged ''commit'' (commit env)) (\<lambda>_.
           ret True))))))))))
      (final_post (sha256 env) eid dec w) (\<lambda>_. clean w) w"
    unfolding executions_get_def executions_replace_def results_add_def
    by (simp add: wp_simps wp_add_actions Let_def del: wp_commit split: option.split)
      (auto simp: final_admissible_def dest: find_execution_SomeD intro!: final_rows_wp final_post_clean)
qed

end
