(* ===== verification/Orchestrator_Loop.thy ===== *)
theory Orchestrator_Loop
  imports Orchestrator_Steps
begin

text \<open>
  The bounded loop of a run: what the committed database and the gateway context hold after every
  iteration, and how often the reasoner and the gateway are called.
\<close>

subsection \<open>The loop invariant\<close>

text \<open>An accumulated item stands for a stored, successful, allowed tool invocation.\<close>

definition backs :: "ToolInvocationRow \<Rightarrow> AccumulatedEvidence \<Rightarrow> bool" where
  "backs row it \<longleftrightarrow>
     ir_call_id (row_invocation row) = invocation_id (acc_tool_call it)
     \<and> source_reference (acc_reference it) = invocation_id (acc_tool_call it)
     \<and> tool_invocation_id (acc_reference it) = Some (invocation_id (acc_tool_call it))
     \<and> ir_outcome (row_invocation row) = SUCCESS \<and> ir_authorization (row_invocation row) = ALLOWED
     \<and> row_tool_result row = Some (acc_outcome it)"

definition with_calls :: "ToolInvocationRow list \<Rightarrow> AuditEvent list \<Rightarrow> db \<Rightarrow> db" where
  "with_calls rows evs d = d\<lparr>tool_invocations := tool_invocations d @ rows, audit_events := audit_events d @ evs\<rparr>"

definition loop_inv :: "orchestrator \<Rightarrow> SecurityAlert \<Rightarrow> string \<Rightarrow> db \<Rightarrow> db \<Rightarrow> loop_state \<Rightarrow> bool" where
  "loop_inv orc alert eid d0 d st \<longleftrightarrow>
     ctx_execution_id (fst st) = eid \<and> limits (fst st) = orc_gateway_limits orc
     \<and> entity_scope (fst st) = from_alert alert \<and> accounted (fst st)
     \<and> (\<exists>rows evs. d = with_calls rows evs d0 \<and> map row_invocation rows = invocation_records (fst st)
          \<and> (\<forall>r \<in> set rows. ir_execution_id (row_invocation r) = eid)
          \<and> (\<forall>it \<in> set (snd st). \<exists>row \<in> set rows. backs row it))"

text \<open>The reasoner answered one of its calls with this candidate.\<close>

definition returned_candidate :: "orchestrator \<Rightarrow> CandidateAssessment \<Rightarrow> bool" where
  "returned_candidate orc c \<longleftrightarrow> (\<exists>n context. reasoner orc n context = ReasonerReturned (Some (ReasonerCandidate c)))"

definition loop_end_ok :: "orchestrator \<Rightarrow> SecurityAlert \<Rightarrow> string \<Rightarrow> db \<Rightarrow> db \<Rightarrow> loop_end \<Rightarrow> bool" where
  "loop_end_ok orc alert eid d0 d e \<longleftrightarrow> (case e of
       Terminated c \<Rightarrow> c \<notin> {COMPLETED, IDEMPOTENT_REPLAY, POLICY_SAFE_REVIEW, PERSISTENCE_FAILURE}
         \<and> (\<exists>st. loop_inv orc alert eid d0 d st)
     | Proposed c \<Rightarrow> returned_candidate orc c
         \<and> (\<exists>st. loop_inv orc alert eid d0 d st \<and> candidate_references_are_valid c (snd st))
     | NotPersisted \<Rightarrow> \<exists>d1 st. loop_inv orc alert eid d0 d1 st \<and> failure_mark eid d1 d)"

lemma terminated_ok: "loop_inv orc alert eid d0 d st \<Longrightarrow>
    c \<notin> {COMPLETED, IDEMPOTENT_REPLAY, POLICY_SAFE_REVIEW, PERSISTENCE_FAILURE} \<Longrightarrow> loop_end_ok orc alert eid d0 d (Terminated c)"
  unfolding loop_end_ok_def loop_end.case by blast

lemma not_persisted_ok: "loop_inv orc alert eid d0 d1 st \<Longrightarrow> failure_mark eid d1 d \<Longrightarrow> loop_end_ok orc alert eid d0 d NotPersisted"
  unfolding loop_end_ok_def loop_end.case by blast

lemma proposed_ok: "returned_candidate orc c \<Longrightarrow> loop_inv orc alert eid d0 d st \<Longrightarrow> candidate_references_are_valid c (snd st) \<Longrightarrow>
    loop_end_ok orc alert eid d0 d (Proposed c)"
  unfolding loop_end_ok_def loop_end.case by blast

lemma with_calls_Nil [simp]: "with_calls [] [] d = d"
  by (simp add: with_calls_def)

lemma loop_inv_start:
  assumes "validate_limits (orc_gateway_limits orc) = Some (orc_gateway_limits orc)"
  shows "loop_inv orc alert eid d d (new_context eid cid (from_alert alert) (orc_gateway_limits orc), [])"
  unfolding loop_inv_def
  by (auto simp: accounted_new [OF assms]) (auto simp: new_context_def intro: exI [of _ "[]"])

lemma loop_inv_invoked:
  assumes inv: "loop_inv orc alert eid d0 d (ctx, acc)"
    and r: "invoke parse_ip reg reply clk p ctx = (r, ctx')"
    and d': "invoked (last (invocation_records ctx')) (gr_result r) d d'"
  shows "loop_inv orc alert eid d0 d' (ctx', acc)"
proof -
  have ctx': "ctx' = snd (invoke parse_ip reg reply clk p ctx)" using r by simp
  obtain rec where rec: "invocation_records ctx' = invocation_records ctx @ [rec]" "ir_execution_id rec = ctx_execution_id ctx"
    using invoke_record [of parse_ip reg reply clk p ctx] ctx' by auto
  obtain rows evs where rows: "d = with_calls rows evs d0" "map row_invocation rows = invocation_records ctx"
      "\<forall>r \<in> set rows. ir_execution_id (row_invocation r) = eid" "\<forall>it \<in> set acc. \<exists>row \<in> set rows. backs row it"
    using inv by (auto simp: loop_inv_def)
  obtain ev where ev: "d' = insert_event ev (insert_invocation \<lparr>row_invocation = rec, row_tool_result = gr_result r\<rparr> d)"
    using d' rec by (auto simp: invoked_def)
  have "\<exists>rows' evs'. d' = with_calls rows' evs' d0 \<and> map row_invocation rows' = invocation_records ctx'
      \<and> (\<forall>r \<in> set rows'. ir_execution_id (row_invocation r) = eid) \<and> (\<forall>it \<in> set acc. \<exists>row \<in> set rows'. backs row it)"
    by (rule exI [of _ "rows @ [\<lparr>row_invocation = rec, row_tool_result = gr_result r\<rparr>]"], rule exI [of _ "evs @ [ev]"])
      (use ev rows rec inv in \<open>auto simp: with_calls_def insert_event_def insert_invocation_def loop_inv_def\<close>)
  then show ?thesis
    using inv invoke_keeps_frame [of parse_ip reg reply clk p ctx] invoke_accounted [of ctx parse_ip reg reply clk p]
    by (simp add: loop_inv_def ctx')
qed

text \<open>Appending an item that the newest row backs.\<close>

lemma loop_inv_append:
  assumes "loop_inv orc alert eid d0 d (ctx, acc)"
    and "\<And>rows evs. d = with_calls rows evs d0 \<Longrightarrow> \<exists>row \<in> set rows. backs row it"
  shows "loop_inv orc alert eid d0 d (ctx, acc @ [it])"
  using assms(1) unfolding loop_inv_def by (auto dest: assms(2))

lemma invoked_row:
  assumes inv: "loop_inv orc alert eid d0 d (ctx, acc)"
    and d': "invoked call res d d'" "d' = with_calls rows' evs' d0"
  shows "\<lparr>row_invocation = call, row_tool_result = res\<rparr> \<in> set rows'"
proof -
  obtain rows evs where "d = with_calls rows evs d0" using inv by (auto simp: loop_inv_def)
  moreover obtain ev where "d' = insert_event ev (insert_invocation \<lparr>row_invocation = call, row_tool_result = res\<rparr> d)"
    using d' by (auto simp: invoked_def)
  ultimately have "tool_invocations (with_calls rows' evs' d0) =
      tool_invocations (insert_event ev (insert_invocation \<lparr>row_invocation = call, row_tool_result = res\<rparr> (with_calls rows evs d0)))"
    using d'(2) by simp
  then have "tool_invocations d0 @ rows' = tool_invocations d0 @ rows @ [\<lparr>row_invocation = call, row_tool_result = res\<rparr>]"
    by (simp add: with_calls_def insert_event_def insert_invocation_def)
  then show ?thesis by simp
qed

subsection \<open>One tool call\<close>

text \<open>At most \<open>r\<close> reasoner calls and \<open>g\<close> gateway calls were made, and no action was executed.\<close>

definition calls_within :: "nat \<Rightarrow> nat \<Rightarrow> world \<Rightarrow> world \<Rightarrow> bool" where
  "calls_within r g w w' \<longleftrightarrow> executed w' = executed w \<and> reasoner_calls w' \<le> reasoner_calls w + r
     \<and> gateway_calls w' \<le> gateway_calls w + g"

lemma calls_within_refl [simp]: "calls_within r g w w"
  by (simp add: calls_within_def)

lemma calls_within_trans: "calls_within r g w w1 \<Longrightarrow> calls_within r' g' w1 w2 \<Longrightarrow> calls_within (r + r') (g + g') w w2"
  by (simp add: calls_within_def)

lemma same_calls_within: "same_calls w w' \<Longrightarrow> calls_within r g w w'"
  by (simp add: calls_within_def same_calls_def)

lemma to_evidence_wp:
  assumes "Identifier (ir_call_id call) = Some (ir_call_id call)"
  shows "wp (to_evidence env call outcome)
     (\<lambda>it w'. clean w w' \<and> acc_outcome it = outcome \<and> invocation_id (acc_tool_call it) = ir_call_id call
        \<and> source_reference (acc_reference it) = ir_call_id call \<and> tool_invocation_id (acc_reference it) = Some (ir_call_id call))
     (\<lambda>e w'. clean w w' \<and> e = ValidationError) w"
  unfolding to_evidence_def Let_def validate_tool_call_def validate_evidence_def
  by (simp add: wp_simps assms optional_def split: option.split)

text \<open>What a tool step leaves, given the state \<open>st\<close> it started from.\<close>

definition step_post :: "orchestrator \<Rightarrow> SecurityAlert \<Rightarrow> string \<Rightarrow> db \<Rightarrow> nat \<Rightarrow> nat \<Rightarrow> world \<Rightarrow> loop_end + loop_state \<Rightarrow> world \<Rightarrow> bool" where
  "step_post orc alert eid d0 r g w x w' \<longleftrightarrow> calls_within r g w w' \<and>
     (case x of Inl e \<Rightarrow> loop_end_ok orc alert eid d0 (store w') e | Inr st' \<Rightarrow> loop_inv orc alert eid d0 (store w') st')"

definition step_error :: "orchestrator \<Rightarrow> SecurityAlert \<Rightarrow> string \<Rightarrow> db \<Rightarrow> nat \<Rightarrow> nat \<Rightarrow> world \<Rightarrow> exn \<Rightarrow> world \<Rightarrow> bool" where
  "step_error orc alert eid d0 r g w e w' \<longleftrightarrow> calls_within r g w w' \<and> e = ValidationError
     \<and> (\<exists>st'. loop_inv orc alert eid d0 (store w') st')"

lemma wp_gateway_call [wp_simps]:
  "wp (gateway_call env orc p ctx) Q E w =
     Q (invoke (ip_parser orc) (orc_registry orc) (tool_answer orc (gateway_calls w))
         \<lparr>start_now = clock_now env (now_calls w), start_ns = clock_monotonic_ms env (monotonic_calls w) * 1000000,
          finish_now = clock_now env (Suc (now_calls w)),
          finish_ns = clock_monotonic_ms env (Suc (monotonic_calls w)) * 1000000\<rparr> p ctx)
       (w\<lparr>gateway_calls := Suc (gateway_calls w), now_calls := Suc (Suc (now_calls w)),
          monotonic_calls := Suc (Suc (monotonic_calls w))\<rparr>)"
  by (simp add: gateway_call_def tick_gateway_def wp_def bindE_def now_def monotonic_ms_def ret_def)

lemma invoke_success_result:
  assumes "invoke parse_ip reg reply clk p ctx = (r, ctx')" and "gr_status r = SUCCESS"
  shows "\<exists>d. gr_result r = Some d"
proof (cases rule: invoke_cases [of parse_ip reg p ctx reply clk])
  case (refused st m san)
  then have "fst (finish clk p san DENIED st (Some m) None ctx) = r" using assms(1) by (metis fst_conv)
  then have "st = gr_status r" by auto
  then show ?thesis using authorize_status [OF refused(1)] assms(2) by simp
next
  case (called tool san st m res)
  then have "fst (finish clk p san ALLOWED st m res (charge (proposed_tool p) san ctx)) = r" using assms(1) by (metis fst_conv)
  then have "st = gr_status r" "res = gr_result r" by auto
  then show ?thesis using judge_reply_status [OF called(2)] assms(2) by auto
qed

text \<open>The record of a call, as the orchestrator reads it back.\<close>

lemma invoke_last:
  assumes "invoke parse_ip reg reply clk p ctx = (r, ctx')"
  shows "ir_call_id (last (invocation_records ctx')) = call_id p"
    and "ir_execution_id (last (invocation_records ctx')) = ctx_execution_id ctx"
    and "ir_outcome (last (invocation_records ctx')) = gr_status r"
    and "gr_status r = SUCCESS \<Longrightarrow> ir_authorization (last (invocation_records ctx')) = ALLOWED"
  using invoke_record [of parse_ip reg reply clk p ctx] assms by auto

text \<open>The evidence taken from a stored success keeps the invariant.\<close>

lemma evidence_wp:
  assumes inv: "loop_inv orc alert eid d0 d (ctx, acc)" and post: "invoked call (Some out) d (store w)"
    and inv': "loop_inv orc alert eid d0 (store w) (ctx', acc)"
    and call: "Identifier (ir_call_id call) = Some (ir_call_id call)" "ir_outcome call = SUCCESS" "ir_authorization call = ALLOWED"
    and within: "calls_within 0 1 v w"
  shows "wp (to_evidence env call out) (\<lambda>item. step_post orc alert eid d0 0 1 v (Inr (ctx', acc @ [item])))
    (step_error orc alert eid d0 0 1 v) w"
proof (rule wp_mono [OF to_evidence_wp [OF call(1)]])
  have later: "calls_within 0 1 v w'" if "clean w w'" for w'
    using within that by (simp add: clean_def same_calls_def calls_within_def)
  fix item :: AccumulatedEvidence and w'
  assume it: "clean w w' \<and> acc_outcome item = out \<and> invocation_id (acc_tool_call item) = ir_call_id call
    \<and> source_reference (acc_reference item) = ir_call_id call \<and> tool_invocation_id (acc_reference item) = Some (ir_call_id call)"
  then have st: "store w' = store w" by (simp add: clean_def)
  have "backs \<lparr>row_invocation = call, row_tool_result = Some out\<rparr> item"
    using it call by (simp add: backs_def)
  then have "loop_inv orc alert eid d0 (store w') (ctx', acc @ [item])"
    by (intro loop_inv_append) (use inv' invoked_row [OF inv post] st in auto)
  then show "step_post orc alert eid d0 0 1 v (Inr (ctx', acc @ [item])) w'"
    using later it by (simp add: step_post_def)
next
  fix e w' assume "clean w w' \<and> e = ValidationError"
  then show "step_error orc alert eid d0 0 1 v e w'"
    using within inv' by (cases ctx') (auto simp: step_error_def clean_def same_calls_def calls_within_def)
qed

text \<open>The tool step in terms of the gateway's answer.\<close>

definition step_times :: "'e env_scheme \<Rightarrow> world \<Rightarrow> call_times" where
  "step_times env w = \<lparr>start_now = clock_now env (now_calls w), start_ns = clock_monotonic_ms env (monotonic_calls w) * 1000000,
     finish_now = clock_now env (Suc (now_calls w)), finish_ns = clock_monotonic_ms env (Suc (monotonic_calls w)) * 1000000\<rparr>"

definition after_gateway :: "world \<Rightarrow> world" where
  "after_gateway w = w\<lparr>id_counts := (id_counts w)(''tool-invocation'' := Suc (id_counts w ''tool-invocation'')),
     gateway_calls := Suc (gateway_calls w), now_calls := Suc (Suc (now_calls w)), monotonic_calls := Suc (Suc (monotonic_calls w))\<rparr>"

lemma tool_step_eq:
  assumes "Identifier (fresh_id env ''tool-invocation'' (id_counts w ''tool-invocation'')) = Some iid"
    and "invoke (ip_parser orc) (orc_registry orc) (tool_answer orc (gateway_calls w)) (step_times env w)
      \<lparr>call_id = iid, proposed_tool = tname, arguments = args\<rparr> ctx = (r, ctx')"
  shows "wp (tool_step env orc (ctx, acc) tname args goal) Q E w =
    wp (persist_tool env (last (invocation_records ctx')) (gr_result r) goal)
      (\<lambda>ok. if \<not> ok then Q (Inl NotPersisted)
        else if gr_status r \<noteq> SUCCESS then Q (Inl (Terminated (if gr_authorization r = DENIED then TOOL_REQUEST_DENIED else TOOL_FAILURE)))
        else if length acc \<ge> max_evidence_items (orc_limits orc) then Q (Inl (Terminated CONTEXT_LIMIT))
        else wp (to_evidence env (last (invocation_records ctx')) (case gr_result r of Some d \<Rightarrow> d | None \<Rightarrow> []))
          (\<lambda>item. Q (Inr (ctx', acc @ [item]))) E) E (after_gateway w)"
  unfolding tool_step_def
  by (simp add: wp_simps assms step_times_def [symmetric] Let_def after_gateway_def if_distrib [of "\<lambda>m. wp m Q E"] cong: if_cong)

lemma tool_step_wp:
  assumes inv: "loop_inv orc alert eid d0 (store w) st"
  shows "wp (tool_step env orc st tname args goal) (step_post orc alert eid d0 0 1 w) (step_error orc alert eid d0 0 1 w) w"
proof (cases "Identifier (fresh_id env ''tool-invocation'' (id_counts w ''tool-invocation''))")
  case None
  then show ?thesis using inv by (cases st) (auto simp: tool_step_def wp_simps step_error_def calls_within_def)
next
  case (Some iid)
  obtain ctx acc where st: "st = (ctx, acc)" by (cases st)
  have eid: "ctx_execution_id ctx = eid" using inv by (simp add: st loop_inv_def)
  obtain r ctx' where r: "invoke (ip_parser orc) (orc_registry orc) (tool_answer orc (gateway_calls w)) (step_times env w)
      \<lparr>call_id = iid, proposed_tool = tname, arguments = args\<rparr> ctx = (r, ctx')"
    using prod.exhaust by blast
  define call where "call = last (invocation_records ctx')"
  note call_facts = invoke_last [OF r, folded call_def, unfolded eid]
  have w1: "store (after_gateway w) = store w" by (simp add: after_gateway_def)
  have within: "calls_within 0 1 w w'" if "same_calls (after_gateway w) w'" for w'
    using that by (simp add: after_gateway_def calls_within_def same_calls_def)
  have inv1: "loop_inv orc alert eid d0 d' (ctx', acc)" if "invoked call (gr_result r) (store w) d'" for d'
    using loop_inv_invoked [OF inv [unfolded st] r, of d'] that by (simp add: call_def)
  have ident: "Identifier (ir_call_id call) = Some (ir_call_id call)"
    using Identifier_stable [OF Some] by (simp add: call_facts)
  have evidence: "wp (to_evidence env call (case gr_result r of Some d \<Rightarrow> d | None \<Rightarrow> []))
        (\<lambda>item. step_post orc alert eid d0 0 1 w (Inr (ctx', acc @ [item]))) (step_error orc alert eid d0 0 1 w) w2"
    if post: "same_calls (after_gateway w) w2" "invoked call (gr_result r) (store w) (store w2)" and ok: "gr_status r = SUCCESS" for w2
  proof -
    obtain d where d: "gr_result r = Some d" using invoke_success_result [OF r ok] by blast
    show ?thesis unfolding d option.case
      by (rule evidence_wp [OF inv [unfolded st]])
        (use post inv1 d ident call_facts ok within in simp_all)
  qed
  show ?thesis
    unfolding st tool_step_eq [OF Some r] call_def [symmetric]
    by (rule wp_mono [OF persist_tool_wp])
      (use evidence within inv1 inv in
        \<open>auto simp: st tool_post_def w1 call_facts step_post_def intro!: terminated_ok not_persisted_ok [OF inv]\<close>)
qed

subsection \<open>One iteration and the loop\<close>

lemma loop_end_ok_store: "loop_end_ok orc alert eid d0 (store w') e \<Longrightarrow> calls_within r g w w' \<Longrightarrow> step_post orc alert eid d0 r g w (Inl e) w'"
  by (simp add: step_post_def)

lemma wp_ask_reasoner [wp_simps]:
  "wp (ask_reasoner orc context) Q E w =
     Q (reasoner orc (reasoner_calls w) context) (w\<lparr>reasoner_calls := Suc (reasoner_calls w)\<rparr>)"
  by (simp add: ask_reasoner_def wp_def)

text \<open>A call made after the reasoner was asked counts on top of that question.\<close>

definition asked :: "world \<Rightarrow> world" where
  "asked w = w\<lparr>monotonic_calls := Suc (monotonic_calls w), reasoner_calls := Suc (reasoner_calls w)\<rparr>"

lemma asked_step:
  assumes inv: "loop_inv orc alert eid d0 (store w) st"
  shows "wp (tool_step env orc st tname args goal) (step_post orc alert eid d0 1 1 w) (step_error orc alert eid d0 1 1 w) (asked w)"
proof (rule wp_mono [OF tool_step_wp])
  show "loop_inv orc alert eid d0 (store (asked w)) st" using inv by (simp add: asked_def)
qed (auto simp: step_post_def step_error_def calls_within_def asked_def)

lemma iteration_step_wp:
  assumes inv: "loop_inv orc alert eid d0 (store w) st"
  shows "wp (iteration_step env orc alert eid cid t0 it st)
    (step_post orc alert eid d0 1 1 w) (step_error orc alert eid d0 1 1 w) w"
proof -
  let ?Q = "step_post orc alert eid d0 1 1 w" and ?E = "step_error orc alert eid d0 1 1 w"
  have stop: "?Q (Inl (Terminated c)) w'" if "store w' = store w" "calls_within 1 1 w w'"
    "c \<notin> {COMPLETED, IDEMPOTENT_REPLAY, POLICY_SAFE_REVIEW, PERSISTENCE_FAILURE}" for c w'
    using that inv by (auto intro!: loop_end_ok_store terminated_ok)
  have proposed: "?Q (Inl (Proposed c)) w'" if "store w' = store w" "calls_within 1 1 w w'"
    "returned_candidate orc c" "candidate_references_are_valid c (snd st)" for c w'
    using that inv by (auto intro!: loop_end_ok_store proposed_ok)
  have error: "?E ValidationError w'" if "store w' = store w" "calls_within 1 1 w w'" for w'
    using that inv by (cases st) (auto simp: step_error_def)
  have answer: "wp (case reply of
           ReasonerTimeout \<Rightarrow> ret (Inl (Terminated DEADLINE_EXCEEDED))
         | ReasonerRaised \<Rightarrow> ret (Inl (Terminated REASONER_FAILURE))
         | ReasonerReturned None \<Rightarrow> ret (Inl (Terminated INVALID_REASONER_OUTPUT))
         | ReasonerReturned (Some (ReasonerCandidate c)) \<Rightarrow>
             ret (Inl (if candidate_references_are_valid c (snd st) then Proposed c
                       else Terminated EVIDENCE_REFERENCE_VIOLATION))
         | ReasonerReturned (Some (ReasonerToolCall tname args goal)) \<Rightarrow> tool_step env orc st tname args goal) ?Q ?E (asked w)"
    if reply: "reply = reasoner orc (reasoner_calls w) rcx" for reply rcx
  proof -
    have aw: "store (asked w) = store w" "calls_within 1 1 w (asked w)" by (simp_all add: asked_def calls_within_def)
    have cand: "returned_candidate orc c" if "reply = ReasonerReturned (Some (ReasonerCandidate c))" for c
      using that reply by (auto simp: returned_candidate_def)
    show ?thesis
      by (cases reply rule: reasoner_reply.exhaust)
        (auto simp: wp_simps simp del: One_nat_def intro!: stop [OF aw] proposed [OF aw cand] asked_step [OF inv] split: option.split ReasonerStep.split)
  qed
  show ?thesis
    unfolding iteration_step_def
    by (simp add: wp_simps del: One_nat_def split: option.split)
      (auto intro!: stop error answer [OF refl, unfolded asked_def] simp: calls_within_def simp del: One_nat_def)
qed

lemma run_loop_wp:
  assumes "loop_inv orc alert eid d0 (store w) st"
  shows "wp (run_loop env orc alert eid cid t0 n st)
    (\<lambda>e w'. calls_within n n w w' \<and> loop_end_ok orc alert eid d0 (store w') e)
    (step_error orc alert eid d0 n n w) w"
  using assms
proof (induction n arbitrary: w st)
  case 0
  then show ?case by (auto simp: wp_simps intro: terminated_ok)
next
  case (Suc n)
  have "wp (case r of Inl e \<Rightarrow> ret e | Inr st' \<Rightarrow> run_loop env orc alert eid cid t0 n st')
      (\<lambda>e w'. calls_within (Suc n) (Suc n) w w' \<and> loop_end_ok orc alert eid d0 (store w') e)
      (step_error orc alert eid d0 (Suc n) (Suc n) w) w1"
    if "step_post orc alert eid d0 1 1 w r w1" for r w1
  proof (cases r)
    case (Inl e)
    then show ?thesis using that by (auto simp: wp_simps step_post_def calls_within_def)
  next
    case (Inr st')
    then have "loop_inv orc alert eid d0 (store w1) st'" "calls_within 1 1 w w1" using that by (auto simp: step_post_def)
    then show ?thesis unfolding Inr sum.case
      by (intro wp_mono [OF Suc.IH]) (auto simp: step_error_def calls_within_def)
  qed
  then show ?case
    unfolding run_loop.simps wp_bindE
    by (intro wp_mono [OF iteration_step_wp [OF Suc.prems]]) (auto simp: step_error_def calls_within_def)
qed

end
