(* ===== verification/Orchestrator_Correct.thy ===== *)
theory Orchestrator_Correct
  imports Orchestrator_Loop
begin

text \<open>
  Correctness of a run: how every run ends, what it stored, that it fails closed, that its evidence
  was collected by it, that its effort is bounded, and what a repeated request does.
\<close>

subsection \<open>Identifiers\<close>

text \<open>A run needs a well-formed execution and correlation identifier, in its events and its outcome.\<close>

definition well_identified :: "string \<Rightarrow> string \<Rightarrow> bool" where
  "well_identified eid cid \<longleftrightarrow> Identifier eid \<noteq> None \<and> Identifier cid \<noteq> None"

lemma orchestration_outcome_SomeD:
  "validate_orchestration_outcome x = Some out \<Longrightarrow> Identifier (out_execution_id x) = Some (out_execution_id out)
     \<and> Identifier (out_correlation_id x) = Some (out_correlation_id out) \<and> out_durable out = out_durable x
     \<and> out_reason_code out = out_reason_code x \<and> out_result out = out_result x
     \<and> out_policy_decision out = out_policy_decision x"
  by (auto simp: validate_orchestration_outcome_def split: option.splits)

lemma orchestration_outcome_total:
  "well_identified (out_execution_id x) (out_correlation_id x) \<longleftrightarrow> (\<exists>out. validate_orchestration_outcome x = Some out)"
  by (auto simp: validate_orchestration_outcome_def well_identified_def split: option.split)

text \<open>With a malformed identifier no event is built, so nothing is recorded.\<close>

lemma malformed_audit_wp:
  assumes "\<not> well_identified eid cid" and "\<And>w'. same_calls w w' \<Longrightarrow> store w' = store w \<Longrightarrow> E ValidationError w'"
  shows "wp (orch_audit env et eid cid payload out) Q E w"
  using assms unfolding orch_audit_def
  by (auto simp: wp_simps same_calls_def well_identified_def validate_event_def optional_def split: option.split)

lemma malformed_record_wp:
  assumes "\<not> well_identified eid cid"
  shows "wp (record_persistence_failure env eid cid cat stg ext) (\<lambda>_. clean w) (\<lambda>_ _. False) w"
  unfolding record_persistence_failure_def executions_get_def executions_replace_def
  by (simp add: wp_simps split: option.split)
    (auto simp: same_calls_def clean_def intro!: malformed_audit_wp [OF assms])

lemma malformed_failure_wp:
  assumes "\<not> well_identified eid cid" and "wp body (\<lambda>_ _. False) (\<lambda>_. clean w) w"
  shows "wp (on_failure env eid cid cat body) (\<lambda>ok w'. \<not> ok \<and> clean w w') (\<lambda>_ _. False) w"
  unfolding on_failure_def wp_catch
proof (rule wp_mono [OF assms(2)])
  fix e w1 assume "clean w w1"
  then show "wp (case e of (stg, e) \<Rightarrow> bindE (record_persistence_failure env eid cid cat stg (root_exception_type e)) (\<lambda>_. ret False))
      (\<lambda>ok w'. \<not> ok \<and> clean w w') (\<lambda>_ _. False) w1"
    by (cases e) (auto simp: wp_simps clean_def same_calls_def intro!: wp_mono [OF malformed_record_wp [OF assms(1)]])
qed simp

lemma malformed_start_wp:
  assumes "\<not> well_identified eid cid"
  shows "wp (persist_start env alert key eid cid) (\<lambda>ok w'. \<not> ok \<and> clean w w') (\<lambda>_ _. False) w"
  unfolding persist_start_def wp_bindE wp_now
proof (rule wp_mono [OF malformed_failure_wp [OF assms]])
  let ?v = "w\<lparr>now_calls := Suc (now_calls w)\<rparr>"
  show "wp (bindE (with_uow (
         bindE (tagged ''load_alert'' (alerts_get env (alert_id alert))) (\<lambda>found.
         bindE (case found of Some _ \<Rightarrow> ret ()
           | None \<Rightarrow> bindE (tagged ''persist_alert'' (alerts_add alert)) (\<lambda>_. tagged ''flush_alert'' (flush env))) (\<lambda>_.
         bindE (tagged ''persist_execution''
           (bindE (required (validate_execution
             \<lparr>ex_execution_id = eid, ex_alert_id = alert_id alert, ex_state = TRunning, idempotency_key = key,
              created_at = clock_now env (now_calls w), updated_at = clock_now env (now_calls w), predecessor_execution_id = None,
              ex_failure_category = None\<rparr>)) executions_add)) (\<lambda>_.
         bindE (tagged ''append_start_audit''
           (bindE (orch_audit env ''triage.execution_started'' eid cid [(''state'', PStr ''RUNNING'')] AuditSuccess) audit_append)) (\<lambda>_.
         tagged ''commit_start'' (commit env))))))) (\<lambda>_. ret True))
     (\<lambda>_ _. False) (\<lambda>_. clean ?v) ?v"
    unfolding alerts_get_def alerts_add_def executions_add_def
    by (simp add: wp_simps Let_def clean_def split: option.split) (auto intro!: malformed_audit_wp [OF assms] simp: same_calls_def)
qed (auto simp: clean_def same_calls_def)

subsection \<open>How a run ends\<close>

text \<open>A decision of the policy on the candidate, or on an object that is not one.\<close>

definition decided :: "'e env_scheme \<Rightarrow> orchestrator \<Rightarrow> SecurityAlert \<Rightarrow> CandidateAssessment option \<Rightarrow> PolicyDecision \<Rightarrow> bool" where
  "decided env orc alert payload dec \<longleftrightarrow> (\<exists>n t. dec = fst (evaluate_untrusted (sha256 env) (orc_catalog orc)
     (fresh_id env ''action'') n payload (alert_id alert) (scope_from_entities (entities alert)) t))"

definition completion :: "string \<Rightarrow> string \<Rightarrow> OrchestrationReasonCode \<Rightarrow> PolicyDecision \<Rightarrow> OrchestrationOutcome" where
  "completion eid cid rcode dec = \<lparr>out_execution_id = eid, out_correlation_id = cid, out_durable = True,
     out_reason_code = rcode, out_result = Some (pd_result dec), out_policy_decision = Some dec\<rparr>"

text \<open>The reason a run gives for the decision it made.\<close>

definition reason_fits :: "orchestrator \<Rightarrow> AccumulatedEvidence list \<Rightarrow> CandidateAssessment option \<Rightarrow> PolicyDecision \<Rightarrow> OrchestrationReasonCode \<Rightarrow> bool" where
  "reason_fits orc acc payload dec rcode \<longleftrightarrow> (case payload of
       None \<Rightarrow> rcode \<notin> {COMPLETED, IDEMPOTENT_REPLAY, POLICY_SAFE_REVIEW, PERSISTENCE_FAILURE}
     | Some c \<Rightarrow> returned_candidate orc c \<and> candidate_references_are_valid c acc
         \<and> rcode = (if disposition (pd_result dec) = NEEDS_REVIEW then POLICY_SAFE_REVIEW else COMPLETED))"

definition finished :: "'e env_scheme \<Rightarrow> orchestrator \<Rightarrow> SecurityAlert \<Rightarrow> string \<Rightarrow> string \<Rightarrow> db \<Rightarrow> db \<Rightarrow> OrchestrationOutcome \<Rightarrow> bool" where
  "finished env orc alert eid cid d0 d' out \<longleftrightarrow> (\<exists>d1 st payload dec rcode.
     loop_inv orc alert eid d0 d1 st \<and> decided env orc alert payload dec \<and> reason_fits orc (snd st) payload dec rcode
     \<and> finalized (sha256 env) eid dec d1 d' \<and> validate_orchestration_outcome (completion eid cid rcode dec) = Some out)"

definition unfinished :: "orchestrator \<Rightarrow> SecurityAlert \<Rightarrow> string \<Rightarrow> db \<Rightarrow> db \<Rightarrow> bool" where
  "unfinished orc alert eid d0 d' \<longleftrightarrow> (\<exists>d1 st. loop_inv orc alert eid d0 d1 st \<and> failure_mark eid d1 d')"

definition conclude_post :: "'e env_scheme \<Rightarrow> orchestrator \<Rightarrow> SecurityAlert \<Rightarrow> string \<Rightarrow> string \<Rightarrow> db \<Rightarrow> world \<Rightarrow> OrchestrationOutcome \<Rightarrow> world \<Rightarrow> bool" where
  "conclude_post env orc alert eid cid d0 w out w' \<longleftrightarrow> same_calls w w' \<and>
     (finished env orc alert eid cid d0 (store w') out
      \<or> validate_orchestration_outcome (not_persisted eid cid) = Some out \<and> unfinished orc alert eid d0 (store w'))"

lemma finishedI:
  "loop_inv orc alert eid d0 d1 st \<Longrightarrow> decided env orc alert payload dec \<Longrightarrow> reason_fits orc (snd st) payload dec rcode \<Longrightarrow>
    finalized (sha256 env) eid dec d1 d' \<Longrightarrow> validate_orchestration_outcome (completion eid cid rcode dec) = Some out \<Longrightarrow>
    finished env orc alert eid cid d0 d' out"
  unfolding finished_def by blast

lemma unfinishedI: "loop_inv orc alert eid d0 d1 st \<Longrightarrow> failure_mark eid d1 d' \<Longrightarrow> unfinished orc alert eid d0 d'"
  unfolding unfinished_def by blast

lemma wp_policy_decision_eq:
  "wp (policy_decision env orc alert payload) Q E w =
     (case evaluate_untrusted (sha256 env) (orc_catalog orc) (fresh_id env ''action'') (id_counts w ''action'') payload
        (alert_id alert) (scope_from_entities (entities alert)) (clock_now env (now_calls w)) of
      (d, n) \<Rightarrow> Q d (w\<lparr>now_calls := Suc (now_calls w), id_counts := (id_counts w)(''action'' := n)\<rparr>))"
  by (simp add: policy_decision_def wp_def bindE_def now_def split: prod.split)

lemma wp_policy_decision:
  assumes "\<And>dec w'. decided env orc alert payload dec \<Longrightarrow> same_calls w w' \<Longrightarrow> store w' = store w \<Longrightarrow> Q dec w'"
  shows "wp (policy_decision env orc alert payload) Q E w"
proof -
  let ?r = "evaluate_untrusted (sha256 env) (orc_catalog orc) (fresh_id env ''action'') (id_counts w ''action'') payload
    (alert_id alert) (scope_from_entities (entities alert)) (clock_now env (now_calls w))"
  have "decided env orc alert payload (fst ?r)" unfolding decided_def by blast
  then show ?thesis using assms by (simp add: wp_policy_decision_eq case_prod_beta)
qed

text \<open>Building an outcome.\<close>

lemma outcome_wp:
  assumes "well_identified (out_execution_id x) (out_correlation_id x)"
    and "\<And>out. validate_orchestration_outcome x = Some out \<Longrightarrow> Q out w"
  shows "wp (required (validate_orchestration_outcome x)) Q E w"
  using assms by (auto simp: wp_simps orchestration_outcome_total)

lemma failure_outcome_wp:
  assumes "well_identified eid cid" and "\<And>out. validate_orchestration_outcome (not_persisted eid cid) = Some out \<Longrightarrow> Q out w"
  shows "wp (persistence_failure eid cid) Q E w"
  unfolding persistence_failure_def by (rule outcome_wp) (use assms in \<open>simp_all add: not_persisted_def\<close>)

lemma finalize_wp:
  assumes inv: "loop_inv orc alert eid d0 (store w) st" and dec: "decided env orc alert payload dec"
    and fits: "reason_fits orc (snd st) payload dec rcode" and ids: "well_identified eid cid"
  shows "wp (finalize env eid cid dec rcode) (conclude_post env orc alert eid cid d0 w) (\<lambda>_ _. False) w"
  unfolding finalize_def wp_bindE
proof (rule wp_mono [OF persist_final_wp])
  fix ok w' assume post: "final_post (sha256 env) eid dec w ok w'"
  have "conclude_post env orc alert eid cid d0 w out w'" if ok "validate_orchestration_outcome (completion eid cid rcode dec) = Some out" for out
    using that post inv dec fits by (auto simp: final_post_def conclude_post_def intro: finishedI)
  moreover have "conclude_post env orc alert eid cid d0 w out w'"
    if "\<not> ok" "validate_orchestration_outcome (not_persisted eid cid) = Some out" for out
    using that post inv by (auto simp: final_post_def conclude_post_def intro: unfinishedI)
  ultimately show "wp (if \<not> ok then persistence_failure eid cid
      else required (validate_orchestration_outcome
        \<lparr>out_execution_id = eid, out_correlation_id = cid, out_durable = True, out_reason_code = rcode,
         out_result = Some (pd_result dec), out_policy_decision = Some dec\<rparr>))
      (conclude_post env orc alert eid cid d0 w) (\<lambda>_ _. False) w'"
    unfolding completion_def [symmetric]
    by (auto intro!: failure_outcome_wp [OF ids] outcome_wp) (simp_all add: completion_def ids)
qed

lemma conclude_wp:
  assumes "loop_end_ok orc alert eid d0 (store w) e" and ids: "well_identified eid cid"
  shows "wp (conclude env orc alert eid cid e) (conclude_post env orc alert eid cid d0 w) (\<lambda>_ _. False) w"
proof -
  have last: "wp (finalize env eid cid dec rcode) (conclude_post env orc alert eid cid d0 w) (\<lambda>_ _. False) w'"
    if "loop_inv orc alert eid d0 (store w) st" "decided env orc alert payload dec" "same_calls w w'" "store w' = store w"
      "reason_fits orc (snd st) payload dec rcode" for st payload dec rcode w'
    by (rule wp_mono [OF finalize_wp [OF _ that(2,5) ids]])
      (use that in \<open>auto simp: conclude_post_def same_calls_def\<close>)
  show ?thesis
  proof (cases e)
    case (Terminated code)
    then obtain st where "loop_inv orc alert eid d0 (store w) st"
        "code \<notin> {COMPLETED, IDEMPOTENT_REPLAY, POLICY_SAFE_REVIEW, PERSISTENCE_FAILURE}"
      using assms(1) by (auto simp: loop_end_ok_def)
    then show ?thesis unfolding Terminated conclude_def loop_end.case wp_bindE
      by (intro wp_policy_decision last) (auto simp: reason_fits_def)
  next
    case (Proposed c)
    then obtain st where "loop_inv orc alert eid d0 (store w) st" "candidate_references_are_valid c (snd st)"
        "returned_candidate orc c"
      using assms(1) by (auto simp: loop_end_ok_def)
    then show ?thesis unfolding Proposed conclude_def loop_end.case wp_bindE
      by (intro wp_policy_decision last) (auto simp: reason_fits_def)
  next
    case NotPersisted
    then show ?thesis using assms(1)
      by (auto simp: conclude_def conclude_post_def loop_end_ok_def intro!: failure_outcome_wp [OF ids] intro: unfinishedI)
  qed
qed

subsection \<open>The whole run\<close>

definition replayed :: "string \<Rightarrow> TriageExecutionRecord \<Rightarrow> db \<Rightarrow> OrchestrationOutcome" where
  "replayed cid e d = \<lparr>out_execution_id = ex_execution_id e, out_correlation_id = cid, out_durable = True,
     out_reason_code = IDEMPOTENT_REPLAY, out_result = map_option row_result (find_result (ex_execution_id e) d),
     out_policy_decision = None\<rparr>"

lemma find_execution_of_key:
  assumes "find_execution_by_key key d = Some r"
  shows "\<exists>e. find_execution (ex_execution_id r) d = Some e \<and> ex_execution_id e = ex_execution_id r"
proof -
  have "r \<in> set (triage_executions d)" using assms by (auto simp: find_execution_by_key_def dest: row_get_SomeD)
  then obtain e where "find_execution (ex_execution_id r) d = Some e"
    by (cases "find_execution (ex_execution_id r) d") (auto simp: find_execution_def row_get_None)
  then show ?thesis using find_execution_SomeD by blast
qed

definition replay_post :: "string \<Rightarrow> string \<Rightarrow> string \<Rightarrow> world \<Rightarrow> OrchestrationOutcome option \<Rightarrow> world \<Rightarrow> bool" where
  "replay_post key eid cid w r w' \<longleftrightarrow> clean w w' \<and>
     (case r of None \<Rightarrow> find_execution_by_key key (store w) = None
      | Some out \<Rightarrow> validate_orchestration_outcome (not_persisted eid cid) = Some out
          \<or> (\<exists>e. find_execution_by_key key (store w) = Some e \<and> validate_orchestration_outcome (replayed cid e (store w)) = Some out))"

definition replay_error :: "string \<Rightarrow> string \<Rightarrow> world \<Rightarrow> exn \<Rightarrow> world \<Rightarrow> bool" where
  "replay_error eid cid w e w' \<longleftrightarrow> e = ValidationError \<and> \<not> well_identified eid cid \<and> clean w w'"

lemma malformed_outcome: "validate_orchestration_outcome (not_persisted eid cid) = None \<longleftrightarrow> \<not> well_identified eid cid"
  using orchestration_outcome_total [of "not_persisted eid cid"] by (cases "validate_orchestration_outcome (not_persisted eid cid)") (auto simp: not_persisted_def)

lemma find_replay_wp: "wp (find_replay env key eid cid) (replay_post key eid cid w) (replay_error eid cid w) w"
  unfolding find_replay_def executions_get_by_idempotency_key_def executions_get_def results_get_for_execution_def persistence_failure_def
  by (simp add: wp_simps replay_post_def replay_error_def split: option.split)
    (auto simp: replayed_def malformed_outcome dest: find_execution_of_key)

definition run_returns :: "'e env_scheme \<Rightarrow> orchestrator \<Rightarrow> SecurityAlert \<Rightarrow> string \<Rightarrow> string \<Rightarrow> string \<Rightarrow> world
    \<Rightarrow> OrchestrationOutcome \<Rightarrow> world \<Rightarrow> bool" where
  "run_returns env orc alert key eid cid w out w' \<longleftrightarrow>
     calls_within (max_iterations (orc_limits orc)) (max_iterations (orc_limits orc)) w w' \<and>
     (clean w w' \<and> (\<exists>e. find_execution_by_key key (store w) = Some e \<and> validate_orchestration_outcome (replayed cid e (store w)) = Some out)
      \<or> validate_orchestration_outcome (not_persisted eid cid) = Some out \<and> failure_mark eid (store w) (store w')
      \<or> (\<exists>d0. started alert key eid (store w) d0 \<and>
           (finished env orc alert eid cid d0 (store w') out
            \<or> validate_orchestration_outcome (not_persisted eid cid) = Some out \<and> unfinished orc alert eid d0 (store w'))))"

definition run_raises :: "orchestrator \<Rightarrow> SecurityAlert \<Rightarrow> string \<Rightarrow> string \<Rightarrow> string \<Rightarrow> world \<Rightarrow> exn \<Rightarrow> world \<Rightarrow> bool" where
  "run_raises orc alert key eid cid w e w' \<longleftrightarrow>
     calls_within (max_iterations (orc_limits orc)) (max_iterations (orc_limits orc)) w w' \<and> e = ValidationError
     \<and> (\<not> well_identified eid cid \<and> clean w w'
        \<or> well_identified eid cid \<and> (\<exists>d0 st. started alert key eid (store w) d0 \<and> loop_inv orc alert eid d0 (store w') st))"

lemma run_started_wp:
  assumes lims: "validate_limits (orc_gateway_limits orc) = Some (orc_gateway_limits orc)"
    and d0: "started alert key eid (store w) (store v)" "same_calls w v" and ids: "well_identified eid cid"
  shows "wp (bindE (run_loop env orc alert eid cid t0 (max_iterations (orc_limits orc))
        (new_context eid cid (from_alert alert) (orc_gateway_limits orc), [])) (conclude env orc alert eid cid))
     (run_returns env orc alert key eid cid w) (run_raises orc alert key eid cid w) v"
  unfolding wp_bindE
proof (rule wp_mono [OF run_loop_wp [OF loop_inv_start [OF lims]]])
  let ?n = "max_iterations (orc_limits orc)"
  fix e v1 assume e: "calls_within ?n ?n v v1 \<and> loop_end_ok orc alert eid (store v) (store v1) e"
  show "wp (conclude env orc alert eid cid e) (run_returns env orc alert key eid cid w) (run_raises orc alert key eid cid w) v1"
  proof (rule wp_mono [OF conclude_wp [OF conjunct2 [OF e] ids]])
    fix out w' assume "conclude_post env orc alert eid cid (store v) v1 out w'"
    then show "run_returns env orc alert key eid cid w out w'"
      unfolding run_returns_def conclude_post_def using e d0
      by (intro conjI disjI2) (auto simp: calls_within_def same_calls_def)
  qed simp
next
  fix e w' assume "step_error orc alert eid (store v) (max_iterations (orc_limits orc)) (max_iterations (orc_limits orc)) v e w'"
  then show "run_raises orc alert key eid cid w e w'"
    unfolding step_error_def run_raises_def using d0 ids by (auto simp: calls_within_def same_calls_def)
qed

text \<open>What \<open>persist_start\<close> does in both cases.\<close>

lemma start_wp:
  "wp (persist_start env alert key eid cid) (\<lambda>ok w'. same_calls w w' \<and>
     (if ok then well_identified eid cid \<and> started alert key eid (store w) (store w')
      else failure_mark eid (store w) (store w') \<and> (well_identified eid cid \<or> store w' = store w))) (\<lambda>_ _. False) w"
proof (cases "well_identified eid cid")
  case True
  then show ?thesis
    by (intro wp_mono [OF persist_start_wp]) (auto simp: start_post_def)
next
  case False
  then show ?thesis
    by (intro wp_mono [OF malformed_start_wp]) (auto simp: clean_def failure_mark_def)
qed

lemma run_wp:
  assumes lims: "validate_limits (orc_gateway_limits orc) = Some (orc_gateway_limits orc)"
  shows "wp (run env orc alert key eid cid) (run_returns env orc alert key eid cid w) (run_raises orc alert key eid cid w) w"
  unfolding run_def wp_bindE
proof (rule wp_mono [OF find_replay_wp])
  fix r w1 assume r: "replay_post key eid cid w r w1"
  show "wp (case r of Some out \<Rightarrow> ret out
     | None \<Rightarrow> bindE (persist_start env alert key eid cid) (\<lambda>started_ok.
         if \<not> started_ok then persistence_failure eid cid
         else bindE (monotonic_ms env) (\<lambda>started.
           bindE (run_loop env orc alert eid cid started (max_iterations (orc_limits orc))
             (new_context eid cid (from_alert alert) (orc_gateway_limits orc), [])) (conclude env orc alert eid cid))))
     (run_returns env orc alert key eid cid w) (run_raises orc alert key eid cid w) w1"
  proof (cases r)
    case (Some out)
    then show ?thesis using r
      by (auto simp: wp_simps replay_post_def run_returns_def clean_def same_calls_within failure_mark_def)
  next
    case None
    have w1: "same_calls w w1" "store w1 = store w" using r None by (simp_all add: replay_post_def clean_def)
    show ?thesis unfolding None option.case wp_bindE
    proof (rule wp_mono [OF start_wp])
      fix ok w2
      assume post: "same_calls w1 w2 \<and> (if ok then well_identified eid cid \<and> started alert key eid (store w1) (store w2)
        else failure_mark eid (store w1) (store w2) \<and> (well_identified eid cid \<or> store w2 = store w1))"
      have w2: "same_calls w w2" using post w1 by (auto simp: same_calls_def)
      show "wp (if \<not> ok then persistence_failure eid cid
         else bindE (monotonic_ms env) (\<lambda>started.
           bindE (run_loop env orc alert eid cid started (max_iterations (orc_limits orc))
             (new_context eid cid (from_alert alert) (orc_gateway_limits orc), [])) (conclude env orc alert eid cid)))
         (run_returns env orc alert key eid cid w) (run_raises orc alert key eid cid w) w2"
      proof (cases ok)
        case True
        then have "well_identified eid cid" "started alert key eid (store w) (store w2)" using post w1 by simp_all
        with True w2 show ?thesis
          by (simp add: wp_monotonic_ms wp_bindE [of "monotonic_ms env"]) (rule run_started_wp [OF lims], simp_all)
      next
        case False
        have "run_returns env orc alert key eid cid w out w2" if "validate_orchestration_outcome (not_persisted eid cid) = Some out" for out
          using False post w1 w2 that by (simp add: run_returns_def same_calls_within)
        moreover have "run_raises orc alert key eid cid w ValidationError w2" if "\<not> well_identified eid cid"
          using False post w1 w2 that by (simp add: run_raises_def same_calls_within clean_def)
        ultimately show ?thesis
          using False by (auto simp: persistence_failure_def wp_simps malformed_outcome split: option.split)
      qed
    qed simp
  qed
next
  fix e w' assume "replay_error eid cid w e w'"
  then show "run_raises orc alert key eid cid w e w'"
    by (auto simp: replay_error_def run_raises_def clean_def same_calls_within)
qed

end
