(* ===== verification/Orchestrator_Properties.thy ===== *)
theory Orchestrator_Properties
  imports Orchestrator_Correct
begin

text \<open>The properties of a run, over the characterization of how it ends.\<close>

subsection \<open>Reading the final database\<close>

lemma startedD:
  assumes "started alert key eid d d0"
  shows "triage_results d0 = triage_results d" "recommended_actions_table d0 = recommended_actions_table d"
    "tool_invocations d0 = tool_invocations d" "approval_decisions d0 = approval_decisions d"
    "action_executions d0 = action_executions d"
  using assms by (auto simp: started_def insert_event_def insert_execution_def with_alert_def insert_alert_def)

lemma loop_invD:
  assumes "loop_inv orc alert eid d0 d1 st"
  shows "triage_results d1 = triage_results d0" "recommended_actions_table d1 = recommended_actions_table d0"
    "approval_decisions d1 = approval_decisions d0" "action_executions d1 = action_executions d0"
    "triage_executions d1 = triage_executions d0"
  using assms by (auto simp: loop_inv_def with_calls_def)

lemma failure_markD:
  assumes "failure_mark eid d d'"
  shows "triage_results d' = triage_results d" "recommended_actions_table d' = recommended_actions_table d"
    "approval_decisions d' = approval_decisions d" "action_executions d' = action_executions d"
    "tool_invocations d' = tool_invocations d"
  using assms by (auto simp: failure_mark_def insert_event_def replace_execution_def)

lemma find_execution_event [simp]: "find_execution i (insert_event ev d) = find_execution i d"
  by (simp add: find_execution_def insert_event_def)

lemma finalizedD:
  assumes "finalized sha eid dec d d'"
  obtains rid e where "triage_results d' = triage_results d @ [result_row rid eid (pd_result dec)]"
    "recommended_actions_table d' = recommended_actions_table d
      @ map (\<lambda>a. action_row sha eid a (pd_policy_version dec)) (recommended_actions (pd_result dec))"
    "find_execution eid d' = Some e" "ex_state e = terminal_state dec"
    "find_result eid d' = Some (result_row rid eid (pd_result dec))"
    "tool_invocations d' = tool_invocations d"
proof -
  obtain e t rid ev1 ev2 where e: "find_execution eid d = Some e" and adm: "final_admissible sha eid dec rid d"
    and d': "d' = insert_event ev2 (insert_event ev1
       (replace_execution (e\<lparr>ex_state := terminal_state dec, updated_at := t\<rparr>) (final_rows sha eid dec rid d)))"
    using assms by (auto simp: finalized_def)
  let ?r = "e\<lparr>ex_state := terminal_state dec, updated_at := t\<rparr>"
  have id: "ex_execution_id ?r = eid" using find_execution_SomeD [OF e] by simp
  have rows: "triage_results d' = triage_results d @ [result_row rid eid (pd_result dec)]"
    by (simp add: d' insert_event_def replace_execution_def final_rows_def insert_result_def with_actions_def)
  have fresh: "row_get row_result_execution eid (triage_results d) = None"
    using adm by (auto simp: final_admissible_def result_admissible_def result_row_def with_actions_def row_get_None)
  have find: "find_execution eid d' = Some (update_execution ?r e)"
    using execution_repo.get_replace [of ?r "final_rows sha eid dec rid d" e eid] e id
    by (simp add: d' find_execution_event final_rows_def)
  show thesis
    by (rule that [of rid "update_execution ?r e"])
      (use find fresh rows in \<open>simp_all add: d' insert_event_def replace_execution_def final_rows_def insert_result_def
        with_actions_def update_execution_def find_result_def row_get_snoc result_row_def\<close>)
qed

lemma run_Inr:
  assumes "validate_limits (orc_gateway_limits orc) = Some (orc_gateway_limits orc)"
    and "fst (run env orc alert key eid cid w) = Inr out"
  shows "run_returns env orc alert key eid cid w out (snd (run env orc alert key eid cid w))"
  by (rule wp_Inr [OF run_wp [OF assms(1)]]) (use assms(2) in \<open>simp add: prod_eq_iff\<close>)

lemma run_Inl:
  assumes "validate_limits (orc_gateway_limits orc) = Some (orc_gateway_limits orc)"
    and "fst (run env orc alert key eid cid w) = Inl e"
  shows "run_raises orc alert key eid cid w e (snd (run env orc alert key eid cid w))"
  by (rule wp_Inl [OF run_wp [OF assms(1)]]) (use assms(2) in \<open>simp add: prod_eq_iff\<close>)

lemma not_durable [simp]: "\<not> out_durable (not_persisted eid cid)"
  by (simp add: not_persisted_def)

lemma completion_sels [simp]:
  "out_durable (completion eid cid rcode dec)" "out_reason_code (completion eid cid rcode dec) = rcode"
  "out_result (completion eid cid rcode dec) = Some (pd_result dec)"
  "out_policy_decision (completion eid cid rcode dec) = Some dec"
  by (simp_all add: completion_def)

lemma replayed_sels [simp]:
  "out_durable (replayed cid e d)" "out_reason_code (replayed cid e d) = IDEMPOTENT_REPLAY"
  by (simp_all add: replayed_def)

text \<open>A durable outcome that is not a replay is a finished run.\<close>

lemma run_finished:
  assumes "validate_limits (orc_gateway_limits orc) = Some (orc_gateway_limits orc)"
    and "fst (run env orc alert key eid cid w) = Inr out" "out_durable out" "out_reason_code out \<noteq> IDEMPOTENT_REPLAY"
  obtains d0 d1 st payload dec rcode where "started alert key eid (store w) d0" "loop_inv orc alert eid d0 d1 st"
    "decided env orc alert payload dec" "reason_fits orc (snd st) payload dec rcode"
    "finalized (sha256 env) eid dec d1 (store (snd (run env orc alert key eid cid w)))" "out_reason_code out = rcode"
    "out_result out = Some (pd_result dec)" "out_policy_decision out = Some dec"
proof -
  obtain d0 where "started alert key eid (store w) d0"
      "finished env orc alert eid cid d0 (store (snd (run env orc alert key eid cid w))) out"
    using run_Inr [OF assms(1,2)] assms(3,4) by (auto simp: run_returns_def dest!: orchestration_outcome_SomeD)
  then show thesis using that unfolding finished_def by (auto dest!: orchestration_outcome_SomeD)
qed

subsection \<open>Durability and atomicity\<close>

text \<open>C5: a run that reports a durable outcome, other than a replay, has stored all of it: exactly one new
  result, the one reported; exactly the reported actions; and the execution in the terminal state
  that fits the disposition.\<close>

theorem durable_run_is_stored:
  assumes "validate_limits (orc_gateway_limits orc) = Some (orc_gateway_limits orc)"
    and "fst (run env orc alert key eid cid w) = Inr out" and "out_durable out" "out_reason_code out \<noteq> IDEMPOTENT_REPLAY"
  shows "\<exists>dec rid e. out_result out = Some (pd_result dec) \<and> out_policy_decision out = Some dec
    \<and> triage_results (store (snd (run env orc alert key eid cid w)))
        = triage_results (store w) @ [result_row rid eid (pd_result dec)]
    \<and> recommended_actions_table (store (snd (run env orc alert key eid cid w))) = recommended_actions_table (store w)
        @ map (\<lambda>a. action_row (sha256 env) eid a (pd_policy_version dec)) (recommended_actions (pd_result dec))
    \<and> find_execution eid (store (snd (run env orc alert key eid cid w))) = Some e
    \<and> ex_state e = (if disposition (pd_result dec) = NEEDS_REVIEW then TNeedsReview else TCompleted)"
proof (rule run_finished [OF assms])
  fix d0 d1 st payload dec rcode
  assume st: "started alert key eid (store w) d0" "loop_inv orc alert eid d0 d1 st"
    and fin: "finalized (sha256 env) eid dec d1 (store (snd (run env orc alert key eid cid w)))"
      "out_result out = Some (pd_result dec)" "out_policy_decision out = Some dec"
  show ?thesis
    by (rule finalizedD [OF fin(1)], rule exI [of _ dec])
      (use fin(2,3) startedD [OF st(1)] loop_invD [OF st(2)] in \<open>auto simp add: terminal_state_def\<close>)
qed

text \<open>C6: a run that raises or reports that it was not durable leaves no result and no action behind.\<close>

theorem failed_run_stores_no_result:
  assumes "validate_limits (orc_gateway_limits orc) = Some (orc_gateway_limits orc)"
    and "case fst (run env orc alert key eid cid w) of Inl e \<Rightarrow> True | Inr out \<Rightarrow> \<not> out_durable out"
  shows "triage_results (store (snd (run env orc alert key eid cid w))) = triage_results (store w)
    \<and> recommended_actions_table (store (snd (run env orc alert key eid cid w))) = recommended_actions_table (store w)"
proof (cases "fst (run env orc alert key eid cid w)")
  case (Inl e)
  show ?thesis using run_Inl [OF assms(1) Inl] by (auto simp: run_raises_def clean_def startedD loop_invD)
next
  case (Inr out)
  then have "\<not> out_durable out" using assms(2) by simp
  then show ?thesis using run_Inr [OF assms(1) Inr]
    by (auto simp: run_returns_def finished_def unfinished_def startedD failure_markD loop_invD dest!: orchestration_outcome_SomeD)
qed

subsection \<open>Fail closed\<close>

text \<open>What the policy guarantees of the decision of a run.\<close>

lemma decided_gated:
  assumes "decided env orc alert payload dec" and "action_catalog definitions = Inr (orc_catalog orc)"
  shows "actions_requiring_approval (pd_result dec) = map (reference_from_proposal (sha256 env)) (recommended_actions (pd_result dec))"
  using assms(1) evaluate_gated [OF assms(2)] unfolding decided_def by metis

lemma decided_admissible:
  assumes "decided env orc alert payload dec" and "p \<in> set (recommended_actions (pd_result dec))"
  shows "\<exists>d. catalog_lookup (orc_catalog orc) (catalog_action_id p) = Some d \<and> entity_type (target p) \<in> target_types d
    \<and> scope_key (target p) \<in> scope_key ` set (entities alert)"
  using assms evaluate_admissible unfolding decided_def scope_from_entities_def by metis

lemma decided_closed:
  assumes "decided env orc alert payload dec" and "disposition (pd_result dec) \<noteq> NEEDS_REVIEW"
  shows "\<exists>c. payload = Some c \<and> disposition (pd_result dec) = cand_disposition c \<and> cand_evidence c \<noteq> []
    \<and> evidence (pd_result dec) = cand_evidence c
    \<and> length (recommended_actions (pd_result dec)) = length (cand_recommended_actions c)"
  using assms evaluate_closed unfolding decided_def by metis

lemma decided_reason:
  assumes "decided env orc alert payload dec" and "reason_fits orc acc payload dec rcode"
  shows "rcode = COMPLETED \<longleftrightarrow> disposition (pd_result dec) \<noteq> NEEDS_REVIEW"
  using assms by (auto simp: decided_def reason_fits_def evaluate_untrusted_def safe_review_def split: option.splits if_splits)

text \<open>C2: a finished run reports \<open>COMPLETED\<close> exactly when its result is not a human review, and then a
  candidate of the reasoner with that disposition and with evidence was accepted in full; for any
  other reason (failure, limit, denial, invalid output, policy) the result is a human review.\<close>

theorem run_fails_closed:
  assumes "validate_limits (orc_gateway_limits orc) = Some (orc_gateway_limits orc)"
    and "fst (run env orc alert key eid cid w) = Inr out" and "out_durable out" "out_reason_code out \<noteq> IDEMPOTENT_REPLAY"
  shows "\<exists>r. out_result out = Some r \<and> (out_reason_code out = COMPLETED \<longleftrightarrow> disposition r \<noteq> NEEDS_REVIEW)
    \<and> (out_reason_code out = COMPLETED \<longrightarrow> (\<exists>c. returned_candidate orc c \<and> disposition r = cand_disposition c \<and> evidence r = cand_evidence c
         \<and> cand_evidence c \<noteq> [] \<and> length (recommended_actions r) = length (cand_recommended_actions c)))"
proof (rule run_finished [OF assms])
  fix d0 d1 st payload dec rcode
  assume dec: "decided env orc alert payload dec" "reason_fits orc (snd st) payload dec rcode"
    and out: "out_reason_code out = rcode" "out_result out = Some (pd_result dec)" "out_policy_decision out = Some dec"
  show ?thesis
    using decided_closed [OF dec(1)] decided_reason [OF dec] dec(2) by (fastforce simp: out reason_fits_def)
qed

subsection \<open>Evidence\<close>

lemma candidate_evidence_backed:
  assumes "candidate_references_are_valid c acc" and "e \<in> set (cand_evidence c)"
  shows "\<exists>it \<in> set acc. acc_reference it = e"
proof -
  have "row_get evidence_id (evidence_id e) (rev (map acc_reference acc)) = Some e"
    using assms by (simp add: candidate_references_are_valid_def list_all_iff)
  from row_get_SomeD [OF this] show ?thesis by auto
qed

text \<open>C3: the evidence of a completed result was collected by the run itself: every item cites a tool
  invocation that this run stored, that the gateway allowed, that succeeded, and whose arguments
  name an entity of the alert.\<close>

theorem completed_evidence_is_collected:
  assumes "validate_limits (orc_gateway_limits orc) = Some (orc_gateway_limits orc)"
    and "fst (run env orc alert key eid cid w) = Inr out" and "out_durable out" "out_reason_code out = COMPLETED"
    and "out_result out = Some r" "e \<in> set (evidence r)"
  shows "\<exists>rows row x. tool_invocations (store (snd (run env orc alert key eid cid w))) = tool_invocations (store w) @ rows
    \<and> row \<in> set rows \<and> ir_execution_id (row_invocation row) = eid
    \<and> ir_call_id (row_invocation row) = source_reference e \<and> tool_invocation_id e = Some (source_reference e)
    \<and> ir_outcome (row_invocation row) = SUCCESS \<and> ir_authorization (row_invocation row) = ALLOWED
    \<and> x \<in> set (entities alert) \<and> request_scope_key (sanitized_arguments (row_invocation row)) = Some (scope_key x)"
proof -
  have nr: "out_reason_code out \<noteq> IDEMPOTENT_REPLAY" using assms(4) by simp
  obtain d0 d1 st payload dec rcode where start: "started alert key eid (store w) d0" and inv: "loop_inv orc alert eid d0 d1 st"
    and dec: "decided env orc alert payload dec" "reason_fits orc (snd st) payload dec rcode"
    and fin: "finalized (sha256 env) eid dec d1 (store (snd (run env orc alert key eid cid w)))" and out: "out_reason_code out = rcode" "out_result out = Some (pd_result dec)"
    by (rule run_finished [OF assms(1,2,3) nr])
  have rc: "rcode = COMPLETED" "r = pd_result dec" using assms(4,5) by (simp_all add: out)
  obtain c where c: "payload = Some c" "candidate_references_are_valid c (snd st)" "disposition (pd_result dec) \<noteq> NEEDS_REVIEW"
    using dec(2) rc by (auto simp: reason_fits_def split: option.splits if_splits)
  have "evidence (pd_result dec) = cand_evidence c" using decided_closed [OF dec(1) c(3)] c(1) by auto
  then obtain it where it: "it \<in> set (snd st)" "acc_reference it = e"
    using candidate_evidence_backed [OF c(2)] assms(6) rc by auto
  obtain rows evs where rows: "d1 = with_calls rows evs d0" "map row_invocation rows = invocation_records (fst st)"
      "\<forall>r \<in> set rows. ir_execution_id (row_invocation r) = eid" "\<forall>it \<in> set (snd st). \<exists>row \<in> set rows. backs row it"
    using inv by (auto simp: loop_inv_def)
  obtain row where row: "row \<in> set rows" "backs row it" using rows(4) it(1) by blast
  have "row_invocation row \<in> set (invocation_records (fst st))" using row(1) rows(2) by (metis image_eqI set_map)
  then have "row_invocation row \<in> set (allowed_records (fst st))" using row(2) by (simp add: allowed_records_def backs_def)
  then have "request_scope_key (sanitized_arguments (row_invocation row)) \<in> Some ` from_alert alert"
    using inv by (auto simp: loop_inv_def accounted_def)
  then obtain x where x: "x \<in> set (entities alert)" "request_scope_key (sanitized_arguments (row_invocation row)) = Some (scope_key x)"
    by (auto simp: from_alert_def)
  have tools: "tool_invocations (store (snd (run env orc alert key eid cid w))) = tool_invocations (store w) @ rows"
    by (rule finalizedD [OF fin]) (simp add: rows(1) with_calls_def startedD [OF start])
  show ?thesis
    by (intro exI [of _ rows] exI [of _ row] exI [of _ x]) (use tools row rows(3) x it(2) in \<open>auto simp: backs_def\<close>)
qed

subsection \<open>Recommended actions\<close>

text \<open>C4: with a catalog that registration accepted, every action that a run stores belongs to the run's
  execution, targets an entity of the alert with a catalogued definition that supports it, is stored
  under its own digest, and is in the approval list of the result stored with it.\<close>

theorem stored_actions_are_gated:
  assumes "validate_limits (orc_gateway_limits orc) = Some (orc_gateway_limits orc)"
    and "action_catalog definitions = Inr (orc_catalog orc)"
    and "row \<in> set (recommended_actions_table (store (snd (run env orc alert key eid cid w))))"
    and "row \<notin> set (recommended_actions_table (store w))"
  shows "row_action_execution row = eid \<and> row_action_id row = action_id (row_action row)
    \<and> row_action_digest row = digest (sha256 env) (row_action row)
    \<and> (\<exists>x d. x \<in> set (entities alert) \<and> scope_key (target (row_action row)) = scope_key x
         \<and> catalog_lookup (orc_catalog orc) (catalog_action_id (row_action row)) = Some d
         \<and> entity_type (target (row_action row)) \<in> target_types d)
    \<and> (\<exists>res. find_result eid (store (snd (run env orc alert key eid cid w))) = Some res
         \<and> reference_from_proposal (sha256 env) (row_action row) \<in> set (actions_requiring_approval (row_result res)))"
proof -
  have same: "row \<in> set (recommended_actions_table (store w))"
    if "recommended_actions_table (store (snd (run env orc alert key eid cid w))) = recommended_actions_table (store w)"
    using assms(3) that by simp
  obtain out where out: "fst (run env orc alert key eid cid w) = Inr out" "out_durable out" "out_reason_code out \<noteq> IDEMPOTENT_REPLAY"
  proof (cases "fst (run env orc alert key eid cid w)")
    case (Inl e)
    then show thesis using run_Inl [OF assms(1) Inl] same assms(4) by (auto simp: run_raises_def clean_def startedD loop_invD)
  next
    case (Inr out)
    note R = run_Inr [OF assms(1) Inr]
    show thesis
    proof (cases "out_durable out \<and> out_reason_code out \<noteq> IDEMPOTENT_REPLAY")
      case True
      then show thesis using that Inr by blast
    next
      case False
      then show thesis using R same assms(4)
        by (auto simp: run_returns_def finished_def unfinished_def clean_def startedD failure_markD loop_invD
          reason_fits_def dest!: orchestration_outcome_SomeD split: option.splits if_splits)
    qed
  qed
  obtain d0 d1 st payload dec rcode where start: "started alert key eid (store w) d0" and inv: "loop_inv orc alert eid d0 d1 st"
    and dec: "decided env orc alert payload dec"
    and fin: "finalized (sha256 env) eid dec d1 (store (snd (run env orc alert key eid cid w)))"
    by (rule run_finished [OF assms(1) out])
  show ?thesis
  proof (rule finalizedD [OF fin])
    fix rid e
    assume tab: "recommended_actions_table (store (snd (run env orc alert key eid cid w))) = recommended_actions_table d1
        @ map (\<lambda>a. action_row (sha256 env) eid a (pd_policy_version dec)) (recommended_actions (pd_result dec))"
      and res: "find_result eid (store (snd (run env orc alert key eid cid w))) = Some (result_row rid eid (pd_result dec))"
    obtain a where a: "a \<in> set (recommended_actions (pd_result dec))" "row = action_row (sha256 env) eid a (pd_policy_version dec)"
      using assms(3,4) tab startedD [OF start] loop_invD [OF inv] by auto
    show ?thesis using decided_admissible [OF dec a(1)] decided_gated [OF dec assms(2)] a(1) res
      by (auto simp: a(2) action_row_def result_row_def)
  qed
qed

subsection \<open>Bounded effort\<close>

definition within_budget :: "GatewayLimits \<Rightarrow> ToolInvocationRow list \<Rightarrow> bool" where
  "within_budget lims rows \<longleftrightarrow>
     int (length (filter (\<lambda>r. ir_authorization (row_invocation r) = ALLOWED) rows)) \<le> limit_total_calls lims"

lemma within_budget_Nil: "validate_limits lims = Some lims \<Longrightarrow> within_budget lims []"
  by (auto simp: within_budget_def validate_limits_def split: if_splits)

lemma loop_inv_budget:
  assumes "loop_inv orc alert eid d0 d1 st"
  shows "\<exists>rows. tool_invocations d1 = tool_invocations d0 @ rows \<and> within_budget (orc_gateway_limits orc) rows"
proof -
  obtain rows evs where rows: "d1 = with_calls rows evs d0" "map row_invocation rows = invocation_records (fst st)"
    using assms by (auto simp: loop_inv_def)
  have "filter (\<lambda>r. ir_authorization r = ALLOWED) (map row_invocation rows) = allowed_records (fst st)"
    by (simp add: allowed_records_def rows(2))
  then have "length (filter (\<lambda>r. ir_authorization (row_invocation r) = ALLOWED) rows) = length (allowed_records (fst st))"
    by (metis (no_types, lifting) filter_map length_map comp_def filter_cong)
  then have "within_budget (orc_gateway_limits orc) rows"
    using assms by (auto simp: within_budget_def loop_inv_def accounted_def)
  then show ?thesis using rows(1) by (auto simp: with_calls_def)
qed

text \<open>C7: every run ends after at most \<open>max_iterations\<close> questions to the reasoner and as many gateway calls,
  stores at most the budgeted number of allowed tool invocations, and executes no action, whether it
  returns or raises.\<close>

theorem run_effort_is_bounded:
  assumes "validate_limits (orc_gateway_limits orc) = Some (orc_gateway_limits orc)"
  shows "reasoner_calls (snd (run env orc alert key eid cid w)) \<le> reasoner_calls w + max_iterations (orc_limits orc)
    \<and> gateway_calls (snd (run env orc alert key eid cid w)) \<le> gateway_calls w + max_iterations (orc_limits orc)
    \<and> executed (snd (run env orc alert key eid cid w)) = executed w
    \<and> (\<exists>rows. tool_invocations (store (snd (run env orc alert key eid cid w))) = tool_invocations (store w) @ rows
         \<and> within_budget (orc_gateway_limits orc) rows)"
proof -
  let ?w' = "snd (run env orc alert key eid cid w)" and ?n = "max_iterations (orc_limits orc)"
  have none: "\<exists>rows. tool_invocations (store ?w') = tool_invocations (store w) @ rows \<and> within_budget (orc_gateway_limits orc) rows"
    if "tool_invocations (store ?w') = tool_invocations (store w)"
    using that within_budget_Nil [OF assms] by (intro exI [of _ "[]"]) simp
  have some: "\<exists>rows. tool_invocations (store ?w') = tool_invocations (store w) @ rows \<and> within_budget (orc_gateway_limits orc) rows"
    if "started alert key eid (store w) d0" "loop_inv orc alert eid d0 d1 st" "tool_invocations (store ?w') = tool_invocations d1"
    for d0 d1 st
    using loop_inv_budget [OF that(2)] that(1,3) by (auto simp: startedD)
  have "calls_within ?n ?n w ?w'
      \<and> (\<exists>rows. tool_invocations (store ?w') = tool_invocations (store w) @ rows \<and> within_budget (orc_gateway_limits orc) rows)"
  proof (cases "fst (run env orc alert key eid cid w)")
    case (Inl e)
    show ?thesis using run_Inl [OF assms Inl] some none by (auto simp: run_raises_def clean_def)
  next
    case (Inr out)
    have fin: "tool_invocations d' = tool_invocations d" if "finalized (sha256 env) eid dec d d'" for dec d d'
      by (rule finalizedD [OF that])
    show ?thesis using run_Inr [OF assms Inr] unfolding run_returns_def finished_def unfinished_def
      by (elim conjE disjE exE; intro conjI) (auto simp: clean_def within_budget_Nil [OF assms] intro: none some dest: fin failure_markD(5))
  qed
  then show ?thesis by (simp add: calls_within_def)
qed

subsection \<open>Replay and exceptions\<close>

text \<open>C8: asking again with an idempotency key on record answers from the database, when its three reads
  succeed and the stored identifier is well formed: the stored execution and its result come back as a
  replay under the identifiers as the outcome validates them, or a malformed correlation identifier
  raises a validation error; in either case nothing is written and neither the reasoner nor a tool is
  called.\<close>

theorem replay_repeats_nothing:
  assumes "find_execution_by_key key (store w) = Some e" and "Identifier (ex_execution_id e) = Some i"
    and "db_fault env (db_calls w) = None" "db_fault env (Suc (db_calls w)) = None" "db_fault env (Suc (Suc (db_calls w))) = None"
  shows "fst (run env orc alert key eid cid w) = (case Identifier cid of
        None \<Rightarrow> Inl ValidationError
      | Some c \<Rightarrow> Inr \<lparr>out_execution_id = i, out_correlation_id = c, out_durable = True, out_reason_code = IDEMPOTENT_REPLAY,
          out_result = map_option row_result (find_result (ex_execution_id e) (store w)), out_policy_decision = None\<rparr>)
    \<and> store (snd (run env orc alert key eid cid w)) = store w
    \<and> reasoner_calls (snd (run env orc alert key eid cid w)) = reasoner_calls w
    \<and> gateway_calls (snd (run env orc alert key eid cid w)) = gateway_calls w"
proof -
  let ?r = "replayed cid e (store w)"
  obtain e' where e': "find_execution (ex_execution_id e) (store w) = Some e'" "ex_execution_id e' = ex_execution_id e"
    using find_execution_of_key [OF assms(1)] by blast
  have "wp (find_replay env key eid cid)
      (\<lambda>r w'. Identifier cid \<noteq> None \<and> r = validate_orchestration_outcome ?r \<and> clean w w')
      (\<lambda>x w'. Identifier cid = None \<and> x = ValidationError \<and> clean w w') w"
    unfolding find_replay_def executions_get_by_idempotency_key_def executions_get_def results_get_for_execution_def
      persistence_failure_def
    by (simp add: wp_simps assms e' replayed_def split: option.split)
      (auto simp: validate_orchestration_outcome_def not_persisted_def assms(2) split: option.splits)
  then show ?thesis
    by (auto simp: wp_def run_def bindE_def ret_def replayed_def validate_orchestration_outcome_def assms(2) clean_def same_calls_def
      split: prod.splits sum.splits option.splits)
qed

text \<open>C9: a run raises nothing but a validation error. Either an identifier of the request is malformed, and
  then the database is as it was; or an outside service supplied the value that was refused, and then
  the run leaves no result, and the execution it started is still recorded as running.\<close>

theorem run_raises_only_validation_errors:
  assumes "validate_limits (orc_gateway_limits orc) = Some (orc_gateway_limits orc)"
    and "fst (run env orc alert key eid cid w) = Inl e"
  shows "e = ValidationError \<and> triage_results (store (snd (run env orc alert key eid cid w))) = triage_results (store w)
    \<and> (if Identifier eid = None \<or> Identifier cid = None then store (snd (run env orc alert key eid cid w)) = store w
       else \<exists>i x. Identifier eid = Some i \<and> find_execution i (store (snd (run env orc alert key eid cid w))) = Some x
         \<and> ex_state x = TRunning)"
proof (cases "well_identified eid cid")
  case False
  then show ?thesis using run_Inl [OF assms] by (auto simp: run_raises_def clean_def well_identified_def)
next
  case True
  obtain d0 st where e: "e = ValidationError" and start: "started alert key eid (store w) d0"
    and inv: "loop_inv orc alert eid d0 (store (snd (run env orc alert key eid cid w))) st"
    using run_Inl [OF assms] True by (auto simp: run_raises_def)
  obtain x ev where x: "execution_admissible x (with_alert alert (store w))"
      "d0 = insert_event ev (insert_execution x (with_alert alert (store w)))" "ex_state x = TRunning"
      "Identifier eid = Some (ex_execution_id x)"
    using start by (auto simp: started_def)
  have "find_execution (ex_execution_id x) d0 = Some x"
    using execution_repo.add_lookup [OF x(1)] by (simp add: x(2))
  then have "find_execution (ex_execution_id x) (store (snd (run env orc alert key eid cid w))) = Some x"
    using loop_invD(5) [OF inv] by (simp add: find_execution_def)
  then show ?thesis using e x(3,4) True startedD [OF start] loop_invD [OF inv] by (auto simp: well_identified_def)
qed

end
