(* ===== verification/Orchestrator_Example.thy ===== *)
theory Orchestrator_Example
  imports Orchestrator_Properties Approval_Example
begin

text \<open>
  A concrete run from an empty database: the reasoner asks for one tool, receives its evidence and
  proposes a malicious disposition with one action. The run is evaluated step by step with the
  precondition equations, head first, and the properties of runs are instantiated on it.
\<close>

subsection \<open>The services\<close>

definition sample_answer :: "nat \<Rightarrow> ReasonerContext \<Rightarrow> reasoner_reply" where
  "sample_answer n rcx = ReasonerReturned (Some (
     if n = 0 then ReasonerToolCall ''get_user_risk'' [(''user_id'', PStr ''alice'')] None
     else ReasonerCandidate
       \<lparr>cand_disposition = MALICIOUS, cand_severity = HIGH, cand_confidence = 9/10,
        cand_evidence = map acc_reference (rc_evidence rcx), cand_reasoning_summary = ''theft'',
        cand_recommended_actions = [\<lparr>catalog_action_id = ''revoke_sessions'', target = UserEntityReference ''alice'',
          parameters = [], rationale = ''stop access''\<rparr>],
        cand_escalation_required = False, cand_escalation_reason = None,
        cand_tool_calls = map acc_tool_call (rc_evidence rcx)\<rparr>))"

definition sample_outcome :: ToolOutcome where
  "sample_outcome = Found \<lparr>prov_tool_name = ''get_user_risk'', prov_tool_version = ''1.0.0'', fixture_version = ''1''\<rparr>
     (PDict [(''risk'', PStr ''HIGH'')])"

definition sample_orchestrator :: orchestrator where
  "sample_orchestrator = \<lparr>orc_registry = sample_registry, orc_catalog = the_catalog,
     orc_limits = \<lparr>max_iterations = 3, deadline_ms = 1000, max_evidence_items = 5, max_context_bytes = 2000\<rparr>,
     orc_gateway_limits = sample_limits, orc_action_semantics = [], reasoner_guidance_enabled = False,
     reasoner = sample_answer, tool_answer = (\<lambda>_ _ _ _. Returned sample_outcome), ip_parser = (\<lambda>_. None), context_size = (\<lambda>_. 0)\<rparr>"

definition sample_data :: pydict where
  "sample_data = outcome_dump sample_outcome"

lemma sample_env_sels [simp]:
  "clock_now sample_env n = 100 + int n" "clock_monotonic_ms sample_env n = int n"
  "fresh_id sample_env p n = ''id-'' @ replicate (min n 100) (CHR ''i'')" "db_fault sample_env n = None" "event_size sample_env e = 0"
  by (simp_all add: sample_env_def)

lemma sample_orchestrator_sels [simp]:
  "orc_registry sample_orchestrator = sample_registry" "orc_catalog sample_orchestrator = the_catalog"
  "max_iterations (orc_limits sample_orchestrator) = 3" "deadline_ms (orc_limits sample_orchestrator) = 1000"
  "max_evidence_items (orc_limits sample_orchestrator) = 5" "max_context_bytes (orc_limits sample_orchestrator) = 2000"
  "orc_gateway_limits sample_orchestrator = sample_limits" "reasoner_guidance_enabled sample_orchestrator = False"
  "reasoner sample_orchestrator = sample_answer" "tool_answer sample_orchestrator n t a m = Returned sample_outcome"
  "context_size sample_orchestrator c = 0"
  by (simp_all add: sample_orchestrator_def)

lemma sample_alert_sels [simp]: "entities sample_alert = [UserEntityReference ''alice'']" "alert_id sample_alert = ''alert-1''"
  by (simp_all add: sample_alert_def)

lemma sample_limits_sels [simp]:
  "limit_total_calls sample_limits = 2" "limit_per_tool_calls sample_limits = 1" "max_input_bytes sample_limits = 4096"
  "max_output_bytes sample_limits = 65536" "timeout_cap_ms sample_limits = 5000"
  by (simp_all add: sample_limits_def)

lemma sample_limits_valid: "validate_limits (orc_gateway_limits sample_orchestrator) = Some (orc_gateway_limits sample_orchestrator)"
  by (simp add: validate_limits_def)

lemma sample_first_answer [simp]:
  "sample_answer 0 rcx = ReasonerReturned (Some (ReasonerToolCall ''get_user_risk'' [(''user_id'', PStr ''alice'')] None))"
  by (simp add: sample_answer_def)

lemma sample_texts [simp]:
  "Identifier ''alice'' = Some ''alice''" "Identifier ''exec-2'' = Some ''exec-2''" "Identifier ''key-2'' = Some ''key-2''"
  "Identifier ''corr-2'' = Some ''corr-2''" "Identifier ''alert-1'' = Some ''alert-1''"
  "Identifier ''system-orchestrator'' = Some ''system-orchestrator''" "Identifier ''triage_execution'' = Some ''triage_execution''"
  "Identifier ''get_user_risk'' = Some ''get_user_risk''" "Identifier ''id-ii'' = Some ''id-ii''" "Identifier ''id-iii'' = Some ''id-iii''"
  "Version ''1.0'' = Some ''1.0''" "Version ''1.0.0'' = Some ''1.0.0''" "Version ''1'' = Some ''1''"
  "ShortText ''get_user_risk returned FOUND.'' = Some ''get_user_risk returned FOUND.''"
  "ShortText ''Sanitized get_user_risk outcome: FOUND.'' = Some ''Sanitized get_user_risk outcome: FOUND.''"
  "encoded_size [(''user_id'', PStr ''alice'')] = 19" "(65536 < encoded_size sample_data) = False"
  by code_simp+

lemma sample_data_facts [simp]:
  "validate_outcome sample_tool sample_outcome = Some sample_data"
  "get_text ''status'' ''UNKNOWN'' sample_data = ''FOUND''"
  "get_text ''tool_version'' ''unknown'' (provenance_of sample_data) = ''1.0.0''"
  "get_text ''fixture_version'' ''unknown'' (provenance_of sample_data) = ''1''"
  by (simp_all add: sample_data_def sample_outcome_def get_text_def provenance_of_def dict_get_def provenance_dump_def)

subsection \<open>Evaluation, head first\<close>

text \<open>Continuations and the arguments of the operators are left alone until their turn comes.\<close>

lemma wp_head: "m = m' \<Longrightarrow> w = w' \<Longrightarrow> wp m Q E w = wp m' Q E w'"
  by simp

lemma operator_heads: "bindE m f = bindE m f" "catch m h = catch m h" "with_uow m = with_uow m" "tagged t m = tagged t m"
  by (rule refl)+

lemmas heads = wp_head operator_heads

lemmas evals = wp_simps wp_policy_decision_eq validate_orchestration_outcome_def persistence_failure_def not_persisted_def run_def find_replay_def persist_start_def on_failure_def
  executions_get_by_idempotency_key_def executions_get_def results_get_for_execution_def alerts_get_def alerts_add_def
  executions_add_def orch_audit_def audit_append_def find_execution_by_key_def find_execution_def find_result_def find_alert_def
  iteration_step_def tool_step_def persist_tool_def invocations_add_def conclude_def finalize_def persist_final_def
  executions_replace_def results_add_def actions_add_def action_row_def result_row_def insert_invocation_def insert_result_def
  insert_action_def invocation_admissible_def result_admissible_def action_admissible_def replace_execution_def update_execution_def
  build_context_def to_evidence_def validate_tool_call_def validate_evidence_def invoke_def authorize_def charge_def
  judge_reply_def registry_lookup_def sample_registry_def validate_request_def request_scope_key_def from_alert_def scope_key_def
  new_context_def dict_get_def Tool_Gateway.finish_def validate_execution_def validate_event_def insert_alert_def
  insert_execution_def execution_admissible_def insert_event_def event_admissible_def Let_def optional_def alert_row_def
  alert_admissible_def empty_db_def numeral_3_eq_3 world_of_def

subsection \<open>The decision\<close>

definition sample_evidence :: EvidenceReference where
  "sample_evidence = \<lparr>evidence_id = ''id-'', source_type = ''get_user_risk'', source_reference = ''id-'', collected_at = 103,
     source_version = ''1'', ev_summary = ''Sanitized get_user_risk outcome: FOUND.'', tool_invocation_id = Some ''id-''\<rparr>"

definition sample_proposed :: CandidateAssessment where
  "sample_proposed = \<lparr>cand_disposition = MALICIOUS, cand_severity = HIGH, cand_confidence = 9/10, cand_evidence = [sample_evidence],
     cand_reasoning_summary = ''theft'',
     cand_recommended_actions = [\<lparr>catalog_action_id = ''revoke_sessions'', target = UserEntityReference ''alice'',
       parameters = [], rationale = ''stop access''\<rparr>],
     cand_escalation_required = False, cand_escalation_reason = None,
     cand_tool_calls = [\<lparr>invocation_id = ''id-'', tc_tool_name = ''get_user_risk'', tc_tool_version = ''1.0.0'',
       called_at = 102, tc_summary = ''get_user_risk returned FOUND.''\<rparr>]\<rparr>"

definition sample_verdict :: PolicyDecision where
  "sample_verdict = fst (evaluate (sha256 sample_env) the_catalog (fresh_id sample_env ''action'') 0 sample_proposed
     ''alert-1'' {''USER:alice''} 105)"

definition sample_accepted :: ActionProposal where
  "sample_accepted = \<lparr>catalog_action_id = ''revoke_sessions'', target = UserEntityReference ''alice'', parameters = [],
     rationale = ''stop access'', action_id = ''id-''\<rparr>"

lemma sample_verdict_facts:
  "disposition (pd_result sample_verdict) = MALICIOUS" "evidence (pd_result sample_verdict) = [sample_evidence]"
  "recommended_actions (pd_result sample_verdict) = [sample_accepted]"
  "res_alert_id (pd_result sample_verdict) = ''alert-1''"
  "actions_requiring_approval (pd_result sample_verdict) = [reference_from_proposal (sha256 sample_env) sample_accepted]"
proof -
  have hyps: "inj_on (fresh_id sample_env ''action'') {0..<0 + length (cand_recommended_actions sample_proposed)}"
    "distinct (map evidence_id (cand_evidence sample_proposed))" "distinct (map invocation_id (cand_tool_calls sample_proposed))"
    "\<forall>e \<in> set (cand_evidence sample_proposed). \<forall>t. tool_invocation_id e = Some t
        \<longrightarrow> t \<in> invocation_id ` set (cand_tool_calls sample_proposed)"
    by (simp_all add: sample_proposed_def sample_evidence_def)
  have admitted: "action_reason the_catalog {''USER:alice''} (hd (cand_recommended_actions sample_proposed)) = None"
    by (simp add: action_reason_def sample_proposed_def catalog_lookup_def the_catalog_def initial_definitions_def
        scope_key_def NoParameters_def)
  have result: "pd_result sample_verdict = draft_result (sha256 sample_env) the_catalog (fresh_id sample_env ''action'') 0 sample_proposed
      ''alert-1'' {''USER:alice''} 105"
    using evaluate_cases [of "sha256 sample_env" the_catalog "fresh_id sample_env ''action''" 0 sample_proposed "''alert-1''" "{''USER:alice''}" 105]
      draft_consistent [OF approval_gated_catalog [OF initial_catalog_registers] hyps,
        where sha = "sha256 sample_env" and aid = "''alert-1''" and scope = "{''USER:alice''}" and ts = 105]
    by (simp add: sample_verdict_def)
  show "disposition (pd_result sample_verdict) = MALICIOUS" "evidence (pd_result sample_verdict) = [sample_evidence]"
    "recommended_actions (pd_result sample_verdict) = [sample_accepted]"
    "res_alert_id (pd_result sample_verdict) = ''alert-1''"
    "actions_requiring_approval (pd_result sample_verdict) = [reference_from_proposal (sha256 sample_env) sample_accepted]"
    unfolding result using admitted
    by (simp_all add: draft_sels must_review_def initial_reasons_def draft_result_def assess_actions_approvals [OF approval_gated_catalog [OF initial_catalog_registers]])
      (simp_all add: sample_proposed_def sample_accepted_def canonicalize_def freeze_mapping_def thaw_mapping_def refusals_Nil)
qed

definition sample_next :: nat where
  "sample_next = snd (evaluate (sha256 sample_env) the_catalog (fresh_id sample_env ''action'') 0 sample_proposed
     ''alert-1'' {''USER:alice''} 105)"

lemma sample_evaluate:
  "evaluate (sha256 sample_env) the_catalog (fresh_id sample_env ''action'') 0 sample_proposed ''alert-1'' {''USER:alice''} 105
     = (sample_verdict, sample_next)"
  by (simp add: sample_verdict_def sample_next_def)

lemma sample_run_wp:
  "wp (run sample_env sample_orchestrator sample_alert ''key-2'' ''exec-2'' ''corr-2'')
     (\<lambda>out w. out = completion ''exec-2'' ''corr-2'' COMPLETED sample_verdict
        \<and> map row_action (recommended_actions_table (store w)) = [sample_accepted]) (\<lambda>_ _. False) (world_of empty_db)"
  apply (simp add: evals cong: heads)
  apply (simp add: sample_answer_def candidate_references_are_valid_def evals row_get_Cons cong: heads)
  apply (simp add: evaluate_untrusted_def scope_from_entities_def evals sample_evidence_def [symmetric]
    sample_proposed_def [symmetric] sample_evaluate sample_verdict_facts row_get_Cons terminal_state_def completion_def cong: heads)
  done

lemma empty_db_sels [simp]: "tool_invocations empty_db = []" "triage_results empty_db = []" "recommended_actions_table empty_db = []"
  by (simp_all add: empty_db_def)

lemma sample_evidence_source [simp]: "source_reference sample_evidence = ''id-''"
  by (simp add: sample_evidence_def)

lemma wp_returns: "wp m Q (\<lambda>_ _. False) w \<Longrightarrow> \<exists>x. fst (m w) = Inr x \<and> Q x (snd (m w))"
  by (cases "fst (m w)") (auto simp: wp_def split: prod.splits)

lemma wp_raises: "wp m (\<lambda>_ _. False) E w \<Longrightarrow> \<exists>e. fst (m w) = Inl e \<and> E e (snd (m w))"
  by (cases "fst (m w)") (auto simp: wp_def split: prod.splits)

abbreviation sample_run :: "(exn + OrchestrationOutcome) \<times> world" where
  "sample_run \<equiv> run sample_env sample_orchestrator sample_alert ''key-2'' ''exec-2'' ''corr-2'' (world_of empty_db)"

lemma sample_run_facts:
  "fst sample_run = Inr (completion ''exec-2'' ''corr-2'' COMPLETED sample_verdict)"
  "map row_action (recommended_actions_table (store (snd sample_run))) = [sample_accepted]"
  using wp_returns [OF sample_run_wp] by auto

subsection \<open>The properties on the run\<close>

theorem durable_run_is_stored_witness:
  "\<exists>rid. triage_results (store (snd sample_run)) = [result_row rid ''exec-2'' (pd_result sample_verdict)]"
  using durable_run_is_stored [OF sample_limits_valid sample_run_facts(1)] by auto

theorem run_fails_closed_witness:
  "\<exists>c. returned_candidate sample_orchestrator c \<and> cand_disposition c = MALICIOUS \<and> cand_evidence c = [sample_evidence]"
  using run_fails_closed [OF sample_limits_valid sample_run_facts(1)] by (auto simp: sample_verdict_facts)

theorem completed_evidence_is_collected_witness:
  "\<exists>row. row \<in> set (tool_invocations (store (snd sample_run))) \<and> ir_call_id (row_invocation row) = ''id-''
    \<and> ir_outcome (row_invocation row) = SUCCESS \<and> ir_authorization (row_invocation row) = ALLOWED"
  using completed_evidence_is_collected [OF sample_limits_valid sample_run_facts(1), of "pd_result sample_verdict" sample_evidence]
  by (fastforce simp: sample_verdict_facts)

theorem stored_actions_are_gated_witness:
  "\<exists>res. find_result ''exec-2'' (store (snd sample_run)) = Some res
    \<and> reference_from_proposal (sha256 sample_env) sample_accepted \<in> set (actions_requiring_approval (row_result res))"
proof -
  obtain row where "row \<in> set (recommended_actions_table (store (snd sample_run)))" "row_action row = sample_accepted"
    using sample_run_facts(2) by (auto simp: map_eq_Cons_conv)
  then show ?thesis
    using stored_actions_are_gated [OF sample_limits_valid, of initial_definitions row sample_env sample_alert "''key-2''"
        "''exec-2''" "''corr-2''" "world_of empty_db"] by (auto simp: initial_catalog_registers)
qed

theorem run_effort_is_bounded_witness: "reasoner_calls (snd sample_run) \<le> 3 \<and> executed (snd sample_run) = []"
  using run_effort_is_bounded [OF sample_limits_valid, of sample_env sample_alert "''key-2''" "''exec-2''" "''corr-2''" "world_of empty_db"]
  by (simp add: world_of_def)

definition broken_env :: env where
  "broken_env = sample_env\<lparr>db_fault := (\<lambda>_. Some ''OperationalError'')\<rparr>"

theorem failed_run_stores_no_result_witness:
  "triage_results (store (snd (run broken_env sample_orchestrator sample_alert ''key-2'' ''exec-2'' ''corr-2'' (world_of sample_db))))
    = triage_results sample_db"
proof -
  have "wp (run broken_env sample_orchestrator sample_alert ''key-2'' ''exec-2'' ''corr-2'')
      (\<lambda>out w. \<not> out_durable out) (\<lambda>_ _. False) (world_of sample_db)"
    by (simp add: run_def find_replay_def executions_get_by_idempotency_key_def persistence_failure_def not_persisted_def
      validate_orchestration_outcome_def wp_simps broken_env_def)
  then show ?thesis
    using wp_returns failed_run_stores_no_result [OF sample_limits_valid, of broken_env sample_alert "''key-2''" "''exec-2''" "''corr-2''"
        "world_of sample_db"] by fastforce
qed

theorem replay_repeats_nothing_witness:
  "store (snd (run sample_env sample_orchestrator sample_alert ''key-1'' ''exec-2'' ''corr-2'' (world_of sample_db))) = sample_db
    \<and> (\<exists>out. fst (run sample_env sample_orchestrator sample_alert ''key-1'' ''exec-2'' ''corr-2'' (world_of sample_db)) = Inr out
         \<and> out_execution_id out = ''exec-1'' \<and> out_result out = Some sample_result)
    \<and> fst (run sample_env sample_orchestrator sample_alert ''key-1'' ''exec-2'' [] (world_of sample_db)) = Inl ValidationError"
proof -
  have ids: "Identifier ''exec-1'' = Some ''exec-1''" "Identifier [] = None" by code_simp+
  have key: "find_execution_by_key ''key-1'' sample_db = Some sample_execution" "ex_execution_id sample_execution = ''exec-1''"
    by (simp_all add: find_execution_by_key_def sample_db_def row_get_Cons) (simp_all add: sample_execution_def)
  have res: "map_option row_result (find_result ''exec-1'' sample_db) = Some sample_result"
    by (simp add: sample_rows result_row_def)
  show ?thesis
    using replay_repeats_nothing [of "''key-1''" "world_of sample_db" sample_execution "''exec-1''" sample_env sample_orchestrator
        sample_alert "''exec-2''" "''corr-2''"]
      replay_repeats_nothing [of "''key-1''" "world_of sample_db" sample_execution "''exec-1''" sample_env sample_orchestrator
        sample_alert "''exec-2''" "[]"] ids key res
    by simp
qed

text \<open>
  Guided mode shows the reasoner the scope of the alert. The key of an IPv6 address such as
  \<open>::1\<close> is no valid target identifier, so building the context raises.
\<close>

definition guided_orchestrator :: orchestrator where
  "guided_orchestrator = sample_orchestrator\<lparr>reasoner_guidance_enabled := True\<rparr>"

definition loopback_alert :: SecurityAlert where
  "loopback_alert = sample_alert\<lparr>entities := [IpAddressEntityReference ''::1'']\<rparr>"

lemma guided_sels [simp]:
  "orc_limits guided_orchestrator = orc_limits sample_orchestrator" "reasoner_guidance_enabled guided_orchestrator"
  "orc_gateway_limits guided_orchestrator = sample_limits"
  "alert_id loopback_alert = ''alert-1''" "entities loopback_alert = [IpAddressEntityReference ''::1'']"
  by (simp_all add: guided_orchestrator_def loopback_alert_def)

lemma loopback_has_no_target: "all_valid from_scope_key (sorted_set [''IP_ADDRESS:::1'']) = None"
  by code_simp

lemma guided_run_wp:
  "wp (run sample_env guided_orchestrator loopback_alert ''key-2'' ''exec-2'' ''corr-2'') (\<lambda>_ _. False) (\<lambda>e w. True) (world_of empty_db)"
  by (simp add: evals loopback_has_no_target cong: heads)
lemma malformed_run_wp:
  "wp (run sample_env sample_orchestrator sample_alert ''key-1'' ''exec-2'' []) (\<lambda>_ _. False) (\<lambda>_ _. True) (world_of sample_db)"
proof -
  have none: "Identifier [] = None" by code_simp
  show ?thesis unfolding run_def wp_bindE
    by (rule wp_mono [OF find_replay_wp])
      (auto simp: replay_post_def validate_orchestration_outcome_def not_persisted_def replayed_def none find_execution_by_key_def sample_db_def
        row_get_Cons sample_execution_def split: option.splits)
qed

theorem run_raises_only_validation_errors_witness:
  "(\<exists>x. find_execution ''exec-2'' (store (snd (run sample_env guided_orchestrator loopback_alert ''key-2'' ''exec-2'' ''corr-2''
      (world_of empty_db)))) = Some x \<and> ex_state x = TRunning)
    \<and> store (snd (run sample_env sample_orchestrator sample_alert ''key-1'' ''exec-2'' [] (world_of sample_db))) = sample_db"
proof -
  have lims: "validate_limits (orc_gateway_limits guided_orchestrator) = Some (orc_gateway_limits guided_orchestrator)"
    using sample_limits_valid by simp
  obtain e where "fst (run sample_env guided_orchestrator loopback_alert ''key-2'' ''exec-2'' ''corr-2'' (world_of empty_db)) = Inl e"
    using wp_raises [OF guided_run_wp] by blast
  note raised = run_raises_only_validation_errors [OF lims this]
  have none: "Identifier [] = None" by code_simp
  obtain d where "fst (run sample_env sample_orchestrator sample_alert ''key-1'' ''exec-2'' [] (world_of sample_db)) = Inl d"
    using wp_raises [OF malformed_run_wp] by blast
  from run_raises_only_validation_errors [OF sample_limits_valid this] raised none show ?thesis by simp
qed

end
