(* ===== verification/Evidence_Data.thy ===== *)
theory Evidence_Data
  imports Tool_Registry Triage
begin

text \<open>
  The typed responses of the seven evidence tools (\<open>application/evidence_tools.py\<close>): their field
  validation, their JSON form, and the response model that a JSON form must satisfy. An address is
  its canonical text. \<open>utc\<close> is the text of a UTC timestamp.
\<close>

datatype RiskLevel = RiskNone | RiskLow | RiskMedium | RiskHigh

fun risk_level_value :: "RiskLevel \<Rightarrow> string" where
  "risk_level_value RiskNone = ''NONE''"
| "risk_level_value RiskLow = ''LOW''"
| "risk_level_value RiskMedium = ''MEDIUM''"
| "risk_level_value RiskHigh = ''HIGH''"

datatype RiskState = StateNone | AtRisk | Remediated

fun risk_state_value :: "RiskState \<Rightarrow> string" where
  "risk_state_value StateNone = ''NONE''"
| "risk_state_value AtRisk = ''AT_RISK''"
| "risk_state_value Remediated = ''REMEDIATED''"

datatype SignInStatus = SignInSuccess | SignInFailure

fun sign_in_status_value :: "SignInStatus \<Rightarrow> string" where
  "sign_in_status_value SignInSuccess = ''SUCCESS''"
| "sign_in_status_value SignInFailure = ''FAILURE''"

datatype ComplianceState = Compliant | Noncompliant | ComplianceUnknown

fun compliance_value :: "ComplianceState \<Rightarrow> string" where
  "compliance_value Compliant = ''COMPLIANT''"
| "compliance_value Noncompliant = ''NONCOMPLIANT''"
| "compliance_value ComplianceUnknown = ''UNKNOWN''"

datatype IpReputationCategory = IpBenign | IpSuspicious | IpMalicious | IpUnknown

fun ip_category_value :: "IpReputationCategory \<Rightarrow> string" where
  "ip_category_value IpBenign = ''BENIGN''"
| "ip_category_value IpSuspicious = ''SUSPICIOUS''"
| "ip_category_value IpMalicious = ''MALICIOUS''"
| "ip_category_value IpUnknown = ''UNKNOWN''"

datatype MfaEventStatus = MfaSuccess | MfaDenied | MfaFailed

fun mfa_status_value :: "MfaEventStatus \<Rightarrow> string" where
  "mfa_status_value MfaSuccess = ''SUCCESS''"
| "mfa_status_value MfaDenied = ''DENIED''"
| "mfa_status_value MfaFailed = ''FAILED''"

datatype PrivilegeLevel = Standard | Privileged

fun privilege_value :: "PrivilegeLevel \<Rightarrow> string" where
  "privilege_value Standard = ''STANDARD''"
| "privilege_value Privileged = ''PRIVILEGED''"

subsection \<open>Records\<close>

record SignInEvent =
  sign_in_id :: string
  si_user_id :: string
  si_device_id :: string
  si_ip_address :: string
  si_occurred_at :: time
  si_status :: SignInStatus
  authentication_method :: string
  si_location :: string

record RecentSignIns =
  rs_user_id :: string
  rs_reference_time :: time
  window_started_at :: time
  sign_ins :: "SignInEvent list"

record UserRisk =
  ur_user_id :: string
  risk_level :: RiskLevel
  risk_state :: RiskState
  ur_observed_at :: time
  ur_summary :: string

record DeviceContext =
  dc_device_id :: string
  dc_display_name :: string
  operating_system :: string
  compliance_state :: ComplianceState
  managed :: bool
  last_seen_at :: time
  owner_user_ids :: "string list"

record IpReputation =
  rep_ip_address :: string
  ip_category :: IpReputationCategory
  confidence_score :: int
  rep_observed_at :: time
  rep_summary :: string

record MfaEvent =
  mfa_event_id :: string
  mfa_user_id :: string
  mfa_occurred_at :: time
  mfa_method :: string
  mfa_status :: MfaEventStatus
  source_sign_in_id :: string

record MfaEvents =
  me_user_id :: string
  mfa_list :: "MfaEvent list"

record RelatedAlertSummary =
  ra_alert_id :: string
  ra_title :: string
  ra_source_severity :: Severity
  ra_occurred_at :: time

record RelatedAlerts =
  rel_user_id :: string
  rel_alerts :: "RelatedAlertSummary list"

record IdentityContext =
  ic_user_id :: string
  ic_display_name :: string
  principal_name :: string
  ic_role :: string
  enabled :: bool
  privilege_level :: PrivilegeLevel
  device_ids :: "string list"

subsection \<open>Field validation\<close>

definition validate_sign_in :: "SignInEvent \<Rightarrow> SignInEvent option" where
  "validate_sign_in x =
     (case (Identifier (sign_in_id x), Identifier (si_user_id x), Identifier (si_device_id x),
            Identifier (authentication_method x), ShortText (si_location x)) of
        (Some i, Some u, Some d, Some m, Some l) \<Rightarrow>
          Some (x\<lparr>sign_in_id := i, si_user_id := u, si_device_id := d, authentication_method := m, si_location := l\<rparr>)
      | _ \<Rightarrow> None)"

definition validate_user_risk :: "UserRisk \<Rightarrow> UserRisk option" where
  "validate_user_risk x =
     (case (Identifier (ur_user_id x), ShortText (ur_summary x)) of
        (Some u, Some t) \<Rightarrow> Some (x\<lparr>ur_user_id := u, ur_summary := t\<rparr>) | _ \<Rightarrow> None)"

definition validate_device :: "DeviceContext \<Rightarrow> DeviceContext option" where
  "validate_device x =
     (case (Identifier (dc_device_id x), ShortText (dc_display_name x), ShortText (operating_system x),
            all_valid Identifier (owner_user_ids x)) of
        (Some d, Some n, Some s, Some us) \<Rightarrow>
          Some (x\<lparr>dc_device_id := d, dc_display_name := n, operating_system := s, owner_user_ids := us\<rparr>)
      | _ \<Rightarrow> None)"

definition validate_reputation :: "IpReputation \<Rightarrow> IpReputation option" where
  "validate_reputation x =
     (case ShortText (rep_summary x) of
        Some t \<Rightarrow> if 0 \<le> confidence_score x \<and> confidence_score x \<le> 100 then Some (x\<lparr>rep_summary := t\<rparr>) else None
      | None \<Rightarrow> None)"

definition validate_mfa_event :: "MfaEvent \<Rightarrow> MfaEvent option" where
  "validate_mfa_event x =
     (case (Identifier (mfa_event_id x), Identifier (mfa_user_id x), Identifier (mfa_method x),
            Identifier (source_sign_in_id x)) of
        (Some i, Some u, Some m, Some s) \<Rightarrow>
          Some (x\<lparr>mfa_event_id := i, mfa_user_id := u, mfa_method := m, source_sign_in_id := s\<rparr>)
      | _ \<Rightarrow> None)"

definition validate_identity :: "IdentityContext \<Rightarrow> IdentityContext option" where
  "validate_identity x =
     (case (Identifier (ic_user_id x), ShortText (ic_display_name x), ShortText (principal_name x),
            ShortText (ic_role x), all_valid Identifier (device_ids x)) of
        (Some u, Some n, Some p, Some r, Some ds) \<Rightarrow>
          Some (x\<lparr>ic_user_id := u, ic_display_name := n, principal_name := p, ic_role := r, device_ids := ds\<rparr>)
      | _ \<Rightarrow> None)"

subsection \<open>JSON form\<close>

definition sign_in_dump :: "(time \<Rightarrow> string) \<Rightarrow> SignInEvent \<Rightarrow> pyval" where
  "sign_in_dump utc x = PDict
     [(''sign_in_id'', PStr (sign_in_id x)), (''user_id'', PStr (si_user_id x)), (''device_id'', PStr (si_device_id x)),
      (''ip_address'', PStr (si_ip_address x)), (''occurred_at'', PStr (utc (si_occurred_at x))),
      (''status'', PStr (sign_in_status_value (si_status x))),
      (''authentication_method'', PStr (authentication_method x)), (''location'', PStr (si_location x))]"

definition recent_sign_ins_dump :: "(time \<Rightarrow> string) \<Rightarrow> RecentSignIns \<Rightarrow> pyval" where
  "recent_sign_ins_dump utc x = PDict
     [(''user_id'', PStr (rs_user_id x)), (''reference_time'', PStr (utc (rs_reference_time x))),
      (''window_started_at'', PStr (utc (window_started_at x))), (''sign_ins'', PList (map (sign_in_dump utc) (sign_ins x)))]"

definition user_risk_dump :: "(time \<Rightarrow> string) \<Rightarrow> UserRisk \<Rightarrow> pyval" where
  "user_risk_dump utc x = PDict
     [(''user_id'', PStr (ur_user_id x)), (''risk_level'', PStr (risk_level_value (risk_level x))),
      (''risk_state'', PStr (risk_state_value (risk_state x))), (''observed_at'', PStr (utc (ur_observed_at x))),
      (''summary'', PStr (ur_summary x))]"

definition device_dump :: "(time \<Rightarrow> string) \<Rightarrow> DeviceContext \<Rightarrow> pyval" where
  "device_dump utc x = PDict
     [(''device_id'', PStr (dc_device_id x)), (''display_name'', PStr (dc_display_name x)),
      (''operating_system'', PStr (operating_system x)),
      (''compliance_state'', PStr (compliance_value (compliance_state x))), (''managed'', PBool (managed x)),
      (''last_seen_at'', PStr (utc (last_seen_at x))), (''owner_user_ids'', PList (map PStr (owner_user_ids x)))]"

definition reputation_dump :: "(time \<Rightarrow> string) \<Rightarrow> IpReputation \<Rightarrow> pyval" where
  "reputation_dump utc x = PDict
     [(''ip_address'', PStr (rep_ip_address x)), (''category'', PStr (ip_category_value (ip_category x))),
      (''confidence_score'', PInt (confidence_score x)), (''observed_at'', PStr (utc (rep_observed_at x))),
      (''summary'', PStr (rep_summary x))]"

definition mfa_event_dump :: "(time \<Rightarrow> string) \<Rightarrow> MfaEvent \<Rightarrow> pyval" where
  "mfa_event_dump utc x = PDict
     [(''mfa_event_id'', PStr (mfa_event_id x)), (''user_id'', PStr (mfa_user_id x)),
      (''occurred_at'', PStr (utc (mfa_occurred_at x))), (''method'', PStr (mfa_method x)),
      (''status'', PStr (mfa_status_value (mfa_status x))), (''source_sign_in_id'', PStr (source_sign_in_id x))]"

definition mfa_events_dump :: "(time \<Rightarrow> string) \<Rightarrow> MfaEvents \<Rightarrow> pyval" where
  "mfa_events_dump utc x = PDict
     [(''user_id'', PStr (me_user_id x)), (''events'', PList (map (mfa_event_dump utc) (mfa_list x)))]"

definition related_summary_dump :: "(time \<Rightarrow> string) \<Rightarrow> RelatedAlertSummary \<Rightarrow> pyval" where
  "related_summary_dump utc x = PDict
     [(''alert_id'', PStr (ra_alert_id x)), (''title'', PStr (ra_title x)),
      (''source_severity'', PStr (severity_value (ra_source_severity x))), (''occurred_at'', PStr (utc (ra_occurred_at x)))]"

definition related_alerts_dump :: "(time \<Rightarrow> string) \<Rightarrow> RelatedAlerts \<Rightarrow> pyval" where
  "related_alerts_dump utc x = PDict
     [(''user_id'', PStr (rel_user_id x)), (''alerts'', PList (map (related_summary_dump utc) (rel_alerts x)))]"

definition identity_dump :: "IdentityContext \<Rightarrow> pyval" where
  "identity_dump x = PDict
     [(''user_id'', PStr (ic_user_id x)), (''display_name'', PStr (ic_display_name x)),
      (''principal_name'', PStr (principal_name x)), (''role'', PStr (ic_role x)), (''enabled'', PBool (enabled x)),
      (''privilege_level'', PStr (privilege_value (privilege_level x))), (''device_ids'', PList (map PStr (device_ids x)))]"

subsection \<open>Response models\<close>

text \<open>
  A closed model accepts a dictionary with exactly its fields, each with an accepted value. Text
  of timestamps and addresses is accepted as text.
\<close>

fun closed_model :: "(string \<times> (pyval \<Rightarrow> bool)) list \<Rightarrow> pyval \<Rightarrow> bool" where
  "closed_model decl (PDict d) =
     (map fst d = map fst decl \<and> list_all2 (\<lambda>kv f. snd f (snd kv)) d decl)"
| "closed_model _ _ = False"

fun text_field :: "(string \<Rightarrow> bool) \<Rightarrow> pyval \<Rightarrow> bool" where
  "text_field P (PStr s) = P s"
| "text_field P _ = False"

fun bool_field :: "pyval \<Rightarrow> bool" where
  "bool_field (PBool b) = True"
| "bool_field _ = False"

fun score_field :: "pyval \<Rightarrow> bool" where
  "score_field (PInt i) = (0 \<le> i \<and> i \<le> 100)"
| "score_field _ = False"

fun tuple_field :: "(pyval \<Rightarrow> bool) \<Rightarrow> pyval \<Rightarrow> bool" where
  "tuple_field P (PList vs) = list_all P vs"
| "tuple_field P _ = False"

definition id_field :: "pyval \<Rightarrow> bool" where
  "id_field = text_field (\<lambda>s. Identifier s = Some s)"

definition short_field :: "pyval \<Rightarrow> bool" where
  "short_field = text_field (\<lambda>s. ShortText s = Some s)"

definition enum_field :: "string list \<Rightarrow> pyval \<Rightarrow> bool" where
  "enum_field values = text_field (\<lambda>s. s \<in> set values)"

definition any_text :: "pyval \<Rightarrow> bool" where
  "any_text = text_field (\<lambda>_. True)"

definition SignInModel :: "pyval \<Rightarrow> bool" where
  "SignInModel = closed_model
     [(''sign_in_id'', id_field), (''user_id'', id_field), (''device_id'', id_field), (''ip_address'', any_text),
      (''occurred_at'', any_text), (''status'', enum_field [''SUCCESS'', ''FAILURE'']),
      (''authentication_method'', id_field), (''location'', short_field)]"

definition RecentSignInsModel :: "pyval \<Rightarrow> bool" where
  "RecentSignInsModel = closed_model
     [(''user_id'', id_field), (''reference_time'', any_text), (''window_started_at'', any_text),
      (''sign_ins'', tuple_field SignInModel)]"

definition UserRiskModel :: "pyval \<Rightarrow> bool" where
  "UserRiskModel = closed_model
     [(''user_id'', id_field), (''risk_level'', enum_field [''NONE'', ''LOW'', ''MEDIUM'', ''HIGH'']),
      (''risk_state'', enum_field [''NONE'', ''AT_RISK'', ''REMEDIATED'']), (''observed_at'', any_text),
      (''summary'', short_field)]"

definition DeviceContextModel :: "pyval \<Rightarrow> bool" where
  "DeviceContextModel = closed_model
     [(''device_id'', id_field), (''display_name'', short_field), (''operating_system'', short_field),
      (''compliance_state'', enum_field [''COMPLIANT'', ''NONCOMPLIANT'', ''UNKNOWN'']), (''managed'', bool_field),
      (''last_seen_at'', any_text), (''owner_user_ids'', tuple_field id_field)]"

definition IpReputationModel :: "pyval \<Rightarrow> bool" where
  "IpReputationModel = closed_model
     [(''ip_address'', any_text), (''category'', enum_field [''BENIGN'', ''SUSPICIOUS'', ''MALICIOUS'', ''UNKNOWN'']),
      (''confidence_score'', score_field), (''observed_at'', any_text), (''summary'', short_field)]"

definition MfaEventModel :: "pyval \<Rightarrow> bool" where
  "MfaEventModel = closed_model
     [(''mfa_event_id'', id_field), (''user_id'', id_field), (''occurred_at'', any_text), (''method'', id_field),
      (''status'', enum_field [''SUCCESS'', ''DENIED'', ''FAILED'']), (''source_sign_in_id'', id_field)]"

definition MfaEventsModel :: "pyval \<Rightarrow> bool" where
  "MfaEventsModel = closed_model [(''user_id'', id_field), (''events'', tuple_field MfaEventModel)]"

definition RelatedAlertSummaryModel :: "pyval \<Rightarrow> bool" where
  "RelatedAlertSummaryModel = closed_model
     [(''alert_id'', id_field), (''title'', short_field),
      (''source_severity'', enum_field [''INFORMATIONAL'', ''LOW'', ''MEDIUM'', ''HIGH'', ''CRITICAL'']),
      (''occurred_at'', any_text)]"

definition RelatedAlertsModel :: "pyval \<Rightarrow> bool" where
  "RelatedAlertsModel = closed_model [(''user_id'', id_field), (''alerts'', tuple_field RelatedAlertSummaryModel)]"

definition IdentityContextModel :: "pyval \<Rightarrow> bool" where
  "IdentityContextModel = closed_model
     [(''user_id'', id_field), (''display_name'', short_field), (''principal_name'', short_field),
      (''role'', short_field), (''enabled'', bool_field),
      (''privilege_level'', enum_field [''STANDARD'', ''PRIVILEGED'']), (''device_ids'', tuple_field id_field)]"

lemmas model_defs = SignInModel_def RecentSignInsModel_def UserRiskModel_def DeviceContextModel_def
  IpReputationModel_def MfaEventModel_def MfaEventsModel_def RelatedAlertSummaryModel_def
  RelatedAlertsModel_def IdentityContextModel_def

lemmas field_defs = id_field_def short_field_def enum_field_def any_text_def

lemmas dump_defs = sign_in_dump_def recent_sign_ins_dump_def user_risk_dump_def device_dump_def reputation_dump_def
  mfa_event_dump_def mfa_events_dump_def related_summary_dump_def related_alerts_dump_def identity_dump_def

subsection \<open>Validated records have the JSON form of their model\<close>

lemma ShortText_stable: "ShortText s = Some t \<Longrightarrow> ShortText t = Some t"
  unfolding ShortText_def by (rule constrained_stable)

lemma enum_typed:
  "enum_field [''NONE'', ''LOW'', ''MEDIUM'', ''HIGH''] (PStr (risk_level_value l))"
  "enum_field [''NONE'', ''AT_RISK'', ''REMEDIATED''] (PStr (risk_state_value r))"
  "enum_field [''SUCCESS'', ''FAILURE''] (PStr (sign_in_status_value st))"
  "enum_field [''COMPLIANT'', ''NONCOMPLIANT'', ''UNKNOWN''] (PStr (compliance_value c))"
  "enum_field [''BENIGN'', ''SUSPICIOUS'', ''MALICIOUS'', ''UNKNOWN''] (PStr (ip_category_value ic))"
  "enum_field [''SUCCESS'', ''DENIED'', ''FAILED''] (PStr (mfa_status_value m))"
  "enum_field [''STANDARD'', ''PRIVILEGED''] (PStr (privilege_value p))"
  "enum_field [''INFORMATIONAL'', ''LOW'', ''MEDIUM'', ''HIGH'', ''CRITICAL''] (PStr (severity_value sv))"
  unfolding enum_field_def
  subgoal by (cases l) simp_all
  subgoal by (cases r) simp_all
  subgoal by (cases st) simp_all
  subgoal by (cases c) simp_all
  subgoal by (cases ic) simp_all
  subgoal by (cases m) simp_all
  subgoal by (cases p) simp_all
  subgoal by (cases sv) simp_all
  done

lemma ids_stable: "all_valid Identifier xs = Some ys \<Longrightarrow> list_all (\<lambda>y. Identifier y = Some y) ys"
  unfolding list_all_iff using all_valid_SomeD Identifier_stable by fast

lemmas stable = Identifier_stable ShortText_stable ids_stable

lemma basic_fields [simp]:
  "id_field (PStr s) \<longleftrightarrow> Identifier s = Some s" "short_field (PStr s) \<longleftrightarrow> ShortText s = Some s"
  "any_text (PStr s)" "list_all id_field (map PStr ss) \<longleftrightarrow> list_all (\<lambda>y. Identifier y = Some y) ss"
  by (simp_all add: field_defs list.pred_map comp_def)

lemma sign_in_typed: "validate_sign_in x = Some y \<Longrightarrow> SignInModel (sign_in_dump utc y)"
  by (auto simp: validate_sign_in_def model_defs dump_defs stable enum_typed split: option.splits)

lemma user_risk_typed: "validate_user_risk x = Some y \<Longrightarrow> UserRiskModel (user_risk_dump utc y)"
  by (auto simp: validate_user_risk_def model_defs dump_defs stable enum_typed split: option.splits)

lemma device_typed: "validate_device x = Some y \<Longrightarrow> DeviceContextModel (device_dump utc y)"
  by (auto simp: validate_device_def model_defs dump_defs stable enum_typed split: option.splits)

lemma reputation_typed: "validate_reputation x = Some y \<Longrightarrow> IpReputationModel (reputation_dump utc y)"
  by (auto simp: validate_reputation_def model_defs dump_defs stable enum_typed split: option.splits if_splits)

lemma mfa_event_typed: "validate_mfa_event x = Some y \<Longrightarrow> MfaEventModel (mfa_event_dump utc y)"
  by (auto simp: validate_mfa_event_def model_defs dump_defs stable enum_typed split: option.splits)

lemma identity_typed: "validate_identity x = Some y \<Longrightarrow> IdentityContextModel (identity_dump y)"
  by (auto simp: validate_identity_def model_defs dump_defs stable enum_typed split: option.splits)

end
