(* ===== verification/Fixtures.thy ===== *)
theory Fixtures
  imports Evidence_Data Alerts
begin

text \<open>
  The fixture snapshot (\<open>adapters/tools/fixture_models.py\<close>): its records, its loading, and the
  validation of versions, unique keys and all references between records. An index built from
  records with unique keys is the function that finds the record with a key. Reading and parsing
  the files is outside: a snapshot arrives as parsed records, or not at all.
\<close>

record FixtureManifest =
  fx_fixture_version :: string
  fx_schema_version :: string
  reference_time :: time
  recent_signin_window_hours :: int

record RelatedAlertRecord =
  rr_user_id :: string
  rr_alert_ids :: "string list"

record FixtureDataset =
  manifest :: FixtureManifest
  identities :: "IdentityContext list"
  user_risks :: "UserRisk list"
  devices :: "DeviceContext list"
  fx_sign_ins :: "SignInEvent list"
  ip_reputations :: "IpReputation list"
  mfa_events :: "MfaEvent list"
  related_alerts :: "RelatedAlertRecord list"
  fx_alerts :: "SecurityAlert list"

definition SUPPORTED_FIXTURE_VERSION :: string where "SUPPORTED_FIXTURE_VERSION = ''v1''"

definition SUPPORTED_SCHEMA_VERSION :: string where "SUPPORTED_SCHEMA_VERSION = ''1.0''"

definition validate_fixture_manifest :: "FixtureManifest \<Rightarrow> FixtureManifest option" where
  "validate_fixture_manifest m =
     (case (Version (fx_fixture_version m), Version (fx_schema_version m)) of
        (Some f, Some s) \<Rightarrow>
          if 0 < recent_signin_window_hours m \<and> recent_signin_window_hours m \<le> 24 * 30
          then Some (m\<lparr>fx_fixture_version := f, fx_schema_version := s\<rparr>) else None
      | _ \<Rightarrow> None)"

definition validate_related :: "RelatedAlertRecord \<Rightarrow> RelatedAlertRecord option" where
  "validate_related r =
     (case (Identifier (rr_user_id r), all_valid Identifier (rr_alert_ids r)) of
        (Some u, Some as) \<Rightarrow> Some \<lparr>rr_user_id = u, rr_alert_ids = as\<rparr> | _ \<Rightarrow> None)"

subsection \<open>The checks\<close>

text \<open>A check is the message it raises with, if it fails.\<close>

type_synonym check = "string option"

fun check_each :: "('x \<Rightarrow> check) \<Rightarrow> 'x list \<Rightarrow> check" where
  "check_each c [] = None"
| "check_each c (x # xs) = (case c x of Some e \<Rightarrow> Some e | None \<Rightarrow> check_each c xs)"

definition require :: "bool \<Rightarrow> string \<Rightarrow> check" where
  "require b msg = (if b then None else Some msg)"

fun repeated_key :: "string list \<Rightarrow> string list \<Rightarrow> string option" where
  "repeated_key seen [] = None"
| "repeated_key seen (k # ks) = (if k \<in> set seen then Some k else repeated_key (k # seen) ks)"

text \<open>\<open>_unique_index\<close>: the check that the keys are unique, and the lookup of the index.\<close>

definition unique_index :: "('r \<Rightarrow> string) \<Rightarrow> string \<Rightarrow> 'r list \<Rightarrow> check" where
  "unique_index key label records =
     map_option (\<lambda>k. ''duplicate '' @ label @ '' identifier: '' @ k) (repeated_key [] (map key records))"

definition require_reference :: "('r \<Rightarrow> string) \<Rightarrow> 'r list \<Rightarrow> string \<Rightarrow> string \<Rightarrow> check" where
  "require_reference key records i label =
     require (row_get key i records \<noteq> None) (''unknown '' @ label @ '' reference: '' @ i)"

definition require_unique_values :: "string list \<Rightarrow> string \<Rightarrow> check" where
  "require_unique_values values label = require (\<not> has_duplicates values) (''duplicate value in '' @ label)"

text \<open>Continue with the record that a reference names.\<close>

definition with_reference :: "('r \<Rightarrow> string) \<Rightarrow> 'r list \<Rightarrow> string \<Rightarrow> string \<Rightarrow> ('r \<Rightarrow> check) \<Rightarrow> check" where
  "with_reference key records i label c =
     (case row_get key i records of
        None \<Rightarrow> Some (''unknown '' @ label @ '' reference: '' @ i) | Some r \<Rightarrow> c r)"

definition check_identity :: "FixtureDataset \<Rightarrow> IdentityContext \<Rightarrow> check" where
  "check_identity ds x = first_error
     [require_unique_values (device_ids x) (''identity '' @ ic_user_id x @ '' device_ids''),
      check_each (\<lambda>d. with_reference dc_device_id (devices ds) d ''identity device'' (\<lambda>dev.
        require (ic_user_id x \<in> set (owner_user_ids dev)) ''identity/device ownership is not bidirectional''))
        (device_ids x)]"

definition check_device :: "FixtureDataset \<Rightarrow> DeviceContext \<Rightarrow> check" where
  "check_device ds x = first_error
     [require_unique_values (owner_user_ids x) (''device '' @ dc_device_id x @ '' owner_user_ids''),
      check_each (\<lambda>u. with_reference ic_user_id (identities ds) u ''device owner'' (\<lambda>ident.
        require (dc_device_id x \<in> set (device_ids ident)) ''device/identity ownership is not bidirectional''))
        (owner_user_ids x)]"

definition check_sign_in :: "FixtureDataset \<Rightarrow> SignInEvent \<Rightarrow> check" where
  "check_sign_in ds x = first_error
     [require_reference ic_user_id (identities ds) (si_user_id x) ''sign-in identity'',
      require_reference dc_device_id (devices ds) (si_device_id x) ''sign-in device'',
      require_reference rep_ip_address (ip_reputations ds) (si_ip_address x) ''sign-in IP reputation'',
      with_reference dc_device_id (devices ds) (si_device_id x) ''sign-in device'' (\<lambda>dev.
        require (si_user_id x \<in> set (owner_user_ids dev)) ''sign-in device is not owned by the referenced user'')]"

definition check_mfa_event :: "FixtureDataset \<Rightarrow> MfaEvent \<Rightarrow> check" where
  "check_mfa_event ds x = first_error
     [require_reference ic_user_id (identities ds) (mfa_user_id x) ''MFA identity'',
      with_reference sign_in_id (fx_sign_ins ds) (source_sign_in_id x) ''MFA sign-in'' (\<lambda>si.
        require (si_user_id si = mfa_user_id x) ''MFA event and sign-in reference different users'')]"

definition check_related :: "FixtureDataset \<Rightarrow> RelatedAlertRecord \<Rightarrow> check" where
  "check_related ds x = first_error
     [require_reference ic_user_id (identities ds) (rr_user_id x) ''related-alert identity'',
      require_unique_values (rr_alert_ids x) (''related alerts for '' @ rr_user_id x),
      check_each (\<lambda>a. with_reference alert_id (fx_alerts ds) a ''related alert'' (\<lambda>alert.
        require (UserEntityReference (rr_user_id x) \<in> set (entities alert))
          ''related alert does not reference the mapped user'')) (rr_alert_ids x)]"

fun check_entity :: "FixtureDataset \<Rightarrow> EntityReference \<Rightarrow> check" where
  "check_entity ds (UserEntityReference u) = require_reference ic_user_id (identities ds) u ''alert identity''"
| "check_entity ds (DeviceEntityReference d) = require_reference dc_device_id (devices ds) d ''alert device''"
| "check_entity ds (IpAddressEntityReference a) =
     require_reference rep_ip_address (ip_reputations ds) a ''alert IP reputation''"

definition validate_fixture_dataset :: "FixtureDataset \<Rightarrow> check" where
  "validate_fixture_dataset ds = first_error
     [require (fx_fixture_version (manifest ds) = SUPPORTED_FIXTURE_VERSION)
        (''unsupported fixture version: '' @ fx_fixture_version (manifest ds)),
      require (fx_schema_version (manifest ds) = SUPPORTED_SCHEMA_VERSION)
        (''unsupported schema version: '' @ fx_schema_version (manifest ds)),
      unique_index ic_user_id ''identity'' (identities ds),
      unique_index ur_user_id ''user risk'' (user_risks ds),
      unique_index dc_device_id ''device'' (devices ds),
      unique_index sign_in_id ''sign-in'' (fx_sign_ins ds),
      unique_index rep_ip_address ''IP reputation'' (ip_reputations ds),
      unique_index mfa_event_id ''MFA event'' (mfa_events ds),
      unique_index rr_user_id ''related-alert mapping'' (related_alerts ds),
      unique_index alert_id ''alert'' (fx_alerts ds),
      check_each (check_identity ds) (identities ds),
      check_each (check_device ds) (devices ds),
      check_each (\<lambda>r. require_reference ic_user_id (identities ds) (ur_user_id r) ''user risk identity'') (user_risks ds),
      check_each (check_sign_in ds) (fx_sign_ins ds),
      check_each (check_mfa_event ds) (mfa_events ds),
      check_each (check_related ds) (related_alerts ds),
      check_each (\<lambda>a. check_each (check_entity ds) (entities a)) (fx_alerts ds)]"

text \<open>Field validation of the parsed records, then the cross-record validation.\<close>

definition typed_dataset :: "FixtureDataset \<Rightarrow> FixtureDataset option" where
  "typed_dataset ds =
     (case (validate_fixture_manifest (manifest ds), all_valid validate_identity (identities ds),
            all_valid validate_user_risk (user_risks ds), all_valid validate_device (devices ds),
            all_valid validate_sign_in (fx_sign_ins ds), all_valid validate_reputation (ip_reputations ds),
            all_valid validate_mfa_event (mfa_events ds), all_valid validate_related (related_alerts ds),
            all_valid validate_alert (fx_alerts ds)) of
        (Some m, Some is, Some rs, Some dvs, Some sis, Some ips, Some ms, Some rel, Some als) \<Rightarrow>
          Some \<lparr>manifest = m, identities = is, user_risks = rs, devices = dvs, fx_sign_ins = sis,
                ip_reputations = ips, mfa_events = ms, related_alerts = rel, fx_alerts = als\<rparr>
      | _ \<Rightarrow> None)"

definition load_fixture_dataset :: "FixtureDataset option \<Rightarrow> string + FixtureDataset" where
  "load_fixture_dataset parsed =
     (case Option.bind parsed typed_dataset of
        None \<Rightarrow> Inl ''fixture loading failed''
      | Some ds \<Rightarrow> (case validate_fixture_dataset ds of Some e \<Rightarrow> Inl e | None \<Rightarrow> Inr ds))"

subsection \<open>Referential integrity\<close>

text \<open>The relational reading of the snapshot: keys are unique and every reference resolves.\<close>

definition unique_keys :: "FixtureDataset \<Rightarrow> bool" where
  "unique_keys ds \<longleftrightarrow> distinct (map ic_user_id (identities ds)) \<and> distinct (map ur_user_id (user_risks ds))
     \<and> distinct (map dc_device_id (devices ds)) \<and> distinct (map sign_in_id (fx_sign_ins ds))
     \<and> distinct (map rep_ip_address (ip_reputations ds)) \<and> distinct (map mfa_event_id (mfa_events ds))
     \<and> distinct (map rr_user_id (related_alerts ds)) \<and> distinct (map alert_id (fx_alerts ds))"

text \<open>A user owns a device exactly when the device lists the user.\<close>

definition ownership_agrees :: "FixtureDataset \<Rightarrow> bool" where
  "ownership_agrees ds \<longleftrightarrow>
     (\<forall>i \<in> set (identities ds). distinct (device_ids i)
        \<and> (\<forall>d \<in> set (device_ids i). \<exists>dev \<in> set (devices ds). dc_device_id dev = d \<and> ic_user_id i \<in> set (owner_user_ids dev)))
     \<and> (\<forall>dev \<in> set (devices ds). distinct (owner_user_ids dev)
        \<and> (\<forall>u \<in> set (owner_user_ids dev). \<exists>i \<in> set (identities ds). ic_user_id i = u \<and> dc_device_id dev \<in> set (device_ids i)))"

fun known_entity :: "FixtureDataset \<Rightarrow> EntityReference \<Rightarrow> bool" where
  "known_entity ds (UserEntityReference u) = (u \<in> ic_user_id ` set (identities ds))"
| "known_entity ds (DeviceEntityReference d) = (d \<in> dc_device_id ` set (devices ds))"
| "known_entity ds (IpAddressEntityReference a) = (a \<in> rep_ip_address ` set (ip_reputations ds))"

definition references_resolve :: "FixtureDataset \<Rightarrow> bool" where
  "references_resolve ds \<longleftrightarrow>
     ur_user_id ` set (user_risks ds) \<subseteq> ic_user_id ` set (identities ds)
     \<and> (\<forall>s \<in> set (fx_sign_ins ds). si_user_id s \<in> ic_user_id ` set (identities ds)
          \<and> si_ip_address s \<in> rep_ip_address ` set (ip_reputations ds)
          \<and> (\<exists>dev \<in> set (devices ds). dc_device_id dev = si_device_id s \<and> si_user_id s \<in> set (owner_user_ids dev)))
     \<and> (\<forall>m \<in> set (mfa_events ds). mfa_user_id m \<in> ic_user_id ` set (identities ds)
          \<and> (\<exists>s \<in> set (fx_sign_ins ds). sign_in_id s = source_sign_in_id m \<and> si_user_id s = mfa_user_id m))
     \<and> (\<forall>r \<in> set (related_alerts ds). rr_user_id r \<in> ic_user_id ` set (identities ds) \<and> distinct (rr_alert_ids r)
          \<and> (\<forall>a \<in> set (rr_alert_ids r). \<exists>x \<in> set (fx_alerts ds). alert_id x = a \<and> UserEntityReference (rr_user_id r) \<in> set (entities x)))
     \<and> (\<forall>a \<in> set (fx_alerts ds). \<forall>e \<in> set (entities a). known_entity ds e)"

definition supported_version :: "FixtureDataset \<Rightarrow> bool" where
  "supported_version ds \<longleftrightarrow> fx_fixture_version (manifest ds) = ''v1'' \<and> fx_schema_version (manifest ds) = ''1.0''"

definition dataset_integrity :: "FixtureDataset \<Rightarrow> bool" where
  "dataset_integrity ds \<longleftrightarrow> supported_version ds \<and> unique_keys ds \<and> ownership_agrees ds \<and> references_resolve ds"

subsection \<open>The checks decide integrity\<close>

lemma check_each_None [simp]: "check_each c xs = None \<longleftrightarrow> (\<forall>x \<in> set xs. c x = None)"
  by (induction xs) (auto split: option.splits)

lemma require_None [simp]: "require b msg = None \<longleftrightarrow> b"
  by (simp add: require_def)

lemma repeated_key_None: "repeated_key seen ks = None \<longleftrightarrow> distinct ks \<and> set ks \<inter> set seen = {}"
  by (induction ks arbitrary: seen) auto

lemma unique_index_None [simp]: "unique_index key label records = None \<longleftrightarrow> distinct (map key records)"
  by (simp add: unique_index_def repeated_key_None)

lemma require_reference_None [simp]: "require_reference key records i label = None \<longleftrightarrow> i \<in> key ` set records"
  by (simp add: require_reference_def row_get_None)

lemma require_unique_values_None [simp]: "require_unique_values values label = None \<longleftrightarrow> distinct values"
  by (simp add: require_unique_values_def)

lemma with_reference_None:
  "distinct (map key records) \<Longrightarrow>
     with_reference key records i label c = None \<longleftrightarrow> (\<exists>r \<in> set records. key r = i \<and> c r = None)"
  using row_get_in [of key records] by (auto simp: with_reference_def split: option.splits dest: row_get_SomeD)

lemma check_entity_None [simp]: "check_entity ds e = None \<longleftrightarrow> known_entity ds e"
  by (cases e) simp_all

lemma check_identity_None:
  "unique_keys ds \<Longrightarrow> check_identity ds x = None \<longleftrightarrow> distinct (device_ids x)
     \<and> (\<forall>d \<in> set (device_ids x). \<exists>dev \<in> set (devices ds). dc_device_id dev = d \<and> ic_user_id x \<in> set (owner_user_ids dev))"
  by (simp add: check_identity_def first_error_None unique_keys_def with_reference_None)

lemma check_device_None:
  "unique_keys ds \<Longrightarrow> check_device ds x = None \<longleftrightarrow> distinct (owner_user_ids x)
     \<and> (\<forall>u \<in> set (owner_user_ids x). \<exists>i \<in> set (identities ds). ic_user_id i = u \<and> dc_device_id x \<in> set (device_ids i))"
  by (simp add: check_device_def first_error_None unique_keys_def with_reference_None)

lemma check_sign_in_None:
  "unique_keys ds \<Longrightarrow> check_sign_in ds x = None \<longleftrightarrow> si_user_id x \<in> ic_user_id ` set (identities ds)
     \<and> si_ip_address x \<in> rep_ip_address ` set (ip_reputations ds)
     \<and> (\<exists>dev \<in> set (devices ds). dc_device_id dev = si_device_id x \<and> si_user_id x \<in> set (owner_user_ids dev))"
  by (simp add: check_sign_in_def first_error_None unique_keys_def with_reference_None) (metis image_eqI)

lemma check_mfa_event_None:
  "unique_keys ds \<Longrightarrow> check_mfa_event ds x = None \<longleftrightarrow> mfa_user_id x \<in> ic_user_id ` set (identities ds)
     \<and> (\<exists>s \<in> set (fx_sign_ins ds). sign_in_id s = source_sign_in_id x \<and> si_user_id s = mfa_user_id x)"
  by (simp add: check_mfa_event_def first_error_None unique_keys_def with_reference_None)

lemma check_related_None:
  "unique_keys ds \<Longrightarrow> check_related ds x = None \<longleftrightarrow> rr_user_id x \<in> ic_user_id ` set (identities ds) \<and> distinct (rr_alert_ids x)
     \<and> (\<forall>a \<in> set (rr_alert_ids x). \<exists>y \<in> set (fx_alerts ds). alert_id y = a \<and> UserEntityReference (rr_user_id x) \<in> set (entities y))"
  by (simp add: check_related_def first_error_None unique_keys_def with_reference_None)

lemmas record_checks = check_identity_None check_device_None check_sign_in_None check_mfa_event_None check_related_None

lemma dataset_checks:
  assumes "unique_keys ds"
  shows "((\<forall>x \<in> set (identities ds). check_identity ds x = None) \<and> (\<forall>x \<in> set (devices ds). check_device ds x = None)
      \<and> (\<forall>r \<in> set (user_risks ds). ur_user_id r \<in> ic_user_id ` set (identities ds))
      \<and> (\<forall>x \<in> set (fx_sign_ins ds). check_sign_in ds x = None) \<and> (\<forall>x \<in> set (mfa_events ds). check_mfa_event ds x = None)
      \<and> (\<forall>x \<in> set (related_alerts ds). check_related ds x = None)
      \<and> (\<forall>a \<in> set (fx_alerts ds). \<forall>e \<in> set (entities a). known_entity ds e))
      \<longleftrightarrow> (ownership_agrees ds \<and> references_resolve ds)"
  unfolding ownership_agrees_def references_resolve_def record_checks [OF assms] image_subset_iff
  by (simp only: conj_assoc)

lemma validation_is_integrity: "validate_fixture_dataset ds = None \<longleftrightarrow> dataset_integrity ds"
proof -
  have "validate_fixture_dataset ds = None \<longleftrightarrow> supported_version ds \<and> unique_keys ds
      \<and> (\<forall>x \<in> set (identities ds). check_identity ds x = None) \<and> (\<forall>x \<in> set (devices ds). check_device ds x = None)
      \<and> (\<forall>r \<in> set (user_risks ds). ur_user_id r \<in> ic_user_id ` set (identities ds))
      \<and> (\<forall>x \<in> set (fx_sign_ins ds). check_sign_in ds x = None) \<and> (\<forall>x \<in> set (mfa_events ds). check_mfa_event ds x = None)
      \<and> (\<forall>x \<in> set (related_alerts ds). check_related ds x = None)
      \<and> (\<forall>a \<in> set (fx_alerts ds). \<forall>e \<in> set (entities a). known_entity ds e)"
    by (simp add: validate_fixture_dataset_def first_error_None supported_version_def unique_keys_def
      SUPPORTED_FIXTURE_VERSION_def SUPPORTED_SCHEMA_VERSION_def)
  then show ?thesis unfolding dataset_integrity_def using dataset_checks by blast
qed

text \<open>C32: the validation of a fixture snapshot is exact. It raises nothing if and only if the versions
  are the supported ones, every key is unique, devices and identities agree on ownership, and every
  reference between records and from alert entities resolves to a record of the right user.\<close>

theorem fixture_validation_is_integrity:
  "validate_fixture_dataset ds = None \<longleftrightarrow> dataset_integrity ds"
  by (rule validation_is_integrity)

end
