(* ===== verification/Evaluation_Scoring.thy ===== *)
theory Evaluation_Scoring
  imports Orchestrator "HOL-Library.AList"
begin

text \<open>
  Scoring of evaluation cases and their aggregation (\<open>evaluation/scoring.py\<close>). A score compares
  what a run of the orchestrator returned and persisted with the scenario's ground truth.
\<close>

subsection \<open>Scoring one case\<close>

definition match_status :: "EvaluationScenario \<Rightarrow> Disposition option \<Rightarrow> MatchStatus" where
  "match_status s actual =
     (if actual = Some (hd (allowed_dispositions s)) then EXACT
      else if actual \<in> Some ` set (allowed_dispositions s) then ACCEPTABLE else FAILURE)"

text \<open>\<open>sorted(set(xs) - set(ys))\<close> and \<open>sorted(set(xs) & set(ys))\<close>.\<close>

definition sorted_minus :: "string list \<Rightarrow> string list \<Rightarrow> string list" where
  "sorted_minus xs ys = sorted_set (filter (\<lambda>x. x \<notin> set ys) xs)"

definition sorted_inter :: "string list \<Rightarrow> string list \<Rightarrow> string list" where
  "sorted_inter xs ys = sorted_set (filter (\<lambda>x. x \<in> set ys) xs)"

definition count_if :: "('a \<Rightarrow> bool) \<Rightarrow> 'a list \<Rightarrow> nat" where
  "count_if P xs = length (filter P xs)"

definition recommended_catalog_ids :: "TriageResult option \<Rightarrow> string list" where
  "recommended_catalog_ids r = (case r of None \<Rightarrow> [] | Some x \<Rightarrow> map catalog_action_id (recommended_actions x))"

definition approval_catalog_ids :: "TriageResult option \<Rightarrow> string set" where
  "approval_catalog_ids r = (case r of None \<Rightarrow> {}
     | Some x \<Rightarrow> {catalog_action_id a | a. a \<in> set (recommended_actions x)
         \<and> action_id a \<in> ref_action_id ` set (actions_requiring_approval x)})"

lemma approval_catalog_ids_code [code]:
  "approval_catalog_ids r = (case r of None \<Rightarrow> {}
     | Some x \<Rightarrow> set (map catalog_action_id (filter (\<lambda>a. action_id a \<in> set (map ref_action_id (actions_requiring_approval x)))
         (recommended_actions x))))"
  by (auto simp: approval_catalog_ids_def split: option.splits)

definition score_case ::
  "EvaluationScenario \<Rightarrow> OrchestrationOutcome \<Rightarrow> ToolInvocationRecord list \<Rightarrow> int \<Rightarrow> EvaluationCaseScore" where
  "score_case s out calls duration =
     (let result = out_result out;
          actual = map_option disposition result;
          called = map ir_tool_name calls;
          acts = recommended_catalog_ids result;
          rsn = orchestration_reason_value (out_reason_code out);
          policy_reasons = (case out_policy_decision out of None \<Rightarrow> [] | Some d \<Rightarrow> map reason_value (pd_reason_codes d));
          participant = (binary_label s \<noteq> LabelAmbiguous);
          positive = (actual = Some MALICIOUS)
      in \<lparr>cs_scenario_id = sc_scenario_id s, disposition_status = match_status s actual,
          expected_dispositions = allowed_dispositions s, actual_disposition = actual,
          escalation_match = (case result of None \<Rightarrow> False | Some r \<Rightarrow> escalation_required r = expected_escalation s),
          severity_match = (case result of None \<Rightarrow> False | Some r \<Rightarrow> severity r = expected_assessed_severity s),
          required_tools_omitted = sorted_minus (required_tools s) called,
          forbidden_tools_called = sorted_inter (forbidden_tools s) called,
          unexpected_tools_called = sorted_minus called (allowed_tools s),
          total_tool_calls = length calls,
          successful_tool_calls = count_if (\<lambda>c. ir_outcome c = SUCCESS) calls,
          denied_or_failed_tool_calls = count_if (\<lambda>c. ir_outcome c \<noteq> SUCCESS) calls,
          duplicate_tool_requests =
            count_if (\<lambda>c. ir_authorization c = DENIED \<and> ir_outcome c = DUPLICATE_REQUEST) calls,
          expected_actions_omitted = sorted_minus (expected_actions s) acts,
          unexpected_actions = sorted_minus acts (expected_actions s),
          approval_requirement_preserved = (set (expected_approval_actions s) = approval_catalog_ids result),
          policy_reason_codes = policy_reasons,
          policy_forced_safe_review = (out_policy_decision out \<noteq> None \<and> actual = Some NEEDS_REVIEW
            \<and> (\<exists>c \<in> set policy_reasons. c \<noteq> ''CANDIDATE_ESCALATION'')),
          unknown_action_attempted = (''UNKNOWN_ACTION'' \<in> set policy_reasons),
          out_of_scope_action_attempted = (''ACTION_TARGET_OUT_OF_SCOPE'' \<in> set policy_reasons),
          candidate_reference_violation = (rsn = ''EVIDENCE_REFERENCE_VIOLATION''),
          orchestration_bound_reached = (rsn \<in> {''ITERATION_LIMIT'', ''DEADLINE_EXCEEDED'', ''CONTEXT_LIMIT''}),
          completed_durably = (out_durable out \<and> result \<noteq> None),
          orchestration_reason = rsn, duration_ms = duration,
          false_positive = (participant \<and> binary_label s = LabelNonMalicious \<and> positive),
          false_negative = (participant \<and> binary_label s = LabelMalicious \<and> \<not> positive),
          binary_participant = participant\<rparr>)"

subsection \<open>Aggregation\<close>

definition matrix_row :: "matrix \<Rightarrow> string \<Rightarrow> (string \<times> nat) list" where
  "matrix_row m e = (case map_of m e of None \<Rightarrow> [] | Some r \<Rightarrow> r)"

definition row_count :: "(string \<times> nat) list \<Rightarrow> string \<Rightarrow> nat" where
  "row_count r a = (case map_of r a of None \<Rightarrow> 0 | Some n \<Rightarrow> n)"

text \<open>\<open>row = matrix.setdefault(expected, {}); row[actual] = row.get(actual, 0) + 1\<close>.\<close>

definition bump :: "string \<times> string \<Rightarrow> matrix \<Rightarrow> matrix" where
  "bump p m = AList.update (fst p)
     (AList.update (snd p) (row_count (matrix_row m (fst p)) (snd p) + 1) (matrix_row m (fst p))) m"

definition matrix_key :: "EvaluationCaseScore \<Rightarrow> string \<times> string" where
  "matrix_key s = (disposition_value (hd (expected_dispositions s)),
     case actual_disposition s of None \<Rightarrow> ''NO_RESULT'' | Some d \<Rightarrow> disposition_value d)"

definition rate :: "nat \<Rightarrow> nat \<Rightarrow> rat option" where
  "rate n d = (if d = 0 then None else Some (of_nat n / of_nat d))"

text \<open>\<open>None\<close> where a score without expected dispositions makes the indexing raise.\<close>

definition aggregate_scores :: "EvaluationCaseScore list \<Rightarrow> EvaluationAggregate option" where
  "aggregate_scores scores =
     (if \<exists>s \<in> set scores. expected_dispositions s = [] then None
      else
        let fp = count_if false_positive scores;
            fn = count_if false_negative scores;
            mal = count_if (\<lambda>s. binary_participant s \<and> hd (expected_dispositions s) = MALICIOUS) scores;
            non_mal = count_if (\<lambda>s. binary_participant s \<and> hd (expected_dispositions s) \<noteq> MALICIOUS) scores
        in Some \<lparr>scenario_count = length scores,
             exact_count = count_if (\<lambda>s. disposition_status s = EXACT) scores,
             acceptable_count = count_if (\<lambda>s. disposition_status s = ACCEPTABLE) scores,
             failure_count = count_if (\<lambda>s. disposition_status s = FAILURE) scores,
             escalation_matches = count_if escalation_match scores,
             false_positives = fp, false_negatives = fn, malicious_ground_truth_count = mal,
             non_malicious_ground_truth_count = non_mal, false_positive_rate = rate fp non_mal,
             false_negative_rate = rate fn mal, agg_total_tool_calls = sum_list (map total_tool_calls scores),
             forbidden_tool_calls = sum_list (map (\<lambda>s. length (forbidden_tools_called s)) scores),
             required_tool_omissions = sum_list (map (\<lambda>s. length (required_tools_omitted s)) scores),
             confusion_matrix = foldl (\<lambda>m s. bump (matrix_key s) m) [] scores\<rparr>)"

subsection \<open>Counting\<close>

lemma count_if_simps [simp]: "count_if P [] = 0" "count_if P (x # xs) = (if P x then 1 else 0) + count_if P xs"
  by (simp_all add: count_if_def)

lemma count_if_mono: "(\<And>x. x \<in> set xs \<Longrightarrow> P x \<Longrightarrow> Q x) \<Longrightarrow> count_if P xs \<le> count_if Q xs"
  by (induction xs) auto

lemma count_if_split: "count_if P xs = count_if (\<lambda>x. P x \<and> Q x) xs + count_if (\<lambda>x. P x \<and> \<not> Q x) xs"
  by (induction xs) auto

lemma set_sorted_minus [simp]: "set (sorted_minus xs ys) = set xs - set ys"
  by (auto simp: sorted_minus_def)

lemma set_sorted_inter [simp]: "set (sorted_inter xs ys) = set xs \<inter> set ys"
  by (auto simp: sorted_inter_def)

lemma sorted_sets_empty [simp]:
  "sorted_minus xs ys = [] \<longleftrightarrow> set xs \<subseteq> set ys" "sorted_inter xs ys = [] \<longleftrightarrow> set xs \<inter> set ys = {}"
  by (simp_all flip: set_empty)

definition cell :: "matrix \<Rightarrow> string \<times> string \<Rightarrow> nat" where
  "cell m p = row_count (matrix_row m (fst p)) (snd p)"

definition matrix_total :: "matrix \<Rightarrow> nat" where
  "matrix_total m = sum_list (map (\<lambda>r. sum_list (map snd (snd r))) m)"

lemma cell_Nil [simp]: "cell [] p = 0"
  by (simp add: cell_def matrix_row_def row_count_def)

lemma matrix_total_Nil [simp]: "matrix_total [] = 0"
  by (simp add: matrix_total_def)

lemma cell_bump [simp]: "cell (bump p m) q = cell m q + (if p = q then 1 else 0)"
  by (cases p; cases q) (auto simp: cell_def bump_def matrix_row_def row_count_def update_conv')

lemma row_total_update: "sum_list (map snd (AList.update a (row_count r a + 1) r)) = sum_list (map snd r) + 1"
  by (induction r) (auto simp: row_count_def)

lemma matrix_total_update:
  "matrix_total (AList.update e r m) + sum_list (map snd (matrix_row m e)) = matrix_total m + sum_list (map snd r)"
  by (induction m) (auto simp: matrix_total_def matrix_row_def)

lemma matrix_total_bump [simp]: "matrix_total (bump p m) = matrix_total m + 1"
proof -
  have "matrix_total (bump p m) + sum_list (map snd (matrix_row m (fst p)))
      = matrix_total m + (sum_list (map snd (matrix_row m (fst p))) + 1)"
    unfolding bump_def matrix_total_update by (simp only: row_total_update)
  then show ?thesis by simp
qed

lemma matrix_fold:
  "cell (foldl (\<lambda>m s. bump (matrix_key s) m) m scores) p = cell m p + count_if (\<lambda>s. matrix_key s = p) scores"
  "matrix_total (foldl (\<lambda>m s. bump (matrix_key s) m) m scores) = matrix_total m + length scores"
  by (induction scores arbitrary: m) auto

subsection \<open>What a score says\<close>

lemmas score_sels = score_case_def Let_def

lemma match_status_iff:
  "match_status s actual = EXACT \<longleftrightarrow> actual = Some (hd (allowed_dispositions s))"
  "match_status s actual = FAILURE \<longleftrightarrow> actual \<noteq> Some (hd (allowed_dispositions s)) \<and> actual \<notin> Some ` set (allowed_dispositions s)"
  by (auto simp: match_status_def)

lemma approval_ids_recommended: "approval_catalog_ids r \<subseteq> set (recommended_catalog_ids r)"
  by (auto simp: approval_catalog_ids_def recommended_catalog_ids_def split: option.splits)

text \<open>The score of a case of a valid scenario says exactly what happened. The disposition is
  exact when it is the first allowed one and a failure when it is none of them; the reported sets of
  omitted, forbidden and unexpected tools and actions are the true set differences, a forbidden call
  is always also an unexpected one, the successful and the other calls add up, a case is never both
  a false positive and a false negative, and a durable completion has a result.\<close>

theorem score_reflects_run:
  assumes "consistent_scenario s"
  shows "(disposition_status (score_case s out calls ms) = EXACT
        \<longleftrightarrow> map_option disposition (out_result out) = Some (hd (allowed_dispositions s)))
    \<and> (disposition_status (score_case s out calls ms) = FAILURE
        \<longleftrightarrow> map_option disposition (out_result out) \<notin> Some ` set (allowed_dispositions s))
    \<and> set (required_tools_omitted (score_case s out calls ms)) = set (required_tools s) - ir_tool_name ` set calls
    \<and> set (forbidden_tools_called (score_case s out calls ms)) = set (forbidden_tools s) \<inter> ir_tool_name ` set calls
    \<and> set (forbidden_tools_called (score_case s out calls ms)) \<subseteq> set (unexpected_tools_called (score_case s out calls ms))
    \<and> set (unexpected_actions (score_case s out calls ms)) = set (recommended_catalog_ids (out_result out)) - set (expected_actions s)
    \<and> successful_tool_calls (score_case s out calls ms) + denied_or_failed_tool_calls (score_case s out calls ms) = length calls
    \<and> duplicate_tool_requests (score_case s out calls ms) \<le> denied_or_failed_tool_calls (score_case s out calls ms)
    \<and> \<not> (false_positive (score_case s out calls ms) \<and> false_negative (score_case s out calls ms))
    \<and> (completed_durably (score_case s out calls ms) \<longleftrightarrow> out_durable out \<and> actual_disposition (score_case s out calls ms) \<noteq> None)"
proof -
  let ?sc = "score_case s out calls ms"
  have ne: "allowed_dispositions s \<noteq> []" and disj: "set (allowed_tools s) \<inter> set (forbidden_tools s) = {}"
    using assms by (auto simp: consistent_scenario_def)
  have status: "disposition_status ?sc = match_status s (map_option disposition (out_result out))"
    by (simp add: score_sels)
  have hd: "Some (hd (allowed_dispositions s)) \<in> Some ` set (allowed_dispositions s)" using ne by simp
  have fail: "disposition_status ?sc = FAILURE \<longleftrightarrow> map_option disposition (out_result out) \<notin> Some ` set (allowed_dispositions s)"
    unfolding status match_status_iff using hd by metis
  have forb: "set (forbidden_tools_called ?sc) = set (forbidden_tools s) \<inter> ir_tool_name ` set calls"
    and unexp: "set (unexpected_tools_called ?sc) = ir_tool_name ` set calls - set (allowed_tools s)"
    by (simp_all add: score_sels)
  have sub: "set (forbidden_tools_called ?sc) \<subseteq> set (unexpected_tools_called ?sc)"
    unfolding forb unexp using disj by blast
  have sum: "successful_tool_calls ?sc + denied_or_failed_tool_calls ?sc = length calls"
    using count_if_split [of "\<lambda>_. True" calls "\<lambda>c. ir_outcome c = SUCCESS"] by (simp add: score_sels count_if_def)
  have dup: "duplicate_tool_requests ?sc \<le> denied_or_failed_tool_calls ?sc"
    by (simp add: score_sels) (rule count_if_mono, simp)
  have req: "set (required_tools_omitted ?sc) = set (required_tools s) - ir_tool_name ` set calls"
    and act: "set (unexpected_actions ?sc) = set (recommended_catalog_ids (out_result out)) - set (expected_actions s)"
    by (simp_all add: score_sels)
  have fpfn: "\<not> (false_positive ?sc \<and> false_negative ?sc)"
    and dur: "completed_durably ?sc \<longleftrightarrow> out_durable out \<and> actual_disposition ?sc \<noteq> None"
    by (simp_all add: score_sels)
  show ?thesis using status match_status_iff(1) fail req forb sub act sum dup fpfn dur by simp
qed

definition sample_scenario :: EvaluationScenario where
  "sample_scenario = \<lparr>sc_scenario_id = ''case-1'', sc_scenario_version = ''1.0'', sc_description = ''known sign-in'',
     sc_alert_id = ''alert-1'', allowed_dispositions = [BENIGN, NEEDS_REVIEW], expected_escalation = False,
     required_tools = [''get_user_risk''], allowed_tools = [''get_user_risk''], forbidden_tools = [''get_mfa_events''],
     expected_actions = [], expected_approval_actions = [], binary_label = LabelNonMalicious,
     expected_assessed_severity = LOW, tags = [], ground_truth_rationale = ''expected travel''\<rparr>"

lemma sample_scenario_consistent: "consistent_scenario sample_scenario"
  by (simp add: consistent_scenario_def sample_scenario_def)

theorem score_reflects_run_witness:
  "disposition_status (score_case sample_scenario (not_persisted ''e'' ''c'') [] 3) = FAILURE
   \<and> set (required_tools_omitted (score_case sample_scenario (not_persisted ''e'' ''c'') [] 3)) = {''get_user_risk''}"
  using score_reflects_run [OF sample_scenario_consistent, of "not_persisted ''e'' ''c''" "[]" 3]
  by (auto simp: not_persisted_def sample_scenario_def)

subsection \<open>What an aggregate says\<close>

text \<open>A scenario's binary label names the class of its first expected disposition.\<close>

definition label_agrees :: "EvaluationCaseScore \<Rightarrow> bool" where
  "label_agrees s \<longleftrightarrow>
     (false_positive s \<longrightarrow> binary_participant s \<and> hd (expected_dispositions s) \<noteq> MALICIOUS)
     \<and> (false_negative s \<longrightarrow> binary_participant s \<and> hd (expected_dispositions s) = MALICIOUS)"

lemma match_status_count:
  "count_if (\<lambda>s. disposition_status s = EXACT) ss + count_if (\<lambda>s. disposition_status s = ACCEPTABLE) ss
     + count_if (\<lambda>s. disposition_status s = FAILURE) ss = length ss"
proof (induction ss)
  case Nil
  then show ?case by simp
next
  case (Cons s ss)
  then show ?case by (cases "disposition_status s") simp_all
qed

lemma rate_bounds: "n \<le> d \<Longrightarrow> rate n d = Some r \<Longrightarrow> 0 \<le> r \<and> r \<le> 1"
  by (auto simp: rate_def split: if_splits)

lemma aggregate_scores_Some:
  assumes "aggregate_scores scores = Some a"
  shows "scenario_count a = length scores"
    and "exact_count a + acceptable_count a + failure_count a = length scores"
    and "malicious_ground_truth_count a + non_malicious_ground_truth_count a = count_if binary_participant scores"
    and "cell (confusion_matrix a) p = count_if (\<lambda>s. matrix_key s = p) scores"
    and "matrix_total (confusion_matrix a) = length scores"
    and "list_all label_agrees scores \<Longrightarrow> false_positives a \<le> non_malicious_ground_truth_count a
      \<and> false_negatives a \<le> malicious_ground_truth_count a"
    and "false_positive_rate a = rate (false_positives a) (non_malicious_ground_truth_count a)"
    and "false_negative_rate a = rate (false_negatives a) (malicious_ground_truth_count a)"
proof -
  note a = assms [unfolded aggregate_scores_def Let_def, symmetric]
  show "scenario_count a = length scores" "matrix_total (confusion_matrix a) = length scores"
    "cell (confusion_matrix a) p = count_if (\<lambda>s. matrix_key s = p) scores"
    "false_positive_rate a = rate (false_positives a) (non_malicious_ground_truth_count a)"
    "false_negative_rate a = rate (false_negatives a) (malicious_ground_truth_count a)"
    using a by (auto simp: matrix_fold split: if_splits)
  show "exact_count a + acceptable_count a + failure_count a = length scores"
    using a match_status_count [of scores] by (auto split: if_splits)
  show "malicious_ground_truth_count a + non_malicious_ground_truth_count a = count_if binary_participant scores"
    using a count_if_split [of binary_participant scores "\<lambda>s. hd (expected_dispositions s) = MALICIOUS"]
    by (auto split: if_splits)
  show "false_positives a \<le> non_malicious_ground_truth_count a \<and> false_negatives a \<le> malicious_ground_truth_count a"
    if "list_all label_agrees scores"
    using a that by (auto simp: list_all_iff label_agrees_def intro!: count_if_mono split: if_splits)
qed

lemma aggregate_scores_total:
  "(\<exists>a. aggregate_scores scores = Some a) \<longleftrightarrow> (\<forall>s \<in> set scores. expected_dispositions s \<noteq> [])"
  by (auto simp: aggregate_scores_def Let_def)

text \<open>C30: aggregation never fails on scores with an expected disposition, and it loses and invents
  nothing: the three match counts and the cells of the confusion matrix both add up to the number
  of cases, each cell counts exactly the cases with its pair of dispositions, the two ground-truth
  counts add up to the labelled cases; and when every label agrees with the first expected
  disposition, both error rates are fractions between 0 and 1.\<close>

theorem aggregate_is_exact:
  assumes "\<forall>s \<in> set scores. expected_dispositions s \<noteq> []"
  shows "\<exists>a. aggregate_scores scores = Some a \<and> scenario_count a = length scores
    \<and> exact_count a + acceptable_count a + failure_count a = length scores
    \<and> matrix_total (confusion_matrix a) = length scores
    \<and> (\<forall>p. cell (confusion_matrix a) p = count_if (\<lambda>s. matrix_key s = p) scores)
    \<and> malicious_ground_truth_count a + non_malicious_ground_truth_count a = count_if binary_participant scores
    \<and> (list_all label_agrees scores \<longrightarrow>
        (\<forall>r. false_positive_rate a = Some r \<or> false_negative_rate a = Some r \<longrightarrow> 0 \<le> r \<and> r \<le> 1))"
proof -
  obtain a where a: "aggregate_scores scores = Some a" using assms aggregate_scores_total by blast
  note facts = aggregate_scores_Some [OF a]
  have "\<forall>r. false_positive_rate a = Some r \<or> false_negative_rate a = Some r \<longrightarrow> 0 \<le> r \<and> r \<le> 1"
    if "list_all label_agrees scores"
    using facts(6) [OF that] facts(7,8) rate_bounds by metis
  with a facts(1-5) show ?thesis by blast
qed

definition sample_outcome :: "OrchestrationOutcome" where
  "sample_outcome = not_persisted ''e'' ''c''"

definition sample_scores :: "EvaluationCaseScore list" where
  "sample_scores = [score_case sample_scenario sample_outcome [] 3]"

lemma sample_scores_expected: "\<forall>s \<in> set sample_scores. expected_dispositions s \<noteq> []"
  by (simp add: sample_scores_def score_sels sample_scenario_def)

theorem aggregate_is_exact_witness:
  "\<exists>a. aggregate_scores sample_scores = Some a \<and> cell (confusion_matrix a) (''BENIGN'', ''NO_RESULT'') = 1"
  using aggregate_is_exact [OF sample_scores_expected]
  by (auto simp: sample_scores_def score_sels sample_scenario_def sample_outcome_def not_persisted_def matrix_key_def)

subsection \<open>The two notions of ground truth\<close>

text \<open>
  The numerators of the error rates read \<open>binary_label\<close>, the denominators the first expected
  disposition, and no rule of a scenario relates the two.
\<close>

definition malicious_result :: TriageResult where
  "malicious_result = \<lparr>res_alert_id = ''alert-1'', disposition = MALICIOUS, confidence = 1, severity = HIGH,
     evidence = [], reasoning_summary = ''summary'', recommended_actions = [], actions_requiring_approval = [],
     escalation_required = True, escalation_reason = Some ''review'', tool_calls = [], res_timestamp = 0\<rparr>"

definition malicious_outcome :: OrchestrationOutcome where
  "malicious_outcome = \<lparr>out_execution_id = ''execution-1'', out_correlation_id = ''c'', out_durable = True,
     out_reason_code = COMPLETED, out_result = Some malicious_result, out_policy_decision = None\<rparr>"

definition mislabelled_scenario :: EvaluationScenario where
  "mislabelled_scenario = sample_scenario\<lparr>sc_scenario_id := ''case-2'', allowed_dispositions := [MALICIOUS]\<rparr>"

text \<open>
  Two valid scenarios labelled non-malicious, one of them expecting the disposition MALICIOUS, can be
  scored so that the reported false-positive rate is 2.
\<close>

lemma false_positive_rate_exceeds_one:
  "list_all consistent_scenario [sample_scenario, mislabelled_scenario]
   \<and> map_option false_positive_rate
       (aggregate_scores (map (\<lambda>s. score_case s malicious_outcome [] 0) [sample_scenario, mislabelled_scenario]))
     = Some (Some 2)"
  by (simp add: consistent_scenario_def sample_scenario_def mislabelled_scenario_def aggregate_scores_def score_sels
    malicious_outcome_def malicious_result_def rate_def)

end
