(* ===== verification/Evaluation_Loader.thy ===== *)
theory Evaluation_Loader
  imports Fixtures Evaluation_Scoring Action_Catalog "HOL-Library.Sublist"
begin

text \<open>
  Loading of an evaluation suite (\<open>evaluation/loader.py\<close>): validation of the manifest and of every
  reference a scenario makes to trusted fixtures, tools and actions. Reading and parsing the file is
  outside: a manifest arrives with its fields of the declared types, or not at all.
\<close>

definition SUPPORTED_EVALUATION_SCHEMA :: string where "SUPPORTED_EVALUATION_SCHEMA = ''1.0''"

record EvaluationSuite =
  suite_schema_version :: string
  suite_version :: string
  suite_fixture_version :: string
  scenarios :: "EvaluationScenario list"

definition suite_get :: "EvaluationSuite \<Rightarrow> string \<Rightarrow> string + EvaluationScenario" where
  "suite_get suite i =
     (case row_get sc_scenario_id i (scenarios suite) of
        None \<Rightarrow> Inl ''unknown scenario identifier'' | Some s \<Rightarrow> Inr s)"

text \<open>The alert of a scenario; a later fixture with the same identifier wins.\<close>

definition fixture_alert :: "FixtureDataset \<Rightarrow> string \<Rightarrow> SecurityAlert option" where
  "fixture_alert fixtures i = row_get alert_id i (rev (fx_alerts fixtures))"

definition check_scenario :: "FixtureDataset \<Rightarrow> ToolRegistry \<Rightarrow> ActionCatalog \<Rightarrow> EvaluationScenario \<Rightarrow> check" where
  "check_scenario fixtures reg cat s =
     (case fixture_alert fixtures (sc_alert_id s) of
        None \<Rightarrow> Some ''scenario references unknown alert''
      | Some a \<Rightarrow> first_error
          [require (prefix ''synthetic-'' (source a)) ''evaluation alert is not synthetic'',
           require (set (required_tools s) \<union> set (allowed_tools s) \<union> set (forbidden_tools s) \<subseteq> set (registry_iter reg))
             ''scenario references unknown tool'',
           require (set (expected_actions s) \<union> set (expected_approval_actions s) \<subseteq> set (catalog_iter cat))
             ''scenario references unknown action''])"

definition load_suite ::
  "EvaluationManifest option \<Rightarrow> FixtureDataset \<Rightarrow> ToolRegistry \<Rightarrow> ActionCatalog \<Rightarrow> string + EvaluationSuite" where
  "load_suite parsed fixtures reg cat =
     (case Option.bind parsed validate_manifest of
        None \<Rightarrow> Inl ''evaluation suite loading failed''
      | Some m \<Rightarrow>
          let ss = sort_key sc_scenario_id (man_scenarios m)
          in case first_error
               [require (man_schema_version m = SUPPORTED_EVALUATION_SCHEMA) ''unsupported evaluation schema version'',
                require (man_fixture_version m = fx_fixture_version (manifest fixtures)) ''evaluation fixture version mismatch'',
                require (\<not> has_duplicates (map sc_scenario_id ss)) ''duplicate scenario identifier'',
                check_each (check_scenario fixtures reg cat) ss] of
               Some e \<Rightarrow> Inl e
             | None \<Rightarrow> Inr \<lparr>suite_schema_version = man_schema_version m, suite_version = man_suite_version m,
                 suite_fixture_version = man_fixture_version m, scenarios = ss\<rparr>)"

subsection \<open>What a loaded suite guarantees\<close>

definition trusted_scenario :: "FixtureDataset \<Rightarrow> ToolRegistry \<Rightarrow> ActionCatalog \<Rightarrow> EvaluationScenario \<Rightarrow> bool" where
  "trusted_scenario fixtures reg cat s \<longleftrightarrow> consistent_scenario s \<and> Identifier (sc_scenario_id s) = Some (sc_scenario_id s)
     \<and> (\<exists>a \<in> set (fx_alerts fixtures). alert_id a = sc_alert_id s \<and> prefix ''synthetic-'' (source a))
     \<and> set (required_tools s) \<union> set (allowed_tools s) \<union> set (forbidden_tools s) \<subseteq> fst ` set reg
     \<and> set (expected_actions s) \<union> set (expected_approval_actions s) \<subseteq> fst ` set cat"

lemma first_error_Cons [simp]: "first_error (c # cs) = None \<longleftrightarrow> c = None \<and> first_error cs = None"
  by (simp add: first_error_None)

lemma check_scenario_None:
  "check_scenario fixtures reg cat s = None \<longleftrightarrow>
     (\<exists>a. fixture_alert fixtures (sc_alert_id s) = Some a \<and> prefix ''synthetic-'' (source a))
     \<and> set (required_tools s) \<union> set (allowed_tools s) \<union> set (forbidden_tools s) \<subseteq> fst ` set reg
     \<and> set (expected_actions s) \<union> set (expected_approval_actions s) \<subseteq> fst ` set cat"
  by (auto simp: check_scenario_def registry_iter_def catalog_iter_def split: option.splits)

lemma validate_scenario_id: "validate_scenario s = Some t \<Longrightarrow> Identifier (sc_scenario_id t) = Some (sc_scenario_id t)"
  by (auto simp: validate_scenario_def Let_def dest: Identifier_stable split: option.splits if_splits)

lemma load_suite_Inr:
  assumes "load_suite parsed fixtures reg cat = Inr suite"
  shows "distinct (map sc_scenario_id (scenarios suite))" and "sorted (map sc_scenario_id (scenarios suite))"
    and "scenarios suite \<noteq> []" and "s \<in> set (scenarios suite) \<Longrightarrow> trusted_scenario fixtures reg cat s"
    and "suite_schema_version suite = ''1.0''" and "suite_fixture_version suite = fx_fixture_version (manifest fixtures)"
proof -
  obtain raw m where m: "parsed = Some raw" "validate_manifest raw = Some m"
    and ok: "man_schema_version m = SUPPORTED_EVALUATION_SCHEMA" "man_fixture_version m = fx_fixture_version (manifest fixtures)"
      "distinct (map sc_scenario_id (sort_key sc_scenario_id (man_scenarios m)))"
      "\<forall>s \<in> set (man_scenarios m). check_scenario fixtures reg cat s = None"
    and suite: "suite = \<lparr>suite_schema_version = man_schema_version m, suite_version = man_suite_version m,
        suite_fixture_version = man_fixture_version m, scenarios = sort_key sc_scenario_id (man_scenarios m)\<rparr>"
    using assms unfolding load_suite_def Let_def
    by (auto simp: bind_eq_Some_conv split: option.splits)
  show "distinct (map sc_scenario_id (scenarios suite))" "sorted (map sc_scenario_id (scenarios suite))"
    "suite_schema_version suite = ''1.0''" "suite_fixture_version suite = fx_fixture_version (manifest fixtures)"
    using ok by (simp_all add: suite SUPPORTED_EVALUATION_SCHEMA_def)
  note man = validate_manifest_SomeD [OF m(2)]
  show "scenarios suite \<noteq> []" using man(1) by (simp add: suite) (metis length_0_conv length_sort)
  show "trusted_scenario fixtures reg cat s" if "s \<in> set (scenarios suite)"
  proof -
    have mem: "s \<in> set (man_scenarios m)" using that by (simp add: suite)
    have "all_valid validate_scenario (man_scenarios raw) = Some (man_scenarios m)"
      using m(2) by (auto simp: validate_manifest_def split: option.splits if_splits)
    then have "Identifier (sc_scenario_id s) = Some (sc_scenario_id s)"
      using all_valid_SomeD mem validate_scenario_id by fast
    moreover obtain a where "fixture_alert fixtures (sc_alert_id s) = Some a" "prefix ''synthetic-'' (source a)"
      and "set (required_tools s) \<union> set (allowed_tools s) \<union> set (forbidden_tools s) \<subseteq> fst ` set reg"
        "set (expected_actions s) \<union> set (expected_approval_actions s) \<subseteq> fst ` set cat"
      using ok(4) mem check_scenario_None by blast
    ultimately show ?thesis
      using man(2) [OF mem] row_get_SomeD unfolding trusted_scenario_def fixture_alert_def by fastforce
  qed
qed

lemma suite_get_loaded:
  assumes "distinct (map sc_scenario_id (scenarios suite))"
  shows "suite_get suite i = Inr s \<longleftrightarrow> s \<in> set (scenarios suite) \<and> sc_scenario_id s = i"
proof -
  have "row_get sc_scenario_id i (scenarios suite) = Some s \<longleftrightarrow> s \<in> set (scenarios suite) \<and> sc_scenario_id s = i"
    using row_get_SomeD row_get_in [OF assms] by metis
  then show ?thesis by (auto simp: suite_get_def split: option.splits)
qed

text \<open>A suite that loads is closed over trusted data: it has the supported schema version and the
  fixtures' version, at least one scenario, all in strict identifier order, each one consistent, about a
  synthetic fixture alert, and naming only registered tools and catalog actions; and looking a
  scenario up by its identifier finds exactly it.\<close>

theorem loaded_suite_is_trusted:
  assumes "load_suite parsed fixtures reg cat = Inr suite"
  shows "suite_schema_version suite = ''1.0'' \<and> suite_fixture_version suite = fx_fixture_version (manifest fixtures)
    \<and> scenarios suite \<noteq> [] \<and> sorted (map sc_scenario_id (scenarios suite)) \<and> distinct (map sc_scenario_id (scenarios suite))
    \<and> list_all (trusted_scenario fixtures reg cat) (scenarios suite)
    \<and> (\<forall>i s. suite_get suite i = Inr s \<longleftrightarrow> s \<in> set (scenarios suite) \<and> sc_scenario_id s = i)"
  using load_suite_Inr [OF assms] suite_get_loaded by (simp add: list_all_iff)

definition synthetic_alert :: SecurityAlert where
  "synthetic_alert = \<lparr>alert_id = ''alert-1'', source = ''synthetic-siem'', source_severity = HIGH, title = ''sign-in'',
     description = ''unfamiliar sign-in'', occurred_at = 1, detected_at = 2, entities = [],
     provider_schema_version = ''1.0'', original_payload = \<lparr>reference_id = ''p-1'', payload_digest = ''d''\<rparr>\<rparr>"

definition suite_fixtures :: FixtureDataset where
  "suite_fixtures = \<lparr>manifest = \<lparr>fx_fixture_version = ''v1'', fx_schema_version = ''1.0'', reference_time = 0,
       recent_signin_window_hours = 1\<rparr>, identities = [], user_risks = [], devices = [], fx_sign_ins = [],
     ip_reputations = [], mfa_events = [], related_alerts = [], fx_alerts = [synthetic_alert]\<rparr>"

definition sample_suite_manifest :: EvaluationManifest where
  "sample_suite_manifest = \<lparr>man_schema_version = ''1.0'', man_suite_version = ''1'', man_fixture_version = ''v1'',
     man_scenarios = [sample_scenario\<lparr>sc_scenario_id := ''case-2'', forbidden_tools := []\<rparr>, sample_scenario\<lparr>forbidden_tools := []\<rparr>]\<rparr>"

definition sample_suite :: EvaluationSuite where
  "sample_suite = \<lparr>suite_schema_version = ''1.0'', suite_version = ''1'', suite_fixture_version = ''v1'',
     scenarios = [sample_scenario\<lparr>forbidden_tools := []\<rparr>, sample_scenario\<lparr>sc_scenario_id := ''case-2'', forbidden_tools := []\<rparr>]\<rparr>"

lemma sample_manifest_valid: "validate_manifest sample_suite_manifest = Some sample_suite_manifest"
  by code_simp

lemma sample_suite_loads: "load_suite (Some sample_suite_manifest) suite_fixtures sample_registry [] = Inr sample_suite"
  unfolding load_suite_def
  by (simp add: sample_manifest_valid Let_def first_error_None)
    (simp add: sample_suite_manifest_def sample_suite_def sample_scenario_def check_scenario_def fixture_alert_def
      SUPPORTED_EVALUATION_SCHEMA_def suite_fixtures_def synthetic_alert_def registry_iter_def sample_registry_def
      row_get_Cons require_def)

theorem loaded_suite_is_trusted_witness:
  "sorted (map sc_scenario_id (scenarios sample_suite)) \<and> suite_get sample_suite ''case-2'' = Inr (scenarios sample_suite ! 1)"
proof -
  have "scenarios sample_suite ! 1 \<in> set (scenarios sample_suite)" "sc_scenario_id (scenarios sample_suite ! 1) = ''case-2''"
    by (simp_all add: sample_suite_def)
  then show ?thesis using loaded_suite_is_trusted [OF sample_suite_loads] by blast
qed

end
