(* ===== verification/Store_Frame.thy ===== *)
theory Store_Frame
  imports Orchestrator_Correct Approval_Correct
begin

text \<open>
  A property of the database that the repository writes keep is kept by the services that are built
  from them. The locales state what the writes promise, one for each group of services: triage,
  triage with its actions, decisions, claims of an execution. Their interpretations are the schema
  invariant, the growth of the audit trail, the identity of stored actions and the authorization of
  executions.
\<close>

subsection \<open>The beginning of a run\<close>

text \<open>
  The run up to its first question, and from there on; a run is the one followed by the other, so the
  two can be interleaved with what other requests do.
\<close>

definition run_begin ::
  "'e env_scheme \<Rightarrow> SecurityAlert \<Rightarrow> string \<Rightarrow> string \<Rightarrow> string \<Rightarrow> (OrchestrationOutcome + int) io" where
  "run_begin env alert key eid cid =
     bindE (find_replay env key eid cid) (\<lambda>replay.
     case replay of Some out \<Rightarrow> ret (Inl out)
     | None \<Rightarrow>
         bindE (persist_start env alert key eid cid) (\<lambda>started_ok.
         if \<not> started_ok then bindE (persistence_failure eid cid) (\<lambda>out. ret (Inl out))
         else bindE (monotonic_ms env) (\<lambda>t0. ret (Inr t0))))"

definition run_rest :: "'e env_scheme \<Rightarrow> orchestrator \<Rightarrow> SecurityAlert \<Rightarrow> string \<Rightarrow> string \<Rightarrow> int \<Rightarrow> OrchestrationOutcome io" where
  "run_rest env orc alert eid cid t0 =
     bindE (run_loop env orc alert eid cid t0 (max_iterations (orc_limits orc))
       (new_context eid cid (from_alert alert) (orc_gateway_limits orc), [])) (conclude env orc alert eid cid)"

lemma bindE_step: "bindE (bindE m f) g w = bindE m (\<lambda>x. bindE (f x) g) w"
  by (simp add: bindE_def split: prod.split sum.split)

lemma run_parts:
  "run env orc alert key eid cid =
     bindE (run_begin env alert key eid cid) (\<lambda>r. case r of Inl out \<Rightarrow> ret out | Inr t0 \<Rightarrow> run_rest env orc alert eid cid t0)"
  by (rule ext, simp add: run_def run_begin_def run_rest_def bindE_step)
    (auto simp: run_rest_def bindE_def ret_def split: prod.split sum.split option.split)

subsection \<open>Composition with results\<close>

lemma keeps_persistence_failure [keeps]: "keeps_db P (persistence_failure eid cid)"
  unfolding persistence_failure_def by (intro keeps)

lemma keeps_bindE_returns:
  assumes "keeps_db P m" and "\<And>w. wp m (\<lambda>x _. Q x) (\<lambda>_ _. True) w" and "\<And>x. Q x \<Longrightarrow> keeps_db P (f x)"
  shows "keeps_db P (bindE m f)"
proof (rule keeps_dbI)
  fix w assume "sound_world P w"
  then have "wp m (\<lambda>x w'. sound_world P w' \<and> Q x) (\<lambda>_. sound_world P) w"
    using keeps_dbD [OF assms(1) \<open>sound_world P w\<close>] assms(2) [of w] by (auto simp: wp_def split: prod.splits sum.splits)
  then show "wp (bindE m f) (\<lambda>_. sound_world P) (\<lambda>_. sound_world P) w"
    unfolding wp_bindE by (rule wp_mono) (auto intro: keeps_dbD [OF assms(3)])
qed

lemma keeps_for_each_in: "(\<And>x. x \<in> set xs \<Longrightarrow> keeps_db P (f x)) \<Longrightarrow> keeps_db P (for_each xs f)"
  by (induction xs) (auto intro!: keeps)

lemma policy_decision_decided: "wp (policy_decision env orc alert payload) (\<lambda>dec _. decided env orc alert payload dec) (\<lambda>_ _. True) w"
proof -
  obtain d n where e: "evaluate_untrusted (sha256 env) (orc_catalog orc) (fresh_id env ''action'') (id_counts w ''action'')
    payload (alert_id alert) (scope_from_entities (entities alert)) (clock_now env (now_calls w)) = (d, n)"
    by (cases "evaluate_untrusted (sha256 env) (orc_catalog orc) (fresh_id env ''action'') (id_counts w ''action'')
      payload (alert_id alert) (scope_from_entities (entities alert)) (clock_now env (now_calls w))")
  have "decided env orc alert payload d"
    unfolding decided_def by (rule exI [of _ "id_counts w ''action''"], rule exI [of _ "clock_now env (now_calls w)"]) (simp add: e)
  then show ?thesis by (simp add: wp_policy_decision_eq e)
qed

lemma keeps_policy_decision: "keeps_db P (policy_decision env orc alert payload)"
  by (auto simp: keeps_db_def wp_def policy_decision_def bindE_def now_def sound_world_def split: prod.splits)

subsection \<open>Triage\<close>

locale triage_store =
  fixes env :: "'e env_scheme" and P :: "db \<Rightarrow> bool"
  assumes alerts_add: "keeps_db P (alerts_add a :: unit io)"
    and executions_add: "keeps_db P (executions_add e :: unit io)"
    and invocations_add: "keeps_db P (invocations_add r res :: unit io)"
    and results_add: "keeps_db P (results_add rid eid tr :: unit io)"
    and audit_append: "keeps_db P (audit_append ev :: unit io)"
    and executions_replace: "keeps_db P (executions_replace env e :: unit io)"
begin

lemmas triage_writes = alerts_add executions_add invocations_add results_add audit_append executions_replace

lemma keeps_ingest: "keeps_db P (ingest env alert cid actor)"
  unfolding ingest_def by (intro keeps triage_writes)

lemma keeps_execution_recovery: "keeps_db P (recover_stale_executions env thr op cid)"
  unfolding recover_stale_executions_def fail_stale_execution_def by (intro keeps triage_writes)

lemma keeps_failure: "keeps_db P body \<Longrightarrow> keeps_db P (on_failure env eid cid categ body)"
  unfolding on_failure_def record_persistence_failure_def orch_audit_def by (intro keeps triage_writes)

lemma keeps_oracles: "keeps_db P (ask_reasoner orc context)" "keeps_db P tick_gateway"
  by (auto simp: keeps_db_def wp_def ask_reasoner_def tick_gateway_def bindE_def sound_world_def split: prod.splits sum.splits)

lemma keeps_tool_step: "keeps_db P (tool_step env orc st tname args goal)"
  unfolding tool_step_def persist_tool_def to_evidence_def gateway_call_def orch_audit_def Let_def
  by (intro keeps triage_writes keeps_failure keeps_oracles)

lemma keeps_iteration: "keeps_db P (iteration_step env orc alert eid cid t0 it st)"
  unfolding iteration_step_def
  by (intro keeps triage_writes keeps_oracles)
    (auto intro!: keeps keeps_tool_step split: reasoner_reply.split option.split ReasonerStep.split)

lemma keeps_loop: "keeps_db P (run_loop env orc alert eid cid t0 n st)"
  by (induction n arbitrary: st) (auto intro!: keeps keeps_iteration)

lemma keeps_run_begin: "keeps_db P (run_begin env alert key eid cid)"
  unfolding run_begin_def find_replay_def persist_start_def orch_audit_def
  by (intro keeps triage_writes keeps_failure)

lemma keeps_finalize:
  assumes "\<And>a. a \<in> set (recommended_actions (pd_result dec)) \<Longrightarrow> keeps_db P (actions_add env eid a (pd_policy_version dec))"
  shows "keeps_db P (finalize env eid cid dec rcode)"
  unfolding finalize_def persist_final_def orch_audit_def
  by (intro keeps triage_writes keeps_failure keeps_for_each_in assms)

lemma keeps_conclude_decided:
  assumes "\<And>payload dec a. decided env orc alert payload dec \<Longrightarrow> a \<in> set (recommended_actions (pd_result dec)) \<Longrightarrow>
    keeps_db P (actions_add env eid a (pd_policy_version dec))"
  shows "keeps_db P (conclude env orc alert eid cid e)"
  unfolding conclude_def
  by (cases e)
    (auto intro!: keeps keeps_bindE_returns [OF keeps_policy_decision policy_decision_decided] keeps_finalize assms)

end

locale action_store = triage_store +
  assumes actions_add: "keeps_db P (actions_add env eid p v :: unit io)"
begin

lemma keeps_conclude: "keeps_db P (conclude env orc alert eid cid e)"
  by (rule keeps_conclude_decided) (rule actions_add)

lemma keeps_run: "keeps_db P (run env orc alert key eid cid)"
  unfolding run_parts run_rest_def by (intro keeps keeps_run_begin keeps_loop keeps_conclude)

end

subsection \<open>Decisions and executions\<close>

locale simulation_store = triage_store +
  assumes action_executions_replace: "keeps_db P (action_executions_replace env x :: unit io)"
begin

lemma keeps_action_recovery: "keeps_db P (recover_stale_actions env thr op cid)"
  unfolding recover_stale_actions_def fail_stale_action_def by (intro keeps triage_writes action_executions_replace)

lemma keeps_execute_finish: "keeps_db P (execute_finish env svc aid actor x a)"
  unfolding execute_finish_def finish_failed_def finish_succeeded_def workflow_audit_def Let_def
  by (intro keeps triage_writes action_executions_replace)

end

locale decision_store = simulation_store +
  assumes approvals_add: "keeps_db P (approvals_add ap :: unit io)"
begin

lemmas decision_writes = triage_writes approvals_add action_executions_replace

lemma keeps_decide: "keeps_db P (decide env svc aid who why dec)"
  unfolding decide_def record_decision_def workflow_audit_def by (intro keeps decision_writes)

end

locale claim_store = decision_store +
  assumes action_executions_add: "keeps_db P (action_executions_add x :: unit io)"
begin

lemma keeps_execute_begin: "keeps_db P (execute_begin env svc aid actor)"
  unfolding execute_begin_def expire_approval_def deny_execution_def claim_execution_def workflow_audit_def Let_def
  by (intro keeps decision_writes action_executions_add)
    (auto intro!: keeps decision_writes action_executions_add split: option.split WorkflowErrorCode.split)

lemma keeps_execute: "keeps_db P (execute env svc aid actor)"
  unfolding execute_def by (intro keeps keeps_execute_begin keeps_execute_finish)

end

locale evaluation_store = triage_store +
  assumes add_run: "keeps_db P (evaluations_add_run er :: unit io)"
    and add_case: "keeps_db P (evaluations_add_case c :: unit io)"

subsection \<open>Interpretations\<close>

interpretation valid_store: claim_store env valid_db for env :: "'e env_scheme"
  by unfold_locales (rule keeps)+

interpretation valid_store: evaluation_store env valid_db for env :: "'e env_scheme"
  by unfold_locales (rule keeps)+

interpretation valid_store: action_store env valid_db for env :: "'e env_scheme"
  by unfold_locales (rule keeps)+

interpretation audit_store: claim_store env "audit_extends old" for env :: "'e env_scheme" and old
  by unfold_locales (rule keeps)+

interpretation audit_store: evaluation_store env "audit_extends old" for env :: "'e env_scheme" and old
  by unfold_locales (rule keeps)+

interpretation audit_store: action_store env "audit_extends old" for env :: "'e env_scheme" and old
  by unfold_locales (rule keeps)+

lemma authorized_evaluations [keeps]:
  "keeps_db (all_authorized sha rs) (evaluations_add_run er)" "keeps_db (all_authorized sha rs) (evaluations_add_case c)"
  unfolding evaluations_add_run_def evaluations_add_case_def
  by (rule keeps_stage, erule all_authorized_mono; simp add: find_defs insert_run_def insert_case_def)+

interpretation authorized_store: decision_store env "all_authorized sha reviewers" for env :: "'e env_scheme" and sha reviewers
  by unfold_locales (rule keeps)+

interpretation authorized_store: evaluation_store env "all_authorized sha reviewers" for env :: "'e env_scheme" and sha reviewers
  by unfold_locales (rule keeps)+

interpretation authorized_store: action_store env "all_authorized sha reviewers" for env :: "'e env_scheme" and sha reviewers
  by unfold_locales (rule keeps)+

end
