(* ===== verification/Run_Records.thy ===== *)
theory Run_Records
  imports Orchestrator_Properties Store_Frame
begin

text \<open>
  What a run leaves under its execution identifier (the execution, its tool calls, its result), and
  that every later run leaves the records of earlier executions as they are. The evaluation runner
  reads these records back to score a case.
\<close>

subsection \<open>Records of an execution\<close>

text \<open>Execution records are validated before they are written, so a stored identifier is its own validated form.\<close>

definition well_named :: "db \<Rightarrow> bool" where
  "well_named d \<longleftrightarrow> (\<forall>x \<in> set (triage_executions d). Identifier (ex_execution_id x) = Some (ex_execution_id x))"

definition same_records :: "string \<Rightarrow> db \<Rightarrow> db \<Rightarrow> bool" where
  "same_records i d d' \<longleftrightarrow> find_execution i d' = find_execution i d \<and> invocations_for i d' = invocations_for i d
     \<and> find_result i d' = find_result i d"

text \<open>The records of a stored execution stay, but for the failure of one that was still running.\<close>

definition records_kept :: "db \<Rightarrow> db \<Rightarrow> bool" where
  "records_kept d d' \<longleftrightarrow> (\<forall>i x. find_execution i d = Some x \<longrightarrow>
     invocations_for i d' = invocations_for i d \<and> find_result i d' = find_result i d
     \<and> (\<exists>x'. find_execution i d' = Some x' \<and> idempotency_key x' = idempotency_key x
          \<and> (ex_state x \<noteq> TRunning \<longrightarrow> ex_state x' = ex_state x)))"

lemma records_kept_refl: "records_kept d d"
  by (simp add: records_kept_def)

lemma records_kept_trans: "records_kept d d' \<Longrightarrow> records_kept d' d'' \<Longrightarrow> records_kept d d''"
  unfolding records_kept_def by metis

lemma records_kept_others:
  assumes "find_execution eid d = None" and "\<And>i. i \<noteq> eid \<Longrightarrow> same_records i d d'"
  shows "records_kept d d'"
  using assms unfolding records_kept_def same_records_def by (metis option.distinct(1))

lemma same_records_trans: "same_records i d d' \<Longrightarrow> same_records i d' d'' \<Longrightarrow> same_records i d d''"
  by (simp add: same_records_def)

subsection \<open>The parts of a run\<close>

lemma updated_keys: "(\<And>x. key (f x) = key x) \<Longrightarrow> key ` set (map (\<lambda>x. if p x then f x else x) xs) = key ` set xs"
  by (induction xs) auto

lemma replace_execution_sels [simp]:
  "tool_invocations (replace_execution e d) = tool_invocations d" "triage_results (replace_execution e d) = triage_results d"
  "ex_execution_id ` set (triage_executions (replace_execution e d)) = ex_execution_id ` set (triage_executions d)"
  by (simp_all add: replace_execution_def updated_keys update_execution_def del: set_map)

lemma well_named_image:
  "well_named d \<longleftrightarrow> (\<forall>i \<in> ex_execution_id ` set (triage_executions d). Identifier i = Some i)"
  by (simp add: well_named_def)

lemma started_records:
  assumes "started alert key eid d d0" and "well_named d"
  shows "well_named d0" "find_execution eid d = None" "Identifier eid = Some i \<Longrightarrow> find_execution i d = None"
    "Identifier eid = Some i \<Longrightarrow> j \<noteq> i \<Longrightarrow> same_records j d d0"
    "Identifier eid = Some i \<Longrightarrow> \<exists>x. find_execution i d0 = Some x \<and> Identifier key = Some (idempotency_key x)"
proof -
  obtain x ev where x: "execution_admissible x (with_alert alert d)" "d0 = insert_event ev (insert_execution x (with_alert alert d))"
      "Identifier eid = Some (ex_execution_id x)" "Identifier key = Some (idempotency_key x)"
    using assms(1) by (auto simp: started_def)
  have same: "triage_executions (with_alert alert d) = triage_executions d" "tool_invocations (with_alert alert d) = tool_invocations d"
      "triage_results (with_alert alert d) = triage_results d"
    by (auto simp: with_alert_def insert_alert_def)
  have fresh: "find_execution (ex_execution_id x) d = None"
    using x(1) by (simp add: execution_admissible_def same find_execution_def row_get_fresh)
  show "well_named d0"
    using assms(2) Identifier_stable [OF x(3)] by (simp add: x(2) well_named_def insert_event_def insert_execution_def same)
  show "find_execution eid d = None"
  proof (rule ccontr)
    assume "find_execution eid d \<noteq> None"
    then obtain e where "e \<in> set (triage_executions d)" "ex_execution_id e = eid"
      by (auto simp: find_execution_def dest: row_get_SomeD)
    then have "Identifier eid = Some eid" using assms(2) by (auto simp: well_named_def)
    then show False using fresh x(3) \<open>find_execution eid d \<noteq> None\<close> by simp
  qed
  have get: "find_execution j d0 = (if j = ex_execution_id x then Some x else find_execution j d)" for j
    using fresh by (simp add: x(2) insert_event_def insert_execution_def find_execution_def same row_get_snoc)
  show "find_execution i d = None" if "Identifier eid = Some i" using that fresh x(3) by simp
  show "same_records j d d0" if "Identifier eid = Some i" "j \<noteq> i"
    using that x(3) get [of j]
    by (simp add: same_records_def invocations_for_def find_result_def x(2) insert_event_def insert_execution_def same)
  show "\<exists>x. find_execution i d0 = Some x \<and> Identifier key = Some (idempotency_key x)" if "Identifier eid = Some i"
    using that x(3,4) get [of i] by simp
qed

lemma loop_records:
  assumes "loop_inv orc alert eid d0 d1 st"
  shows "triage_executions d1 = triage_executions d0" "j \<noteq> eid \<Longrightarrow> same_records j d0 d1"
proof -
  obtain rows evs where d1: "d1 = with_calls rows evs d0" and rows: "\<forall>r \<in> set rows. ir_execution_id (row_invocation r) = eid"
    using assms by (auto simp: loop_inv_def)
  show "triage_executions d1 = triage_executions d0" by (simp add: d1 with_calls_def)
  show "same_records j d0 d1" if "j \<noteq> eid"
    using rows that by (simp add: d1 with_calls_def same_records_def find_execution_def find_result_def invocations_for_def
      filter_empty_conv)
qed

lemma failure_records:
  assumes "failure_mark eid d d'"
  shows "well_named d \<Longrightarrow> well_named d'" "j \<noteq> eid \<Longrightarrow> same_records j d d'" "records_kept d d'"
proof -
  have "(well_named d \<longrightarrow> well_named d') \<and> (j \<noteq> eid \<longrightarrow> same_records j d d') \<and> records_kept d d'"
  proof (cases "d' = d")
    case True
    then show ?thesis by (simp add: same_records_def records_kept_refl)
  next
    case False
    then obtain e t c ev where e: "find_execution eid d = Some e" "ex_state e = TRunning"
        and d': "d' = insert_event ev (replace_execution (e\<lparr>ex_state := TFailed, updated_at := t, ex_failure_category := Some c\<rparr>) d)"
      using assms by (auto simp: failure_mark_def)
    let ?e = "e\<lparr>ex_state := TFailed, updated_at := t, ex_failure_category := Some c\<rparr>"
    have id: "ex_execution_id e = eid" using find_execution_SomeD [OF e(1)] by simp
    have get: "find_execution k d' = (if k = eid then Some (update_execution ?e e) else find_execution k d)" for k
      using execution_repo.get_replace [of ?e d e k] e(1) id by (simp add: d')
    have calls: "invocations_for k d' = invocations_for k d" and res: "find_result k d' = find_result k d" for k
      by (simp_all add: d' invocations_for_def find_result_def insert_event_def)
    have "well_named d' = well_named d" by (simp add: d' well_named_image insert_event_def)
    moreover have "records_kept d d'" using e get by (auto simp: records_kept_def calls res update_execution_def)
    ultimately show ?thesis using get by (simp add: same_records_def calls res)
  qed
  then show "well_named d \<Longrightarrow> well_named d'" "j \<noteq> eid \<Longrightarrow> same_records j d d'" "records_kept d d'" by simp_all
qed

lemma finalized_records:
  assumes "finalized sha eid dec d d'"
  shows "well_named d \<Longrightarrow> well_named d'" "j \<noteq> eid \<Longrightarrow> same_records j d d'"
    "\<exists>x x'. find_execution eid d = Some x \<and> find_execution eid d' = Some x' \<and> idempotency_key x' = idempotency_key x
      \<and> ex_state x' = terminal_state dec"
    "map_option row_result (find_result eid d') = Some (pd_result dec)"
proof -
  obtain e t rid ev1 ev2 where e: "find_execution eid d = Some e"
    and d': "d' = insert_event ev2 (insert_event ev1
       (replace_execution (e\<lparr>ex_state := terminal_state dec, updated_at := t\<rparr>) (final_rows sha eid dec rid d)))"
    using assms by (auto simp: finalized_def)
  let ?e = "e\<lparr>ex_state := terminal_state dec, updated_at := t\<rparr>" and ?f = "final_rows sha eid dec rid d"
  have id: "ex_execution_id e = eid" using find_execution_SomeD [OF e] by simp
  have same: "triage_executions ?f = triage_executions d" "tool_invocations ?f = tool_invocations d"
      "triage_results ?f = triage_results d @ [result_row rid eid (pd_result dec)]"
    by (simp_all add: final_rows_def insert_result_def with_actions_def)
  have get: "find_execution k d' = (if k = eid then Some (update_execution ?e e) else find_execution k d)" for k
    using execution_repo.get_replace [of ?e ?f e k] e id by (simp add: d' find_execution_def same insert_event_def)
  show "well_named d \<Longrightarrow> well_named d'" by (simp add: d' well_named_image insert_event_def same)
  show "same_records j d d'" if "j \<noteq> eid"
    using that get [of j]
    by (simp add: same_records_def d' insert_event_def same find_result_def invocations_for_def row_get_append result_row_def
      split: option.split)
  show "\<exists>x x'. find_execution eid d = Some x \<and> find_execution eid d' = Some x' \<and> idempotency_key x' = idempotency_key x
      \<and> ex_state x' = terminal_state dec"
    using e get [of eid] by (simp add: update_execution_def)
  show "map_option row_result (find_result eid d') = Some (pd_result dec)"
    by (rule finalizedD [OF assms]) (simp add: result_row_def)
qed

subsection \<open>A whole run\<close>

text \<open>The outcome of a run under a key, as the store holds it.\<close>

definition outcome_stored :: "string \<Rightarrow> OrchestrationOutcome \<Rightarrow> db \<Rightarrow> bool" where
  "outcome_stored key out d \<longleftrightarrow> (\<exists>x. find_execution (out_execution_id out) d = Some x
     \<and> (idempotency_key x = key \<or> Identifier key = Some (idempotency_key x))
     \<and> out_result out = map_option row_result (find_result (out_execution_id out) d)
     \<and> (out_reason_code out \<noteq> IDEMPOTENT_REPLAY \<longrightarrow>
          ex_state x = (if out_reason_code out = COMPLETED then TCompleted else TNeedsReview)))"

definition outcome_not_stored :: "OrchestrationOutcome \<Rightarrow> bool" where
  "outcome_not_stored out \<longleftrightarrow> out_result out = None \<and> out_policy_decision out = None \<and> out_reason_code out = PERSISTENCE_FAILURE"

definition run_records :: "string \<Rightarrow> db \<Rightarrow> OrchestrationOutcome \<Rightarrow> db \<Rightarrow> bool" where
  "run_records key d out d' \<longleftrightarrow> well_named d' \<and> records_kept d d' \<and> Identifier (out_execution_id out) = Some (out_execution_id out)
     \<and> (if out_durable out then outcome_stored key out d' else outcome_not_stored out)"

lemma well_namedD: "well_named d \<Longrightarrow> find_execution i d = Some x \<Longrightarrow> Identifier i = Some i"
  by (auto simp: well_named_def find_execution_def dest!: row_get_SomeD)

lemma run_recordsI:
  "well_named d' \<Longrightarrow> records_kept d d' \<Longrightarrow> out_durable out \<Longrightarrow> outcome_stored key out d' \<Longrightarrow> run_records key d out d'"
  unfolding run_records_def outcome_stored_def using well_namedD by fastforce

lemma not_persisted_records:
  "validate_orchestration_outcome (not_persisted eid cid) = Some out \<Longrightarrow> well_named d' \<Longrightarrow> records_kept d d' \<Longrightarrow> run_records key d out d'"
  by (drule orchestration_outcome_SomeD) (auto simp: run_records_def outcome_not_stored_def not_persisted_def intro: Identifier_stable)

lemma replay_records:
  assumes "valid_db d" "well_named d" "find_execution_by_key key d = Some e"
    and "validate_orchestration_outcome (replayed cid e d) = Some out"
  shows "run_records key d out d"
proof -
  have e: "e \<in> set (triage_executions d)" "idempotency_key e = key"
    using assms(3) by (auto simp: find_execution_by_key_def dest: row_get_SomeD)
  have id: "out_execution_id out = ex_execution_id e"
    using orchestration_outcome_SomeD [OF assms(4)] assms(2) e(1) by (simp add: replayed_def well_named_def)
  have "find_execution (ex_execution_id e) d = Some e"
    using assms(1) e(1) by (simp add: valid_db_def valid_executions_def find_execution_def row_get_in)
  then show ?thesis using orchestration_outcome_SomeD [OF assms(4)] assms(2) e(2)
    by (intro run_recordsI) (auto simp: outcome_stored_def id records_kept_refl replayed_def)
qed

lemma finished_records:
  assumes s: "started alert key eid d d0" and w: "well_named d" and f: "finished env orc alert eid cid d0 d' out"
  shows "run_records key d out d'"
proof -
  obtain d1 st payload dec rcode where inv: "loop_inv orc alert eid d0 d1 st" and dec: "decided env orc alert payload dec"
      "reason_fits orc (snd st) payload dec rcode" and fin: "finalized (sha256 env) eid dec d1 d'"
      and out: "validate_orchestration_outcome (completion eid cid rcode dec) = Some out"
    using f by (auto simp: finished_def)
  note facts = orchestration_outcome_SomeD [OF out, unfolded completion_sels]
  note start = started_records [OF s w]
  note loop = loop_records [OF inv]
  obtain x x' where x: "find_execution eid d1 = Some x" "find_execution eid d' = Some x'"
      "idempotency_key x' = idempotency_key x" "ex_state x' = terminal_state dec"
    using finalized_records(3) [OF fin] by blast
  have named: "well_named d1" using start(1) loop(1) by (simp add: well_named_def)
  have found: "find_execution eid d0 = Some x" using x(1) loop(1) by (simp add: find_execution_def)
  then have "Identifier eid = Some eid" using start(1) by (auto simp: find_execution_def well_named_def dest: row_get_SomeD)
  then have id: "out_execution_id out = eid" "Identifier eid = Some eid" using facts by (simp_all add: completion_def)
  have "idempotency_key x' = key \<or> Identifier key = Some (idempotency_key x')" using start(5) [OF id(2)] found x(3) by simp
  moreover have "records_kept d d'"
  proof (rule records_kept_others [OF start(2)])
    fix i assume "i \<noteq> eid"
    then show "same_records i d d'"
      by (intro same_records_trans [OF start(4) [OF id(2)]] same_records_trans [OF loop(2) finalized_records(2) [OF fin]])
  qed
  moreover have "ex_state x' = (if rcode = COMPLETED then TCompleted else TNeedsReview)"
    using x(4) decided_reason [OF dec] by (simp add: terminal_state_def)
  moreover have "well_named d'" by (rule finalized_records(1) [OF fin named])
  ultimately show ?thesis
    using facts x(2) finalized_records(4) [OF fin]
    by (intro run_recordsI) (auto simp: outcome_stored_def id(1))
qed

lemma unfinished_records:
  assumes s: "started alert key eid d d0" and w: "well_named d" and f: "unfinished orc alert eid d0 d'"
  shows "well_named d'" "records_kept d d'"
proof -
  obtain d1 st where inv: "loop_inv orc alert eid d0 d1 st" and mark: "failure_mark eid d1 d'"
    using f by (auto simp: unfinished_def)
  note start = started_records [OF s w]
  note loop = loop_records [OF inv]
  show "well_named d'" using failure_records(1) [OF mark] start(1) loop(1) by (simp add: well_named_def)
  obtain i where i: "Identifier eid = Some i" using s by (auto simp: started_def)
  show "records_kept d d'"
    unfolding records_kept_def
  proof (intro allI impI)
    fix j x assume j: "find_execution j d = Some x"
    then have "j \<noteq> eid" "j \<noteq> i" using start(2) start(3) [OF i] by auto
    then have "same_records j d d'"
      by (intro same_records_trans [OF start(4) [OF i]] same_records_trans [OF loop(2) failure_records(2) [OF mark]])
    then show "invocations_for j d' = invocations_for j d \<and> find_result j d' = find_result j d
       \<and> (\<exists>x'. find_execution j d' = Some x' \<and> idempotency_key x' = idempotency_key x
            \<and> (ex_state x \<noteq> TRunning \<longrightarrow> ex_state x' = ex_state x))"
      using j by (simp add: same_records_def)
  qed
qed

lemma run_records_wp:
  assumes "validate_limits (orc_gateway_limits orc) = Some (orc_gateway_limits orc)" and "valid_db (store w)" "well_named (store w)"
  shows "wp (run env orc alert key eid cid) (\<lambda>out w'. run_records key (store w) out (store w')) (\<lambda>_ _. True) w"
proof (rule wp_mono [OF run_wp [OF assms(1)]])
  fix out w' assume r: "run_returns env orc alert key eid cid w out w'"
  show "run_records key (store w) out (store w')"
    using r unfolding run_returns_def
  proof (elim conjE disjE exE)
    fix e assume "clean w w'" "find_execution_by_key key (store w) = Some e"
      "validate_orchestration_outcome (replayed cid e (store w)) = Some out"
    then show ?thesis using replay_records [OF assms(2,3)] by (simp add: clean_def)
  next
    assume out: "validate_orchestration_outcome (not_persisted eid cid) = Some out" and mark: "failure_mark eid (store w) (store w')"
    show ?thesis by (rule not_persisted_records [OF out failure_records(1) [OF mark assms(3)] failure_records(3) [OF mark]])
  next
    fix d0 assume "started alert key eid (store w) d0" "finished env orc alert eid cid d0 (store w') out"
    then show ?thesis by (rule finished_records [OF _ assms(3)])
  next
    fix d0 assume start: "started alert key eid (store w) d0" and out: "validate_orchestration_outcome (not_persisted eid cid) = Some out"
      and rest: "unfinished orc alert eid d0 (store w')"
    show ?thesis by (rule not_persisted_records [OF out unfinished_records [OF start assms(3) rest]])
  qed
qed simp

end
