(* ===== verification/Evaluation_Runner.thy ===== *)
theory Evaluation_Runner
  imports Evaluation_Loader Run_Records
begin

text \<open>
  The offline evaluation runner (\<open>evaluation/runner.py\<close>) and its text report
  (\<open>evaluation/reporting.py\<close>). A run sends an isolated copy of each scenario's alert through the
  production orchestration, scores the persisted tool calls, and stores the run with its cases.
\<close>

record evaluation_runner =
  er_suite :: EvaluationSuite
  er_alerts :: "SecurityAlert list"
  er_orchestrator :: orchestrator
  er_reasoner_label :: string
  er_reasoner_implementation :: string
  er_provider :: string
  er_model :: string
  er_prompt_version :: string
  er_policy_version :: string
  er_application_version :: string

record EvaluationReport =
  rep_run :: EvaluationRunRecord
  rep_cases :: "EvaluationCaseRecord list"

text \<open>
  \<open>_isolated_alert\<close>: the identity and payload of the copy are derived by hashing, so that the
  scenarios of a suite never meet as stored alerts. Building the payload reference validates it.
\<close>

definition isolated_alert :: "(string \<Rightarrow> string) \<Rightarrow> SecurityAlert \<Rightarrow> string \<Rightarrow> SecurityAlert option" where
  "isolated_alert sha a scenario =
     map_option (\<lambda>p. a\<lparr>alert_id := ''eval-alert-'' @ take 24 (sha scenario), original_payload := p\<rparr>)
       (validate_payload \<lparr>reference_id = ''eval-payload-'' @ take 24 (sha scenario),
          payload_digest = ''sha256:'' @ sha (payload_digest (original_payload a) @ '':'' @ scenario)\<rparr>)"

definition run_case :: "'e env_scheme \<Rightarrow> evaluation_runner \<Rightarrow> string \<Rightarrow> EvaluationScenario \<Rightarrow> EvaluationCaseRecord io" where
  "run_case env rn rid s =
     (case row_get alert_id (sc_alert_id s) (rev (er_alerts rn)) of
        None \<Rightarrow> raise (AdapterError ''KeyError'')
      | Some a \<Rightarrow>
          bindE (required (isolated_alert (sha256 env) a (sc_scenario_id s))) (\<lambda>alert.
          bindE (next_id env ''evaluation-execution'') (\<lambda>eid.
          bindE (monotonic_ms env) (\<lambda>before.
          bindE (next_id env ''evaluation-correlation'') (\<lambda>cid.
          bindE (run env (er_orchestrator rn) alert (rid @ '':'' @ sc_scenario_id s) eid cid) (\<lambda>out.
          bindE (monotonic_ms env) (\<lambda>after.
          bindE (with_uow (invocations_list_for_execution env (out_execution_id out))) (\<lambda>calls.
          bindE (next_id env ''evaluation-case'') (\<lambda>caseid.
          required (validate_case_record
            \<lparr>case_id = caseid, case_run_id = rid, case_scenario_id = sc_scenario_id s,
             case_scenario_version = sc_scenario_version s, case_execution_id = out_execution_id out,
             case_score = score_case s out calls (max 0 (after - before))\<rparr>))))))))))"

text \<open>A tuple built by running an operation on every item.\<close>

fun collect :: "('x \<Rightarrow> ('w, 'e, 'y) op) \<Rightarrow> 'x list \<Rightarrow> ('w, 'e, 'y list) op" where
  "collect f [] = ret []"
| "collect f (x # xs) = bindE (f x) (\<lambda>y. bindE (collect f xs) (\<lambda>ys. ret (y # ys)))"

definition chosen_scenarios :: "EvaluationSuite \<Rightarrow> string option \<Rightarrow> EvaluationScenario list option" where
  "chosen_scenarios suite choice =
     (case choice of None \<Rightarrow> Some (scenarios suite)
      | Some i \<Rightarrow> (case suite_get suite i of Inl _ \<Rightarrow> None | Inr s \<Rightarrow> Some [s]))"

definition run_record :: "evaluation_runner \<Rightarrow> string \<Rightarrow> time \<Rightarrow> time \<Rightarrow> EvaluationAggregate \<Rightarrow> EvaluationRunRecord" where
  "run_record rn rid t0 t1 agg =
     \<lparr>run_id = rid, run_suite_version = suite_version (er_suite rn), run_schema_version = suite_schema_version (er_suite rn),
      run_fixture_version = suite_fixture_version (er_suite rn), run_policy_version = er_policy_version rn,
      reasoner_label = er_reasoner_label rn, reasoner_implementation = er_reasoner_implementation rn,
      provider = er_provider rn, model_name = er_model rn, run_prompt_version = er_prompt_version rn,
      application_version = er_application_version rn, run_started_at = t0, run_completed_at = t1, aggregate = agg\<rparr>"

definition store_run :: "'e env_scheme \<Rightarrow> EvaluationRunRecord \<Rightarrow> EvaluationCaseRecord list \<Rightarrow> unit io" where
  "store_run env r cases = with_uow (
     bindE (evaluations_add_run r) (\<lambda>_.
     bindE (flush env) (\<lambda>_.
     bindE (for_each cases evaluations_add_case) (\<lambda>_.
     commit env))))"

context evaluation_store begin

lemma keeps_store_run: "keeps_db P (store_run env r cases)"
  unfolding store_run_def by (intro keeps add_run add_case)

end

definition evaluate_scenarios :: "'e env_scheme \<Rightarrow> evaluation_runner \<Rightarrow> EvaluationScenario list \<Rightarrow> EvaluationReport io" where
  "evaluate_scenarios env rn ss =
     bindE (next_id env ''evaluation-run'') (\<lambda>rid.
     bindE (now env) (\<lambda>t0.
     bindE (collect (run_case env rn rid) ss) (\<lambda>cases.
     bindE (now env) (\<lambda>t1.
     bindE (required (aggregate_scores (map case_score cases))) (\<lambda>agg.
     bindE (required (validate_run_record (run_record rn rid t0 t1 agg))) (\<lambda>r.
     bindE (store_run env r cases) (\<lambda>_.
     ret \<lparr>rep_run = r, rep_cases = cases\<rparr>)))))))"

text \<open>An unknown choice raises \<open>EvaluationValidationError\<close>, a \<open>ValueError\<close>.\<close>

definition evaluate_suite :: "'e env_scheme \<Rightarrow> evaluation_runner \<Rightarrow> string option \<Rightarrow> EvaluationReport io" where
  "evaluate_suite env rn choice =
     (case chosen_scenarios (er_suite rn) choice of
        None \<Rightarrow> raise ValueError | Some ss \<Rightarrow> evaluate_scenarios env rn ss)"

subsection \<open>Text report\<close>

definition nat_text :: "nat \<Rightarrow> string" where "nat_text n = int_text (int n)"

text \<open>\<open>str\<close> of a \<open>StrEnum\<close> member is its value, and \<open>str(None)\<close> is \<open>None\<close>.\<close>

definition case_line :: "EvaluationCaseRecord \<Rightarrow> string" where
  "case_line c = (let s = case_score c in
     ''- '' @ case_scenario_id c @ '': '' @ match_status_value (disposition_status s) @ ''; actual=''
     @ (case actual_disposition s of None \<Rightarrow> ''None'' | Some d \<Rightarrow> disposition_value d)
     @ ''; escalation='' @ (if escalation_match s then ''True'' else ''False'')
     @ ''; reason='' @ orchestration_reason s @ ''; duration_ms='' @ int_text (EvaluationCaseScore.duration_ms s))"

definition matrix_json :: "matrix \<Rightarrow> pyval" where
  "matrix_json m = PDict (map (\<lambda>r. (fst r, PDict (map (\<lambda>c. (fst c, PInt (int (snd c)))) (snd r)))) m)"

definition render_text :: "EvaluationReport \<Rightarrow> string" where
  "render_text rep = (let r = rep_run rep; a = aggregate r in join [CHR 0x0A]
     ([''Evaluation suite '' @ run_suite_version r @ '' / run '' @ run_id r,
       ''Reasoner: '' @ reasoner_label r @ ''; policy: '' @ run_policy_version r @ ''; fixture: '' @ run_fixture_version r,
       ''Scenarios: '' @ nat_text (scenario_count a) @ ''; exact: '' @ nat_text (exact_count a)
         @ ''; acceptable: '' @ nat_text (acceptable_count a) @ ''; failures: '' @ nat_text (failure_count a),
       ''FP: '' @ nat_text (false_positives a) @ ''/'' @ nat_text (non_malicious_ground_truth_count a)
         @ ''; FN: '' @ nat_text (false_negatives a) @ ''/'' @ nat_text (malicious_ground_truth_count a),
       ''Tools: '' @ nat_text (agg_total_tool_calls a) @ '' calls; required omitted: ''
         @ nat_text (required_tool_omissions a) @ ''; forbidden: '' @ nat_text (forbidden_tool_calls a),
       ''Confusion matrix: '' @ render True (matrix_json (confusion_matrix a)), ''Cases:'']
      @ map case_line (rep_cases rep)
      @ [''Warning: model-reported confidence is not a calibrated probability.'']))"

subsection \<open>Reasoning rules\<close>

text \<open>
  The items are built one after the other; \<open>K\<close> is what each step keeps for the items built before it.
\<close>

lemma wp_collect:
  assumes "\<And>x w. x \<in> set xs \<Longrightarrow> I w \<Longrightarrow> wp (f x) (\<lambda>y w'. I w' \<and> K w w' \<and> R x y w') E w" and "I w"
    and refl: "\<And>w. K w w" and trans: "\<And>u v w. K u v \<Longrightarrow> K v w \<Longrightarrow> K u w"
    and stable: "\<And>x y w w'. I w \<Longrightarrow> K w w' \<Longrightarrow> R x y w \<Longrightarrow> R x y w'"
  shows "wp (collect f xs) (\<lambda>ys w'. I w' \<and> K w w' \<and> list_all2 (\<lambda>x y. R x y w') xs ys) E w"
  using assms(1,2)
proof (induction xs arbitrary: w)
  case Nil
  then show ?case by (simp add: wp_simps refl)
next
  case (Cons x xs)
  have rest: "wp (collect f xs) (\<lambda>ys w'. I w' \<and> K w1 w' \<and> list_all2 (\<lambda>x y. R x y w') xs ys) E w1" if "I w1" for w1
    using Cons.IH Cons.prems(1) that by simp
  have "wp (f x) (\<lambda>y w'. I w' \<and> K w w' \<and> R x y w') E w" using Cons.prems by simp
  then show ?case
    unfolding collect.simps wp_bindE wp_ret
    by (rule wp_mono) (auto intro!: wp_mono [OF rest] intro: trans stable)
qed

lemma wp_required_Some [wp_simps]: "wp (required v) Q E w = (case v of None \<Rightarrow> E ValidationError w | Some x \<Rightarrow> Q x w)"
  by (cases v) (simp_all add: required_def wp_simps)

text \<open>
  The identity of a case, and where its score comes from: an orchestration of the isolated copy of the
  scenario's alert, under the key of run and scenario, that took the world from \<open>w1\<close> to \<open>w2\<close> during
  the evaluation (from the database \<open>d0\<close> to \<open>d\<close>), and the tool calls stored under its execution.
\<close>

definition case_of :: "string \<Rightarrow> EvaluationScenario \<Rightarrow> EvaluationCaseRecord \<Rightarrow> bool" where
  "case_of rid s c \<longleftrightarrow> Identifier rid = Some (case_run_id c) \<and> case_scenario_id c = strip (sc_scenario_id s)"

definition orchestrated :: "'e env_scheme \<Rightarrow> evaluation_runner \<Rightarrow> string \<Rightarrow> EvaluationScenario \<Rightarrow> OrchestrationOutcome \<Rightarrow>
    world \<Rightarrow> world \<Rightarrow> bool" where
  "orchestrated env rn rid s out w1 w2 \<longleftrightarrow> (\<exists>a alert eid cid. row_get alert_id (sc_alert_id s) (rev (er_alerts rn)) = Some a
     \<and> isolated_alert (sha256 env) a (sc_scenario_id s) = Some alert
     \<and> run env (er_orchestrator rn) alert (rid @ '':'' @ sc_scenario_id s) eid cid w1 = (Inr out, w2))"

definition case_recorded :: "'e env_scheme \<Rightarrow> evaluation_runner \<Rightarrow> string \<Rightarrow> db \<Rightarrow> db \<Rightarrow> EvaluationScenario \<Rightarrow>
    EvaluationCaseRecord \<Rightarrow> bool" where
  "case_recorded env rn rid d0 d s c \<longleftrightarrow> (\<exists>out calls ms w1 w2. 0 \<le> ms \<and> case_score c = score_case s out calls ms
     \<and> out_execution_id out = case_execution_id c \<and> orchestrated env rn rid s out w1 w2
     \<and> calls = invocations_for (case_execution_id c) (store w2) \<and> records_kept d0 (store w1)
     \<and> (if out_durable out
        then calls = invocations_for (case_execution_id c) d \<and> outcome_stored (rid @ '':'' @ sc_scenario_id s) out d
        else outcome_not_stored out \<and> (calls = [] \<or> calls = invocations_for (case_execution_id c) d)))"

lemma validate_case_record_SomeD:
  "validate_case_record c = Some d \<Longrightarrow> Identifier (case_run_id c) = Some (case_run_id d)
     \<and> Identifier (case_execution_id c) = Some (case_execution_id d)
     \<and> case_scenario_id d = strip (case_scenario_id c) \<and> case_score d = case_score c"
  by (auto simp: validate_case_record_def Identifier_def dest: constrained_SomeD split: option.splits)

text \<open>What a run records for a case stays recorded.\<close>

lemma no_invocations:
  assumes "valid_db d" "find_execution i d = None"
  shows "invocations_for i d = []"
proof -
  have "ir_execution_id (row_invocation r) \<noteq> i" if "r \<in> set (tool_invocations d)" for r
    using assms that by (auto simp: valid_db_def valid_invocations_def find_execution_def row_get_None)
  then show ?thesis by (simp add: invocations_for_def filter_empty_conv)
qed

lemma outcome_stored_kept:
  assumes "outcome_stored key out d" "records_kept d d'"
  shows "outcome_stored key out d'" "invocations_for (out_execution_id out) d' = invocations_for (out_execution_id out) d"
proof -
  obtain x where x: "find_execution (out_execution_id out) d = Some x" using assms(1) by (auto simp: outcome_stored_def)
  then obtain x' where "find_execution (out_execution_id out) d' = Some x'" "idempotency_key x' = idempotency_key x"
      "ex_state x \<noteq> TRunning \<Longrightarrow> ex_state x' = ex_state x"
    using assms(2) unfolding records_kept_def by blast
  moreover have "find_result (out_execution_id out) d' = find_result (out_execution_id out) d"
    using x assms(2) by (simp add: records_kept_def)
  ultimately show "outcome_stored key out d'" using assms(1) x by (auto simp: outcome_stored_def split: if_splits)
  show "invocations_for (out_execution_id out) d' = invocations_for (out_execution_id out) d"
    using x assms(2) by (simp add: records_kept_def)
qed

lemma case_recorded_kept:
  assumes "valid_db d" "records_kept d d'" "case_recorded env rn rid d0 d s c"
  shows "case_recorded env rn rid d0 d' s c"
proof -
  obtain out calls ms w1 w2 where c: "0 \<le> ms" "case_score c = score_case s out calls ms" "out_execution_id out = case_execution_id c"
      "orchestrated env rn rid s out w1 w2" "calls = invocations_for (case_execution_id c) (store w2)" "records_kept d0 (store w1)"
    and stored: "if out_durable out
        then calls = invocations_for (case_execution_id c) d \<and> outcome_stored (rid @ '':'' @ sc_scenario_id s) out d
        else outcome_not_stored out \<and> (calls = [] \<or> calls = invocations_for (case_execution_id c) d)"
    using assms(3) unfolding case_recorded_def by blast
  have "calls = [] \<or> calls = invocations_for (case_execution_id c) d'" if "calls = [] \<or> calls = invocations_for (case_execution_id c) d"
    using that no_invocations [OF assms(1)] assms(2) by (cases "find_execution (case_execution_id c) d") (auto simp: records_kept_def)
  then have "if out_durable out
      then calls = invocations_for (case_execution_id c) d' \<and> outcome_stored (rid @ '':'' @ sc_scenario_id s) out d'
      else outcome_not_stored out \<and> (calls = [] \<or> calls = invocations_for (case_execution_id c) d')"
    using stored c(3) outcome_stored_kept [OF _ assms(2), of _ out] by (auto split: if_splits)
  then show ?thesis unfolding case_recorded_def using c by blast
qed

text \<open>The state an evaluation works in: a valid store whose executions are named as the code names them.\<close>

definition ready :: "world \<Rightarrow> bool" where
  "ready w \<longleftrightarrow> sound_world valid_db w \<and> well_named (store w)"

lemma ready_counts [simp]:
  "ready (w\<lparr>id_counts := f\<rparr>) = ready w" "ready (w\<lparr>monotonic_calls := n\<rparr>) = ready w" "ready (w\<lparr>now_calls := n\<rparr>) = ready w"
  "ready (w\<lparr>db_calls := n\<rparr>) = ready w"
  by (simp_all add: ready_def sound_world_def)

lemma ready_fresh [simp]: "d = store w \<Longrightarrow> ready w \<Longrightarrow> ready (w\<lparr>session := d, broken := False\<rparr>)"
  by (simp add: ready_def sound_world_def)

lemma run_ready:
  assumes "validate_limits (orc_gateway_limits orc) = Some (orc_gateway_limits orc)" and "ready w"
  shows "wp (run env orc a key eid cid) (\<lambda>out w'. ready w' \<and> run_records key (store w) out (store w')
    \<and> run env orc a key eid cid w = (Inr out, w')) (\<lambda>_ _. True) w"
proof -
  have valid: "sound_world valid_db w" "valid_db (store w)" "well_named (store w)"
    using assms(2) by (simp_all add: ready_def sound_world_def)
  show ?thesis
    using keeps_dbD [OF valid_store.keeps_run valid(1), of env orc a key eid cid]
      run_records_wp [OF assms(1) valid(2,3), of env a key eid cid]
    by (auto simp: wp_def ready_def run_records_def split: prod.splits sum.splits)
qed

lemma run_records_kept: "run_records key d out d' \<Longrightarrow> records_kept d d'"
  by (simp add: run_records_def)

lemma case_recordedI:
  assumes "run_records key d1 out d" and "key = rid @ '':'' @ sc_scenario_id s"
    and "run env (er_orchestrator rn) alert key eid cid w1 = (Inr out, w2)"
    and "row_get alert_id (sc_alert_id s) (rev (er_alerts rn)) = Some a"
    and "isolated_alert (sha256 env) a (sc_scenario_id s) = Some alert"
    and "validate_case_record \<lparr>case_id = i, case_run_id = rid, case_scenario_id = sc_scenario_id s, case_scenario_version = v,
      case_execution_id = out_execution_id out,
      case_score = score_case s out (invocations_for (out_execution_id out) d) (max 0 ms)\<rparr> = Some c"
    and "store w2 = d" "records_kept from_db (store w1)"
  shows "case_of rid s c" "case_recorded env rn rid from_db d s c"
proof -
  note c = validate_case_record_SomeD [OF assms(6), simplified]
  show "case_of rid s c" using c by (simp add: case_of_def)
  have id: "case_execution_id c = out_execution_id out" using c assms(1) by (simp add: run_records_def)
  have "orchestrated env rn rid s out w1 w2" using assms(2-5) unfolding orchestrated_def by blast
  then show "case_recorded env rn rid from_db d s c"
    unfolding case_recorded_def
    by (intro exI [of _ out] exI [of _ "invocations_for (out_execution_id out) d"] exI [of _ "max 0 ms"] exI [of _ w1] exI [of _ w2])
      (use c assms(1,2,7,8) in \<open>auto simp: id run_records_def\<close>)
qed

lemma run_case_wp:
  assumes "validate_limits (orc_gateway_limits (er_orchestrator rn)) = Some (orc_gateway_limits (er_orchestrator rn))"
    and "ready w" and "records_kept d0 (store w)"
  shows "wp (run_case env rn rid s) (\<lambda>c w'. ready w' \<and> records_kept (store w) (store w')
     \<and> case_of rid s c \<and> case_recorded env rn rid d0 (store w') s c) (\<lambda>_ _. True) w"
proof -
  have step: "wp (run env (er_orchestrator rn) a key eid cid) Q (\<lambda>_ _. True) w1"
    if "ready w1" "store w1 = store w"
      "\<And>out w2. ready w2 \<Longrightarrow> run_records key (store w) out (store w2) \<Longrightarrow>
        run env (er_orchestrator rn) a key eid cid w1 = (Inr out, w2) \<Longrightarrow> Q out w2"
    for a key eid cid w1 and Q :: "OrchestrationOutcome \<Rightarrow> world \<Rightarrow> bool"
    by (rule wp_mono [OF run_ready [OF assms(1)]]) (use that in auto)
  show ?thesis
    using assms(2) unfolding run_case_def
    by (auto simp: wp_simps invocations_list_for_execution_def split: option.splits intro!: step)
      (erule run_records_kept,
        (erule case_recordedI [where from_db = d0], simp, assumption, assumption, assumption, assumption, simp, simp add: assms(3))+)
qed

subsection \<open>Storing a run\<close>

lemma add_cases_wp:
  assumes "\<And>b. (broken w \<longrightarrow> b) \<Longrightarrow> Q () (w\<lparr>session := (session w)\<lparr>evaluation_case_results := evaluation_case_results (session w) @ cs\<rparr>, broken := b\<rparr>)"
  shows "wp (for_each cs evaluations_add_case) Q E w"
  using assms
proof (induction cs arbitrary: w)
  case Nil
  have "Q () (w\<lparr>session := (session w)\<lparr>evaluation_case_results := evaluation_case_results (session w) @ []\<rparr>, broken := broken w\<rparr>)"
    by (rule Nil) simp
  then show ?case by (simp add: wp_simps)
next
  case (Cons c cs)
  show ?case
    unfolding for_each.simps evaluations_add_case_def wp_bindE wp_stage
    by (rule Cons.IH [unfolded evaluations_add_case_def]) (use Cons.prems in \<open>simp add: insert_case_def\<close>)
qed

text \<open>What the store holds of a run once it is committed.\<close>

definition stored_run :: "EvaluationRunRecord \<Rightarrow> EvaluationCaseRecord list \<Rightarrow> db \<Rightarrow> bool" where
  "stored_run r cases d \<longleftrightarrow> find_run (run_id r) d = Some r \<and> cases_of (run_id r) d = sort_key case_scenario_id cases"

lemma no_cases_of_new_run:
  assumes "valid_db d" and "run_admissible r d"
  shows "filter (\<lambda>c. case_run_id c = run_id r) (evaluation_case_results d) = []"
proof -
  have "case_run_id ` set (evaluation_case_results d) \<subseteq> run_id ` set (evaluation_runs d)"
    using assms(1) by (simp add: valid_db_def valid_evaluations_def)
  moreover have "run_id r \<notin> run_id ` set (evaluation_runs d)" using assms(2) by (simp add: run_admissible_def)
  ultimately show ?thesis unfolding filter_empty_conv by (metis image_eqI subsetD)
qed

text \<open>Storing a run writes no record of an execution.\<close>

definition same_triage :: "db \<Rightarrow> db \<Rightarrow> bool" where
  "same_triage d d' \<longleftrightarrow> triage_executions d' = triage_executions d \<and> tool_invocations d' = tool_invocations d
     \<and> triage_results d' = triage_results d"

lemma case_recorded_same: "same_triage d d' \<Longrightarrow> case_recorded env rn rid d0 d' s c = case_recorded env rn rid d0 d s c"
  by (simp add: same_triage_def case_recorded_def outcome_stored_def find_execution_def invocations_for_def find_result_def)

lemma store_run_wp:
  assumes "valid_db (store w)" and "\<And>c. c \<in> set cases \<Longrightarrow> case_run_id c = run_id r"
  shows "wp (store_run env r cases) (\<lambda>_ w'. stored_run r cases (store w') \<and> same_triage (store w) (store w')) (\<lambda>_ _. True) w"
proof -
  let ?d = "(insert_run r (store w))\<lparr>evaluation_case_results := evaluation_case_results (store w) @ cases\<rparr>"
  have stored: "stored_run r cases ?d" if "run_admissible r (store w)"
    using no_cases_of_new_run [OF assms(1) that] run_repo.add_lookup [OF that] assms(2)
    by (simp add: stored_run_def cases_of_def find_run_def insert_run_def filter_id_conv)
  have evs: "evaluation_case_results (insert_run r (store w)) = evaluation_case_results (store w)"
    and same: "same_triage (store w) ?d"
    by (simp_all add: insert_run_def same_triage_def)
  show ?thesis
    unfolding store_run_def
    by (auto simp: wp_simps evaluations_add_run_def Let_def evs split: option.splits intro!: add_cases_wp stored same)
qed

subsection \<open>The run\<close>

lemma case_ofD: "case_of rid s c \<Longrightarrow> Identifier rid = Some i \<Longrightarrow> case_run_id c = i"
  by (simp add: case_of_def)

lemma validate_run_record_SomeD:
  "validate_run_record r = Some q \<Longrightarrow> Identifier (run_id r) = Some (run_id q) \<and> aggregate q = aggregate r"
  by (auto simp: validate_run_record_def split: option.splits)

text \<open>What a returned report says of the chosen scenarios and of the store.\<close>

definition good_report :: "'e env_scheme \<Rightarrow> evaluation_runner \<Rightarrow> db \<Rightarrow> EvaluationScenario list \<Rightarrow> EvaluationReport \<Rightarrow> db \<Rightarrow> bool" where
  "good_report env rn d0 ss rep d \<longleftrightarrow>
     (\<exists>rid. list_all2 (\<lambda>s c. case_of rid s c \<and> case_recorded env rn rid d0 d s c) ss (rep_cases rep)
        \<and> Identifier rid = Some (run_id (rep_run rep)))
     \<and> aggregate_scores (map case_score (rep_cases rep)) = Some (aggregate (rep_run rep))
     \<and> stored_run (rep_run rep) (rep_cases rep) d"

lemma collect_cases_wp:
  assumes "validate_limits (orc_gateway_limits (er_orchestrator rn)) = Some (orc_gateway_limits (er_orchestrator rn))"
    and "ready w" and "records_kept d0 (store w)"
  shows "wp (collect (run_case env rn rid) ss)
    (\<lambda>cs w'. ready w' \<and> list_all2 (\<lambda>s c. case_of rid s c \<and> case_recorded env rn rid d0 (store w') s c) ss cs) (\<lambda>_ _. True) w"
proof (rule wp_mono [OF wp_collect [where I = "\<lambda>w. ready w \<and> records_kept d0 (store w)"
      and K = "\<lambda>w w'. records_kept (store w) (store w')"
      and R = "\<lambda>s c w'. case_of rid s c \<and> case_recorded env rn rid d0 (store w') s c"]])
  show "wp (run_case env rn rid s) (\<lambda>c w'. (ready w' \<and> records_kept d0 (store w')) \<and> records_kept (store v) (store w')
      \<and> (case_of rid s c \<and> case_recorded env rn rid d0 (store w') s c)) (\<lambda>_ _. True) v"
    if "ready v \<and> records_kept d0 (store v)" for s v
    using that by (intro wp_mono [OF run_case_wp [OF assms(1)]]) (auto intro: records_kept_trans)
  show "case_of rid s c \<and> case_recorded env rn rid d0 (store v') s c"
    if "ready v \<and> records_kept d0 (store v)" "records_kept (store v) (store v')"
      "case_of rid s c \<and> case_recorded env rn rid d0 (store v) s c" for s c v v'
    using that case_recorded_kept by (auto simp: ready_def sound_world_def)
qed (use assms(2,3) records_kept_refl records_kept_trans in auto)

lemma store_report_wp:
  assumes "ready w" and "list_all2 (\<lambda>s c. case_of rid s c \<and> case_recorded env rn rid d0 (store w) s c) ss cs"
    and "aggregate_scores (map case_score cs) = Some agg" and "validate_run_record (run_record rn rid t0 t1 agg) = Some r"
  shows "wp (store_run env r cs) (\<lambda>_ w'. good_report env rn d0 ss \<lparr>rep_run = r, rep_cases = cs\<rparr> (store w')) (\<lambda>_ _. True) w"
proof -
  have rid: "Identifier rid = Some (run_id r)" and agg: "aggregate r = agg"
    using validate_run_record_SomeD [OF assms(4)] by (simp_all add: run_record_def)
  have "case_run_id c = run_id r" if "c \<in> set cs" for c
    using that assms(2) case_ofD [OF _ rid] by (auto simp: list_all2_conv_all_nth in_set_conv_nth)
  moreover have "valid_db (store w)" using assms(1) by (simp add: ready_def sound_world_def)
  ultimately show ?thesis
    by (intro wp_mono [OF store_run_wp]) (use assms(2,3) rid agg in \<open>auto simp: good_report_def case_recorded_same\<close>)
qed

lemma evaluate_scenarios_wp:
  assumes "validate_limits (orc_gateway_limits (er_orchestrator rn)) = Some (orc_gateway_limits (er_orchestrator rn))"
    and "ready w"
  shows "wp (evaluate_scenarios env rn ss) (\<lambda>rep w'. good_report env rn (store w) ss rep (store w')) (\<lambda>_ _. True) w"
  unfolding evaluate_scenarios_def wp_bindE wp_next_id wp_now
  by (rule wp_mono [OF collect_cases_wp [OF assms(1), where ?d0.0 = "store w"]])
    (use assms(2) in \<open>auto simp: wp_simps records_kept_refl split: option.split intro!: store_report_wp\<close>)

end
