(* ===== verification/Evaluation_Properties.thy ===== *)
theory Evaluation_Properties
  imports Evaluation_Runner Orchestrator_Example
begin



subsection \<open>A run\<close>

text \<open>The store already holds an execution under the key of the case, so the run replays it.\<close>

definition single_scenario :: EvaluationScenario where
  "single_scenario = sample_scenario\<lparr>forbidden_tools := []\<rparr>"


definition single_suite :: EvaluationSuite where
  "single_suite = \<lparr>suite_schema_version = ''1.0'', suite_version = ''1'', suite_fixture_version = ''v1'',
     scenarios = [single_scenario]\<rparr>"



definition sample_runner :: evaluation_runner where
  "sample_runner = \<lparr>er_suite = single_suite, er_alerts = [synthetic_alert], er_orchestrator = sample_orchestrator,
     er_reasoner_label = ''demo'', er_reasoner_implementation = ''DemoReasoner'', er_provider = ''offline'',
     er_model = ''demo'', er_prompt_version = ''demo-v1'', er_policy_version = ''1.0.0'', er_application_version = ''0.1''\<rparr>"

definition recorded_db :: db where
  "recorded_db = sample_db\<lparr>triage_executions := [sample_execution\<lparr>idempotency_key := ''id-:case-1''\<rparr>]\<rparr>"




lemma run_texts [simp]:
  "Identifier ''case-1'' = Some ''case-1''" "Identifier ''exec-1'' = Some ''exec-1''" "Identifier ''demo'' = Some ''demo''"
  "Identifier ''DemoReasoner'' = Some ''DemoReasoner''" "Identifier ''offline'' = Some ''offline''"
  "Version ''v1'' = Some ''v1''" "Version ''demo-v1'' = Some ''demo-v1''" "Version ''0.1'' = Some ''0.1''"
  by code_simp+

lemma sample_runner_sels [simp]:
  "er_suite sample_runner = single_suite" "er_alerts sample_runner = [synthetic_alert]"
  "er_orchestrator sample_runner = sample_orchestrator" "er_reasoner_label sample_runner = ''demo''"
  "er_reasoner_implementation sample_runner = ''DemoReasoner''" "er_provider sample_runner = ''offline''"
  "er_model sample_runner = ''demo''" "er_prompt_version sample_runner = ''demo-v1''"
  "er_policy_version sample_runner = ''1.0.0''" "er_application_version sample_runner = ''0.1''"
  by (simp_all add: sample_runner_def)

lemma single_sels [simp]:
  "sc_scenario_id single_scenario = ''case-1''" "sc_scenario_version single_scenario = ''1.0''"
  "sc_alert_id single_scenario = ''alert-1''" "scenarios single_suite = [single_scenario]"
  "allowed_dispositions single_scenario = [BENIGN, NEEDS_REVIEW]" "suite_version single_suite = ''1''"
  "suite_schema_version single_suite = ''1.0''" "suite_fixture_version single_suite = ''v1''"
  "alert_id synthetic_alert = ''alert-1''"
  by (simp_all add: single_scenario_def sample_scenario_def single_suite_def synthetic_alert_def)

lemma recorded_sels [simp]:
  "triage_executions recorded_db = [sample_execution\<lparr>idempotency_key := ''id-:case-1''\<rparr>]"
  "tool_invocations recorded_db = []" "triage_results recorded_db = [result_row ''result-1'' ''exec-1'' sample_result]"
  "evaluation_runs recorded_db = []" "evaluation_case_results recorded_db = []" "ex_execution_id sample_execution = ''exec-1''"
  by (simp_all add: recorded_db_def sample_db_def sample_execution_def)

definition single_aggregate :: "OrchestrationOutcome \<Rightarrow> ToolInvocationRecord list \<Rightarrow> int \<Rightarrow> EvaluationAggregate" where
  "single_aggregate out calls ms = the (aggregate_scores [score_case single_scenario out calls ms])"

lemma single_aggregate [simp]:
  "aggregate_scores [score_case single_scenario out calls ms] = Some (single_aggregate out calls ms)"
proof -
  have "\<exists>a. aggregate_scores [score_case single_scenario out calls ms] = Some a"
    unfolding aggregate_scores_total by (simp add: score_sels)
  then show ?thesis by (auto simp: single_aggregate_def)
qed





end
