(* ===== verification/Fixture_Tools.thy ===== *)
theory Fixture_Tools
  imports Fixtures Tool_Gateway "HOL-Library.Product_Lexorder"
begin

text \<open>
  The seven fixture-backed evidence tools (\<open>adapters/tools/fixtures.py\<close>). A tool is a pure lookup
  in the validated snapshot; \<open>None\<close> is an exception raised inside it. The request is the one field
  of the tool's request model.
\<close>

datatype fixture_tool =
    FixtureRecentSignInsTool | FixtureUserRiskTool | FixtureDeviceContextTool | FixtureIpReputationTool
  | FixtureMfaEventsTool | FixtureRelatedAlertsTool | FixtureIdentityContextTool

definition TOOL_VERSION :: string where "TOOL_VERSION = ''1.0.0''"

definition DEFAULT_TIMEOUT_MS :: int where "DEFAULT_TIMEOUT_MS = 250"

definition fixture_meta :: "string \<Rightarrow> RequestModel \<Rightarrow> (pyval \<Rightarrow> bool) \<Rightarrow> EvidenceTool" where
  "fixture_meta name req resp = \<lparr>tool_name = name, tool_version = TOOL_VERSION, access = READ_ONLY,
     data_classification = SYNTHETIC_DEMO, timeout_ms = DEFAULT_TIMEOUT_MS, request_model = req, response_model = resp\<rparr>"

fun metadata :: "fixture_tool \<Rightarrow> EvidenceTool" where
  "metadata FixtureRecentSignInsTool = fixture_meta ''get_recent_signins'' UserRequest RecentSignInsModel"
| "metadata FixtureUserRiskTool = fixture_meta ''get_user_risk'' UserRequest UserRiskModel"
| "metadata FixtureDeviceContextTool = fixture_meta ''get_device_context'' DeviceRequest DeviceContextModel"
| "metadata FixtureIpReputationTool = fixture_meta ''get_ip_reputation'' IpAddressRequest IpReputationModel"
| "metadata FixtureMfaEventsTool = fixture_meta ''get_mfa_events'' UserRequest MfaEventsModel"
| "metadata FixtureRelatedAlertsTool = fixture_meta ''find_related_alerts'' UserRequest RelatedAlertsModel"
| "metadata FixtureIdentityContextTool = fixture_meta ''get_identity_context'' UserRequest IdentityContextModel"

text \<open>The tools in the order in which the composition root registers them.\<close>

definition all_fixture_tools :: "fixture_tool list" where
  "all_fixture_tools =
     [FixtureRecentSignInsTool, FixtureUserRiskTool, FixtureDeviceContextTool, FixtureIpReputationTool,
      FixtureMfaEventsTool, FixtureRelatedAlertsTool, FixtureIdentityContextTool]"

subsection \<open>Envelopes\<close>

definition tool_provenance :: "FixtureDataset \<Rightarrow> fixture_tool \<Rightarrow> ToolProvenance" where
  "tool_provenance ds tool = \<lparr>prov_tool_name = tool_name (metadata tool), prov_tool_version = tool_version (metadata tool),
     fixture_version = fx_fixture_version (manifest ds)\<rparr>"

definition found :: "FixtureDataset \<Rightarrow> fixture_tool \<Rightarrow> pyval \<Rightarrow> ToolOutcome option" where
  "found ds tool payload = Some (Found (tool_provenance ds tool) payload)"

definition not_found_message :: "string \<Rightarrow> string \<Rightarrow> string" where
  "not_found_message rt i = ''Synthetic '' @ rt @ '' not found for '' @ i"

text \<open>Construction of a \<open>NotFound\<close> validates the identifier it reports.\<close>

definition not_found :: "FixtureDataset \<Rightarrow> fixture_tool \<Rightarrow> string \<Rightarrow> string \<Rightarrow> ToolOutcome option" where
  "not_found ds tool rt i =
     (case (Identifier rt, Identifier i, ShortText (not_found_message rt i)) of
        (Some r, Some j, Some m) \<Rightarrow> Some (NotFound (tool_provenance ds tool) r j m)
      | _ \<Rightarrow> None)"

subsection \<open>Lookups\<close>

text \<open>\<open>sorted(xs, key=key, reverse=True)\<close> keeps the order of equal keys.\<close>

definition sorted_desc :: "('x \<Rightarrow> 'k::linorder) \<Rightarrow> 'x list \<Rightarrow> 'x list" where
  "sorted_desc key xs = rev (sort_key key (rev xs))"

definition window_start :: "FixtureManifest \<Rightarrow> time" where
  "window_start m = reference_time m - recent_signin_window_hours m * 3600 * 1000000"

definition recent_sign_ins :: "FixtureDataset \<Rightarrow> string \<Rightarrow> RecentSignIns" where
  "recent_sign_ins ds u =
     \<lparr>rs_user_id = u, rs_reference_time = reference_time (manifest ds), window_started_at = window_start (manifest ds),
      sign_ins = sorted_desc (\<lambda>s. (si_occurred_at s, sign_in_id s))
        (filter (\<lambda>s. si_user_id s = u \<and> window_start (manifest ds) \<le> si_occurred_at s
           \<and> si_occurred_at s \<le> reference_time (manifest ds)) (fx_sign_ins ds))\<rparr>"

definition mfa_events_of :: "FixtureDataset \<Rightarrow> string \<Rightarrow> MfaEvents" where
  "mfa_events_of ds u = \<lparr>me_user_id = u,
     mfa_list = sorted_desc (\<lambda>m. (mfa_occurred_at m, mfa_event_id m)) (filter (\<lambda>m. mfa_user_id m = u) (mfa_events ds))\<rparr>"

definition summarize :: "SecurityAlert \<Rightarrow> RelatedAlertSummary" where
  "summarize a = \<lparr>ra_alert_id = alert_id a, ra_title = title a, ra_source_severity = source_severity a,
     ra_occurred_at = occurred_at a\<rparr>"

text \<open>\<open>alerts_by_id[alert_id]\<close> raises \<open>KeyError\<close> for an unknown alert.\<close>

definition related_alerts_of :: "FixtureDataset \<Rightarrow> string \<Rightarrow> RelatedAlerts option" where
  "related_alerts_of ds u =
     (let ids = (case row_get rr_user_id u (related_alerts ds) of None \<Rightarrow> [] | Some r \<Rightarrow> rr_alert_ids r)
      in map_option (\<lambda>as. \<lparr>rel_user_id = u,
             rel_alerts = sorted_desc (\<lambda>a. (ra_occurred_at a, ra_alert_id a)) (map summarize as)\<rparr>)
           (all_valid (\<lambda>i. row_get alert_id i (rev (fx_alerts ds))) ids))"

definition has_identity :: "FixtureDataset \<Rightarrow> string \<Rightarrow> bool" where
  "has_identity ds u \<longleftrightarrow> u \<in> set (map ic_user_id (identities ds))"

fun execute :: "(time \<Rightarrow> string) \<Rightarrow> FixtureDataset \<Rightarrow> fixture_tool \<Rightarrow> string \<Rightarrow> ToolOutcome option" where
  "execute utc ds FixtureRecentSignInsTool u =
     (if has_identity ds u then found ds FixtureRecentSignInsTool (recent_sign_ins_dump utc (recent_sign_ins ds u))
      else not_found ds FixtureRecentSignInsTool ''identity'' u)"
| "execute utc ds FixtureUserRiskTool u =
     (case row_get ur_user_id u (user_risks ds) of
        Some r \<Rightarrow> found ds FixtureUserRiskTool (user_risk_dump utc r)
      | None \<Rightarrow> not_found ds FixtureUserRiskTool ''user-risk'' u)"
| "execute utc ds FixtureDeviceContextTool d =
     (case row_get dc_device_id d (devices ds) of
        Some x \<Rightarrow> found ds FixtureDeviceContextTool (device_dump utc x)
      | None \<Rightarrow> not_found ds FixtureDeviceContextTool ''device'' d)"
| "execute utc ds FixtureIpReputationTool a =
     (case row_get rep_ip_address a (ip_reputations ds) of
        Some x \<Rightarrow> found ds FixtureIpReputationTool (reputation_dump utc x)
      | None \<Rightarrow> not_found ds FixtureIpReputationTool ''ip-reputation'' a)"
| "execute utc ds FixtureMfaEventsTool u =
     (if has_identity ds u then found ds FixtureMfaEventsTool (mfa_events_dump utc (mfa_events_of ds u))
      else not_found ds FixtureMfaEventsTool ''identity'' u)"
| "execute utc ds FixtureRelatedAlertsTool u =
     (if has_identity ds u then
        (case related_alerts_of ds u of None \<Rightarrow> None
         | Some x \<Rightarrow> found ds FixtureRelatedAlertsTool (related_alerts_dump utc x))
      else not_found ds FixtureRelatedAlertsTool ''identity'' u)"
| "execute utc ds FixtureIdentityContextTool u =
     (case row_get ic_user_id u (identities ds) of
        Some x \<Rightarrow> found ds FixtureIdentityContextTool (identity_dump x)
      | None \<Rightarrow> not_found ds FixtureIdentityContextTool ''identity'' u)"

subsection \<open>Descending order\<close>

lemma set_sorted_desc [simp]: "set (sorted_desc key xs) = set xs"
  by (simp add: sorted_desc_def)

lemma distinct_sorted_desc [simp]: "distinct (sorted_desc key xs) = distinct xs"
  by (simp add: sorted_desc_def distinct_sort)

lemma sorted_desc_sorted: "sorted_wrt (\<lambda>x y. key y \<le> key x) (sorted_desc key xs)"
proof -
  have "sorted_wrt (\<lambda>x y. key x \<le> key y) (sort_key key (rev xs))"
    using sorted_sort_key [of key "rev xs"] by (simp add: sorted_map)
  then show ?thesis by (simp add: sorted_desc_def sorted_wrt_rev)
qed

subsection \<open>The registry of the fixture tools\<close>

lemma fixture_tools_register:
  "tool_registry (map metadata all_fixture_tools) = Inr (map (\<lambda>t. (tool_name (metadata t), metadata t)) all_fixture_tools)"
  by (simp add: tool_registry_def all_fixture_tools_def registry_admit_def APPROVED_EVIDENCE_TOOLS_def fixture_meta_def
    DEFAULT_TIMEOUT_MS_def)

definition fixture_registry :: ToolRegistry where
  "fixture_registry = map (\<lambda>t. (tool_name (metadata t), metadata t)) all_fixture_tools"

lemma fixture_lookup: "registry_lookup fixture_registry (tool_name (metadata t)) = Some (metadata t)"
  by (cases t) (simp_all add: registry_lookup_def fixture_registry_def all_fixture_tools_def fixture_meta_def)

declare metadata.simps [simp del]

end
