(* ===== verification/Fixture_Correct.thy ===== *)
theory Fixture_Correct
  imports Fixture_Tools Gateway_Correct
begin

text \<open>
  The fixture tools on a loaded snapshot: every lookup answers with an envelope of its declared
  response model, the sign-ins of a user are exactly those of the window, and related alerts resolve.
\<close>

subsection \<open>What loading establishes\<close>

definition loaded :: "FixtureDataset \<Rightarrow> bool" where
  "loaded ds \<longleftrightarrow> (\<exists>parsed. load_fixture_dataset parsed = Inr ds)"

lemma loadedD:
  assumes "loaded ds"
  shows "dataset_integrity ds" and "\<exists>raw. typed_dataset raw = Some ds"
  using assms
  by (auto simp: loaded_def load_fixture_dataset_def validation_is_integrity [symmetric] bind_eq_Some_conv
    split: option.splits)

lemma typed_dataset_SomeD:
  assumes "typed_dataset raw = Some ds"
  shows "all_valid validate_identity (identities raw) = Some (identities ds)"
    and "all_valid validate_user_risk (user_risks raw) = Some (user_risks ds)"
    and "all_valid validate_device (devices raw) = Some (devices ds)"
    and "all_valid validate_sign_in (fx_sign_ins raw) = Some (fx_sign_ins ds)"
    and "all_valid validate_reputation (ip_reputations raw) = Some (ip_reputations ds)"
    and "all_valid validate_mfa_event (mfa_events raw) = Some (mfa_events ds)"
    and "all_valid validate_alert (fx_alerts raw) = Some (fx_alerts ds)"
  using assms by (auto simp: typed_dataset_def split: option.splits)

lemma typed_dataset_records:
  assumes "typed_dataset raw = Some ds"
  shows "x \<in> set (identities ds) \<Longrightarrow> \<exists>y. validate_identity y = Some x"
    and "r \<in> set (user_risks ds) \<Longrightarrow> \<exists>y. validate_user_risk y = Some r"
    and "d \<in> set (devices ds) \<Longrightarrow> \<exists>y. validate_device y = Some d"
    and "s \<in> set (fx_sign_ins ds) \<Longrightarrow> \<exists>y. validate_sign_in y = Some s"
    and "i \<in> set (ip_reputations ds) \<Longrightarrow> \<exists>y. validate_reputation y = Some i"
    and "m \<in> set (mfa_events ds) \<Longrightarrow> \<exists>y. validate_mfa_event y = Some m"
    and "a \<in> set (fx_alerts ds) \<Longrightarrow> \<exists>y. validate_alert y = Some a"
  using typed_dataset_SomeD [OF assms, THEN all_valid_SomeD] by blast+

subsection \<open>Typed payloads\<close>

lemma recent_sign_ins_typed:
  assumes "loaded ds" and "Identifier u = Some u"
  shows "RecentSignInsModel (recent_sign_ins_dump utc (recent_sign_ins ds u))"
proof -
  obtain raw where raw: "typed_dataset raw = Some ds" using loadedD(2) [OF assms(1)] by blast
  have "SignInModel (sign_in_dump utc s)" if "s \<in> set (fx_sign_ins ds)" for s
    using typed_dataset_records(4) [OF raw that] sign_in_typed by blast
  then show ?thesis
    using assms(2) by (simp add: RecentSignInsModel_def recent_sign_ins_dump_def recent_sign_ins_def list_all_iff)
qed

lemma mfa_events_typed:
  assumes "loaded ds" and "Identifier u = Some u"
  shows "MfaEventsModel (mfa_events_dump utc (mfa_events_of ds u))"
proof -
  obtain raw where raw: "typed_dataset raw = Some ds" using loadedD(2) [OF assms(1)] by blast
  have "MfaEventModel (mfa_event_dump utc m)" if "m \<in> set (mfa_events ds)" for m
    using typed_dataset_records(6) [OF raw that] mfa_event_typed by blast
  then show ?thesis
    using assms(2) by (simp add: MfaEventsModel_def mfa_events_dump_def mfa_events_of_def list_all_iff)
qed

lemma summary_typed: "validate_alert y = Some a \<Longrightarrow> RelatedAlertSummaryModel (related_summary_dump utc (summarize a))"
  by (auto simp: validate_alert_def Let_def RelatedAlertSummaryModel_def related_summary_dump_def summarize_def stable enum_typed
    split: option.splits if_splits)

lemma all_valid_total: "(\<And>x. x \<in> set xs \<Longrightarrow> v x \<noteq> None) \<Longrightarrow> all_valid v xs = Some (map (\<lambda>x. the (v x)) xs)"
  by (induction xs) (auto split: option.splits)

text \<open>Every related alert of an integral snapshot is found, so the mapping is total.\<close>

lemma related_alerts_total:
  assumes "dataset_integrity ds"
  shows "\<exists>r. related_alerts_of ds u = Some r"
proof -
  have res: "\<forall>r \<in> set (related_alerts ds). \<forall>a \<in> set (rr_alert_ids r). \<exists>x \<in> set (fx_alerts ds). alert_id x = a"
    using assms unfolding dataset_integrity_def references_resolve_def by blast
  let ?ids = "case row_get rr_user_id u (related_alerts ds) of None \<Rightarrow> [] | Some r \<Rightarrow> rr_alert_ids r"
  have "row_get alert_id i (rev (fx_alerts ds)) \<noteq> None" if "i \<in> set ?ids" for i
  proof (cases "row_get rr_user_id u (related_alerts ds)")
    case None
    then show ?thesis using that by simp
  next
    case (Some r)
    then have "\<exists>x \<in> set (fx_alerts ds). alert_id x = i" using res row_get_SomeD [OF Some] that by (simp del: bex_simps) blast
    then show ?thesis unfolding row_get_None by auto
  qed
  then have "all_valid (\<lambda>i. row_get alert_id i (rev (fx_alerts ds))) ?ids
      = Some (map (\<lambda>i. the (row_get alert_id i (rev (fx_alerts ds)))) ?ids)"
    by (rule all_valid_total)
  then show ?thesis unfolding related_alerts_of_def Let_def by simp
qed

lemma related_alerts_typed:
  assumes "loaded ds" and "Identifier u = Some u" and "related_alerts_of ds u = Some r"
  shows "RelatedAlertsModel (related_alerts_dump utc r)"
proof -
  obtain raw where raw: "typed_dataset raw = Some ds" using loadedD(2) [OF assms(1)] by blast
  obtain ids as where found: "all_valid (\<lambda>i. row_get alert_id i (rev (fx_alerts ds))) ids = Some as"
    and r: "r = \<lparr>rel_user_id = u, rel_alerts = sorted_desc (\<lambda>a. (ra_occurred_at a, ra_alert_id a)) (map summarize as)\<rparr>"
    using assms(3) unfolding related_alerts_of_def Let_def map_option_eq_Some by blast
  have sub: "\<exists>a \<in> set (fx_alerts ds). x = summarize a" if "x \<in> set (rel_alerts r)" for x
    using that all_valid_SomeD [OF found] row_get_SomeD unfolding r by fastforce
  have "RelatedAlertSummaryModel (related_summary_dump utc x)" if "x \<in> set (rel_alerts r)" for x
    using sub [OF that] typed_dataset_records(7) [OF raw] summary_typed by blast
  moreover have "rel_user_id r = u" by (simp add: r)
  ultimately show ?thesis
    using assms(2) by (simp add: RelatedAlertsModel_def related_alerts_dump_def list_all_iff)
qed

subsection \<open>Absence\<close>

lemma strip_with_fixed: "s \<noteq> [] \<Longrightarrow> \<not> sp (hd s) \<Longrightarrow> \<not> sp (last s) \<Longrightarrow> strip_with sp s = s"
  by (simp add: strip_with_def dropWhile_id hd_rev)

lemma Identifier_ends: "Identifier i = Some i \<Longrightarrow> i \<noteq> [] \<and> length i \<le> 128 \<and> \<not> is_space (last i)"
proof -
  assume "Identifier i = Some i"
  then have "i = strip i \<and> 1 \<le> length i \<and> length i \<le> 128" by (simp add: Identifier_def constrained_SomeD)
  then show ?thesis using strip_with_ends [of is_space i] by (cases "i = []") simp_all
qed

definition resource_types :: "string list" where
  "resource_types = [''identity'', ''user-risk'', ''device'', ''ip-reputation'']"

lemma resource_types_valid: "rt \<in> set resource_types \<Longrightarrow> Identifier rt = Some rt \<and> length rt \<le> 13"
proof -
  have "list_all (\<lambda>rt. Identifier rt = Some rt \<and> length rt \<le> 13) resource_types" by code_simp
  then show "rt \<in> set resource_types \<Longrightarrow> ?thesis" by (simp add: list_all_iff)
qed

lemma not_found_total:
  assumes "rt \<in> set resource_types" and "Identifier i = Some i"
  shows "not_found ds tool rt i = Some (NotFound (tool_provenance ds tool) rt i (not_found_message rt i))"
proof -
  have i: "i \<noteq> []" "length i \<le> 128" "\<not> is_space (last i)" using Identifier_ends [OF assms(2)] by auto
  have rt: "Identifier rt = Some rt" "length rt \<le> 13" using resource_types_valid [OF assms(1)] by auto
  have "last (not_found_message rt i) = last i" "hd (not_found_message rt i) = CHR ''S''"
    using i(1) by (simp_all add: not_found_message_def)
  moreover have "\<not> is_space (CHR ''S'')" by code_simp
  ultimately have "strip (not_found_message rt i) = not_found_message rt i"
    using i(3) by (intro strip_with_fixed) (auto simp: not_found_message_def)
  then have "ShortText (not_found_message rt i) = Some (not_found_message rt i)"
    using i(2) rt(2) by (simp add: ShortText_def constrained_def not_found_message_def)
  then show ?thesis using rt(1) assms(2) by (simp add: not_found_def)
qed

subsection \<open>Answers\<close>

lemma found_validates:
  "response_model (metadata tool) payload \<Longrightarrow> validate_outcome (metadata tool) (Found p payload) = Some (outcome_dump (Found p payload))"
  by simp

lemma response_models [simp]:
  "response_model (metadata FixtureRecentSignInsTool) = RecentSignInsModel"
  "response_model (metadata FixtureUserRiskTool) = UserRiskModel"
  "response_model (metadata FixtureDeviceContextTool) = DeviceContextModel"
  "response_model (metadata FixtureIpReputationTool) = IpReputationModel"
  "response_model (metadata FixtureMfaEventsTool) = MfaEventsModel"
  "response_model (metadata FixtureRelatedAlertsTool) = RelatedAlertsModel"
  "response_model (metadata FixtureIdentityContextTool) = IdentityContextModel"
  by (simp_all add: metadata.simps fixture_meta_def)

text \<open>What a tool has a record of, and what it calls the record when there is none.\<close>

fun known :: "FixtureDataset \<Rightarrow> fixture_tool \<Rightarrow> string \<Rightarrow> bool" where
  "known ds FixtureUserRiskTool i \<longleftrightarrow> i \<in> ur_user_id ` set (user_risks ds)"
| "known ds FixtureDeviceContextTool i \<longleftrightarrow> i \<in> dc_device_id ` set (devices ds)"
| "known ds FixtureIpReputationTool i \<longleftrightarrow> i \<in> rep_ip_address ` set (ip_reputations ds)"
| "known ds _ i \<longleftrightarrow> i \<in> ic_user_id ` set (identities ds)"

fun resource_type :: "fixture_tool \<Rightarrow> string" where
  "resource_type FixtureUserRiskTool = ''user-risk''"
| "resource_type FixtureDeviceContextTool = ''device''"
| "resource_type FixtureIpReputationTool = ''ip-reputation''"
| "resource_type _ = ''identity''"

text \<open>The record a tool has, in its declared form, or the report that it has none.\<close>

definition good_answer :: "FixtureDataset \<Rightarrow> fixture_tool \<Rightarrow> string \<Rightarrow> ToolOutcome \<Rightarrow> bool" where
  "good_answer ds tool i out \<longleftrightarrow>
     (if known ds tool i
      then \<exists>payload. out = Found (tool_provenance ds tool) payload \<and> response_model (metadata tool) payload
      else out = NotFound (tool_provenance ds tool) (resource_type tool) i (not_found_message (resource_type tool) i))"

lemma user_named:
  assumes "loaded ds" and "u \<in> ic_user_id ` set (identities ds)"
  shows "Identifier u = Some u"
proof -
  obtain raw where raw: "typed_dataset raw = Some ds" using loadedD(2) [OF assms(1)] by blast
  obtain x y where "u = ic_user_id x" "validate_identity y = Some x"
    using assms(2) typed_dataset_records(1) [OF raw] by blast
  then show ?thesis by (auto simp: validate_identity_def intro: Identifier_stable split: option.splits if_splits)
qed

lemma row_known: "i \<in> key ` set rows \<Longrightarrow> \<exists>r. row_get key i rows = Some r \<and> r \<in> set rows"
  using row_get_None [of key i rows] row_get_SomeD [of key i rows] by (cases "row_get key i rows") auto

lemma known_answer:
  assumes "loaded ds" and "known ds tool i"
  shows "\<exists>payload. execute utc ds tool i = Some (Found (tool_provenance ds tool) payload) \<and> response_model (metadata tool) payload"
proof -
  obtain raw where raw: "typed_dataset raw = Some ds" using loadedD(2) [OF assms(1)] by blast
  note typed = typed_dataset_records [OF raw]
  have user: "has_identity ds i" "Identifier i = Some i" if "i \<in> ic_user_id ` set (identities ds)"
    using that user_named [OF assms(1)] by (simp_all add: has_identity_def)
  show ?thesis
  proof (cases tool)
    case FixtureRecentSignInsTool
    then show ?thesis using assms user recent_sign_ins_typed by (auto simp: found_def)
  next
    case FixtureUserRiskTool
    then have "i \<in> ur_user_id ` set (user_risks ds)" using assms(2) by simp
    from row_known [OF this] obtain r where r: "row_get ur_user_id i (user_risks ds) = Some r" "r \<in> set (user_risks ds)" by blast
    then have "response_model (metadata tool) (user_risk_dump utc r)"
      using typed(2) user_risk_typed unfolding FixtureUserRiskTool response_models by blast
    then show ?thesis using FixtureUserRiskTool r(1) by (simp add: found_def)
  next
    case FixtureDeviceContextTool
    then have "i \<in> dc_device_id ` set (devices ds)" using assms(2) by simp
    from row_known [OF this] obtain r where r: "row_get dc_device_id i (devices ds) = Some r" "r \<in> set (devices ds)" by blast
    then have "response_model (metadata tool) (device_dump utc r)"
      using typed(3) device_typed unfolding FixtureDeviceContextTool response_models by blast
    then show ?thesis using FixtureDeviceContextTool r(1) by (simp add: found_def)
  next
    case FixtureIpReputationTool
    then have "i \<in> rep_ip_address ` set (ip_reputations ds)" using assms(2) by simp
    from row_known [OF this] obtain r where r: "row_get rep_ip_address i (ip_reputations ds) = Some r" "r \<in> set (ip_reputations ds)" by blast
    then have "response_model (metadata tool) (reputation_dump utc r)"
      using typed(5) reputation_typed unfolding FixtureIpReputationTool response_models by blast
    then show ?thesis using FixtureIpReputationTool r(1) by (simp add: found_def)
  next
    case FixtureMfaEventsTool
    then show ?thesis using assms user mfa_events_typed by (auto simp: found_def)
  next
    case FixtureRelatedAlertsTool
    obtain r where r: "related_alerts_of ds i = Some r" using related_alerts_total loadedD(1) [OF assms(1)] by blast
    then show ?thesis using FixtureRelatedAlertsTool assms user related_alerts_typed by (auto simp: found_def)
  next
    case FixtureIdentityContextTool
    then have "i \<in> ic_user_id ` set (identities ds)" using assms(2) by simp
    from row_known [OF this] obtain r where r: "row_get ic_user_id i (identities ds) = Some r" "r \<in> set (identities ds)" by blast
    then have "response_model (metadata tool) (identity_dump r)"
      using typed(1) identity_typed unfolding FixtureIdentityContextTool response_models by blast
    then show ?thesis using FixtureIdentityContextTool r(1) by (simp add: found_def)
  qed
qed

lemma row_unknown: "i \<notin> key ` set rows \<Longrightarrow> row_get key i rows = None"
  by (simp add: row_get_None)

lemma unknown_answer:
  assumes "\<not> known ds tool i"
  shows "execute utc ds tool i = not_found ds tool (resource_type tool) i"
  using assms
proof (cases tool)
  case FixtureUserRiskTool
  then show ?thesis using assms row_unknown [of i ur_user_id "user_risks ds"] by simp
next
  case FixtureDeviceContextTool
  then show ?thesis using assms row_unknown [of i dc_device_id "devices ds"] by simp
next
  case FixtureIpReputationTool
  then show ?thesis using assms row_unknown [of i rep_ip_address "ip_reputations ds"] by simp
next
  case FixtureIdentityContextTool
  then show ?thesis using assms row_unknown [of i ic_user_id "identities ds"] by simp
qed (simp_all add: has_identity_def)

lemma resource_type_in: "resource_type tool \<in> set resource_types"
  by (cases tool) (simp_all add: resource_types_def)

lemma stripped_identifier: "strip i = i \<Longrightarrow> Identifier i = None \<or> Identifier i = Some i"
  by (cases "Identifier i") (auto simp: Identifier_def dest: constrained_SomeD)

lemma good_answer_validates:
  "good_answer ds tool i out \<Longrightarrow> validate_outcome (metadata tool) out = Some (outcome_dump out)"
  by (auto simp: good_answer_def split: if_splits)

text \<open>C33: on a snapshot that was loaded, and for a request text without surrounding white space (the
  request models strip their fields), a lookup raises, which the gateway reports as an adapter
  failure, exactly when the tool has no record of the text and the text is not an identifier, as for
  an unknown address \<open>::1\<close>. In every other case the tool answers with an envelope of its own
  provenance: the record, in its declared response model, when it has one, and otherwise the typed
  absence of exactly that text. The gateway accepts such an answer as a success, except that it
  refuses one whose encoding exceeds the output limit.\<close>

theorem fixture_tools_are_well_typed:
  assumes "loaded ds" and "strip i = i"
  shows "case execute utc ds tool i of
      None \<Rightarrow> \<not> known ds tool i \<and> Identifier i = None
        \<and> judge_reply (metadata tool) lims Raised = (ADAPTER_FAILURE, Some ''Tool execution failed'', None)
    | Some out \<Rightarrow> (known ds tool i \<or> Identifier i = Some i) \<and> good_answer ds tool i out
        \<and> judge_reply (metadata tool) lims (Returned out) =
            (if encoded_size (outcome_dump out) \<le> max_output_bytes lims then (SUCCESS, None, Some (outcome_dump out))
             else (INVALID_ADAPTER_RESULT, Some ''Tool result exceeds size limit'', None))"
proof -
  have judged: "judge_reply (metadata tool) lims (Returned out) =
      (if encoded_size (outcome_dump out) \<le> max_output_bytes lims then (SUCCESS, None, Some (outcome_dump out))
       else (INVALID_ADAPTER_RESULT, Some ''Tool result exceeds size limit'', None))" if "good_answer ds tool i out" for out
    using good_answer_validates [OF that] by (auto simp: judge_reply_def not_less)
  show ?thesis
  proof (cases "known ds tool i")
    case True
    then obtain payload where out: "execute utc ds tool i = Some (Found (tool_provenance ds tool) payload)"
        "response_model (metadata tool) payload"
      using known_answer [OF assms(1)] by blast
    then have "good_answer ds tool i (Found (tool_provenance ds tool) payload)" using True by (simp add: good_answer_def)
    then show ?thesis using out judged True by simp
  next
    case False
    show ?thesis
    proof (cases "Identifier i")
      case None
      then show ?thesis using False by (simp add: unknown_answer not_found_def judge_reply_def split: option.split)
    next
      case (Some j)
      then have i: "Identifier i = Some i" using stripped_identifier [OF assms(2)] by auto
      let ?out = "NotFound (tool_provenance ds tool) (resource_type tool) i (not_found_message (resource_type tool) i)"
      have "execute utc ds tool i = Some ?out"
        by (simp add: unknown_answer [OF False] not_found_total [OF resource_type_in i])
      moreover have "good_answer ds tool i ?out" using False by (simp add: good_answer_def)
      ultimately show ?thesis using judged i by simp
    qed
  qed
qed

text \<open>The sign-ins of a known user are exactly the sign-ins of that user inside the closed window
  that ends at the reference time, each once, newest first with ties broken by identifier.\<close>

theorem recent_sign_ins_exact:
  assumes "loaded ds" and "u \<in> ic_user_id ` set (identities ds)"
  shows "execute utc ds FixtureRecentSignInsTool u = found ds FixtureRecentSignInsTool (recent_sign_ins_dump utc (recent_sign_ins ds u))
    \<and> (\<forall>s. s \<in> set (sign_ins (recent_sign_ins ds u)) \<longleftrightarrow> s \<in> set (fx_sign_ins ds) \<and> si_user_id s = u
          \<and> reference_time (manifest ds) - recent_signin_window_hours (manifest ds) * 3600000000 \<le> si_occurred_at s
          \<and> si_occurred_at s \<le> reference_time (manifest ds))
    \<and> distinct (map sign_in_id (sign_ins (recent_sign_ins ds u)))
    \<and> sorted_wrt (\<lambda>s t. (si_occurred_at t, sign_in_id t) \<le> (si_occurred_at s, sign_in_id s)) (sign_ins (recent_sign_ins ds u))"
proof -
  have "distinct (map sign_in_id (fx_sign_ins ds))"
    using loadedD(1) [OF assms(1)] by (simp add: dataset_integrity_def unique_keys_def)
  then have inj: "inj_on sign_in_id (set (fx_sign_ins ds))" "distinct (fx_sign_ins ds)" by (auto simp: distinct_map)
  have dist: "distinct (map sign_in_id (sign_ins (recent_sign_ins ds u)))"
  proof -
    have "set (sign_ins (recent_sign_ins ds u)) \<subseteq> set (fx_sign_ins ds)" by (auto simp: recent_sign_ins_def)
    then have "inj_on sign_in_id (set (sign_ins (recent_sign_ins ds u)))" by (rule inj_on_subset [OF inj(1)])
    moreover have "distinct (sign_ins (recent_sign_ins ds u))" using inj(2) by (simp add: recent_sign_ins_def)
    ultimately show ?thesis by (simp add: distinct_map)
  qed
  have order: "sorted_wrt (\<lambda>s t. (si_occurred_at t, sign_in_id t) \<le> (si_occurred_at s, sign_in_id s)) (sign_ins (recent_sign_ins ds u))"
    unfolding recent_sign_ins_def RecentSignIns.simps by (rule sorted_desc_sorted)
  have mem: "s \<in> set (sign_ins (recent_sign_ins ds u)) \<longleftrightarrow> s \<in> set (fx_sign_ins ds) \<and> si_user_id s = u
      \<and> reference_time (manifest ds) - recent_signin_window_hours (manifest ds) * 3600000000 \<le> si_occurred_at s
      \<and> si_occurred_at s \<le> reference_time (manifest ds)" for s
    by (auto simp: recent_sign_ins_def window_start_def)
  have "has_identity ds u" using assms(2) by (simp add: has_identity_def)
  then have "execute utc ds FixtureRecentSignInsTool u = found ds FixtureRecentSignInsTool (recent_sign_ins_dump utc (recent_sign_ins ds u))"
    by simp
  then show ?thesis by (intro conjI allI mem dist order)
qed

subsection \<open>A small snapshot\<close>

definition sample_identity :: IdentityContext where
  "sample_identity = \<lparr>ic_user_id = ''user-1'', ic_display_name = ''Ann'', principal_name = ''ann'', ic_role = ''analyst'',
     enabled = True, privilege_level = Standard, device_ids = [''dev-1'']\<rparr>"

definition sample_device :: DeviceContext where
  "sample_device = \<lparr>dc_device_id = ''dev-1'', dc_display_name = ''laptop'', operating_system = ''os'',
     compliance_state = Compliant, managed = True, last_seen_at = 5, owner_user_ids = [''user-1'']\<rparr>"

definition sample_sign_in :: "string \<Rightarrow> time \<Rightarrow> SignInEvent" where
  "sample_sign_in i t = \<lparr>sign_in_id = i, si_user_id = ''user-1'', si_device_id = ''dev-1'', si_ip_address = ''1.2.3.4'',
     si_occurred_at = t, si_status = SignInSuccess, authentication_method = ''key'', si_location = ''here''\<rparr>"

definition sample_reputation :: IpReputation where
  "sample_reputation = \<lparr>rep_ip_address = ''1.2.3.4'', ip_category = IpBenign, confidence_score = 90, rep_observed_at = 5,
     rep_summary = ''known''\<rparr>"

definition sample_dataset :: FixtureDataset where
  "sample_dataset = \<lparr>manifest = \<lparr>fx_fixture_version = ''v1'', fx_schema_version = ''1.0'', reference_time = 7200000000,
       recent_signin_window_hours = 1\<rparr>,
     identities = [sample_identity], user_risks = [], devices = [sample_device],
     fx_sign_ins = [sample_sign_in ''old'' 5, sample_sign_in ''mid'' 3600000000, sample_sign_in ''new'' 7200000000],
     ip_reputations = [sample_reputation], mfa_events = [], related_alerts = [], fx_alerts = []\<rparr>"

lemma sample_typed: "typed_dataset sample_dataset = Some sample_dataset"
  by code_simp

lemma sample_integrity: "validate_fixture_dataset sample_dataset = None"
  by code_simp

lemma sample_loaded: "loaded sample_dataset"
  unfolding loaded_def
  by (rule exI [where x = "Some sample_dataset"]) (simp add: load_fixture_dataset_def sample_typed sample_integrity)

lemma user_1_identifier: "Identifier ''user-1'' = Some ''user-1''"
  by code_simp

text \<open>A known user, an unknown one, and the address whose absence cannot be reported.\<close>

theorem fixture_tools_are_well_typed_witness:
  "(\<exists>payload. execute (\<lambda>_. ''t'') sample_dataset FixtureIdentityContextTool ''user-1''
      = Some (Found (tool_provenance sample_dataset FixtureIdentityContextTool) payload))
    \<and> execute (\<lambda>_. ''t'') sample_dataset FixtureUserRiskTool ''user-1''
      = Some (NotFound (tool_provenance sample_dataset FixtureUserRiskTool) ''user-risk'' ''user-1''
          ''Synthetic user-risk not found for user-1'')
    \<and> execute (\<lambda>_. ''t'') sample_dataset FixtureIpReputationTool ''::1'' = None"
proof -
  have strip: "strip ''user-1'' = ''user-1''" "strip ''::1'' = ''::1''" and colon: "Identifier ''::1'' = None" by code_simp+
  have rows: "known sample_dataset FixtureIdentityContextTool ''user-1''" "\<not> known sample_dataset FixtureUserRiskTool ''user-1''"
      "\<not> known sample_dataset FixtureIpReputationTool ''::1''"
    by (simp_all add: sample_dataset_def sample_identity_def sample_reputation_def)
  note claim = fixture_tools_are_well_typed [OF sample_loaded, where utc = "\<lambda>_. ''t''" and lims = sample_limits]
  have "\<exists>payload. execute (\<lambda>_. ''t'') sample_dataset FixtureIdentityContextTool ''user-1''
      = Some (Found (tool_provenance sample_dataset FixtureIdentityContextTool) payload)"
    using claim [OF strip(1), of FixtureIdentityContextTool] rows(1)
    by (auto simp: good_answer_def simp del: execute.simps known.simps split: option.splits)
  moreover have "execute (\<lambda>_. ''t'') sample_dataset FixtureUserRiskTool ''user-1''
      = Some (NotFound (tool_provenance sample_dataset FixtureUserRiskTool) ''user-risk'' ''user-1''
          ''Synthetic user-risk not found for user-1'')"
    using claim [OF strip(1), of FixtureUserRiskTool] rows(2) user_1_identifier
    by (auto simp: good_answer_def not_found_message_def simp del: execute.simps known.simps split: option.splits)
  moreover have "execute (\<lambda>_. ''t'') sample_dataset FixtureIpReputationTool ''::1'' = None"
    using claim [OF strip(2), of FixtureIpReputationTool] rows(3) colon
    by (auto simp del: execute.simps known.simps split: option.splits)
  ultimately show ?thesis by blast
qed

theorem recent_sign_ins_exact_witness:
  "execute (\<lambda>_. ''t'') sample_dataset FixtureRecentSignInsTool ''user-1''
     = found sample_dataset FixtureRecentSignInsTool (recent_sign_ins_dump (\<lambda>_. ''t'') (recent_sign_ins sample_dataset ''user-1''))
   \<and> map sign_in_id (sign_ins (recent_sign_ins sample_dataset ''user-1'')) = [''new'', ''mid'']"
proof -
  have "''user-1'' \<in> ic_user_id ` set (identities sample_dataset)" by (simp add: sample_dataset_def sample_identity_def)
  from recent_sign_ins_exact [OF sample_loaded this, of "\<lambda>_. ''t''"]
  show ?thesis
    by (simp add: recent_sign_ins_def sample_dataset_def sample_sign_in_def window_start_def sorted_desc_def)
qed

text \<open>
  An absence is reported with an identifier that must match the identifier pattern, which the text
  of an address such as \<open>::1\<close> does not: the lookup of such an unknown address raises.
\<close>

lemma unknown_ipv6_raises:
  "a \<notin> rep_ip_address ` set (ip_reputations ds) \<Longrightarrow> Identifier a = None \<Longrightarrow> execute utc ds FixtureIpReputationTool a = None"
  by (simp add: not_found_def row_get_None [symmetric] split: option.splits)

lemma loopback_lookup_raises: "execute utc sample_dataset FixtureIpReputationTool ''::1'' = None"
proof (rule unknown_ipv6_raises)
  show "''::1'' \<notin> rep_ip_address ` set (ip_reputations sample_dataset)"
    by (simp add: sample_dataset_def sample_reputation_def)
  show "Identifier ''::1'' = None" by code_simp
qed

end
