(* ===== verification/Reasoner_Correct.thy ===== *)
theory Reasoner_Correct
  imports Reasoners Gateway_Correct
begin

text \<open>
  The provider cannot step outside the typed boundary: every step that leaves the adapter is grounded
  in the context it was given, in the registered tools and in the action catalog.
\<close>

subsection \<open>References\<close>

lemma reference_lookup_valid:
  assumes "reference_lookup key items ids = Some rs" and "r \<in> set rs"
  shows "row_get key (key r) (rev items) = Some r"
  using all_valid_SomeD [OF assms(1) [unfolded reference_lookup_def] assms(2)] row_get_SomeD by fastforce

lemma build_candidate_SomeD:
  "build_candidate c = Some d \<Longrightarrow> cand_evidence d = cand_evidence c \<and> cand_tool_calls d = cand_tool_calls c
     \<and> cand_recommended_actions d = cand_recommended_actions c"
  by (auto simp: build_candidate_def split: option.splits)

lemma to_domain_InrE:
  assumes "to_domain parse_ip c rcx = Inr d"
  obtains acts where "reference_lookup evidence_id (map acc_reference (rc_evidence rcx)) (evidence_reference_ids c) = Some (cand_evidence d)"
    and "reference_lookup invocation_id (map acc_tool_call (rc_evidence rcx)) (tool_call_reference_ids c) = Some (cand_tool_calls d)"
    and "all_valid (to_recommendation parse_ip) (oa_recommended_actions c) = Some (cand_recommended_actions d)"
proof -
  obtain es ts where refs: "reference_lookup evidence_id (map acc_reference (rc_evidence rcx)) (evidence_reference_ids c) = Some es"
      "reference_lookup invocation_id (map acc_tool_call (rc_evidence rcx)) (tool_call_reference_ids c) = Some ts"
    and built: "Option.bind (all_valid (to_recommendation parse_ip) (oa_recommended_actions c)) (\<lambda>acts. build_candidate
       \<lparr>cand_disposition = oa_disposition c, cand_severity = oa_severity c, cand_confidence = oa_confidence c,
        cand_evidence = es, cand_reasoning_summary = oa_reasoning_summary c, cand_recommended_actions = acts,
        cand_escalation_required = oa_escalation_required c, cand_escalation_reason = oa_escalation_reason c,
        cand_tool_calls = ts\<rparr>) = Some d"
    using assms unfolding to_domain_def by (auto split: option.splits)
  then obtain acts where "all_valid (to_recommendation parse_ip) (oa_recommended_actions c) = Some acts"
    and "cand_evidence d = es" "cand_tool_calls d = ts" "cand_recommended_actions d = acts"
    by (auto simp: bind_eq_Some_conv dest!: build_candidate_SomeD)
  then show thesis using refs that by simp
qed

lemma to_domain_references:
  assumes "to_domain parse_ip c rcx = Inr d"
  shows "candidate_references_are_valid d (rc_evidence rcx)"
  using assms by (elim to_domain_InrE) (auto simp: candidate_references_are_valid_def list_all_iff dest: reference_lookup_valid)

subsection \<open>Actions\<close>

text \<open>An action that the catalog defines, with parameters its schema accepts.\<close>

definition catalogued :: "ActionCatalog \<Rightarrow> ActionRecommendation \<Rightarrow> bool" where
  "catalogued cat a \<longleftrightarrow> (case catalog_lookup cat (catalog_action_id a) of None \<Rightarrow> False | Some d \<Rightarrow> parameters_model d (parameters a))"

lemma catalogued_reasons:
  "catalogued cat a \<Longrightarrow> action_reason cat scope a \<in> {None, Some UNSUPPORTED_TARGET_TYPE, Some ACTION_TARGET_OUT_OF_SCOPE}"
  by (auto simp: catalogued_def action_reason_def split: option.splits)

lemma openai_ids_stable: "Identifier (openai_action_id a) = Some (openai_action_id a)"
proof -
  have "list_all (\<lambda>s. Identifier s = Some s) [''disable_account'', ''revoke_sessions'', ''reset_password'', ''isolate_device'',
    ''delete_email'', ''remove_privilege'']" by code_simp
  then show ?thesis by (cases a) simp_all
qed

definition openai_model :: "openai_action \<Rightarrow> params_model" where
  "openai_model a = (case a of OpenAIDeleteEmail _ \<Rightarrow> DeleteEmailParameters | OpenAIRemovePrivilege _ \<Rightarrow> RemovePrivilegeParameters
     | _ \<Rightarrow> NoParameters)"

lemma openai_catalog: "\<exists>d. catalog_lookup the_catalog (openai_action_id a) = Some d \<and> parameters_model d = openai_model a"
  by (cases a) (simp_all add: catalog_lookup_def the_catalog_def initial_definitions_def openai_model_def)

lemma openai_parameters_accepted:
  assumes "validate_openai_action a = Some b"
  shows "openai_model b (freeze_mapping (openai_parameters b))"
  using assms
  by (cases a) (auto simp: openai_model_def freeze_mapping_def NoParameters_def DeleteEmailParameters_def
    RemovePrivilegeParameters_def single_identifier_def dest: Identifier_stable)

lemma to_recommendation_catalogued:
  assumes "to_recommendation parse_ip q = Some r" and "validate_action_proposal p = Some q"
  shows "catalogued the_catalog r"
proof -
  obtain t where "validate_recommendation
      \<lparr>catalog_action_id = openai_action_id (prop_action q), target = t,
       parameters = openai_parameters (prop_action q), rationale = prop_rationale q\<rparr> = Some r"
    using assms(1) by (auto simp: to_recommendation_def bind_eq_Some_conv)
  from validate_recommendation_SomeD [OF this]
  have "catalog_action_id r = openai_action_id (prop_action q)" "parameters r = freeze_mapping (openai_parameters (prop_action q))"
    by (simp_all add: openai_ids_stable)
  moreover obtain a where "validate_openai_action a = Some (prop_action q)"
    using assms(2) by (auto simp: validate_action_proposal_def split: option.splits)
  ultimately show ?thesis
    using openai_catalog [of "prop_action q"] openai_parameters_accepted by (auto simp: catalogued_def)
qed

subsection \<open>Grounded steps\<close>

text \<open>A request for a registered tool with exactly the argument of its request model.\<close>

definition registered_request :: "string \<Rightarrow> pydict \<Rightarrow> bool" where
  "registered_request name args \<longleftrightarrow>
     (\<exists>t x. registry_lookup fixture_registry name = Some t \<and> args = [(request_field (request_model t), PStr x)])"

definition grounded :: "ReasonerContext \<Rightarrow> ReasonerStep \<Rightarrow> bool" where
  "grounded rcx s \<longleftrightarrow>
     (case s of
        ReasonerToolCall name args goal \<Rightarrow> registered_request name args
      | ReasonerCandidate c \<Rightarrow> candidate_references_are_valid c (rc_evidence rcx)
          \<and> list_all (catalogued the_catalog) (cand_recommended_actions c))"

fun fixture_tool_of :: "openai_tool \<Rightarrow> fixture_tool" where
  "fixture_tool_of OpenAIGetRecentSignins = FixtureRecentSignInsTool"
| "fixture_tool_of OpenAIGetUserRisk = FixtureUserRiskTool"
| "fixture_tool_of OpenAIGetDeviceContext = FixtureDeviceContextTool"
| "fixture_tool_of OpenAIGetIpReputation = FixtureIpReputationTool"
| "fixture_tool_of OpenAIGetMfaEvents = FixtureMfaEventsTool"
| "fixture_tool_of OpenAIFindRelatedAlerts = FixtureRelatedAlertsTool"
| "fixture_tool_of OpenAIGetIdentityContext = FixtureIdentityContextTool"

lemma openai_request_registered: "registered_request (openai_tool_name t) [(openai_argument t, PStr x)]"
proof -
  have "openai_tool_name t = tool_name (metadata (fixture_tool_of t))"
    "openai_argument t = request_field (request_model (metadata (fixture_tool_of t)))"
    by (cases t; simp add: metadata.simps fixture_meta_def)+
  then show ?thesis using fixture_lookup [of "fixture_tool_of t"] by (auto simp: registered_request_def)
qed

lemma validated_candidate_actions:
  assumes "validate_openai_candidate c = Some d" and "to_domain parse_ip d rcx = Inr e"
  shows "list_all (catalogued the_catalog) (cand_recommended_actions e)"
proof -
  have valid: "all_valid validate_action_proposal (oa_recommended_actions c) = Some (oa_recommended_actions d)"
    using assms(1) by (auto simp: validate_openai_candidate_def split: option.splits)
  have conv: "all_valid (to_recommendation parse_ip) (oa_recommended_actions d) = Some (cand_recommended_actions e)"
    using assms(2) by (elim to_domain_InrE)
  have "catalogued the_catalog r" if "r \<in> set (cand_recommended_actions e)" for r
    using all_valid_SomeD [OF conv that] all_valid_SomeD [OF valid] to_recommendation_catalogued by blast
  then show ?thesis by (simp add: list_all_iff)
qed

lemma validate_output_candidate:
  "validate_output v s = Some (OpenAICandidateStep d) \<Longrightarrow> \<exists>c. validate_openai_candidate c = Some d"
  by (cases s) auto

lemma next_step_grounded:
  assumes "next_step parse_ip v serialize rcx client = Inr s"
  shows "grounded rcx s"
  using assms
  by (auto simp: next_step_def grounded_def openai_request_registered to_domain_references validated_candidate_actions
    split: option.splits provider_reply.splits openai_step.splits sum.splits dest!: validate_output_candidate)

text \<open>C34: whatever the provider answers, a step that leaves its adapter is grounded. A tool request
  names a registered tool and carries exactly the argument of its request model; a candidate cites only
  evidence and tool calls of the context it was given, so the orchestrator's reference check accepts
  it, and recommends only catalog actions with parameters their schema accepts, so the policy can refuse
  such an action only for its target.\<close>

theorem provider_steps_are_grounded:
  assumes "openai_reasoner parse_ip v serialize client n rcx = ReasonerReturned r"
  shows "\<exists>s. r = Some s \<and> grounded rcx s
    \<and> (\<forall>c. s = ReasonerCandidate c \<longrightarrow> candidate_references_are_valid c (rc_evidence rcx)
        \<and> (\<forall>a \<in> set (cand_recommended_actions c). \<forall>scope.
            action_reason the_catalog scope a \<in> {None, Some UNSUPPORTED_TARGET_TYPE, Some ACTION_TARGET_OUT_OF_SCOPE}))"
proof -
  obtain s where s: "r = Some s" "next_step parse_ip v serialize rcx (client n) = Inr s"
    using assms by (auto simp: openai_reasoner_def split: sum.splits)
  have g: "grounded rcx s" by (rule next_step_grounded [OF s(2)])
  have "candidate_references_are_valid c (rc_evidence rcx)
      \<and> (\<forall>a \<in> set (cand_recommended_actions c). \<forall>scope.
          action_reason the_catalog scope a \<in> {None, Some UNSUPPORTED_TARGET_TYPE, Some ACTION_TARGET_OUT_OF_SCOPE})"
    if "s = ReasonerCandidate c" for c
    using g that catalogued_reasons [of the_catalog] by (simp add: grounded_def list_all_iff)
  with s(1) g show ?thesis by blast
qed

subsection \<open>A provider reply\<close>

definition sample_provider_output :: openai_step where
  "sample_provider_output = OpenAICandidateStep
     \<lparr>oa_disposition = MALICIOUS, oa_severity = HIGH, oa_confidence = 9/10, evidence_reference_ids = [],
      oa_reasoning_summary = ''theft'', oa_recommended_actions =
        [\<lparr>prop_action = OpenAIDeleteEmail ''m-1'', prop_entity_type = USER, prop_identifier = ''alice'', prop_rationale = ''phish''\<rparr>],
      oa_escalation_required = False, oa_escalation_reason = None, tool_call_reference_ids = []\<rparr>"

definition sample_context :: ReasonerContext where
  "sample_context = \<lparr>rc_execution_id = ''e'', rc_correlation_id = ''c'', rc_alert = sample_alert, rc_evidence = [],
     authorized_tool_targets = [], action_semantics = [], iteration = 1, remaining_iterations = 1,
     remaining_total_tool_calls = 1\<rparr>"

definition sample_step :: "ReasonerStep option" where
  "sample_step = (case next_step (\<lambda>_. None) OpenAI_L1_v1 (\<lambda>_. Some ''body'') sample_context
     (\<lambda>_. OutputParsed (Some sample_provider_output)) of Inl _ \<Rightarrow> None | Inr s \<Rightarrow> Some s)"

lemma sample_step_proposed: "sample_step \<noteq> None"
  by code_simp

theorem provider_steps_are_grounded_witness:
  "\<exists>s. sample_step = Some s \<and> grounded sample_context s"
proof -
  obtain s where s: "next_step (\<lambda>_. None) OpenAI_L1_v1 (\<lambda>_. Some ''body'') sample_context
      (\<lambda>_. OutputParsed (Some sample_provider_output)) = Inr s"
    using sample_step_proposed by (auto simp: sample_step_def split: sum.splits)
  then have "openai_reasoner (\<lambda>_. None) OpenAI_L1_v1 (\<lambda>_. Some ''body'') (\<lambda>_ _. OutputParsed (Some sample_provider_output)) 0
      sample_context = ReasonerReturned (Some s)"
    by (simp add: openai_reasoner_def)
  from provider_steps_are_grounded [OF this] s show ?thesis by (simp add: sample_step_def)
qed

subsection \<open>The v2 presentation\<close>

text \<open>No dictionary of the presented value has the key, at any depth.\<close>

fun has_key :: "string \<Rightarrow> pyval \<Rightarrow> bool" where
  "has_key k (PDict kvs) = (\<exists>kv \<in> set kvs. fst kv = k \<or> has_key k (snd kv))"
| "has_key k (PList vs) = (\<exists>v \<in> set vs. has_key k v)"
| "has_key k _ = False"

lemma neutralized_hides_fixture: "\<not> has_key ''fixture_version'' (neutralize_model_value scrub v)"
  by (induction scrub v rule: neutralize_model_value.induct) auto

lemma presented_alert_hides_payload:
  "has_key k (neutralize_model_value scrub
      (PDict (dict_remove ''provider_schema_version'' (dict_remove ''original_payload'' (alert_dump utc a)))))
   \<Longrightarrow> k \<notin> {''original_payload'', ''provider_schema_version'', ''payload_digest'', ''reference_id'', ''fixture_version''}"
  by (auto simp: alert_dump_def dict_remove_def entity_dump_def target_dump_def)

subsection \<open>The demo reasoner\<close>

lemma demo_references:
  assumes "distinct (map (\<lambda>x. evidence_id (acc_reference x)) (rc_evidence rcx))"
    and "distinct (map (\<lambda>x. invocation_id (acc_tool_call x)) (rc_evidence rcx))"
  shows "candidate_references_are_valid (demo_candidate rcx) (rc_evidence rcx)"
proof -
  have "row_get evidence_id (evidence_id e) (rev (map acc_reference (rc_evidence rcx))) = Some e"
    if "e \<in> set (map acc_reference (rc_evidence rcx))" for e
    by (rule row_get_in) (use that assms(1) in \<open>simp_all add: rev_map [symmetric] comp_def\<close>)
  moreover have "row_get invocation_id (invocation_id t) (rev (map acc_tool_call (rc_evidence rcx))) = Some t"
    if "t \<in> set (map acc_tool_call (rc_evidence rcx))" for t
    by (rule row_get_in) (use that assms(2) in \<open>simp_all add: rev_map [symmetric] comp_def\<close>)
  ultimately show ?thesis
    by (simp add: candidate_references_are_valid_def list_all_iff demo_candidate_def Let_def)
qed

text \<open>The demo reasoner recommends at most the disablement of a user of the alert, which the policy admits.\<close>

lemma demo_actions_admitted:
  assumes "a \<in> set (cand_recommended_actions (demo_candidate rcx))"
  shows "action_reason the_catalog (scope_from_entities (entities (rc_alert rcx))) a = None"
proof -
  obtain u where u: "first_user (rc_alert rcx) = Some u" and a: "catalog_action_id a = ''disable_account''" "target a = u" "parameters a = []"
    using assms by (cases "first_user (rc_alert rcx)") (auto simp: demo_candidate_def Let_def split: if_splits)
  have "u \<in> set (entities (rc_alert rcx))" "entity_type u = USER" using find_SomeD [OF u [unfolded first_user_def]] by auto
  then show ?thesis
    using a by (simp add: action_reason_def catalog_lookup_def the_catalog_def initial_definitions_def scope_from_entities_def NoParameters_def)
qed

end
