(* ===== verification/Frames.thy ===== *)
theory Frames
  imports Orchestrator Approval_Workflow
begin

text \<open>
  Frames: relations between the world before and after an operation that depend only on the
  committed database and on the calls of the executor. The locale gives the composition rules once;
  its interpretations are the operations that write nothing and those that execute nothing.
\<close>

definition framed :: "(world \<Rightarrow> world \<Rightarrow> bool) \<Rightarrow> (world, 'x, 'a) op \<Rightarrow> bool" where
  "framed R m \<longleftrightarrow> (\<forall>w. R w (snd (m w)))"

lemma framedD: "framed R m \<Longrightarrow> R w (snd (m w))"
  by (simp add: framed_def)

subsection \<open>The contract of a frame\<close>

text \<open>Any transitive and reflexive relation composes; a frame is moreover blind to the session and to the counters.\<close>

locale step_relation =
  fixes R :: "world \<Rightarrow> world \<Rightarrow> bool"
  assumes stays: "R w w"
    and steps: "R u v \<Longrightarrow> R v w \<Longrightarrow> R u w"
begin

lemma framed_ret: "framed R (ret x)"
  by (simp add: framed_def ret_def stays)

lemma framed_raise: "framed R (raise e)"
  by (simp add: framed_def raise_def stays)

lemma framed_bindE:
  assumes "framed R m" and "\<And>x. framed R (f x)"
  shows "framed R (bindE m f)"
  unfolding framed_def
proof
  fix w
  obtain r v where m: "m w = (r, v)" by (cases "m w")
  have "R w v" using framedD [OF assms(1), of w] by (simp add: m)
  then show "R w (snd (bindE m f w))"
    by (cases r) (auto simp: bindE_def m intro: steps framedD [OF assms(2)])
qed

lemma framed_catch:
  assumes "framed R m" and "\<And>e. framed R (h e)"
  shows "framed R (catch m h)"
  unfolding framed_def
proof
  fix w
  obtain r v where m: "m w = (r, v)" by (cases "m w")
  have "R w v" using framedD [OF assms(1), of w] by (simp add: m)
  then show "R w (snd (catch m h w))"
    by (cases r) (auto simp: catch_def m intro: steps framedD [OF assms(2)])
qed

lemma framed_branches:
  "framed R m \<Longrightarrow> framed R n \<Longrightarrow> framed R (if b then m else n)"
  "framed R m \<Longrightarrow> (\<And>x. framed R (f x)) \<Longrightarrow> framed R (case v of None \<Rightarrow> m | Some x \<Rightarrow> f x)"
  "(\<And>x. framed R (g x)) \<Longrightarrow> (\<And>x. framed R (h x)) \<Longrightarrow> framed R (case u of Inl x \<Rightarrow> g x | Inr x \<Rightarrow> h x)"
  "(\<And>x y. framed R (k x y)) \<Longrightarrow> framed R (case p of (x, y) \<Rightarrow> k x y)"
  "framed R m \<Longrightarrow> (\<And>x xs. framed R (l x xs)) \<Longrightarrow> framed R (case ys of [] \<Rightarrow> m | x # xs \<Rightarrow> l x xs)"
  by (auto split: option.split sum.split prod.split list.split)

lemmas control = framed_ret framed_raise framed_bindE framed_catch framed_branches

lemma framed_checks: "framed R (mk_event env ev)" "framed R (checked r)" "framed R (required v)"
  "framed R (persistence_failure eid cid)"
  unfolding mk_event_def checked_def required_def persistence_failure_def by (intro control)+

lemma framed_tagged: "framed R m \<Longrightarrow> framed R (tagged t m)"
  unfolding tagged_def by (intro control; assumption)

lemma framed_for_each: "(\<And>x. framed R (f x)) \<Longrightarrow> framed R (for_each xs f)"
  by (induction xs) (auto intro!: control)

lemmas flow = control framed_checks framed_tagged framed_for_each

end

locale frame_relation = step_relation +
  assumes silent: "store w' = store w \<Longrightarrow> executed w' = executed w \<Longrightarrow> R w w'"
begin

lemma framed_silent: "(\<And>w. store (snd (m w)) = store w \<and> executed (snd (m w)) = executed w) \<Longrightarrow> framed R m"
  unfolding framed_def using silent by blast

lemma framed_services:
  "framed R (now env)" "framed R (monotonic_ms env)" "framed R (next_id env purpose)" "framed R (gets f)"
  "framed R (db_call env)" "framed R (stage check write)" "framed R rollback"
  by (rule framed_silent, simp add: now_def monotonic_ms_def next_id_def gets_def db_call_def stage_def rollback_def modify_def)+

lemmas core = control framed_services

lemma framed_database: "framed R (query env f)" "framed R (flush env)" "framed R m \<Longrightarrow> framed R (with_uow m)"
  unfolding query_def flush_def write_fault_def with_uow_def by (intro core; assumption?)+

lemmas rules = core framed_database framed_checks framed_tagged framed_for_each

lemma framed_repositories:
  "framed R (alerts_get env i)" "framed R (alerts_list_recent env n)" "framed R (alerts_add a)"
  "framed R (executions_get env i)" "framed R (executions_get_by_idempotency_key env i)"
  "framed R (executions_list_for_alert env i)" "framed R (executions_list_running_before env c)"
  "framed R (executions_add e)" "framed R (executions_replace env e)"
  "framed R (invocations_list_for_execution env i)" "framed R (invocations_add r res)"
  "framed R (results_get_for_execution env i)" "framed R (results_add rid i tr)"
  "framed R (actions_get_persisted env i)" "framed R (actions_add env i p v)"
  "framed R (approvals_get_for_action env i)" "framed R (approvals_add ap)"
  "framed R (action_executions_get_for_action env i)" "framed R (action_executions_list_executing_before env c)"
  "framed R (action_executions_add x)" "framed R (action_executions_replace env x)"
  "framed R (audit_list_for_target env tt i)" "framed R (audit_append ev)"
  unfolding alerts_get_def alerts_list_recent_def alerts_add_def executions_get_def executions_get_by_idempotency_key_def
    executions_list_for_alert_def executions_list_running_before_def executions_add_def executions_replace_def
    invocations_list_for_execution_def invocations_add_def results_get_for_execution_def results_add_def
    actions_get_persisted_def actions_add_def approvals_get_for_action_def approvals_add_def
    action_executions_get_for_action_def action_executions_list_executing_before_def action_executions_add_def
    action_executions_replace_def action_executions_get_def audit_list_for_target_def audit_append_def
  by (intro rules)+

end

subsection \<open>Operations that execute nothing\<close>

locale commit_frame = frame_relation +
  assumes committed: "executed w' = executed w \<Longrightarrow> R w w'"
begin

lemma framed_commit: "framed R (commit env)"
  unfolding framed_def by (auto intro!: committed simp: commit_def write_fault_def rollback_def bindE_def
      db_call_def gets_def modify_def raise_def split: option.splits)

lemmas writes = rules framed_repositories framed_commit

lemma framed_ingest: "framed R (ingest env alert cid actor)"
  unfolding ingest_def by (intro writes)

lemma framed_decide: "framed R (decide env svc aid who why dec)"
  unfolding decide_def record_decision_def workflow_audit_def by (intro writes)

lemma framed_failure: "framed R body \<Longrightarrow> framed R (on_failure env eid cid categ body)"
  unfolding on_failure_def record_persistence_failure_def orch_audit_def by (intro writes; assumption?)

lemma framed_oracles:
  "framed R (ask_reasoner orc context)" "framed R tick_gateway" "framed R (policy_decision env orc alert payload)"
  by (rule framed_silent, auto simp: ask_reasoner_def tick_gateway_def policy_decision_def bindE_def now_def split: prod.split sum.splits)+

lemma framed_tool_step: "framed R (tool_step env orc st tname args goal)"
  unfolding tool_step_def persist_tool_def to_evidence_def gateway_call_def orch_audit_def Let_def
  by (intro writes framed_failure framed_oracles)

lemma framed_iteration: "framed R (iteration_step env orc alert eid cid started it st)"
  unfolding iteration_step_def
  by (intro writes framed_oracles)
    (auto intro!: writes framed_tool_step split: reasoner_reply.split option.split ReasonerStep.split)

lemma framed_loop: "framed R (run_loop env orc alert eid cid started n st)"
  by (induction n arbitrary: st) (auto intro!: writes framed_iteration)

lemma framed_conclude: "framed R (conclude env orc alert eid cid e)"
  unfolding conclude_def finalize_def persist_final_def orch_audit_def
  by (cases e) (auto intro!: writes framed_failure framed_oracles)

lemma framed_run: "framed R (run env orc alert key eid cid)"
  unfolding run_def find_replay_def persist_start_def orch_audit_def
  by (intro writes framed_failure framed_loop framed_conclude)

end

subsection \<open>The two frames\<close>

definition nothing_changed :: "world \<Rightarrow> world \<Rightarrow> bool" where
  "nothing_changed w w' \<longleftrightarrow> store w' = store w \<and> executed w' = executed w"

definition nothing_executed :: "world \<Rightarrow> world \<Rightarrow> bool" where
  "nothing_executed w w' \<longleftrightarrow> executed w' = executed w"

interpretation read_frame: frame_relation nothing_changed
  by unfold_locales (simp_all add: nothing_changed_def)

interpretation quiet_frame: commit_frame nothing_executed
  by unfold_locales (simp_all add: nothing_executed_def)

end
