(* ===== verification/System.thy ===== *)
theory System
  imports Evaluation_Runner Frames Approval_Properties
begin

text \<open>
  The composition: requests, runs, recoveries and executions that interleave on one database. A run
  and an execution are tasks that advance in separate transactions, so recovery and other requests
  happen between them; an evaluation stores its results, any request reads, and a task can also be
  lost, as in a crash. The operations are those of the services. The abstract workflow says what the interleaving promises for each action.
\<close>

subsection \<open>The system\<close>

text \<open>Every unit of work opens its own session; between units of work there is none with pending writes.\<close>

definition at_rest :: "world \<Rightarrow> world" where
  "at_rest w = w\<lparr>session := store w, broken := False\<rparr>"

lemma at_rest_sels [simp]: "store (at_rest w) = store w" "session (at_rest w) = store w" "\<not> broken (at_rest w)"
  "executed (at_rest w) = executed w" "at_rest (at_rest w) = at_rest w"
  by (simp_all add: at_rest_def)

text \<open>
  A task is a run that is asking its reasoner, a run that has ended its loop, or an execution that
  has been claimed and whose executor is still to be called.
\<close>

datatype task =
    Looping SecurityAlert string string int nat loop_state
  | Ending SecurityAlert string string loop_end
  | Executing string string ActionExecutionRecord ActionProposal

record system =
  sys_world :: world
  tasks :: "task list"

inductive system_step :: "'e env_scheme \<Rightarrow> orchestrator \<Rightarrow> approval_service \<Rightarrow> system \<Rightarrow> system \<Rightarrow> bool"
  for env orc svc where
  ingestion: "system_step env orc svc s (s\<lparr>sys_world := at_rest (snd (ingest env alert cid actor (sys_world s)))\<rparr>)"
| run_started: "run_begin env alert key eid cid (sys_world s) = (Inr (Inr t0), w) \<Longrightarrow>
    system_step env orc svc s \<lparr>sys_world = at_rest w, tasks = tasks s @ [Looping alert eid cid t0 (max_iterations (orc_limits orc))
      (new_context eid cid (from_alert alert) (orc_gateway_limits orc), [])]\<rparr>"
| run_not_started: "(\<And>t0. fst (run_begin env alert key eid cid (sys_world s)) \<noteq> Inr (Inr t0)) \<Longrightarrow>
    system_step env orc svc s (s\<lparr>sys_world := at_rest (snd (run_begin env alert key eid cid (sys_world s)))\<rparr>)"
| run_iterated: "tasks s = us @ Looping alert eid cid t0 (Suc n) st # vs \<Longrightarrow>
    iteration_step env orc alert eid cid t0 (max_iterations (orc_limits orc) - n) st (sys_world s) = (r, w) \<Longrightarrow>
    system_step env orc svc s \<lparr>sys_world = at_rest w, tasks = us @ (case r of Inl _ \<Rightarrow> []
      | Inr (Inl e) \<Rightarrow> [Ending alert eid cid e] | Inr (Inr st') \<Rightarrow> [Looping alert eid cid t0 n st']) @ vs\<rparr>"
| run_exhausted: "tasks s = us @ Looping alert eid cid t0 0 st # vs \<Longrightarrow>
    system_step env orc svc s (s\<lparr>tasks := us @ Ending alert eid cid (Terminated ITERATION_LIMIT) # vs\<rparr>)"
| run_concluded: "tasks s = us @ Ending alert eid cid e # vs \<Longrightarrow>
    system_step env orc svc s \<lparr>sys_world = at_rest (snd (conclude env orc alert eid cid e (sys_world s))), tasks = us @ vs\<rparr>"
| decision_made: "system_step env orc svc s (s\<lparr>sys_world := at_rest (snd (decide env svc aid reviewer why dec (sys_world s)))\<rparr>)"
| execution_claimed: "execute_begin env svc aid actor (sys_world s) = (Inr (Inr (x, a)), w) \<Longrightarrow>
    system_step env orc svc s \<lparr>sys_world = at_rest w, tasks = tasks s @ [Executing aid actor x a]\<rparr>"
| execution_refused: "(\<And>x a. fst (execute_begin env svc aid actor (sys_world s)) \<noteq> Inr (Inr (x, a))) \<Longrightarrow>
    system_step env orc svc s (s\<lparr>sys_world := at_rest (snd (execute_begin env svc aid actor (sys_world s)))\<rparr>)"
| execution_finished: "tasks s = us @ Executing aid actor x a # vs \<Longrightarrow>
    system_step env orc svc s \<lparr>sys_world = at_rest (snd (execute_finish env svc aid actor x a (sys_world s))), tasks = us @ vs\<rparr>"
| executions_recovered: "system_step env orc svc s
    (s\<lparr>sys_world := at_rest (snd (recover_stale_executions env threshold operator cid (sys_world s)))\<rparr>)"
| actions_recovered: "system_step env orc svc s
    (s\<lparr>sys_world := at_rest (snd (recover_stale_actions env threshold operator cid (sys_world s)))\<rparr>)"
| evaluation_stored: "system_step env orc svc s (s\<lparr>sys_world := at_rest (snd (store_run env er cases (sys_world s)))\<rparr>)"
| observed: "store w = store (sys_world s) \<Longrightarrow> executed w = executed (sys_world s) \<Longrightarrow>
    system_step env orc svc s (s\<lparr>sys_world := at_rest w\<rparr>)"
| task_lost: "tasks s = us @ t # vs \<Longrightarrow> system_step env orc svc s (s\<lparr>tasks := us @ vs\<rparr>)"

text \<open>The service starts on an empty database.\<close>

definition initial_system :: "system \<Rightarrow> bool" where
  "initial_system s \<longleftrightarrow> at_rest (sys_world s) = sys_world s \<and> store (sys_world s) = empty_db
     \<and> executed (sys_world s) = [] \<and> tasks s = []"

inductive reachable :: "'e env_scheme \<Rightarrow> orchestrator \<Rightarrow> approval_service \<Rightarrow> system \<Rightarrow> bool" for env orc svc where
  start: "initial_system s \<Longrightarrow> reachable env orc svc s"
| step: "reachable env orc svc s \<Longrightarrow> system_step env orc svc s s' \<Longrightarrow> reachable env orc svc s'"

subsection \<open>The abstract workflow\<close>

text \<open>
  For each action: the decision on record, whether an execution was claimed, and the calls of the
  executor so far.
\<close>

record workflow =
  decided_as :: "string \<Rightarrow> ApprovalDecision option"
  claims :: "string set"
  performed :: "string list"

inductive workflow_step :: "workflow \<Rightarrow> workflow \<Rightarrow> bool" where
  deciding: "decided_as a i = None \<Longrightarrow> workflow_step a (a\<lparr>decided_as := (decided_as a)(i \<mapsto> dec)\<rparr>)"
| claiming: "decided_as a i = Some Approve \<Longrightarrow> i \<notin> claims a \<Longrightarrow> workflow_step a (a\<lparr>claims := insert i (claims a)\<rparr>)"
| performing: "i \<in> claims a \<Longrightarrow> i \<notin> set (performed a) \<Longrightarrow> workflow_step a (a\<lparr>performed := performed a @ [i]\<rparr>)"

definition workflow_of :: "system \<Rightarrow> workflow" where
  "workflow_of s = \<lparr>decided_as = (\<lambda>i. map_option decision (find_approval i (store (sys_world s)))),
     claims = ax_action_id ` set (action_executions (store (sys_world s))),
     performed = map action_id (executed (sys_world s))\<rparr>"

subsection \<open>Properties of the database that every step keeps\<close>

text \<open>Stored actions are named by their own identifier.\<close>

definition named_actions :: "db \<Rightarrow> bool" where
  "named_actions d \<longleftrightarrow> (\<forall>r \<in> set (recommended_actions_table d).
     row_action_id r = action_id (row_action r) \<and> Identifier (row_action_id r) = Some (row_action_id r))"

lemma named_identified: "named_actions d \<Longrightarrow> identified_actions d"
  by (auto simp: named_actions_def identified_actions_def)

lemmas repository_writes = alerts_add_def executions_add_def invocations_add_def results_add_def audit_append_def
  approvals_add_def action_executions_add_def actions_add_def evaluations_add_run_def evaluations_add_case_def
  executions_replace_def action_executions_replace_def

lemma named_same: "named_actions d \<Longrightarrow> recommended_actions_table d' = recommended_actions_table d \<Longrightarrow> named_actions d'"
  by (simp only: named_actions_def)

interpretation named_store: claim_store env named_actions for env :: "'e env_scheme"
  by (unfold_locales; unfold repository_writes; intro keeps keeps_stage; erule named_same; simp add: write_defs)

interpretation named_store: evaluation_store env named_actions for env :: "'e env_scheme"
  by (unfold_locales; unfold repository_writes; intro keeps keeps_stage; erule named_same; simp add: write_defs insert_run_def insert_case_def)

lemma named_actions_add:
  "Identifier (action_id p) = Some (action_id p) \<Longrightarrow> keeps_db named_actions (actions_add env eid p v :: unit io)"
  unfolding actions_add_def by (intro keeps_stage) (auto simp: named_actions_def insert_action_def action_row_def)

text \<open>The decisions and the claims.\<close>

definition workflow_tables :: "ApprovalRecord list \<Rightarrow> string list \<Rightarrow> db \<Rightarrow> bool" where
  "workflow_tables aps ids d \<longleftrightarrow> approval_decisions d = aps \<and> map ax_action_id (action_executions d) = ids"

interpretation settled_store: action_store env "workflow_tables aps ids" for env :: "'e env_scheme" and aps ids
  by (unfold_locales; unfold repository_writes; intro keeps keeps_stage; simp add: workflow_tables_def write_defs)

interpretation settled_store: simulation_store env "workflow_tables aps ids" for env :: "'e env_scheme" and aps ids
  by (unfold_locales; unfold repository_writes; intro keeps keeps_stage; auto simp: workflow_tables_def write_defs update_action_execution_def)

interpretation settled_store: evaluation_store env "workflow_tables aps ids" for env :: "'e env_scheme" and aps ids
  by (unfold_locales; unfold repository_writes; intro keeps keeps_stage;
      simp add: workflow_tables_def write_defs insert_run_def insert_case_def)

text \<open>A stored action stays what it is.\<close>

interpretation action_kept: claim_store env "\<lambda>d. find_action i d = Some row" for env :: "'e env_scheme" and i row
  by (unfold_locales; unfold repository_writes; intro keeps keeps_stage; simp add: find_action_def write_defs)

interpretation action_kept: action_store env "\<lambda>d. find_action i d = Some row" for env :: "'e env_scheme" and i row
  by (unfold_locales; unfold repository_writes; intro keeps keeps_stage; simp add: action_repo.add_keeps)
interpretation action_kept: evaluation_store env "\<lambda>d. find_action i d = Some row" for env :: "'e env_scheme" and i row
  by (unfold_locales; unfold repository_writes; intro keeps keeps_stage; simp add: find_action_def insert_run_def insert_case_def)

subsection \<open>Soundness of the database\<close>

definition sound_db :: "'e env_scheme \<Rightarrow> approval_service \<Rightarrow> db \<Rightarrow> bool" where
  "sound_db env svc d \<longleftrightarrow> valid_db d \<and> named_actions d \<and> all_authorized (sha256 env) (svc_authorization svc) d"

lemma keeps_after: "keeps_db P m \<Longrightarrow> at_rest w = w \<Longrightarrow> P (store w) \<Longrightarrow> P (store (snd (m w)))"
  by (rule keeps_dbE) (auto, metis at_rest_sels(2))

definition identifiers_valid :: "'e env_scheme \<Rightarrow> bool" where
  "identifiers_valid env \<longleftrightarrow> (\<forall>n. Identifier (fresh_id env ''action'' n) = Some (fresh_id env ''action'' n))"

lemma evaluate_identified:
  assumes "p \<in> set (recommended_actions (pd_result (fst (evaluate_untrusted sha cat fresh n payload aid scope ts))))"
  shows "\<exists>i. action_id p = fresh i"
proof (cases payload)
  case None
  then show ?thesis using assms by (simp add: evaluate_untrusted_def)
next
  case (Some c)
  have mem: "p \<in> set (recommended_actions (pd_result (fst (evaluate sha cat fresh n c aid scope ts))))"
    using assms by (simp add: Some evaluate_untrusted_def)
  show ?thesis
  proof (cases rule: evaluate_result_cases [of sha cat fresh n c aid scope ts])
    case kept
    then have "p \<in> set (admitted cat scope fresh n (cand_recommended_actions c))"
      using mem by (simp add: draft_sels)
    from admitted_SomeD [OF this] show ?thesis by (auto simp: canonicalize_def)
  next
    case safe
    then show ?thesis using mem by simp
  qed
qed

lemma decided_identifier:
  assumes "identifiers_valid env" and "decided env orc alert payload dec" and "a \<in> set (recommended_actions (pd_result dec))"
  shows "Identifier (action_id a) = Some (action_id a)"
proof -
  obtain i where "action_id a = fresh_id env ''action'' i"
    using assms(2,3) evaluate_identified unfolding decided_def by blast
  then show ?thesis using assms(1) by (simp add: identifiers_valid_def)
qed

lemma named_conclude: "identifiers_valid env \<Longrightarrow> keeps_db named_actions (conclude env orc alert eid cid e)"
  by (rule named_store.keeps_conclude_decided) (auto intro: named_actions_add decided_identifier)

text \<open>What the first unit of work of an execution does to the database.\<close>

lemma claimed_authorized:
  assumes "claimed env svc aid t d d' x a" and "all_authorized (sha256 env) (svc_authorization svc) d"
  shows "all_authorized (sha256 env) (svc_authorization svc) d'"
proof -
  obtain ev where d': "d' = insert_event ev (insert_action_execution x d)"
    and x: "authorized_execution (sha256 env) (svc_authorization svc) d' x"
    using assms(1) by (auto simp: claimed_def)
  have "action_executions d' = action_executions d @ [x]"
    by (simp add: d' insert_event_def insert_action_execution_def)
  then show ?thesis using assms(2) x by (auto simp: all_authorized_def d' authorized_frame)
qed

lemma begin_outcome:
  assumes "named_actions (store w)"
  shows "case fst (execute_begin env svc aid actor w) of
      Inl e \<Rightarrow> begin_raises aid w e (snd (execute_begin env svc aid actor w))
    | Inr r \<Rightarrow> begin_returns env svc aid actor w r (snd (execute_begin env svc aid actor w))"
  using execute_begin_wp [OF named_identified [OF assms], of env svc aid actor]
  by (auto simp: wp_def split: prod.splits sum.splits)

lemma begin_authorized:
  assumes "named_actions (store w)" and "all_authorized (sha256 env) (svc_authorization svc) (store w)"
  shows "all_authorized (sha256 env) (svc_authorization svc) (store (snd (execute_begin env svc aid actor w)))"
  using begin_outcome [OF assms(1), where env = env and svc = svc and aid = aid and actor = actor] assms(2)
  by (auto simp: begin_raises_def begin_returns_def authorized_writes intro: claimed_authorized split: sum.splits)

text \<open>A property of the database goes through a step when it goes through every operation.\<close>

lemma step_keeps:
  assumes "system_step env orc svc s s'" and "at_rest (sys_world s) = sys_world s" and "P (store (sys_world s))"
    and "\<And>alert cid actor. keeps_db P (ingest env alert cid actor)"
    and "\<And>alert key eid cid. keeps_db P (run_begin env alert key eid cid)"
    and "\<And>alert eid cid t0 it st. keeps_db P (iteration_step env orc alert eid cid t0 it st)"
    and "\<And>alert eid cid e. keeps_db P (conclude env orc alert eid cid e)"
    and "\<And>aid who why dec. keeps_db P (decide env svc aid who why dec)"
    and "\<And>aid actor. P (store (snd (execute_begin env svc aid actor (sys_world s))))"
    and "\<And>aid actor x a. keeps_db P (execute_finish env svc aid actor x a)"
    and "\<And>thr op cid. keeps_db P (recover_stale_executions env thr op cid)"
    and "\<And>thr op cid. keeps_db P (recover_stale_actions env thr op cid)"
    and "\<And>er cases. keeps_db P (store_run env er cases)"
  shows "P (store (sys_world s'))"
  using assms(1)
proof cases
  case (run_started alert key eid cid t0 w)
  then show ?thesis using keeps_after [OF assms(5) assms(2,3), of alert key eid cid] by simp
next
  case (run_iterated us alert eid cid t0 n st vs r w)
  then show ?thesis
    using keeps_after [OF assms(6) assms(2,3), of alert eid cid t0 "max_iterations (orc_limits orc) - n" st] by simp
next
  case (execution_claimed aid actor x a w)
  then show ?thesis using assms(9) [of aid actor] by simp
qed (use assms(2-) in \<open>auto intro: keeps_after\<close>)

lemma step_at_rest: "system_step env orc svc s s' \<Longrightarrow> at_rest (sys_world s) = sys_world s \<Longrightarrow> at_rest (sys_world s') = sys_world s'"
  by (cases rule: system_step.cases) auto

lemmas keeps_valid_step = valid_store.keeps_ingest valid_store.keeps_run_begin valid_store.keeps_iteration valid_store.keeps_conclude
  valid_store.keeps_decide valid_store.keeps_execute_finish valid_store.keeps_execution_recovery valid_store.keeps_action_recovery valid_store.keeps_store_run

lemmas keeps_named_step = named_store.keeps_ingest named_store.keeps_run_begin named_store.keeps_iteration named_conclude
  named_store.keeps_decide named_store.keeps_execute_finish named_store.keeps_execution_recovery named_store.keeps_action_recovery named_store.keeps_store_run

lemmas keeps_authorized_step = authorized_store.keeps_ingest authorized_store.keeps_run_begin authorized_store.keeps_iteration
  authorized_store.keeps_conclude authorized_store.keeps_decide authorized_store.keeps_execute_finish
  authorized_store.keeps_execution_recovery authorized_store.keeps_action_recovery authorized_store.keeps_store_run

lemmas keeps_action_step = action_kept.keeps_ingest action_kept.keeps_run_begin action_kept.keeps_iteration
  action_kept.keeps_conclude action_kept.keeps_decide action_kept.keeps_execute_finish
  action_kept.keeps_execution_recovery action_kept.keeps_action_recovery action_kept.keeps_store_run

lemma step_sound:
  assumes "system_step env orc svc s s'" and "at_rest (sys_world s) = sys_world s"
    and "identifiers_valid env" and "sound_db env svc (store (sys_world s))"
  shows "sound_db env svc (store (sys_world s'))"
proof -
  have v: "valid_db (store (sys_world s))" and n: "named_actions (store (sys_world s))"
    and a: "all_authorized (sha256 env) (svc_authorization svc) (store (sys_world s))"
    using assms(4) by (simp_all add: sound_db_def)
  have "valid_db (store (sys_world s'))"
    by (rule step_keeps [where P = valid_db, OF assms(1,2) v])
      (rule keeps_valid_step keeps_after [OF valid_store.keeps_execute_begin assms(2) v])+
  moreover have "named_actions (store (sys_world s'))"
    by (rule step_keeps [where P = named_actions, OF assms(1,2) n])
      (rule keeps_named_step assms(3) keeps_after [OF named_store.keeps_execute_begin assms(2) n])+
  moreover have "all_authorized (sha256 env) (svc_authorization svc) (store (sys_world s'))"
    by (rule step_keeps [where P = "all_authorized (sha256 env) (svc_authorization svc)", OF assms(1,2) a]) (rule keeps_authorized_step begin_authorized [OF n a])+
  ultimately show ?thesis by (simp add: sound_db_def)
qed

lemma step_action_kept:
  assumes "system_step env orc svc s s'" and "at_rest (sys_world s) = sys_world s" and "find_action i (store (sys_world s)) = Some row"
  shows "find_action i (store (sys_world s')) = Some row"
  by (rule step_keeps [where P = "\<lambda>d. find_action i d = Some row", OF assms(1,2)])
    (rule assms(3) keeps_action_step
      keeps_after [where P = "\<lambda>d. find_action i d = Some row", OF action_kept.keeps_execute_begin assms(2,3)])+

subsection \<open>What a step does to the workflow\<close>

fun pending :: "task \<Rightarrow> ActionProposal list" where
  "pending (Executing aid actor x a) = [a]"
| "pending _ = []"

definition in_flight :: "system \<Rightarrow> ActionProposal list" where
  "in_flight s = concat (map pending (tasks s))"

definition same_tables :: "db \<Rightarrow> db \<Rightarrow> bool" where
  "same_tables d d' \<longleftrightarrow> workflow_tables (approval_decisions d) (map ax_action_id (action_executions d)) d'"

lemma same_tables_refl [simp]: "same_tables d d"
  by (simp add: same_tables_def workflow_tables_def)

context commit_frame begin

lemma framed_recovery: "framed R (recover_stale_executions env thr op cid)" "framed R (recover_stale_actions env thr op cid)"
  unfolding recover_stale_executions_def fail_stale_execution_def recover_stale_actions_def fail_stale_action_def
  by (intro writes)+

lemma framed_run_begin: "framed R (run_begin env alert key eid cid)"
  unfolding run_begin_def find_replay_def persist_start_def orch_audit_def by (intro writes framed_failure)

lemma framed_store_run: "framed R (store_run env er cases)"
  unfolding store_run_def evaluations_add_run_def evaluations_add_case_def by (intro writes)

end

lemma framed_executed: "framed nothing_executed m \<Longrightarrow> executed (snd (m w)) = executed w"
  by (simp add: framed_def nothing_executed_def)

lemmas executes_nothing = quiet_frame.framed_ingest [THEN framed_executed] quiet_frame.framed_run_begin [THEN framed_executed]
  quiet_frame.framed_iteration [THEN framed_executed] quiet_frame.framed_conclude [THEN framed_executed]
  quiet_frame.framed_recovery [THEN framed_executed] quiet_frame.framed_decide [THEN framed_executed]
  quiet_frame.framed_store_run [THEN framed_executed]

lemma keeps_tables: "keeps_db (workflow_tables (approval_decisions (store w)) (map ax_action_id (action_executions (store w)))) m
    \<Longrightarrow> at_rest w = w \<Longrightarrow> same_tables (store w) (store (snd (m w)))"
  unfolding same_tables_def by (erule (1) keeps_after) (simp add: workflow_tables_def)

lemmas settles = settled_store.keeps_ingest [THEN keeps_tables] settled_store.keeps_run_begin [THEN keeps_tables]
  settled_store.keeps_iteration [THEN keeps_tables] settled_store.keeps_conclude [THEN keeps_tables]
  settled_store.keeps_execution_recovery [THEN keeps_tables] settled_store.keeps_action_recovery [THEN keeps_tables]
  settled_store.keeps_execute_finish [THEN keeps_tables] settled_store.keeps_store_run [THEN keeps_tables]

lemma finish_executes: "executed (snd (execute_finish env svc aid actor x a w)) = executed w @ [a]"
  using execute_finish_wp [of env svc aid actor x a w] by (simp add: wp_both)

lemma decide_outcome:
  assumes "named_actions (store w)"
  shows "store (snd (decide env svc aid who why dec w)) = store w
    \<or> (\<exists>ap. find_approval aid (store w) = None
         \<and> recorded env svc aid who dec (store w) (store (snd (decide env svc aid who why dec w))) ap)"
  using decide_wp [OF named_identified [OF assms], of env svc aid who why dec]
  by (auto simp: wp_def decide_returns_def unchanged_def split: prod.splits sum.splits)

text \<open>The kinds of steps, as the workflow sees them.\<close>

lemma step_kinds:
  assumes "system_step env orc svc s s'" and "at_rest (sys_world s) = sys_world s" and "named_actions (store (sys_world s))"
  obtains (quiet) us ts vs where "executed (sys_world s') = executed (sys_world s)"
      "same_tables (store (sys_world s)) (store (sys_world s'))" "in_flight s = us @ ts @ vs" "in_flight s' = us @ vs"
    | (decided) aid who dec ap where "executed (sys_world s') = executed (sys_world s)" "in_flight s' = in_flight s"
      "find_approval aid (store (sys_world s)) = None" "recorded env svc aid who dec (store (sys_world s)) (store (sys_world s')) ap"
    | (claim) aid x a t where "executed (sys_world s') = executed (sys_world s)" "in_flight s' = in_flight s @ [a]"
      "claimed env svc aid t (store (sys_world s)) (store (sys_world s')) x a" "find_action_execution aid (store (sys_world s)) = None"
    | (finish) us a vs where "executed (sys_world s') = executed (sys_world s) @ [a]"
      "same_tables (store (sys_world s)) (store (sys_world s'))" "in_flight s = us @ a # vs" "in_flight s' = us @ vs"
proof -
  let ?w = "sys_world s"
  have still: thesis if "store (sys_world s') = store v" "executed (sys_world s') = executed v" "same_tables (store ?w) (store v)"
    "executed v = executed ?w" "in_flight s' = in_flight s" for v
    using quiet [of "in_flight s" "[]" "[]"] that by simp
  note rest = assms(2)
  from assms(1) show thesis
  proof cases
    case (ingestion alert cid actor)
    show thesis by (rule still [OF _ _ settles(1) [OF rest] executes_nothing(1)]) (simp_all add: ingestion in_flight_def)
  next
    case (run_started alert key eid cid t0 w)
    show thesis by (rule still [OF _ _ settles(2) [OF rest] executes_nothing(2), of env alert key eid cid])
        (simp_all add: run_started in_flight_def)
  next
    case (run_not_started alert key eid cid)
    show thesis by (rule still [OF _ _ settles(2) [OF rest] executes_nothing(2)]) (simp_all add: run_not_started(1) in_flight_def)
  next
    case (run_iterated us alert eid cid t0 n st vs r w)
    have none: "concat (map pending (case r of Inl _ \<Rightarrow> [] | Inr (Inl e) \<Rightarrow> [Ending alert eid cid e]
        | Inr (Inr st') \<Rightarrow> [Looping alert eid cid t0 n st'])) = []"
      by (cases r) (auto split: sum.splits)
    show thesis by (rule still [OF _ _ settles(3) [OF rest] executes_nothing(3), of env orc alert eid cid t0 "max_iterations (orc_limits orc) - n" st])
        (use none in \<open>simp_all add: run_iterated in_flight_def\<close>)
  next
    case (run_exhausted us alert eid cid t0 st vs)
    show thesis by (rule still [of ?w]) (simp_all add: run_exhausted in_flight_def)
  next
    case (run_concluded us alert eid cid e vs)
    show thesis by (rule still [OF _ _ settles(4) [OF rest] executes_nothing(4)]) (simp_all add: run_concluded in_flight_def)
  next
    case (decision_made aid who why dec)
    have ex: "executed (sys_world s') = executed ?w" "in_flight s' = in_flight s"
      by (simp_all add: decision_made in_flight_def executes_nothing)
    from decide_outcome [OF assms(3), of env svc aid who why dec] show thesis
    proof
      assume "store (snd (decide env svc aid who why dec ?w)) = store ?w"
      then show thesis using still [of ?w] ex decision_made by simp
    next
      assume "\<exists>ap. find_approval aid (store ?w) = None
        \<and> recorded env svc aid who dec (store ?w) (store (snd (decide env svc aid who why dec ?w))) ap"
      then show thesis using decided [OF ex] decision_made by auto
    qed
  next
    case (execution_claimed aid actor x a w)
    have "begin_returns env svc aid actor ?w (Inr (x, a)) w"
      using begin_outcome [OF assms(3), where env = env and svc = svc and aid = aid and actor = actor] execution_claimed(2) by simp
    then show thesis using claim execution_claimed(1) by (auto simp: begin_returns_def in_flight_def)
  next
    case (execution_refused aid actor)
    have "executed (snd (execute_begin env svc aid actor ?w)) = executed ?w
        \<and> same_tables (store ?w) (store (snd (execute_begin env svc aid actor ?w)))"
      using begin_outcome [OF assms(3), where env = env and svc = svc and aid = aid and actor = actor] execution_refused(2)
      by (auto simp: begin_returns_def begin_raises_def same_tables_def workflow_tables_def insert_event_def split: sum.splits)
    then show thesis using still [of "snd (execute_begin env svc aid actor ?w)"] execution_refused(1) by (simp add: in_flight_def)
  next
    case (execution_finished us aid actor x a vs)
    show thesis
      by (rule finish [of a "concat (map pending us)" "concat (map pending vs)"])
        (simp_all add: execution_finished in_flight_def finish_executes settles(7) [OF rest])
  next
    case (executions_recovered threshold operator cid)
    show thesis by (rule still [OF _ _ settles(5) [OF rest] executes_nothing(5)]) (simp_all add: executions_recovered in_flight_def)
  next
    case (actions_recovered threshold operator cid)
    show thesis by (rule still [OF _ _ settles(6) [OF rest] executes_nothing(6)]) (simp_all add: actions_recovered in_flight_def)
  next
    case (evaluation_stored er cases)
    show thesis by (rule still [OF _ _ settles(8) [OF rest] executes_nothing(8)]) (simp_all add: evaluation_stored in_flight_def)
  next
    case (observed w)
    then show thesis using still [of ?w] by (simp add: in_flight_def)
  next
    case (task_lost us t vs)
    then show thesis using quiet [of "concat (map pending us)" "pending t" "concat (map pending vs)"] by (simp add: in_flight_def)
  qed
qed

subsection \<open>The invariant of the system\<close>

text \<open>An action that was handed out is claimed, and is the action stored under its identifier.\<close>

definition traced :: "db \<Rightarrow> ActionProposal \<Rightarrow> bool" where
  "traced d a \<longleftrightarrow> action_id a \<in> ax_action_id ` set (action_executions d)
     \<and> (\<exists>row. find_action (action_id a) d = Some row \<and> row_action row = a)"

definition system_inv :: "'e env_scheme \<Rightarrow> approval_service \<Rightarrow> system \<Rightarrow> bool" where
  "system_inv env svc s \<longleftrightarrow> at_rest (sys_world s) = sys_world s \<and> sound_db env svc (store (sys_world s))
     \<and> distinct (map action_id (in_flight s @ executed (sys_world s)))
     \<and> (\<forall>a \<in> set (in_flight s @ executed (sys_world s)). traced (store (sys_world s)) a)"

lemma same_tables_claims: "same_tables d d' \<Longrightarrow> ax_action_id ` set (action_executions d') = ax_action_id ` set (action_executions d)"
  unfolding same_tables_def workflow_tables_def by (metis set_map)

lemma claimed_claims:
  assumes "claimed env svc aid t d d' x a"
  shows "ax_action_id ` set (action_executions d') = insert aid (ax_action_id ` set (action_executions d))"
  using claimed_frame(2,3) [OF assms] by simp

lemma recorded_claims: "recorded env svc aid who dec d d' ap \<Longrightarrow> action_executions d' = action_executions d"
  by (auto simp: recorded_def insert_event_def insert_approval_def)

text \<open>The claims only grow.\<close>

lemma step_claims:
  assumes "system_step env orc svc s s'" and "at_rest (sys_world s) = sys_world s" and "named_actions (store (sys_world s))"
  shows "ax_action_id ` set (action_executions (store (sys_world s))) \<subseteq> ax_action_id ` set (action_executions (store (sys_world s')))"
  by (cases rule: step_kinds [OF assms]) (auto simp: recorded_claims dest: same_tables_claims claimed_claims)

lemma step_traced:
  assumes "system_step env orc svc s s'" and "at_rest (sys_world s) = sys_world s" and "named_actions (store (sys_world s))"
    and "traced (store (sys_world s)) a"
  shows "traced (store (sys_world s')) a"
  using assms(4) step_claims [OF assms(1-3)] step_action_kept [OF assms(1,2)] unfolding traced_def by blast

lemma step_system_inv:
  assumes "system_step env orc svc s s'" and "identifiers_valid env" and "system_inv env svc s"
  shows "system_inv env svc s'"
proof -
  have rest: "at_rest (sys_world s) = sys_world s" and sound: "sound_db env svc (store (sys_world s))"
    and dist: "distinct (map action_id (in_flight s @ executed (sys_world s)))"
    and traced: "\<forall>a \<in> set (in_flight s @ executed (sys_world s)). traced (store (sys_world s)) a"
    using assms(3) by (simp_all add: system_inv_def)
  have named: "named_actions (store (sys_world s))" using sound by (simp add: sound_db_def)
  note kept = step_traced [OF assms(1) rest named]
  have "distinct (map action_id (in_flight s' @ executed (sys_world s')))
    \<and> (\<forall>a \<in> set (in_flight s' @ executed (sys_world s')). traced (store (sys_world s')) a)"
  proof (cases rule: step_kinds [OF assms(1) rest named, case_names quiet decided claim finish])
    case (claim aid x a t)
    obtain row where row: "find_action aid (store (sys_world s)) = Some row" "row_action row = a"
      using claimed_frame(6) [OF claim(3)] by auto
    have aid: "row_action_id row = aid" "row \<in> set (recommended_actions_table (store (sys_world s)))"
      using row(1) by (auto simp: find_action_def dest: row_get_SomeD)
    then have id: "action_id a = aid" using named row(2) by (auto simp: named_actions_def)
    have new: "aid \<notin> ax_action_id ` set (action_executions (store (sys_world s)))"
      using claim(4) by (simp add: find_action_execution_def row_get_None)
    have "traced (store (sys_world s')) a"
      using step_action_kept [OF assms(1) rest row(1)] claimed_claims [OF claim(3)] row(2) by (simp add: traced_def id)
    moreover have "aid \<notin> action_id ` set (in_flight s @ executed (sys_world s))"
      using traced new unfolding traced_def by blast
    ultimately show ?thesis using dist traced kept by (auto simp: claim(1,2) id)
  qed (use dist traced kept in auto)
  then show ?thesis
    using step_at_rest [OF assms(1) rest] step_sound [OF assms(1) rest assms(2) sound] by (simp add: system_inv_def)
qed

lemma sound_empty: "sound_db env svc empty_db"
  using valid_empty by (simp add: sound_db_def) (simp add: named_actions_def all_authorized_def empty_db_def)

lemma reachable_inv: "reachable env orc svc s \<Longrightarrow> identifiers_valid env \<Longrightarrow> system_inv env svc s"
proof (induction rule: reachable.induct)
  case (start s)
  then show ?case by (simp add: initial_system_def system_inv_def in_flight_def sound_empty)
next
  case (step s s')
  then show ?case by (blast intro: step_system_inv)
qed

subsection \<open>Properties of every interleaving\<close>

lemma performed_approved:
  assumes "sound_db env svc d" and "traced d a"
  shows "\<exists>ap. find_approval (action_id a) d = Some ap \<and> decision ap = Approve
    \<and> reviewer_id ap \<in> svc_authorization svc \<and> ap_action_digest ap = digest (sha256 env) a"
proof -
  obtain x where x: "x \<in> set (action_executions d)" "ax_action_id x = action_id a" using assms(2) by (auto simp: traced_def)
  have "authorized_execution (sha256 env) (svc_authorization svc) d x"
    using assms(1) x(1) by (simp add: sound_db_def all_authorized_def)
  then show ?thesis using assms(2) x(2) unfolding authorized_execution_def traced_def by auto
qed

lemma same_tables_workflow: "same_tables d d' \<Longrightarrow> find_approval i d' = find_approval i d"
  by (simp add: same_tables_def workflow_tables_def find_approval_def)

lemma recorded_approvals:
  assumes "recorded env svc aid who dec d d' ap" and "find_approval aid d = None"
  shows "(\<lambda>i. map_option decision (find_approval i d')) = (\<lambda>i. map_option decision (find_approval i d))(aid \<mapsto> dec)"
proof -
  obtain ev where d': "d' = insert_event ev (insert_approval ap d)" and ap: "ap_action_id ap = aid" "decision ap = dec"
    using assms(1) by (auto simp: recorded_def)
  have "find_approval i d' = (if i = aid then Some ap else find_approval i d)" for i
    using assms(2) row_get_snoc [of ap_action_id ap "approval_decisions d" i]
    by (simp add: find_approval_def d' insert_event_def insert_approval_def ap)
  then show ?thesis using ap(2) by auto
qed

lemma claimed_approval:
  assumes "claimed env svc aid t d d' x a"
  shows "find_approval i d' = find_approval i d" and "\<exists>ap. find_approval aid d = Some ap \<and> decision ap = Approve"
proof -
  show "find_approval i d' = find_approval i d"
    using assms by (auto simp: claimed_def find_approval_def insert_event_def insert_action_execution_def)
  show "\<exists>ap. find_approval aid d = Some ap \<and> decision ap = Approve"
    using claimed_frame(1,3) [OF assms] by (auto simp: authorized_execution_def)
qed

lemma step_workflow:
  assumes "system_step env orc svc s s'" and "system_inv env svc s"
  shows "workflow_of s' = workflow_of s \<or> workflow_step (workflow_of s) (workflow_of s')"
proof -
  have rest: "at_rest (sys_world s) = sys_world s" and named: "named_actions (store (sys_world s))"
    and dist: "distinct (map action_id (in_flight s @ executed (sys_world s)))"
    and traced: "\<forall>a \<in> set (in_flight s @ executed (sys_world s)). traced (store (sys_world s)) a"
    using assms(2) by (simp_all add: system_inv_def sound_db_def)
  show ?thesis
  proof (cases rule: step_kinds [OF assms(1) rest named, case_names quiet decided claim finish])
    case (quiet us ts vs)
    then show ?thesis by (simp add: workflow_of_def same_tables_workflow same_tables_claims)
  next
    case (decided aid who dec ap)
    then have "workflow_of s' = (workflow_of s)\<lparr>decided_as := (decided_as (workflow_of s))(aid \<mapsto> dec)\<rparr>"
      by (simp add: workflow_of_def recorded_claims [OF decided(4)] recorded_approvals [OF decided(4,3)])
    then show ?thesis using workflow_step.deciding [of "workflow_of s" aid dec] decided(3) by (simp add: workflow_of_def)
  next
    case (claim aid x a t)
    have "workflow_of s' = (workflow_of s)\<lparr>claims := insert aid (claims (workflow_of s))\<rparr>"
      by (simp add: workflow_of_def claim(1) claimed_approval(1) [OF claim(3)] claimed_claims [OF claim(3)])
    moreover have "decided_as (workflow_of s) aid = Some Approve" "aid \<notin> claims (workflow_of s)"
      using claimed_approval(2) [OF claim(3)] claim(4)
      by (auto simp: workflow_of_def find_action_execution_def row_get_None)
    ultimately show ?thesis using workflow_step.claiming [of "workflow_of s" aid] by simp
  next
    case (finish us a vs)
    have "workflow_of s' = (workflow_of s)\<lparr>performed := performed (workflow_of s) @ [action_id a]\<rparr>"
      using finish by (simp add: workflow_of_def same_tables_workflow same_tables_claims)
    moreover have "action_id a \<in> claims (workflow_of s)" "action_id a \<notin> set (performed (workflow_of s))"
      using finish(3) dist traced by (auto simp: workflow_of_def traced_def)
    ultimately show ?thesis using workflow_step.performing [of "action_id a" "workflow_of s"] by simp
  qed
qed

text \<open>C24: the system refines the abstract workflow. However requests, runs, recoveries, lost tasks and
  executions interleave, every step leaves the workflow of all actions as it is or is one of its three
  moves: a first decision for an action, the claim of an approved action that nobody claimed, or the
  one call of the executor for a claimed action.\<close>

theorem system_refines_workflow:
  assumes "reachable env orc svc s" and "identifiers_valid env" and "system_step env orc svc s s'"
  shows "workflow_of s' = workflow_of s \<or> workflow_step (workflow_of s) (workflow_of s')"
  using step_workflow [OF assms(3) reachable_inv [OF assms(1,2)]] .

text \<open>C25: in every reachable state no action was handed to the executor twice, every action that was is the
  one stored under its identifier and carries an approval by an authorized reviewer that is bound to
  its digest, and the database satisfies every constraint of the schema.\<close>

theorem actions_execute_at_most_once:
  assumes "reachable env orc svc s" and "identifiers_valid env"
  shows "distinct (map action_id (executed (sys_world s))) \<and> valid_db (store (sys_world s))
    \<and> (\<forall>a \<in> set (executed (sys_world s)).
         (\<exists>row. find_action (action_id a) (store (sys_world s)) = Some row \<and> row_action row = a)
         \<and> (\<exists>ap. find_approval (action_id a) (store (sys_world s)) = Some ap \<and> decision ap = Approve
              \<and> reviewer_id ap \<in> svc_authorization svc \<and> ap_action_digest ap = digest (sha256 env) a))"
proof -
  note inv = reachable_inv [OF assms]
  then have "valid_db (store (sys_world s))" "distinct (map action_id (executed (sys_world s)))"
    by (simp_all add: system_inv_def sound_db_def)
  moreover have "traced (store (sys_world s)) a" "sound_db env svc (store (sys_world s))"
    if "a \<in> set (executed (sys_world s))" for a
    using inv that by (simp_all add: system_inv_def)
  ultimately show ?thesis using performed_approved by (simp add: traced_def) blast
qed

end
