(* ===== verification/System_Example.thy ===== *)
theory System_Example
  imports System Orchestrator_Example
begin

text \<open>Concrete reachable states, and what the interleaving of a recovery and an execution leads to.\<close>

definition steady_env :: env where
  "steady_env = sample_env\<lparr>fresh_id := (\<lambda>_ _. ''id-'')\<rparr>"

lemma steady_identifiers: "identifiers_valid steady_env"
  by (simp add: identifiers_valid_def steady_env_def)

definition empty_system :: system where
  "empty_system = \<lparr>sys_world = world_of empty_db, tasks = []\<rparr>"

lemma empty_reachable: "reachable env orc svc empty_system"
  by (rule reachable.start) (simp add: initial_system_def empty_system_def at_rest_def world_of_def)

text \<open>The first request of a fresh service: an alert arrives.\<close>

definition alerted_system :: system where
  "alerted_system = empty_system\<lparr>sys_world := at_rest (snd (ingest steady_env sample_alert ''corr-1'' ''rev'' (world_of empty_db)))\<rparr>"

lemma alerted_step: "system_step steady_env sample_orchestrator sample_service empty_system alerted_system"
  using system_step.ingestion [of steady_env sample_orchestrator sample_service empty_system sample_alert "''corr-1''" "''rev''"]
  by (simp add: alerted_system_def empty_system_def)

theorem system_refines_workflow_witness:
  "workflow_of alerted_system = workflow_of empty_system \<or> workflow_step (workflow_of empty_system) (workflow_of alerted_system)"
  by (rule system_refines_workflow [OF empty_reachable steady_identifiers alerted_step])

subsection \<open>A late success replaces a recovered failure\<close>

text \<open>
  The execution of \<open>x\<close> was claimed, recovery has since failed its row \<open>z\<close>, and the executor answers only
  now: the request still returns a durable success and the row reads as a success again.
\<close>

lemma late_success_replaces_recovered_failure:
  assumes q: "quiet env 1 w" and i: "Identifier aid = Some aid" "Identifier actor = Some actor"
    and row: "find_action_execution_by_id (action_execution_id x) (store w) = Some z" and failed: "ax_state z = AFailed"
    and ex: "svc_executor svc = SimulatedActionExecutor"
  shows "\<exists>out row. fst (execute_finish env svc aid actor x a w) = Inr out \<and> durable out
    \<and> find_action_execution_by_id (action_execution_id x) (store (snd (execute_finish env svc aid actor x a w))) = Some row
    \<and> ax_state row = ASucceeded"
proof -
  define v where "v = w\<lparr>executed := executed w @ [a]\<rparr>"
  obtain r where r: "executor_execute SimulatedActionExecutor (length (executed w)) a = Inr r"
    by (simp add: SimulatedActionExecutor_def)
  have run: "execute_finish env svc aid actor x a w = finish_succeeded env x aid actor r v"
    by (simp add: execute_finish_def bindE_def call_executor_def ex r v_def)
  have qv: "quiet env (Suc 0) v" using q by (simp add: quiet_def v_def)
  have rowv: "find_action_execution_by_id (action_execution_id x) (store v) = Some z" using row by (simp add: v_def)
  obtain out w' where fin: "finish_succeeded env x aid actor r v = (Inr out, w')" and d: "durable out"
    and y: "action_execution_id (outcome_record out) = action_execution_id x" "ax_state (outcome_record out) = ASucceeded"
    and st: "action_executions (store w') = action_executions (replace_action_execution (outcome_record out) (store v))"
    using finish_progress [OF qv i rowv, of r] by (auto simp: wp_def split: prod.splits sum.splits)
  have "find_action_execution_by_id (action_execution_id x) (store w') = Some (update_action_execution (outcome_record out) z)"
    using action_execution_repo.get_replace [of "outcome_record out" "store v" z "action_execution_id x"] rowv y(1) st
    by (simp add: find_action_execution_by_id_def)
  then show ?thesis using fin d y(2) by (auto simp: run update_action_execution_def)
qed

end
