(* ===== verification/Workflow.thy ===== *)
theory Workflow
  imports System_Example "HOL-Library.Sublist"
begin

text \<open>
  Histories of the abstract workflow. Its moves only add: a decision is never changed or withdrawn, a
  claim is never released, and the calls of the executor form a growing list. The refinement carries
  this over to every interleaving of the system, whatever it recovers or loses on the way.
\<close>

inductive_cases workflow_stepE [elim]: "workflow_step a b"
inductive_simps workflow_step_iff: "workflow_step a b"

definition workflow_extends :: "workflow \<Rightarrow> workflow \<Rightarrow> bool" where
  "workflow_extends a b \<longleftrightarrow>
     decided_as a \<subseteq>\<^sub>m decided_as b \<and> claims a \<subseteq> claims b \<and> prefix (performed a) (performed b)"

text \<open>Decided before claimed, claimed before performed, performed once.\<close>

definition orderly :: "workflow \<Rightarrow> bool" where
  "orderly a \<longleftrightarrow> (\<forall>i \<in> claims a. decided_as a i = Some Approve) \<and> set (performed a) \<subseteq> claims a \<and> distinct (performed a)"

lemma workflow_extends_refl: "workflow_extends a a"
  by (simp add: workflow_extends_def)

lemma workflow_extends_trans: "workflow_extends a b \<Longrightarrow> workflow_extends b c \<Longrightarrow> workflow_extends a c"
  unfolding workflow_extends_def using map_le_trans prefix_order.trans by blast

lemma workflow_step_extends: "workflow_step a b \<Longrightarrow> workflow_extends a b"
  by (erule workflow_stepE) (auto simp: workflow_extends_def map_le_def)

lemma workflow_step_orderly: "workflow_step a b \<Longrightarrow> orderly a \<Longrightarrow> orderly b"
  by (erule workflow_stepE) (auto simp: orderly_def)

text \<open>What one more step can do to an action, by the move that it makes.\<close>

lemma workflow_step_decided:
  "workflow_step a b \<Longrightarrow> decided_as b i \<noteq> decided_as a i \<Longrightarrow> decided_as a i = None \<and> claims b = claims a \<and> performed b = performed a"
  by (auto simp: workflow_step_iff split: if_splits)

lemma initial_workflow:
  "initial_system s \<Longrightarrow> workflow_of s = \<lparr>decided_as = Map.empty, claims = {}, performed = []\<rparr>"
  by (auto simp: initial_system_def workflow_of_def empty_db_def find_approval_def row_get_def)

lemma reachable_orderly:
  assumes "reachable env orc svc s" and "identifiers_valid env"
  shows "orderly (workflow_of s)"
  using assms(1)
proof (induction rule: reachable.induct)
  case (start s)
  then show ?case by (simp add: initial_workflow orderly_def)
next
  case (step s s')
  then show ?case
    using step_workflow [OF step.hyps(2) reachable_inv [OF step.hyps(1) assms(2)]] workflow_step_orderly by metis
qed

lemma reachable_steps:
  assumes "(system_step env orc svc)\<^sup>*\<^sup>* s s'" and "reachable env orc svc s"
  shows "reachable env orc svc s'"
  using assms by (induction rule: rtranclp_induct) (auto intro: reachable.step)

text \<open>C26: however a service is used, from any state it can be in, its history only grows: a decision on
  record is never changed or withdrawn, the claim of an action is never released, and the calls of the
  executor so far stay as they are. At every moment an action was decided before it was claimed,
  claimed before the executor saw it, and seen by the executor once.\<close>

theorem history_only_grows:
  assumes "reachable env orc svc s" and "identifiers_valid env" and "(system_step env orc svc)\<^sup>*\<^sup>* s s'"
  shows "workflow_extends (workflow_of s) (workflow_of s') \<and> orderly (workflow_of s')"
proof
  show "workflow_extends (workflow_of s) (workflow_of s')"
    using assms(3)
  proof (induction rule: rtranclp_induct)
    case base
    show ?case by (rule workflow_extends_refl)
  next
    case (step t t')
    have "system_inv env svc t" using reachable_inv [OF reachable_steps [OF step.hyps(1) assms(1)] assms(2)] .
    from step_workflow [OF step.hyps(2) this] step.IH show ?case
      using workflow_step_extends workflow_extends_trans by metis
  qed
  show "orderly (workflow_of s')" using reachable_orderly [OF reachable_steps [OF assms(3,1)] assms(2)] .
qed

end
