(* ===== verification/Requests.thy ===== *)
theory Requests
  imports Workflow Orchestrator_Example
begin

text \<open>
  Whole requests. A service call that nothing interrupts is a path of the interleaved system, so
  everything that holds in its reachable states holds however requests are served one after the
  other. The last section serves a list of requests from an empty database up to the execution of the
  action that the run recommended.
\<close>

subsection \<open>Operations that leave no open session\<close>

definition resting :: "world \<Rightarrow> bool" where
  "resting w \<longleftrightarrow> session w = store w \<and> \<not> broken w"

lemma resting_at_rest: "at_rest w = w \<longleftrightarrow> resting w"
  by (cases w) (auto simp: at_rest_def resting_def)

definition stays_resting :: "world \<Rightarrow> world \<Rightarrow> bool" where
  "stays_resting w w' \<longleftrightarrow> (resting w \<longrightarrow> resting w')"

interpretation rest_frame: step_relation stays_resting
  by unfold_locales (simp_all add: stays_resting_def)

abbreviation rests :: "(world, 'x, 'a) op \<Rightarrow> bool" where
  "rests \<equiv> framed stays_resting"

lemmas rests_def = framed_def stays_resting_def

lemma restsD: "rests m \<Longrightarrow> at_rest w = w \<Longrightarrow> at_rest (snd (m w)) = snd (m w)"
  by (simp add: rests_def resting_at_rest)

lemma rests_services: "rests (now env)" "rests (monotonic_ms env)" "rests (next_id env purpose)"
  by (simp_all add: rests_def resting_def now_def monotonic_ms_def next_id_def)

text \<open>A unit of work ends with a rollback of what is left, whatever its body does.\<close>

lemma rests_with_uow: "rests (with_uow m)"
  unfolding rests_def with_uow_def bindE_def catch_def rollback_def modify_def ret_def raise_def resting_def
  by (simp split: prod.split sum.split)

lemmas rests_rules = rest_frame.flow rests_services rests_with_uow

lemma rests_silent:
  "(\<And>w. store (snd (m w)) = store w \<and> session (snd (m w)) = session w \<and> broken (snd (m w)) = broken w) \<Longrightarrow> rests m"
  by (simp add: rests_def resting_def)

lemma rests_on_failure: "rests m \<Longrightarrow> rests (on_failure env eid cid categ m)"
  unfolding on_failure_def record_persistence_failure_def by (intro rests_rules; assumption?)

subsection \<open>The parts of a request\<close>

lemma rests_run_begin: "rests (run_begin env alert key eid cid)"
  unfolding run_begin_def find_replay_def persist_start_def by (intro rests_rules rests_on_failure)

lemma rests_iteration: "rests (iteration_step env orc alert eid cid t0 it st)"
proof -
  have "rests (ask_reasoner orc rcx)" "rests (gateway_call env orc proposal ctx)" for rcx proposal ctx
    by (auto intro!: rests_silent simp: ask_reasoner_def gateway_call_def tick_gateway_def now_def monotonic_ms_def
        bindE_def ret_def split: prod.split)
  moreover have "rests (persist_tool env call res goal)" for call res goal
    unfolding persist_tool_def by (intro rests_rules rests_on_failure)
  moreover have "rests (to_evidence env call d)" for call d
    unfolding to_evidence_def Let_def by (intro rests_rules)
  ultimately have "rests (tool_step env orc st tname args goal)" for tname args goal
    unfolding tool_step_def Let_def by (intro rests_rules; assumption?)
  with \<open>\<And>rcx. rests (ask_reasoner orc rcx)\<close> show ?thesis
    unfolding iteration_step_def
    by (intro rests_rules; (assumption | auto intro: rests_rules split: reasoner_reply.split option.split ReasonerStep.split)?)
qed

lemma rests_conclude: "rests (conclude env orc alert eid cid e)"
proof -
  have "rests (policy_decision env orc alert payload)" for payload
    unfolding policy_decision_def by (intro rest_frame.framed_bindE rests_services rests_silent) (simp add: Let_def split: prod.split)
  moreover have "rests (finalize env eid cid dec rcode)" for dec rcode
    unfolding finalize_def persist_final_def by (intro rests_rules rests_on_failure)
  ultimately show ?thesis
    unfolding conclude_def by (auto intro!: rests_rules split: loop_end.split)
qed

lemma rests_execute_begin: "rests (execute_begin env svc aid actor)"
  unfolding execute_begin_def by (intro rests_rules)

lemma rests_execute_finish: "rests (execute_finish env svc aid actor x a)"
proof -
  have "rests (call_executor exc a)" for exc
    by (intro rests_silent) (simp add: call_executor_def)
  then show ?thesis
    unfolding execute_finish_def finish_failed_def finish_succeeded_def Let_def by (intro rests_rules; assumption?)
qed

lemma rests_others: "rests (ingest env alert cid actor)" "rests (decide env svc aid who why dec)"
  "rests (recover_stale_executions env thr op cid)" "rests (recover_stale_actions env thr op cid)"
  unfolding ingest_def decide_def recover_stale_executions_def recover_stale_actions_def by (intro rests_rules)+

subsection \<open>Requests are paths\<close>

datatype request =
    Ingest SecurityAlert string string
  | Triage SecurityAlert string string string
  | Decide string string string ApprovalDecision
  | Execute string string
  | Recover_Executions int string string
  | Recover_Actions int string string

fun perform :: "'e env_scheme \<Rightarrow> orchestrator \<Rightarrow> approval_service \<Rightarrow> request \<Rightarrow> world \<Rightarrow> world" where
  "perform env orc svc (Ingest alert cid actor) w = snd (ingest env alert cid actor w)"
| "perform env orc svc (Triage alert key eid cid) w = snd (run env orc alert key eid cid w)"
| "perform env orc svc (Decide aid who why dec) w = snd (decide env svc aid who why dec w)"
| "perform env orc svc (Execute aid actor) w = snd (execute env svc aid actor w)"
| "perform env orc svc (Recover_Executions thr op cid) w = snd (recover_stale_executions env thr op cid w)"
| "perform env orc svc (Recover_Actions thr op cid) w = snd (recover_stale_actions env thr op cid w)"

text \<open>Requests served one after the other.\<close>

definition perform_all :: "'e env_scheme \<Rightarrow> orchestrator \<Rightarrow> approval_service \<Rightarrow> request list \<Rightarrow> world \<Rightarrow> world" where
  "perform_all env orc svc rs w = fold (perform env orc svc) rs w"

abbreviation path where "path env orc svc \<equiv> (system_step env orc svc)\<^sup>*\<^sup>*"

lemma step_path:
  assumes "system_step env orc svc s s'" and "path env orc svc s' t"
  shows "path env orc svc s t"
  using assms by (rule converse_rtranclp_into_rtranclp)

text \<open>A loop that nothing interrupts, as the last task.\<close>

lemma loop_path:
  assumes "at_rest w = w" and "run_loop env orc alert eid cid t0 n st w = (r, w')"
  shows "path env orc svc \<lparr>sys_world = w, tasks = ts @ [Looping alert eid cid t0 n st]\<rparr>
    \<lparr>sys_world = w', tasks = ts @ (case r of Inl _ \<Rightarrow> [] | Inr e \<Rightarrow> [Ending alert eid cid e])\<rparr>"
  using assms
proof (induction n arbitrary: w st)
  case 0
  then show ?case
    using system_step.run_exhausted [of "\<lparr>sys_world = w, tasks = ts @ [Looping alert eid cid t0 0 st]\<rparr>" ts alert eid cid t0 st "[]" env orc svc]
    by (auto simp: ret_def)
next
  case (Suc n)
  obtain q v where it: "iteration_step env orc alert eid cid t0 (max_iterations (orc_limits orc) - n) st w = (q, v)"
    by (cases "iteration_step env orc alert eid cid t0 (max_iterations (orc_limits orc) - n) st w")
  have v: "at_rest v = v" using restsD [OF rests_iteration Suc.prems(1)] it by (metis snd_conv)
  have first: "system_step env orc svc \<lparr>sys_world = w, tasks = ts @ [Looping alert eid cid t0 (Suc n) st]\<rparr>
      \<lparr>sys_world = v, tasks = ts @ (case q of Inl _ \<Rightarrow> [] | Inr (Inl e) \<Rightarrow> [Ending alert eid cid e]
        | Inr (Inr st') \<Rightarrow> [Looping alert eid cid t0 n st'])\<rparr>"
    using system_step.run_iterated [of "\<lparr>sys_world = w, tasks = ts @ [Looping alert eid cid t0 (Suc n) st]\<rparr>" ts alert eid cid t0 n st "[]"
        env orc q v svc] it v by simp
  show ?case
  proof (cases q)
    case (Inl e)
    then have "r = Inl e" "w' = v" using Suc.prems(2) it by (simp_all add: bindE_def)
    with first Inl show ?thesis by simp
  next
    case (Inr z)
    show ?thesis
    proof (cases z)
      case (Inl e)
      then have "r = Inr e" "w' = v" using Suc.prems(2) it Inr by (simp_all add: bindE_def ret_def)
      with first Inl Inr show ?thesis by simp
    next
      case (Inr st')
      then have "run_loop env orc alert eid cid t0 n st' v = (r, w')"
        using Suc.prems(2) it \<open>q = Inr z\<close> by (simp add: bindE_def)
      from step_path [OF first] Suc.IH [OF v this] Inr \<open>q = Inr z\<close> show ?thesis by simp
    qed
  qed
qed

lemma run_path:
  assumes "at_rest w = w"
  shows "path env orc svc \<lparr>sys_world = w, tasks = ts\<rparr>
    \<lparr>sys_world = snd (run env orc alert key eid cid w), tasks = ts\<rparr>"
proof (cases "\<exists>t0. fst (run_begin env alert key eid cid w) = Inr (Inr t0)")
  case True
  then obtain t0 v where b: "run_begin env alert key eid cid w = (Inr (Inr t0), v)"
    by (cases "run_begin env alert key eid cid w") auto
  have v: "at_rest v = v" using restsD [OF rests_run_begin assms] b by (metis snd_conv)
  let ?n = "max_iterations (orc_limits orc)" and ?st = "(new_context eid cid (from_alert alert) (orc_gateway_limits orc), [])"
  have first: "system_step env orc svc \<lparr>sys_world = w, tasks = ts\<rparr> \<lparr>sys_world = v, tasks = ts @ [Looping alert eid cid t0 ?n ?st]\<rparr>"
    using system_step.run_started [of env alert key eid cid "\<lparr>sys_world = w, tasks = ts\<rparr>" t0 v orc svc] b v by simp
  obtain r u where loop: "run_loop env orc alert eid cid t0 ?n ?st v = (r, u)"
    by (cases "run_loop env orc alert eid cid t0 ?n ?st v")
  note looping = step_path [OF first loop_path [OF v loop]]
  have run: "run env orc alert key eid cid w = (case r of Inl e \<Rightarrow> (Inl e, u) | Inr e \<Rightarrow> conclude env orc alert eid cid e u)"
    by (cases r) (simp_all add: run_parts bindE_def b run_rest_def loop)
  show ?thesis
  proof (cases r)
    case (Inl e)
    with looping run show ?thesis by simp
  next
    case (Inr e)
    have u: "at_rest (snd (conclude env orc alert eid cid e u)) = snd (conclude env orc alert eid cid e u)"
    proof (rule restsD [OF rests_conclude])
      have "at_rest (sys_world t) = sys_world t" if "path env orc svc s t" "at_rest (sys_world s) = sys_world s" for s t
        using that by (induction rule: rtranclp_induct) (auto dest: step_at_rest)
      from this [OF loop_path [OF v loop, of svc "[]"]] v show "at_rest u = u" by simp
    qed
    have "system_step env orc svc \<lparr>sys_world = u, tasks = ts @ [Ending alert eid cid e]\<rparr>
        \<lparr>sys_world = snd (conclude env orc alert eid cid e u), tasks = ts\<rparr>"
      using system_step.run_concluded [of "\<lparr>sys_world = u, tasks = ts @ [Ending alert eid cid e]\<rparr>" ts alert eid cid e "[]" env orc svc] u
      by simp
    with looping run Inr show ?thesis by simp
  qed
next
  case False
  then have "snd (run env orc alert key eid cid w) = snd (run_begin env alert key eid cid w)"
    by (auto simp: run_parts bindE_def ret_def split: prod.splits sum.splits)
  then show ?thesis
    using system_step.run_not_started [of env alert key eid cid "\<lparr>sys_world = w, tasks = ts\<rparr>" orc svc] False
      restsD [OF rests_run_begin [of env alert key eid cid] assms] by auto
qed

lemma execute_path:
  assumes "at_rest w = w"
  shows "path env orc svc \<lparr>sys_world = w, tasks = ts\<rparr> \<lparr>sys_world = snd (execute env svc aid actor w), tasks = ts\<rparr>"
proof (cases "\<exists>x a. fst (execute_begin env svc aid actor w) = Inr (Inr (x, a))")
  case True
  then obtain x a v where b: "execute_begin env svc aid actor w = (Inr (Inr (x, a)), v)"
    by (cases "execute_begin env svc aid actor w") auto
  have v: "at_rest v = v" using restsD [OF rests_execute_begin assms] b by (metis snd_conv)
  have "system_step env orc svc \<lparr>sys_world = w, tasks = ts\<rparr> \<lparr>sys_world = v, tasks = ts @ [Executing aid actor x a]\<rparr>"
    using system_step.execution_claimed [of env svc aid actor "\<lparr>sys_world = w, tasks = ts\<rparr>" x a v orc] b v by simp
  moreover have "system_step env orc svc \<lparr>sys_world = v, tasks = ts @ [Executing aid actor x a]\<rparr>
      \<lparr>sys_world = snd (execute env svc aid actor w), tasks = ts\<rparr>"
    using system_step.execution_finished [of "\<lparr>sys_world = v, tasks = ts @ [Executing aid actor x a]\<rparr>" ts aid actor x a "[]" env orc svc]
      restsD [OF rests_execute_finish [of env svc aid actor x a] v] by (simp add: execute_def bindE_def b)
  ultimately show ?thesis using step_path r_into_rtranclp by metis
next
  case False
  then have "snd (execute env svc aid actor w) = snd (execute_begin env svc aid actor w)"
    by (auto simp: execute_def bindE_def ret_def split: prod.splits sum.splits)
  then show ?thesis
    using system_step.execution_refused [of env svc aid actor "\<lparr>sys_world = w, tasks = ts\<rparr>" orc] False
      restsD [OF rests_execute_begin [of env svc aid actor] assms] by auto
qed

lemma perform_rests:
  assumes "at_rest w = w"
  shows "at_rest (perform env orc svc r w) = perform env orc svc r w"
proof -
  have "rests (run_loop env orc alert eid cid t0 n st)" for alert eid cid t0 n st
    by (induction n arbitrary: st) (simp_all add: rests_rules rests_iteration)
  then have "rests (run env orc alert key eid cid)" for alert key eid cid
    unfolding run_parts run_rest_def by (intro rests_rules rests_run_begin rests_conclude)
  moreover have "rests (execute env svc aid actor)" for aid actor
    unfolding execute_def by (intro rests_rules rests_execute_begin rests_execute_finish)
  ultimately show ?thesis using assms by (cases r) (simp_all add: restsD rests_others)
qed

lemma perform_path:
  assumes "at_rest w = w"
  shows "path env orc svc \<lparr>sys_world = w, tasks = ts\<rparr> \<lparr>sys_world = perform env orc svc r w, tasks = ts\<rparr>"
proof (cases r)
  case (Ingest alert cid actor)
  then show ?thesis
    using system_step.ingestion [of env orc svc "\<lparr>sys_world = w, tasks = ts\<rparr>" alert cid actor] perform_rests [OF assms, of env orc svc r] by auto
next
  case (Decide aid who why dec)
  then show ?thesis
    using system_step.decision_made [of env orc svc "\<lparr>sys_world = w, tasks = ts\<rparr>" aid who why dec] perform_rests [OF assms, of env orc svc r]
    by auto
next
  case (Recover_Executions thr op cid)
  then show ?thesis
    using system_step.executions_recovered [of env orc svc "\<lparr>sys_world = w, tasks = ts\<rparr>" thr op cid] perform_rests [OF assms, of env orc svc r]
    by auto
next
  case (Recover_Actions thr op cid)
  then show ?thesis
    using system_step.actions_recovered [of env orc svc "\<lparr>sys_world = w, tasks = ts\<rparr>" thr op cid] perform_rests [OF assms, of env orc svc r]
    by auto
qed (simp_all add: run_path [OF assms] execute_path [OF assms])

lemma perform_all_path:
  "at_rest w = w \<Longrightarrow> path env orc svc \<lparr>sys_world = w, tasks = ts\<rparr> \<lparr>sys_world = perform_all env orc svc rs w, tasks = ts\<rparr>"
proof (induction rs arbitrary: w)
  case (Cons r rs)
  from rtranclp_trans [OF perform_path [OF Cons.prems] Cons.IH [OF perform_rests [OF Cons.prems]]] show ?case
    by (simp add: perform_all_def)
qed (simp add: perform_all_def)

lemma reachable_at_rest: "reachable env orc svc s \<Longrightarrow> at_rest (sys_world s) = sys_world s"
  by (induction rule: reachable.induct) (auto simp: initial_system_def dest: step_at_rest)

text \<open>Requests served one after the other, each to its end, are a path of the interleaved system that
  leaves the tasks in progress alone: ingestion, triage, decision, execution and both recoveries, in
  any number and order, from any state the system can be in. So the guarantees about reachable states
  cover every sequential use of the services.\<close>

theorem served_requests_are_system_paths:
  assumes "reachable env orc svc s"
  shows "(system_step env orc svc)\<^sup>*\<^sup>* s (s\<lparr>sys_world := perform_all env orc svc rs (sys_world s)\<rparr>)
    \<and> reachable env orc svc (s\<lparr>sys_world := perform_all env orc svc rs (sys_world s)\<rparr>)"
proof -
  have "path env orc svc s (s\<lparr>sys_world := perform_all env orc svc rs (sys_world s)\<rparr>)"
    using perform_all_path [OF reachable_at_rest [OF assms], where env = env and orc = orc and svc = svc and ts = "tasks s" and rs = rs] by (cases s) simp
  with reachable_steps [OF this assms] show ?thesis by blast
qed

subsection \<open>A served history\<close>

lemma sample_verdict_version: "pd_policy_version sample_verdict = POLICY_VERSION"
  using evaluate_cases [of "sha256 sample_env" the_catalog "fresh_id sample_env ''action''" 0 sample_proposed "''alert-1''"
      "{''USER:alice''}" 105]
  by (auto simp: sample_verdict_def)

text \<open>What the triage request leaves.\<close>

definition triaged :: "world \<Rightarrow> bool" where
  "triaged w \<longleftrightarrow> recommended_actions_table (store w) = [action_row (sha256 sample_env) ''exec-2'' sample_accepted POLICY_VERSION]
     \<and> (\<exists>rid. triage_results (store w) = [result_row rid ''exec-2'' (pd_result sample_verdict)])
     \<and> approval_decisions (store w) = [] \<and> action_executions (store w) = [] \<and> executed w = []
     \<and> map event_id (audit_events (store w)) = [''id-'', ''id-i'', ''id-ii'', ''id-iii''] \<and> id_counts w ''audit'' = 4
     \<and> id_counts w ''approval'' = 0 \<and> id_counts w ''approval-lifecycle'' = 0 \<and> id_counts w ''action-execution'' = 0
     \<and> now_calls w \<le> 20"

lemma sample_triage_wp:
  "wp (run sample_env sample_orchestrator sample_alert ''key-2'' ''exec-2'' ''corr-2'') (\<lambda>_. triaged) (\<lambda>_ _. False) (world_of empty_db)"
  unfolding triaged_def
  apply (simp add: evals cong: heads)
  apply (simp add: sample_answer_def candidate_references_are_valid_def evals row_get_Cons cong: heads)
  apply (simp add: evaluate_untrusted_def scope_from_entities_def evals sample_evidence_def [symmetric]
    sample_proposed_def [symmetric] sample_evaluate sample_verdict_facts sample_verdict_version row_get_Cons terminal_state_def
    completion_def cong: heads)
  done

lemma served_digest [simp]: "Sha256Digest (digest (sha256 sample_env) a) = Some (digest (sha256 sample_env) a)"
proof -
  have "digest (sha256 sample_env) a = ''sha256:'' @ replicate 64 (CHR ''0'')" by (simp add: digest_def sample_env_def)
  moreover have "Sha256Digest (''sha256:'' @ replicate 64 (CHR ''0'')) = Some (''sha256:'' @ replicate 64 (CHR ''0''))"
    by code_simp
  ultimately show ?thesis by simp
qed

lemma served_texts [simp]:
  "NonEmptyText ''agreed'' = Some ''agreed''" "Version POLICY_VERSION = Some POLICY_VERSION"
  "Identifier ''action.approved'' = Some ''action.approved''" "Identifier ''id-iiii'' = Some ''id-iiii''"
  "Identifier ''id-iiiii'' = Some ''id-iiiii''" "Identifier ''id-iiiiii'' = Some ''id-iiiiii''"
  "replicate 4 (CHR ''i'') = ''iiii''" "replicate 5 (CHR ''i'') = ''iiiii''" "replicate 6 (CHR ''i'') = ''iiiiii''"
  by code_simp+

lemma event_ids_set: "map event_id evs = is \<Longrightarrow> event_id ` set evs = set is"
  by (metis set_map)

definition served_approval :: "time \<Rightarrow> ApprovalRecord" where
  "served_approval t = \<lparr>approval_id = ''id-'', ap_action_id = ''id-'', ap_action_digest = digest (sha256 sample_env) sample_accepted,
     reviewer_id = ''rev'', decision = Approve, decided_at = t, reason = ''agreed'', ap_policy_version = POLICY_VERSION,
     expires_at = Some (t + 900)\<rparr>"

definition approved :: "world \<Rightarrow> bool" where
  "approved w \<longleftrightarrow> recommended_actions_table (store w) = [action_row (sha256 sample_env) ''exec-2'' sample_accepted POLICY_VERSION]
     \<and> (\<exists>rid. triage_results (store w) = [result_row rid ''exec-2'' (pd_result sample_verdict)])
     \<and> (\<exists>t \<ge> 100. approval_decisions (store w) = [served_approval t]) \<and> action_executions (store w) = [] \<and> executed w = []
     \<and> event_id ` set (audit_events (store w)) = {''id-'', ''id-i'', ''id-ii'', ''id-iii'', ''id-iiii''} \<and> id_counts w ''audit'' = 5
     \<and> id_counts w ''action-execution'' = 0 \<and> now_calls w \<le> 22"

lemma served_lifecycle:
  "new_approval_lifecycle ''id-'' ''id-'' (digest (sha256 sample_env) sample_accepted) =
     Some \<lparr>pl_approval_id = ''id-'', pl_action_id = ''id-'', pl_action_digest = digest (sha256 sample_env) sample_accepted,
       pl_state = PPending\<rparr>"
  by (simp add: new_approval_lifecycle_def)

lemma served_approval_valid: "validate_approval (served_approval t) = Some (served_approval t)"
  by (simp add: validate_approval_def served_approval_def validate_expiry_def Let_def)

lemma served_approval_facts:
  "ap_action_id (served_approval t) = ''id-''" "approval_check (served_approval t)" "decision (served_approval t) = Approve"
  "reviewer_id (served_approval t) = ''rev''" "ap_policy_version (served_approval t) = POLICY_VERSION"
  "ap_action_digest (served_approval t) = digest (sha256 sample_env) sample_accepted" "expires_at (served_approval t) = Some (t + 900)"
  by (simp_all add: served_approval_def approval_check_def)

lemma row_ids: "row_action_id (action_row sha eid a v) = action_id a" "action_id sample_accepted = ''id-''"
  by (simp_all add: action_row_def sample_accepted_def)

lemma identifiers_valid_sample: "Identifier (fresh_id sample_env p n) = Some (fresh_id sample_env p n)"
proof -
  define t where "t = ''id-'' @ replicate (min n 100) (CHR ''i'')"
  have "\<not> is_space (hd t)" "\<not> is_space (last t)" "t \<noteq> []" "length t \<le> 128" "identifier_pattern t"
    by (auto simp: t_def is_space_def is_alnum_def is_ident_char_def list_all_iff last_replicate)
  then have "Identifier t = Some t"
    by (simp add: Identifier_def constrained_def strip_with_def dropWhile_id hd_rev Suc_le_eq)
  then show ?thesis by (simp add: t_def)
qed

lemma sample_decide_wp:
  assumes "triaged w"
  shows "wp (decide sample_env sample_service ''id-'' ''rev'' ''agreed'' Approve) (\<lambda>_. approved) (\<lambda>_ _. False) w"
proof -
  obtain rid where w: "recommended_actions_table (store w) = [action_row (sha256 sample_env) ''exec-2'' sample_accepted POLICY_VERSION]"
      "triage_results (store w) = [result_row rid ''exec-2'' (pd_result sample_verdict)]"
      "approval_decisions (store w) = []" "action_executions (store w) = []" "executed w = []" "id_counts w ''audit'' = 4"
      "id_counts w ''approval'' = 0" "id_counts w ''approval-lifecycle'' = 0" "id_counts w ''action-execution'' = 0" "now_calls w \<le> 20"
      "event_id ` set (audit_events (store w)) = {''id-'', ''id-i'', ''id-ii'', ''id-iii''}"
    using assms event_ids_set by (fastforce simp: triaged_def)
  have ids: "action_id sample_accepted = ''id-''" by (simp add: sample_accepted_def)
  show ?thesis
    unfolding decide_def record_decision_def workflow_audit_def
    apply (simp add: wp_simps sample_service_def is_authorized_reviewer_id_def actions_get_persisted_def results_get_for_execution_def
      approvals_get_for_action_def find_action_def find_result_def find_approval_def row_get_Cons w action_row_def result_row_def
      persisted_of_def ids sample_verdict_facts cong: heads)
    apply (simp add: wp_simps served_lifecycle approval_transition_to_def w cong: heads)
    apply (subst served_approval_def [symmetric, of "100 + int (now_calls w)", simplified])
    apply (simp add: wp_simps served_approval_valid approvals_add_def audit_append_def insert_approval_def approval_admissible_def
      insert_event_def event_admissible_def w validate_event_def optional_def Let_def cong: heads)
    apply (simp add: served_approval_facts row_ids)
    apply (auto simp: approved_def w intro: exI [of _ "100 + int (now_calls w)"])
    done
qed

lemma execute_runs:
  assumes "approved w"
  shows "executed (snd (execute sample_env sample_service ''id-'' ''rev'' w)) = [sample_accepted]"
proof -
  obtain rid t where w: "recommended_actions_table (store w) = [action_row (sha256 sample_env) ''exec-2'' sample_accepted POLICY_VERSION]"
      "triage_results (store w) = [result_row rid ''exec-2'' (pd_result sample_verdict)]" "100 \<le> t"
      "approval_decisions (store w) = [served_approval t]" "action_executions (store w) = []" "executed w = []"
      "id_counts w ''audit'' = 5" "id_counts w ''action-execution'' = 0" "now_calls w \<le> 22"
      "event_id ` set (audit_events (store w)) = {''id-'', ''id-i'', ''id-ii'', ''id-iii'', ''id-iiii''}"
    using assms by (auto simp: approved_def)
  let ?row = "action_row (sha256 sample_env) ''exec-2'' sample_accepted POLICY_VERSION"
  have tables: "find_action ''id-'' (store w) = Some ?row" "find_result ''exec-2'' (store w) = Some (result_row rid ''exec-2'' (pd_result sample_verdict))"
    "find_approval ''id-'' (store w) = Some (served_approval t)" "find_action_execution ''id-'' (store w) = None"
    "identified_actions (store w)"
    by (simp_all add: find_defs row_get_Cons w row_ids served_approval_facts result_row_def identified_actions_def action_row_def)
  have two: "{5..<7} = {5, 6 :: nat}" "{0..<Suc (Suc 0)} = {0, 1 :: nat}" by auto
  have quiet: "quiet sample_env (Suc 1) w"
    using identifiers_valid_sample by (simp add: quiet_def execution_purposes_def w two)
  have granted: "denial_code sample_env sample_service (persisted_of ?row) (Some (pd_result sample_verdict)) (Some (served_approval t))
      (clock_now sample_env (now_calls w)) = None"
  proof -
    have "catalog_lookup the_catalog ''revoke_sessions'' \<noteq> None"
      by (simp add: catalog_lookup_def the_catalog_def initial_definitions_def)
    then obtain d where d: "catalog_lookup the_catalog ''revoke_sessions'' = Some d" by blast
    have "execution_support d = SIMULATED_ONLY" by (cases "execution_support d") simp
    then show ?thesis using d w(3,9)
      by (simp add: denial_code_def persisted_of_def action_row_def sample_service_def SimulatedActionExecutor_def
          sample_verdict_facts served_approval_facts is_authorized_reviewer_id_def row_ids sample_accepted_def)
  qed
  have kept: "row_action_execution ?row = ''exec-2''" "row_action ?row = sample_accepted" "row_result (result_row rid ''exec-2'' r) = r" for r
    by (simp_all add: action_row_def result_row_def)
  have "wp (execute_begin sample_env sample_service ''id-'' ''rev'')
      (\<lambda>r w'. \<exists>x. r = Inr (x, sample_accepted) \<and> executed w' = []) (\<lambda>_ _. False) w"
    using begin_progress [OF quiet, of sample_service "''rev''" "''id-''" ?row] granted w(5)
    by (auto simp: tables kept w sample_service_def is_authorized_reviewer_id_def elim!: wp_mono)
  then obtain x v where b: "execute_begin sample_env sample_service ''id-'' ''rev'' w = (Inr (Inr (x, sample_accepted)), v)" "executed v = []"
    by (auto simp: wp_def split: prod.splits sum.splits)
  then show ?thesis
    using execute_finish_wp [of sample_env sample_service "''id-''" "''rev''" x sample_accepted v]
    by (auto simp: execute_def bindE_def wp_def split: prod.splits sum.splits)
qed


lemma identifiers_of_sample: "identifiers_valid sample_env"
  unfolding identifiers_valid_def using identifiers_valid_sample by blast

text \<open>The alert is triaged, the recommended action is approved, and it is executed.\<close>

definition served_requests :: "request list" where
  "served_requests = [Triage sample_alert ''key-2'' ''exec-2'' ''corr-2'', Decide ''id-'' ''rev'' ''agreed'' Approve, Execute ''id-'' ''rev'']"

definition served_system :: system where
  "served_system = empty_system\<lparr>sys_world := perform_all sample_env sample_orchestrator sample_service served_requests (sys_world empty_system)\<rparr>"

lemma served_executed: "executed (sys_world served_system) = [sample_accepted]"
proof -
  have "triaged (snd (run sample_env sample_orchestrator sample_alert ''key-2'' ''exec-2'' ''corr-2'' (world_of empty_db)))"
    using wp_returns [OF sample_triage_wp] by blast
  from wp_returns [OF sample_decide_wp [OF this]] execute_runs show ?thesis
    by (simp add: served_system_def served_requests_def perform_all_def empty_system_def)
qed

theorem served_requests_are_system_paths_witness:
  "reachable sample_env sample_orchestrator sample_service served_system
    \<and> executed (sys_world served_system) = [sample_accepted]"
  using served_requests_are_system_paths [OF empty_reachable, of sample_env sample_orchestrator sample_service served_requests]
    served_executed by (simp add: served_system_def)

lemma served_path:
  "(system_step sample_env sample_orchestrator sample_service)\<^sup>*\<^sup>* empty_system served_system"
  using perform_all_path [of "world_of empty_db" sample_env sample_orchestrator sample_service "[]" served_requests]
    reachable_at_rest [OF empty_reachable]
  by (simp add: served_system_def empty_system_def)

lemma served_reachable: "reachable sample_env sample_orchestrator sample_service served_system"
  by (rule reachable_steps [OF served_path empty_reachable])

theorem actions_execute_at_most_once_witness:
  "valid_db (store (sys_world served_system))
    \<and> (\<exists>ap. find_approval ''id-'' (store (sys_world served_system)) = Some ap \<and> decision ap = Approve \<and> reviewer_id ap = ''rev'')"
  using actions_execute_at_most_once [OF served_reachable identifiers_of_sample]
  by (simp add: served_executed row_ids sample_service_def) blast

theorem history_only_grows_witness:
  "workflow_extends (workflow_of empty_system) (workflow_of served_system) \<and> orderly (workflow_of served_system)"
  by (rule history_only_grows [OF empty_reachable identifiers_of_sample served_path])

end
