(* ===== verification/Http_Api.thy ===== *)
theory Http_Api
  imports Orchestrator Approval_Workflow
begin

text \<open>
  The HTTP adapter (\<open>adapters/api/app.py\<close>) with its CSRF protection (\<open>adapters/api/csrf.py\<close>) and
  the development principal (\<open>adapters/runtime.py\<close>): request guards, routes, error mapping, and the
  views. A response body is the value that is serialized; the rendering of templates and of JSON is
  left to the libraries. A request arrives with its route matched, its JSON body parsed (\<open>None\<close> where
  the body model refuses it) and its form decoded. \<open>hmac\<close> is the keyed digest of the process secret.
\<close>

subsection \<open>CSRF\<close>

text \<open>The session of a visitor without one is a fresh random token.\<close>

definition csrf_issue :: "(string \<Rightarrow> string) \<Rightarrow> string \<Rightarrow> string option \<Rightarrow> string \<times> string \<times> bool" where
  "csrf_issue hmac random_session session_id =
     (let actual = (case session_id of Some s \<Rightarrow> if s = [] then random_session else s | None \<Rightarrow> random_session)
      in (actual, hmac actual, session_id = None))"

definition is_ascii :: "string \<Rightarrow> bool" where
  "is_ascii s \<longleftrightarrow> list_all (\<lambda>c. (of_char c :: nat) < 128) s"

text \<open>\<open>compare_digest\<close> raises \<open>TypeError\<close>, here \<open>None\<close>, on text outside ASCII.\<close>

definition csrf_validate :: "(string \<Rightarrow> string) \<Rightarrow> string option \<Rightarrow> string option \<Rightarrow> bool option" where
  "csrf_validate hmac session_id tok =
     (case (session_id, tok) of
        (Some s, Some t) \<Rightarrow> if is_ascii t then Some (hmac s = t) else None
      | _ \<Rightarrow> Some False)"

subsection \<open>Responses\<close>

record audit_view =
  av_occurred_at :: time
  av_event_type :: string
  av_label :: string
  av_actor_id :: "string option"
  av_outcome :: "AuditOutcome option"
  av_failure_category :: "string option"
  av_details :: pydict

record action_summary =
  as_action :: ActionProposal
  as_approval_required :: bool
  as_risk :: string
  as_execution_support :: string
  as_description :: string
  as_objective :: string
  as_category :: string
  as_workflow_state :: string

record tool_view =
  tv_invocation :: ToolInvocationRecord
  tv_goal :: "pyval option"
  tv_evidence :: "EvidenceReference option"

record execution_view =
  xv_execution :: TriageExecutionRecord
  xv_result :: "TriageResult option"
  xv_tools :: "ToolInvocationRecord list"
  xv_tool_views :: "tool_view list"
  xv_audit :: "AuditEvent list"
  xv_timeline :: "audit_view list"
  xv_actions :: "action_summary list"
  xv_policy :: "pydict option"
  xv_source_severity :: "Severity option"

record action_view =
  vw_action :: PersistedAction
  vw_digest :: string
  vw_risk :: string
  vw_approval_required :: bool
  vw_execution_support :: string
  vw_description :: string
  vw_objective :: string
  vw_category :: string
  vw_approval :: "ApprovalRecord option"
  vw_approval_state :: string
  vw_workflow_state :: string
  vw_execution :: "ActionExecutionRecord option"
  vw_audit :: "AuditEvent list"
  vw_timeline :: "audit_view list"
  vw_simulation_actor :: "string option"

record alert_row_view =
  lv_alert :: SecurityAlert
  lv_execution :: "TriageExecutionRecord option"
  lv_result :: "TriageResult option"

record alert_counts =
  n_total :: nat
  n_untriaged :: nat
  n_needs_review :: nat
  n_assessed :: nat
  n_with_actions :: nat

datatype content =
    ErrorBody string string
  | StatusBody string
  | IngestBody bool SecurityAlert
  | AlertsBody "SecurityAlert list"
  | AlertBody SecurityAlert "TriageExecutionRecord list"
  | TriageBody OrchestrationOutcome
  | ExecutionBody execution_view
  | ToolsBody "ToolInvocationRecord list"
  | AuditBody "AuditEvent list"
  | ActionBody action_view
  | ApprovalBody ApprovalRecord
  | ExecutedBody bool ActionExecutionRecord
  | RedirectTo string
  | AlertListPage "alert_row_view list" alert_counts Principal string "(string \<times> string) list"
  | AlertPage SecurityAlert "TriageExecutionRecord list" "execution_view option" "audit_view list" Principal bool string
  | ExecutionPage execution_view Principal bool string "string option" string
  | ActionPage action_view Principal bool string

text \<open>A response: its status, its body, and the session cookie it sets.\<close>

type_synonym response = "nat \<times> content \<times> string option"

subsection \<open>Errors\<close>

datatype api_exn = HTTPException nat | RequestInvalid | AppError exn

type_synonym 'a api = "(world, api_exn, 'a) op"

definition app :: "'a io \<Rightarrow> 'a api" where
  "app m = catch m (\<lambda>e. raise (AppError e))"

definition http_message :: "nat \<Rightarrow> string" where
  "http_message code =
     (if code = 401 then ''Authentication required.'' else if code = 403 then ''Access denied.''
      else if code = 404 then ''Resource not found.'' else if code = 409 then ''Resource conflict.''
      else if code = 503 then ''Service unavailable.'' else ''The request could not be completed.'')"

text \<open>The exception handlers of the application.\<close>

definition error_reply :: "nat \<Rightarrow> string \<Rightarrow> string \<Rightarrow> response" where
  "error_reply status code msg = (status, ErrorBody code msg, None)"

fun error_response :: "api_exn \<Rightarrow> response" where
  "error_response RequestInvalid = error_reply 422 ''VALIDATION_ERROR'' ''Request validation failed.''"
| "error_response (HTTPException code) = error_reply code (''HTTP_'' @ int_text (int code)) (http_message code)"
| "error_response (AppError e) =
     (case e of
        WorkflowError code \<Rightarrow> error_reply (if code = ACTION_NOT_FOUND then 404 else 409)
          (workflow_code_value code) ''The action workflow request was not permitted.''
      | _ \<Rightarrow> error_reply 500 ''INTERNAL_ERROR'' ''The request could not be completed.'')"

definition handled :: "response api \<Rightarrow> (world, unit, response) op" where
  "handled m = catch m (\<lambda>e. ret (error_response e))"

subsection \<open>Dependencies and guards\<close>

record app_dependencies =
  current_principal :: "Principal option"
  dep_orchestrator :: orchestrator
  dep_service :: approval_service
  max_request_bytes :: int
  reasoner_mode :: string
  dep_prompt_version :: "string option"
  dep_hmac :: "string \<Rightarrow> string"

text \<open>The local development identity.\<close>

definition development_principal :: Principal where
  "development_principal = \<lparr>principal_id = ''development-reviewer'', role = REVIEWER, development_only = True\<rparr>"

definition principal :: "app_dependencies \<Rightarrow> Principal api" where
  "principal deps = (case current_principal deps of None \<Rightarrow> raise (HTTPException 401) | Some p \<Rightarrow> ret p)"

definition viewer :: "app_dependencies \<Rightarrow> Principal api" where
  "viewer deps = bindE (principal deps) (\<lambda>p. if may_view p then ret p else raise (HTTPException 403))"

definition analyst :: "app_dependencies \<Rightarrow> Principal api" where
  "analyst deps = bindE (principal deps) (\<lambda>p. if may_ingest_or_triage p then ret p else raise (HTTPException 403))"

definition reviewer :: "app_dependencies \<Rightarrow> Principal api" where
  "reviewer deps = bindE (principal deps) (\<lambda>p.
     if may_review (svc_authorization (dep_service deps)) p then ret p else raise (HTTPException 403))"

subsection \<open>Views\<close>

definition audit_label :: "string \<Rightarrow> string" where
  "audit_label t =
     (case map_of
        [(''alert.ingested'', ''Alert ingested''), (''triage.execution_started'', ''Triage started''),
         (''triage.tool_invoked'', ''Evidence tool processed''),
         (''triage.policy_enforced'', ''Deterministic policy enforced''),
         (''triage.execution_terminal'', ''Assessment completed''), (''action.recommended'', ''Action recommended''),
         (''action.approved'', ''Action approved''), (''action.rejected'', ''Action rejected''),
         (''action.simulation_started'', ''Simulation started''), (''action.simulation_succeeded'', ''Simulation succeeded''),
         (''action.simulation_failed'', ''Simulation failed''), (''triage.execution_recovered'', ''Stale triage recovered''),
         (''action.execution_recovered'', ''Stale simulation recovered'')] t of
        None \<Rightarrow> t | Some l \<Rightarrow> l)"

definition safe_keys :: "string list" where
  "safe_keys = [''state'', ''tool_name'', ''authorization'', ''outcome'', ''evidence_goal'', ''policy_version'',
     ''reason_codes'', ''orchestration_reason'', ''disposition'', ''decision'', ''mode'']"

definition audit_view_of :: "AuditEvent \<Rightarrow> audit_view" where
  "audit_view_of e =
     \<lparr>av_occurred_at = ev_occurred_at e, av_event_type = event_type e, av_label = audit_label (event_type e),
      av_actor_id = ev_actor_id e, av_outcome = ev_outcome e, av_failure_category = ev_failure_category e,
      av_details = [(k, v). (k, Some v) \<leftarrow> map (\<lambda>k. (k, dict_get k (ev_data e))) safe_keys]\<rparr>"

fun risk_value :: "ActionRisk \<Rightarrow> string" where "risk_value HIGH_IMPACT = ''HIGH_IMPACT''"

fun support_value :: "ExecutionSupport \<Rightarrow> string" where "support_value SIMULATED_ONLY = ''SIMULATED_ONLY''"

text \<open>The clock is read only for an approval that can expire.\<close>

definition approval_state :: "'e env_scheme \<Rightarrow> string \<Rightarrow> ApprovalRecord option \<Rightarrow> string io" where
  "approval_state env undecided approval =
     (case approval of
        None \<Rightarrow> ret undecided
      | Some a \<Rightarrow> (case expires_at a of
            None \<Rightarrow> ret (decision_value (decision a))
          | Some x \<Rightarrow> bindE (now env) (\<lambda>t. ret (if x \<le> t then ''EXPIRED'' else decision_value (decision a)))))"

definition workflow_state :: "string \<Rightarrow> ActionExecutionRecord option \<Rightarrow> string" where
  "workflow_state approval_label execution =
     (case execution of
        None \<Rightarrow> approval_label
      | Some x \<Rightarrow> if ax_state x = ASucceeded then ''SIMULATED'' else if ax_state x = AFailed then ''FAILED'' else approval_label)"

definition described :: "ActionDefinition option \<Rightarrow> (ActionDefinition \<Rightarrow> string) \<Rightarrow> string \<Rightarrow> string" where
  "described d f dflt = (case d of None \<Rightarrow> dflt | Some x \<Rightarrow> f x)"

definition action_summary_of :: "'e env_scheme \<Rightarrow> ActionCatalog \<Rightarrow> string set \<Rightarrow> ActionProposal \<Rightarrow> action_summary io" where
  "action_summary_of env cat approval_ids a =
     (let d = catalog_lookup cat (catalog_action_id a) in
      bindE (with_uow (
        bindE (approvals_get_for_action env (action_id a)) (\<lambda>ap.
        bindE (action_executions_get_for_action env (action_id a)) (\<lambda>x. ret (ap, x))))) (\<lambda>(ap, x).
      bindE (approval_state env ''RECOMMENDED'' ap) (\<lambda>st.
      ret \<lparr>as_action = a, as_approval_required = (action_id a \<in> approval_ids), as_risk = described d (risk_value \<circ> risk) ''UNKNOWN'',
           as_execution_support = described d (support_value \<circ> execution_support) ''UNKNOWN'',
           as_description = described d def_description [], as_objective = described d objective [],
           as_category = described d category [], as_workflow_state = workflow_state st x\<rparr>)))"

fun summaries :: "'e env_scheme \<Rightarrow> ActionCatalog \<Rightarrow> string set \<Rightarrow> ActionProposal list \<Rightarrow> action_summary list io" where
  "summaries env cat ids [] = ret []"
| "summaries env cat ids (a # as) =
     bindE (action_summary_of env cat ids a) (\<lambda>v. bindE (summaries env cat ids as) (\<lambda>vs. ret (v # vs)))"

text \<open>The goal recorded for a call: the last tool event that names the call wins.\<close>

definition goal_of :: "AuditEvent list \<Rightarrow> string \<Rightarrow> pyval option" where
  "goal_of audit call =
     (case find (\<lambda>e. event_type e = ''triage.tool_invoked'' \<and> dict_get ''call_id'' (ev_data e) = Some (PStr call)) (rev audit) of
        None \<Rightarrow> None | Some e \<Rightarrow> dict_get ''evidence_goal'' (ev_data e))"

definition tool_view_of :: "AuditEvent list \<Rightarrow> EvidenceReference list \<Rightarrow> ToolInvocationRecord \<Rightarrow> tool_view" where
  "tool_view_of audit evs r =
     \<lparr>tv_invocation = r, tv_goal = goal_of audit (ir_call_id r),
      tv_evidence = find (\<lambda>e. tool_invocation_id e = Some (ir_call_id r)) (rev evs)\<rparr>"

definition execution_payload :: "'e env_scheme \<Rightarrow> app_dependencies \<Rightarrow> string \<Rightarrow> execution_view api" where
  "execution_payload env deps i =
     bindE (app (with_uow (
       bindE (executions_get env i) (\<lambda>x.
       bindE (results_get_for_execution env i) (\<lambda>r.
       bindE (case x of None \<Rightarrow> ret None | Some e \<Rightarrow> alerts_get env (ex_alert_id e)) (\<lambda>a.
       bindE (invocations_list_for_execution env i) (\<lambda>ts.
       bindE (audit_list_for_target env ''triage_execution'' i) (\<lambda>evs. ret (x, r, a, ts, evs))))))))) (\<lambda>(x, r, a, ts, evs).
     case x of None \<Rightarrow> raise (HTTPException 404)
     | Some e \<Rightarrow>
         bindE (app (case r of None \<Rightarrow> ret []
           | Some res \<Rightarrow> summaries env (svc_catalog (dep_service deps))
               (ref_action_id ` set (actions_requiring_approval res)) (recommended_actions res))) (\<lambda>acts.
         ret \<lparr>xv_execution = e, xv_result = r, xv_tools = ts,
              xv_tool_views = map (tool_view_of evs (case r of None \<Rightarrow> [] | Some res \<Rightarrow> evidence res)) ts,
              xv_audit = evs, xv_timeline = map audit_view_of evs, xv_actions = acts,
              xv_policy = map_option ev_data (find (\<lambda>v. event_type v = ''triage.policy_enforced'') evs),
              xv_source_severity = map_option source_severity a\<rparr>))"

definition action_payload :: "'e env_scheme \<Rightarrow> app_dependencies \<Rightarrow> string \<Rightarrow> action_view api" where
  "action_payload env deps i =
     bindE (app (with_uow (
       bindE (actions_get_persisted env i) (\<lambda>p.
       bindE (approvals_get_for_action env i) (\<lambda>ap.
       bindE (action_executions_get_for_action env i) (\<lambda>x.
       bindE (audit_list_for_target env ''recommended_action'' i) (\<lambda>evs. ret (p, ap, x, evs)))))))) (\<lambda>(p, ap, x, evs).
     case p of None \<Rightarrow> raise (HTTPException 404)
     | Some act \<Rightarrow>
         (let d = catalog_lookup (svc_catalog (dep_service deps)) (catalog_action_id (pa_action act)) in
          bindE (app (approval_state env ''PENDING'' ap)) (\<lambda>st.
          ret \<lparr>vw_action = act, vw_digest = digest (sha256 env) (pa_action act),
               vw_risk = described d (risk_value \<circ> risk) ''UNKNOWN'',
               vw_approval_required = (case d of None \<Rightarrow> False | Some y \<Rightarrow> approval_required y),
               vw_execution_support = described d (support_value \<circ> execution_support) ''UNKNOWN'',
               vw_description = described d def_description [], vw_objective = described d objective [],
               vw_category = described d category [], vw_approval = ap, vw_approval_state = st,
               vw_workflow_state = workflow_state st x, vw_execution = x, vw_audit = evs,
               vw_timeline = map audit_view_of evs,
               vw_simulation_actor = Option.bind (find (\<lambda>e. event_type e \<in> {''action.simulation_succeeded'',
                 ''action.simulation_failed''}) (rev evs)) ev_actor_id\<rparr>)))"

end
