(* ===== verification/Http_Routes.thy ===== *)
theory Http_Routes
  imports Http_Api
begin

text \<open>
  The routes of \<open>create_app\<close> in \<open>adapters/api/app.py\<close>: the request guards in front of them, one
  definition per route handler, and the dispatch of a request. The framework parses and validates
  the body after it has resolved the principal, except that a body that is not JSON is refused
  before; \<open>body\<close> keeps the cases apart.
\<close>

subsection \<open>Requests\<close>

datatype 'a body = Malformed | Refused | Accepted 'a

text \<open>
  A browser form: the content type header, and the fields in their order, \<open>None\<close> when the body is
  not UTF-8 text.
\<close>

record browser_request =
  content_type :: string
  form_fields :: "(string \<times> string) list option"

datatype route =
    Health
  | Ready
  | PostAlert "SecurityAlert body" "string option"
  | ListAlerts
  | GetAlert string
  | PostTriage string "unit body" "string option"
  | GetExecution string
  | GetTools string
  | GetAudit string
  | GetAction string
  | PostApprove string "string body"
  | PostReject string "string body"
  | PostExecute string "unit body"
  | AlertsHtml
  | AlertHtml string
  | ExecutionHtml string
  | ActionHtml string
  | BrowserTriage string browser_request
  | BrowserApprove string browser_request
  | BrowserReject string browser_request
  | BrowserExecute string browser_request

record http_request =
  content_length :: "string option"
  body_size :: int
  cookie :: "string option"
  random_session :: string
  endpoint :: route

subsection \<open>The request size limit\<close>

text \<open>
  Python's \<open>int\<close> on text: surrounding white space, one sign, decimal digits with single
  underscores between them, at most 4300 digits.
\<close>

definition digit_value :: "char \<Rightarrow> int option" where
  "digit_value c = (let n = of_char c :: int in if 48 \<le> n \<and> n \<le> 57 then Some (n - 48) else None)"

fun digits_value :: "int \<Rightarrow> bool \<Rightarrow> string \<Rightarrow> int option" where
  "digits_value acc ok [] = (if ok then Some acc else None)"
| "digits_value acc ok (c # cs) =
     (if c = CHR ''_'' then (if ok then digits_value acc False cs else None)
      else case digit_value c of None \<Rightarrow> None | Some d \<Rightarrow> digits_value (acc * 10 + d) True cs)"

definition py_int :: "string \<Rightarrow> int option" where
  "py_int text =
     (let t = py_strip text; neg = (t \<noteq> [] \<and> hd t = CHR ''-'');
          ds = (if t \<noteq> [] \<and> hd t \<in> set ''+-'' then tl t else t)
      in if length (filter (\<lambda>c. c \<noteq> CHR ''_'') ds) > 4300 then None
         else map_option (\<lambda>v. if neg then - v else v) (digits_value 0 False ds))"

fun is_post :: "route \<Rightarrow> bool" where
  "is_post (PostAlert _ _) = True"
| "is_post (PostTriage _ _ _) = True"
| "is_post (PostApprove _ _) = True"
| "is_post (PostReject _ _) = True"
| "is_post (PostExecute _ _) = True"
| "is_post (BrowserTriage _ _) = True"
| "is_post (BrowserApprove _ _) = True"
| "is_post (BrowserReject _ _) = True"
| "is_post (BrowserExecute _ _) = True"
| "is_post _ = False"

definition request_size_limit :: "app_dependencies \<Rightarrow> http_request \<Rightarrow> (world, unit, response) op \<Rightarrow> (world, unit, response) op" where
  "request_size_limit deps req call_next =
     (let too_large = error_reply 413 ''REQUEST_TOO_LARGE'' ''Request body exceeds the size limit.'';
          pass = (if is_post (endpoint req) \<and> body_size req > max_request_bytes deps then ret too_large else call_next)
      in case content_length req of
           None \<Rightarrow> pass
         | Some text \<Rightarrow>
             (case py_int text of
                None \<Rightarrow> ret (error_reply 400 ''INVALID_CONTENT_LENGTH'' ''Invalid request metadata.'')
              | Some n \<Rightarrow> if n > max_request_bytes deps then ret too_large else pass))"

subsection \<open>Arguments of a route\<close>

text \<open>A parameter that the framework validates once the principal is known.\<close>

definition valid_body :: "'a body \<Rightarrow> 'a api" where
  "valid_body b = (case b of Accepted x \<Rightarrow> ret x | _ \<Rightarrow> raise RequestInvalid)"

definition valid_value :: "'a option \<Rightarrow> 'a api" where
  "valid_value v = (case v of Some x \<Rightarrow> ret x | None \<Rightarrow> raise RequestInvalid)"

definition idempotency_header :: "string option \<Rightarrow> string api" where
  "idempotency_header h = valid_value (case h of Some k \<Rightarrow> if k = [] then None else Some k | None \<Rightarrow> None)"

text \<open>A body that is not JSON is refused before the dependencies run.\<close>

definition json_body :: "'a body \<Rightarrow> 'b api \<Rightarrow> 'b api" where
  "json_body b m = (case b of Malformed \<Rightarrow> raise RequestInvalid | _ \<Rightarrow> m)"

definition DecisionRequest :: "string \<Rightarrow> string option" where
  "DecisionRequest = constrained 1 2000 (\<lambda>_. True)"

subsection \<open>Handlers of the JSON interface\<close>

definition ok :: "content \<Rightarrow> response" where
  "ok c = (200, c, None)"

definition health :: "response api" where
  "health = ret (ok (StatusBody ''ok''))"

definition ready :: "'e env_scheme \<Rightarrow> response api" where
  "ready env = catch (bindE (app (with_uow (alerts_list_recent env 1))) (\<lambda>_. ret (ok (StatusBody ''ready''))))
     (\<lambda>_. raise (HTTPException 503))"

definition conflict_is_409 :: "'a api \<Rightarrow> 'a api" where
  "conflict_is_409 m = catch m (\<lambda>e. raise (if e = AppError AlertConflictError then HTTPException 409 else e))"

definition ingest_alert :: "'e env_scheme \<Rightarrow> app_dependencies \<Rightarrow> SecurityAlert body \<Rightarrow> string option \<Rightarrow> response api" where
  "ingest_alert env deps b key = json_body b (
     bindE (analyst deps) (\<lambda>p.
     bindE (valid_body b) (\<lambda>raw.
     bindE (valid_value (validate_alert raw)) (\<lambda>alert.
     bindE (idempotency_header key) (\<lambda>k.
     bindE (conflict_is_409 (app (ingest env alert k (principal_id p)))) (\<lambda>r.
     ret (if created r then 201 else 200, IngestBody (created r) (ingested_alert r), None)))))))"

definition list_alerts :: "'e env_scheme \<Rightarrow> app_dependencies \<Rightarrow> response api" where
  "list_alerts env deps =
     bindE (viewer deps) (\<lambda>_. bindE (app (with_uow (alerts_list_recent env 100))) (\<lambda>as. ret (ok (AlertsBody as))))"

definition get_alert :: "'e env_scheme \<Rightarrow> app_dependencies \<Rightarrow> string \<Rightarrow> response api" where
  "get_alert env deps i =
     bindE (viewer deps) (\<lambda>_.
     bindE (app (with_uow (bindE (alerts_get env i) (\<lambda>a. bindE (executions_list_for_alert env i) (\<lambda>xs. ret (a, xs)))))) (\<lambda>(a, xs).
     case a of None \<Rightarrow> raise (HTTPException 404) | Some al \<Rightarrow> ret (ok (AlertBody al xs))))"

text \<open>The alert is looked up first; only a durable outcome is reported.\<close>

definition known_alert :: "'e env_scheme \<Rightarrow> string \<Rightarrow> SecurityAlert api" where
  "known_alert env i = bindE (app (with_uow (alerts_get env i))) (\<lambda>a.
     case a of None \<Rightarrow> raise (HTTPException 404) | Some al \<Rightarrow> ret al)"

definition run_triage :: "'e env_scheme \<Rightarrow> app_dependencies \<Rightarrow> SecurityAlert \<Rightarrow> string \<Rightarrow> OrchestrationOutcome api" where
  "run_triage env deps alert key =
     bindE (app (next_id env ''execution'')) (\<lambda>eid.
     bindE (app (next_id env ''correlation'')) (\<lambda>cid.
     bindE (app (run env (dep_orchestrator deps) alert key eid cid)) (\<lambda>out.
     if out_durable out then ret out else raise (HTTPException 503))))"

definition triage_alert :: "'e env_scheme \<Rightarrow> app_dependencies \<Rightarrow> string \<Rightarrow> unit body \<Rightarrow> string option \<Rightarrow> response api" where
  "triage_alert env deps i b key = json_body b (
     bindE (analyst deps) (\<lambda>_.
     bindE (valid_body b) (\<lambda>_.
     bindE (idempotency_header key) (\<lambda>k.
     bindE (known_alert env i) (\<lambda>alert.
     bindE (run_triage env deps alert k) (\<lambda>out. ret (ok (TriageBody out))))))))"

definition get_execution :: "'e env_scheme \<Rightarrow> app_dependencies \<Rightarrow> string \<Rightarrow> response api" where
  "get_execution env deps i = bindE (viewer deps) (\<lambda>_. bindE (execution_payload env deps i) (\<lambda>v. ret (ok (ExecutionBody v))))"

definition get_tools :: "'e env_scheme \<Rightarrow> app_dependencies \<Rightarrow> string \<Rightarrow> response api" where
  "get_tools env deps i = bindE (viewer deps) (\<lambda>_. bindE (execution_payload env deps i) (\<lambda>v. ret (ok (ToolsBody (xv_tools v)))))"

definition get_audit :: "'e env_scheme \<Rightarrow> app_dependencies \<Rightarrow> string \<Rightarrow> response api" where
  "get_audit env deps i = bindE (viewer deps) (\<lambda>_. bindE (execution_payload env deps i) (\<lambda>v. ret (ok (AuditBody (xv_audit v)))))"

definition get_action :: "'e env_scheme \<Rightarrow> app_dependencies \<Rightarrow> string \<Rightarrow> response api" where
  "get_action env deps i = bindE (viewer deps) (\<lambda>_. bindE (action_payload env deps i) (\<lambda>v. ret (ok (ActionBody v))))"

definition decide_action ::
  "'e env_scheme \<Rightarrow> app_dependencies \<Rightarrow> ApprovalDecision \<Rightarrow> string \<Rightarrow> string body \<Rightarrow> response api" where
  "decide_action env deps dec i b = json_body b (
     bindE (reviewer deps) (\<lambda>p.
     bindE (valid_body b) (\<lambda>raw.
     bindE (valid_value (DecisionRequest raw)) (\<lambda>why.
     bindE (app ((if dec = Approve then approve else reject) env (dep_service deps) i (principal_id p) why)) (\<lambda>ap.
     ret (ok (ApprovalBody ap)))))))"

definition approve_action :: "'e env_scheme \<Rightarrow> app_dependencies \<Rightarrow> string \<Rightarrow> string body \<Rightarrow> response api" where
  "approve_action env deps = decide_action env deps Approve"

definition reject_action :: "'e env_scheme \<Rightarrow> app_dependencies \<Rightarrow> string \<Rightarrow> string body \<Rightarrow> response api" where
  "reject_action env deps = decide_action env deps Reject"

definition execute_action :: "'e env_scheme \<Rightarrow> app_dependencies \<Rightarrow> string \<Rightarrow> unit body \<Rightarrow> response api" where
  "execute_action env deps i b = json_body b (
     bindE (reviewer deps) (\<lambda>p.
     bindE (valid_body b) (\<lambda>_.
     bindE (app (execute env (dep_service deps) i (principal_id p))) (\<lambda>out.
     ret (ok (ExecutedBody (durable out) (outcome_record out)))))))"

subsection \<open>Pages\<close>

text \<open>The token of the page's forms, and the cookie that is set for a new session.\<close>

definition csrf_of :: "app_dependencies \<Rightarrow> http_request \<Rightarrow> string \<times> string option" where
  "csrf_of deps req =
     (case csrf_issue (dep_hmac deps) (random_session req) (cookie req) of
        (session_id, tok, fresh) \<Rightarrow> (tok, if fresh then Some session_id else None))"

definition page :: "app_dependencies \<Rightarrow> http_request \<Rightarrow> (string \<Rightarrow> content) \<Rightarrow> response" where
  "page deps req content = (case csrf_of deps req of (tok, new_cookie) \<Rightarrow> (200, content tok, new_cookie))"

definition system_status :: "app_dependencies \<Rightarrow> (string \<times> string) list" where
  "system_status deps = [(''application'', ''Healthy''), (''persistence'', ''Ready''),
     (''reasoner'', reasoner_mode deps), (''execution'', ''Simulation only'')]"

definition alert_row :: "'e env_scheme \<Rightarrow> SecurityAlert \<Rightarrow> alert_row_view io" where
  "alert_row env a =
     bindE (executions_list_for_alert env (alert_id a)) (\<lambda>xs.
     let latest = (case xs of [] \<Rightarrow> None | x # _ \<Rightarrow> Some x) in
     bindE (case latest of None \<Rightarrow> ret None | Some x \<Rightarrow> results_get_for_execution env (ex_execution_id x)) (\<lambda>r.
     ret \<lparr>lv_alert = a, lv_execution = latest, lv_result = r\<rparr>))"

fun alert_rows :: "'e env_scheme \<Rightarrow> SecurityAlert list \<Rightarrow> alert_row_view list io" where
  "alert_rows env [] = ret []"
| "alert_rows env (a # as) = bindE (alert_row env a) (\<lambda>v. bindE (alert_rows env as) (\<lambda>vs. ret (v # vs)))"

fun count_row :: "alert_counts \<Rightarrow> alert_row_view \<Rightarrow> alert_counts" where
  "count_row c v =
     c\<lparr>n_untriaged := n_untriaged c + (if lv_execution v = None then 1 else 0),
       n_needs_review := n_needs_review c
         + (case lv_execution v of Some x \<Rightarrow> if ex_state x = TNeedsReview then 1 else 0 | None \<Rightarrow> 0),
       n_assessed := n_assessed c + (if lv_result v = None then 0 else 1),
       n_with_actions := n_with_actions c
         + (case lv_result v of Some r \<Rightarrow> if recommended_actions r = [] then 0 else 1 | None \<Rightarrow> 0)\<rparr>"

definition count_rows :: "alert_row_view list \<Rightarrow> alert_counts" where
  "count_rows vs = foldl count_row
     \<lparr>n_total = length vs, n_untriaged = 0, n_needs_review = 0, n_assessed = 0, n_with_actions = 0\<rparr> vs"

definition alert_list :: "'e env_scheme \<Rightarrow> app_dependencies \<Rightarrow> http_request \<Rightarrow> response api" where
  "alert_list env deps req =
     bindE (viewer deps) (\<lambda>p.
     bindE (app (with_uow (bindE (alerts_list_recent env 100) (alert_rows env)))) (\<lambda>rows.
     ret (page deps req (\<lambda>tok. AlertListPage rows (count_rows rows) p tok (system_status deps)))))"

definition alert_detail :: "'e env_scheme \<Rightarrow> app_dependencies \<Rightarrow> http_request \<Rightarrow> string \<Rightarrow> response api" where
  "alert_detail env deps req i =
     bindE (viewer deps) (\<lambda>p.
     bindE (app (with_uow (
       bindE (alerts_get env i) (\<lambda>a.
       bindE (executions_list_for_alert env i) (\<lambda>xs.
       bindE (audit_list_for_target env ''security_alert'' i) (\<lambda>evs. ret (a, xs, evs))))))) (\<lambda>(a, xs, evs).
     case a of None \<Rightarrow> raise (HTTPException 404)
     | Some al \<Rightarrow>
         bindE (case xs of [] \<Rightarrow> ret None
           | x # _ \<Rightarrow> bindE (execution_payload env deps (ex_execution_id x)) (\<lambda>v. ret (Some v))) (\<lambda>latest.
         ret (page deps req (AlertPage al xs latest (map audit_view_of evs) p (may_ingest_or_triage p))))))"

definition execution_detail :: "'e env_scheme \<Rightarrow> app_dependencies \<Rightarrow> http_request \<Rightarrow> string \<Rightarrow> response api" where
  "execution_detail env deps req i =
     bindE (viewer deps) (\<lambda>p.
     bindE (execution_payload env deps i) (\<lambda>v.
     ret (page deps req (ExecutionPage v p (may_review (svc_authorization (dep_service deps)) p)
       (reasoner_mode deps) (dep_prompt_version deps)))))"

definition action_detail :: "'e env_scheme \<Rightarrow> app_dependencies \<Rightarrow> http_request \<Rightarrow> string \<Rightarrow> response api" where
  "action_detail env deps req i =
     bindE (viewer deps) (\<lambda>p.
     bindE (action_payload env deps i) (\<lambda>v.
     ret (page deps req (ActionPage v p (may_review (svc_authorization (dep_service deps)) p)))))"

subsection \<open>Browser forms\<close>

definition form_content_type :: string where
  "form_content_type = ''application/x-www-form-urlencoded''"

text \<open>The last value of a field counts; a body that is not UTF-8 raises \<open>UnicodeDecodeError\<close>.\<close>

definition browser_form :: "browser_request \<Rightarrow> (string \<Rightarrow> string option) api" where
  "browser_form f =
     (if takeWhile (\<lambda>c. c \<noteq> CHR '';'') (content_type f) \<noteq> form_content_type then raise (HTTPException 400)
      else case form_fields f of
             None \<Rightarrow> raise (AppError (AdapterError ''UnicodeDecodeError''))
           | Some fields_in_order \<Rightarrow> ret (map_of (rev fields_in_order)))"

definition verify_csrf :: "app_dependencies \<Rightarrow> http_request \<Rightarrow> (string \<Rightarrow> string option) \<Rightarrow> unit api" where
  "verify_csrf deps req form =
     (case csrf_validate (dep_hmac deps) (cookie req) (form ''csrf_token'') of
        None \<Rightarrow> raise (AppError (AdapterError ''TypeError''))
      | Some valid \<Rightarrow> if valid then ret () else raise (HTTPException 403))"

definition required_reason :: "(string \<Rightarrow> string option) \<Rightarrow> string api" where
  "required_reason form =
     (let why = py_strip (case form ''reason'' of None \<Rightarrow> [] | Some v \<Rightarrow> v)
      in if 1 \<le> length why \<and> length why \<le> 2000 then ret why else raise (HTTPException 422))"

definition see_other :: "string \<Rightarrow> response" where
  "see_other url = (303, RedirectTo url, None)"

definition browser_triage :: "'e env_scheme \<Rightarrow> app_dependencies \<Rightarrow> http_request \<Rightarrow> string \<Rightarrow> browser_request \<Rightarrow> response api" where
  "browser_triage env deps req i f =
     bindE (analyst deps) (\<lambda>_.
     bindE (browser_form f) (\<lambda>form.
     bindE (verify_csrf deps req form) (\<lambda>_.
     bindE (known_alert env i) (\<lambda>alert.
     bindE (app (next_id env ''browser-triage'')) (\<lambda>key.
     bindE (run_triage env deps alert key) (\<lambda>out.
     ret (see_other (''/executions/'' @ out_execution_id out))))))))"

definition browser_decide ::
  "'e env_scheme \<Rightarrow> app_dependencies \<Rightarrow> ApprovalDecision \<Rightarrow> http_request \<Rightarrow> string \<Rightarrow> browser_request \<Rightarrow> response api" where
  "browser_decide env deps dec req i f =
     bindE (reviewer deps) (\<lambda>p.
     bindE (browser_form f) (\<lambda>form.
     bindE (verify_csrf deps req form) (\<lambda>_.
     bindE (required_reason form) (\<lambda>why.
     bindE (app ((if dec = Approve then approve else reject) env (dep_service deps) i (principal_id p) why)) (\<lambda>_.
     ret (see_other (''/actions/'' @ i)))))))"

definition browser_approve :: "'e env_scheme \<Rightarrow> app_dependencies \<Rightarrow> http_request \<Rightarrow> string \<Rightarrow> browser_request \<Rightarrow> response api" where
  "browser_approve env deps = browser_decide env deps Approve"

definition browser_reject :: "'e env_scheme \<Rightarrow> app_dependencies \<Rightarrow> http_request \<Rightarrow> string \<Rightarrow> browser_request \<Rightarrow> response api" where
  "browser_reject env deps = browser_decide env deps Reject"

definition browser_execute :: "'e env_scheme \<Rightarrow> app_dependencies \<Rightarrow> http_request \<Rightarrow> string \<Rightarrow> browser_request \<Rightarrow> response api" where
  "browser_execute env deps req i f =
     bindE (reviewer deps) (\<lambda>p.
     bindE (browser_form f) (\<lambda>form.
     bindE (verify_csrf deps req form) (\<lambda>_.
     bindE (app (execute env (dep_service deps) i (principal_id p))) (\<lambda>_.
     ret (see_other (''/actions/'' @ i))))))"

subsection \<open>Dispatch\<close>

fun dispatch :: "'e env_scheme \<Rightarrow> app_dependencies \<Rightarrow> http_request \<Rightarrow> route \<Rightarrow> response api" where
  "dispatch env deps req Health = health"
| "dispatch env deps req Ready = ready env"
| "dispatch env deps req (PostAlert b key) = ingest_alert env deps b key"
| "dispatch env deps req ListAlerts = list_alerts env deps"
| "dispatch env deps req (GetAlert i) = get_alert env deps i"
| "dispatch env deps req (PostTriage i b key) = triage_alert env deps i b key"
| "dispatch env deps req (GetExecution i) = get_execution env deps i"
| "dispatch env deps req (GetTools i) = get_tools env deps i"
| "dispatch env deps req (GetAudit i) = get_audit env deps i"
| "dispatch env deps req (GetAction i) = get_action env deps i"
| "dispatch env deps req (PostApprove i b) = approve_action env deps i b"
| "dispatch env deps req (PostReject i b) = reject_action env deps i b"
| "dispatch env deps req (PostExecute i b) = execute_action env deps i b"
| "dispatch env deps req AlertsHtml = alert_list env deps req"
| "dispatch env deps req (AlertHtml i) = alert_detail env deps req i"
| "dispatch env deps req (ExecutionHtml i) = execution_detail env deps req i"
| "dispatch env deps req (ActionHtml i) = action_detail env deps req i"
| "dispatch env deps req (BrowserTriage i f) = browser_triage env deps req i f"
| "dispatch env deps req (BrowserApprove i f) = browser_approve env deps req i f"
| "dispatch env deps req (BrowserReject i f) = browser_reject env deps req i f"
| "dispatch env deps req (BrowserExecute i f) = browser_execute env deps req i f"

text \<open>One request: the size limit in front, the route, and the exception handlers around it.\<close>

definition serve :: "'e env_scheme \<Rightarrow> app_dependencies \<Rightarrow> http_request \<Rightarrow> (world, unit, response) op" where
  "serve env deps req = request_size_limit deps req (handled (dispatch env deps req (endpoint req)))"

end
