(* ===== verification/Http_Correct.thy ===== *)
theory Http_Correct
  imports Http_Routes Frames Approval_Properties
begin

text \<open>
  What the HTTP interface guards: only an authenticated principal of the right role, with a valid
  token where a browser posts a form, changes the database or reaches the executor, and then only
  through an approved action.
\<close>

subsection \<open>Frames of the interface\<close>

context step_relation begin

lemma framed_app: "framed R m \<Longrightarrow> framed R (app m)"
  unfolding app_def by (intro flow; assumption)

lemma framed_guards:
  "framed R (viewer deps)" "framed R (analyst deps)" "framed R (reviewer deps)"
  "framed R (valid_body b)" "framed R (valid_value v)" "framed R (idempotency_header k)" "framed R m \<Longrightarrow> framed R (json_body b m)"
  "framed R (browser_form f)" "framed R (verify_csrf deps req form)" "framed R (required_reason form)"
  unfolding viewer_def analyst_def reviewer_def principal_def valid_body_def valid_value_def idempotency_header_def
    json_body_def browser_form_def verify_csrf_def required_reason_def Let_def
  by (auto intro!: flow split: body.split option.split)

end

context frame_relation begin

lemma framed_summaries: "framed R (summaries env cat ids as)"
  by (induction as) (auto simp: action_summary_of_def approval_state_def Let_def intro!: rules framed_repositories split: option.split)

lemma framed_payloads: "framed R (execution_payload env deps i)" "framed R (action_payload env deps i)"
  unfolding execution_payload_def action_payload_def approval_state_def Let_def
  by (auto intro!: rules framed_repositories framed_app framed_summaries split: option.split prod.split)

lemma framed_rows: "framed R (alert_rows env as)"
  by (induction as) (auto simp: alert_row_def Let_def intro!: rules framed_repositories split: option.split list.split)

lemma framed_known: "framed R (known_alert env i)"
  unfolding known_alert_def by (auto intro!: rules framed_repositories framed_app split: option.split)

lemma framed_reads: "\<not> is_post r \<Longrightarrow> framed R (dispatch env deps req r)"
  by (cases r)
    (auto simp: health_def ready_def list_alerts_def get_alert_def get_execution_def get_tools_def get_audit_def
      get_action_def alert_list_def alert_detail_def execution_detail_def action_detail_def
      intro!: rules framed_repositories framed_app framed_guards framed_payloads framed_rows
      split: option.split prod.split list.split)

end

context commit_frame begin

lemma framed_triage: "framed R (run_triage env deps alert key)"
  unfolding run_triage_def by (intro writes framed_app framed_run)

text \<open>Everything but the two execution routes.\<close>

lemma framed_dispatch:
  assumes "\<And>i b. r \<noteq> PostExecute i b" and "\<And>i f. r \<noteq> BrowserExecute i f"
  shows "framed R (dispatch env deps req r)"
proof (cases "is_post r")
  case False
  then show ?thesis by (rule framed_reads)
next
  case True
  then show ?thesis using assms
    by (cases r)
      (auto simp: ingest_alert_def triage_alert_def approve_action_def reject_action_def decide_action_def
        browser_triage_def browser_approve_def browser_reject_def browser_decide_def approve_def reject_def conflict_is_409_def
        intro!: writes framed_guards framed_app framed_triage framed_known framed_ingest framed_decide)
qed

end

subsection \<open>Authority\<close>

text \<open>The role that the route of a state-changing request demands.\<close>

fun role_granted :: "app_dependencies \<Rightarrow> route \<Rightarrow> Principal \<Rightarrow> bool" where
  "role_granted deps (PostAlert _ _) p = may_ingest_or_triage p"
| "role_granted deps (PostTriage _ _ _) p = may_ingest_or_triage p"
| "role_granted deps (BrowserTriage _ _) p = may_ingest_or_triage p"
| "role_granted deps (PostApprove _ _) p = may_review (svc_authorization (dep_service deps)) p"
| "role_granted deps (PostReject _ _) p = may_review (svc_authorization (dep_service deps)) p"
| "role_granted deps (PostExecute _ _) p = may_review (svc_authorization (dep_service deps)) p"
| "role_granted deps (BrowserApprove _ _) p = may_review (svc_authorization (dep_service deps)) p"
| "role_granted deps (BrowserReject _ _) p = may_review (svc_authorization (dep_service deps)) p"
| "role_granted deps (BrowserExecute _ _) p = may_review (svc_authorization (dep_service deps)) p"
| "role_granted deps _ p = False"

fun form_of :: "route \<Rightarrow> browser_request option" where
  "form_of (BrowserTriage _ f) = Some f"
| "form_of (BrowserApprove _ f) = Some f"
| "form_of (BrowserReject _ f) = Some f"
| "form_of (BrowserExecute _ f) = Some f"
| "form_of _ = None"

text \<open>The form carries the token that belongs to the session cookie of the request.\<close>

definition csrf_proved :: "app_dependencies \<Rightarrow> http_request \<Rightarrow> browser_request \<Rightarrow> bool" where
  "csrf_proved deps req f \<longleftrightarrow>
     (\<exists>s fs. cookie req = Some s \<and> form_fields f = Some fs \<and> map_of (rev fs) ''csrf_token'' = Some (dep_hmac deps s))"

definition authority :: "app_dependencies \<Rightarrow> http_request \<Rightarrow> Principal \<Rightarrow> bool" where
  "authority deps req p \<longleftrightarrow> current_principal deps = Some p \<and> role_granted deps (endpoint req) p
     \<and> (case form_of (endpoint req) of None \<Rightarrow> True | Some f \<Rightarrow> csrf_proved deps req f)
     \<and> body_size req \<le> max_request_bytes deps"

fun executes :: "route \<Rightarrow> string option" where
  "executes (PostExecute i _) = Some i"
| "executes (BrowserExecute i _) = Some i"
| "executes _ = None"

lemma guarded:
  "bindE (analyst deps) k = (case current_principal deps of None \<Rightarrow> raise (HTTPException 401)
     | Some p \<Rightarrow> if may_ingest_or_triage p then k p else raise (HTTPException 403))"
  "bindE (reviewer deps) k = (case current_principal deps of None \<Rightarrow> raise (HTTPException 401)
     | Some p \<Rightarrow> if may_review (svc_authorization (dep_service deps)) p then k p else raise (HTTPException 403))"
  by (auto simp: analyst_def reviewer_def principal_def bindE_def ret_def raise_def fun_eq_iff split: option.splits)

lemma form_guarded:
  "bindE (browser_form f) (\<lambda>form. bindE (verify_csrf deps req form) (k form)) =
     (if takeWhile (\<lambda>c. c \<noteq> CHR '';'') (content_type f) \<noteq> form_content_type then raise (HTTPException 400)
      else case form_fields f of None \<Rightarrow> raise (AppError (AdapterError ''UnicodeDecodeError''))
        | Some fs \<Rightarrow> bindE (verify_csrf deps req (map_of (rev fs))) (k (map_of (rev fs))))"
  by (auto simp: browser_form_def bindE_def ret_def raise_def fun_eq_iff split: option.splits)

lemma unproved_form:
  assumes "\<not> csrf_proved deps req f" and "form_fields f = Some fs"
  shows "framed nothing_changed (bindE (verify_csrf deps req (map_of (rev fs))) k)"
proof -
  have "bindE (verify_csrf deps req (map_of (rev fs))) k = raise (HTTPException 403)
      \<or> bindE (verify_csrf deps req (map_of (rev fs))) k = raise (AppError (AdapterError ''TypeError''))"
    using assms by (auto simp: verify_csrf_def csrf_validate_def csrf_proved_def bindE_def ret_def raise_def fun_eq_iff
        split: option.splits)
  then show ?thesis by (auto intro: read_frame.framed_raise)
qed

lemma refused_form:
  assumes "\<not> csrf_proved deps req f"
  shows "framed nothing_changed (bindE (browser_form f) (\<lambda>form. bindE (verify_csrf deps req form) (k form)))"
  unfolding form_guarded
  by (auto intro!: read_frame.framed_raise unproved_form [OF assms] split: option.split)

lemma refused_dispatch:
  assumes "\<not> (\<exists>p. current_principal deps = Some p \<and> role_granted deps r p
      \<and> (case form_of r of None \<Rightarrow> True | Some f \<Rightarrow> csrf_proved deps req f))"
  shows "framed nothing_changed (dispatch env deps req r)"
proof (cases "is_post r")
  case False
  then show ?thesis by (rule read_frame.framed_reads)
next
  case True
  then show ?thesis using assms
    by (cases r)
      (auto simp: ingest_alert_def triage_alert_def approve_action_def reject_action_def decide_action_def execute_action_def
        browser_triage_def browser_approve_def browser_reject_def browser_decide_def browser_execute_def guarded
        intro!: read_frame.rules read_frame.framed_guards refused_form split: option.split)
qed

lemma snd_handled: "snd (handled m w) = snd (m w)"
  by (simp add: handled_def catch_def ret_def split: prod.split sum.split)

lemma snd_app_ret: "snd (bindE (app m) (\<lambda>x. ret (h x)) w) = snd (m w)"
  by (simp add: app_def bindE_def catch_def ret_def raise_def split: prod.split sum.split)

text \<open>A request over the size limit stops before its route.\<close>

lemma serve_cases:
  "nothing_changed w (snd (serve env deps req w))
   \<or> snd (serve env deps req w) = snd (dispatch env deps req (endpoint req) w)
     \<and> (is_post (endpoint req) \<longrightarrow> body_size req \<le> max_request_bytes deps)"
  by (auto simp: serve_def request_size_limit_def Let_def ret_def snd_handled nothing_changed_def split: option.split)

text \<open>The two execution routes run \<open>execute\<close> for their action, or stop before it.\<close>

lemma sequence_eqs: "bindE (ret x) k = k x" "bindE (raise e) k = raise e"
  by (simp_all add: bindE_def ret_def raise_def fun_eq_iff)

lemma stops_or_continues:
  "bindE (verify_csrf deps req form) k = k () \<or> (\<exists>e. bindE (verify_csrf deps req form) k = raise e)"
  by (auto simp: verify_csrf_def sequence_eqs split: option.split)

lemma raise_changes_nothing: "nothing_changed w (snd (raise e w))"
  by (simp add: raise_def nothing_changed_def)

lemma execution_dispatch:
  assumes "executes r = Some i"
  shows "nothing_changed w (snd (dispatch env deps req r w))
    \<or> (\<exists>actor. snd (dispatch env deps req r w) = snd (execute env (dep_service deps) i actor w))"
proof (cases r)
  case (PostExecute j b)
  then show ?thesis using assms
    by (cases b; cases "current_principal deps")
      (auto simp: execute_action_def json_body_def valid_body_def guarded sequence_eqs raise_changes_nothing snd_app_ret)
next
  case (BrowserExecute j f)
  have "nothing_changed w (snd (bindE (verify_csrf deps req form) (\<lambda>_. bindE (app (execute env (dep_service deps) i actor))
      (\<lambda>_. ret (see_other (''/actions/'' @ i)))) w))
    \<or> snd (bindE (verify_csrf deps req form) (\<lambda>_. bindE (app (execute env (dep_service deps) i actor))
      (\<lambda>_. ret (see_other (''/actions/'' @ i)))) w) = snd (execute env (dep_service deps) i actor w)" for form actor
    using stops_or_continues [of deps req form "\<lambda>_. bindE (app (execute env (dep_service deps) i actor))
      (\<lambda>_. ret (see_other (''/actions/'' @ i)))"]
    by (auto simp: raise_changes_nothing snd_app_ret)
  moreover have "i = j" using assms BrowserExecute by simp
  ultimately show ?thesis using BrowserExecute
    by (cases "current_principal deps"; cases "form_fields f")
      (auto simp: browser_execute_def guarded form_guarded raise_changes_nothing)
qed (use assms in auto)

lemma other_dispatch:
  assumes "executes r = None"
  shows "executed (snd (dispatch env deps req r w)) = executed w"
proof -
  have "framed nothing_executed (dispatch env deps req r)"
    by (rule quiet_frame.framed_dispatch) (use assms in auto)
  then show ?thesis by (simp add: framed_def nothing_executed_def)
qed

subsection \<open>Requests change nothing without authority\<close>

text \<open>C29: whatever request arrives, the database and the executor are untouched unless the current
  principal has the role that the route demands, the body is within the size limit, and a form
  posted by a browser proves the token of its session; and even then the executor is reached only
  by the two execution routes, at most once, for an action that was never executed and carries an
  unexpired approval bound to what is stored.\<close>

theorem requests_need_authority:
  assumes "identified_actions (store w)"
  shows "store (snd (serve env deps req w)) = store w \<and> executed (snd (serve env deps req w)) = executed w
    \<or> (\<exists>p. authority deps req p)
      \<and> (executed (snd (serve env deps req w)) = executed w
         \<or> (\<exists>i a. executes (endpoint req) = Some i
              \<and> executed (snd (serve env deps req w)) = executed w @ [a]
              \<and> find_action_execution i (store w) = None
              \<and> approved_action env (dep_service deps) i (clock_now env (now_calls w)) (store w) a))"
proof (cases "nothing_changed w (snd (serve env deps req w))")
  case True
  then show ?thesis by (simp add: nothing_changed_def)
next
  case False
  then have routed: "snd (serve env deps req w) = snd (dispatch env deps req (endpoint req) w)"
    and size: "is_post (endpoint req) \<Longrightarrow> body_size req \<le> max_request_bytes deps"
    using serve_cases [of w env deps req] by auto
  have changed: "\<not> nothing_changed w (snd (dispatch env deps req (endpoint req) w))"
    using False by (simp add: routed)
  have post: "is_post (endpoint req)"
    using changed read_frame.framed_reads [of "endpoint req" env deps req] by (auto simp: framed_def)
  have auth: "\<exists>p. authority deps req p"
    using changed refused_dispatch [of deps "endpoint req" req env] size [OF post]
    by (auto simp: framed_def authority_def)
  show ?thesis
  proof (cases "executes (endpoint req)")
    case None
    then show ?thesis using auth by (simp add: routed other_dispatch)
  next
    case (Some i)
    obtain actor where "snd (dispatch env deps req (endpoint req) w) = snd (execute env (dep_service deps) i actor w)"
      using changed execution_dispatch [OF Some, of w env deps req] by auto
    then show ?thesis
      using auth execute_runs_approved [OF assms, of env "dep_service deps" i actor] by (auto simp: routed Some)
  qed
qed

end
