(* ===== verification/Http_Example.thy ===== *)
theory Http_Example
  imports Http_Correct Orchestrator_Example
begin

text \<open>Concrete requests on which the guards of the HTTP interface are instantiated.\<close>

definition sample_deps :: "Principal option \<Rightarrow> app_dependencies" where
  "sample_deps p = \<lparr>current_principal = p, dep_orchestrator = sample_orchestrator, dep_service = sample_service,
     max_request_bytes = 65536, reasoner_mode = ''deterministic/demo'', dep_prompt_version = None, dep_hmac = (\<lambda>s. s)\<rparr>"

definition sample_request :: "route \<Rightarrow> http_request" where
  "sample_request r = \<lparr>content_length = None, body_size = 2, cookie = None, random_session = ''s'', endpoint = r\<rparr>"

definition sample_viewer :: Principal where
  "sample_viewer = \<lparr>principal_id = ''rev'', role = VIEWER, development_only = True\<rparr>"

text \<open>A viewer cannot execute, whatever its name; a browser form without a token does nothing.\<close>

theorem requests_need_authority_witness:
  "executed (snd (serve sample_env (sample_deps (Some sample_viewer)) (sample_request (PostExecute ''action-1'' (Accepted ())))
     (world_of sample_db))) = []
   \<and> store (snd (serve sample_env (sample_deps (Some (sample_viewer\<lparr>role := REVIEWER\<rparr>)))
       (sample_request (BrowserExecute ''action-1'' \<lparr>content_type = form_content_type, form_fields = Some []\<rparr>))
     (world_of sample_db))) = sample_db"
proof -
  have refused: "\<not> authority (sample_deps (Some sample_viewer)) (sample_request (PostExecute ''action-1'' (Accepted ()))) p"
    "\<not> authority (sample_deps (Some (sample_viewer\<lparr>role := REVIEWER\<rparr>)))
       (sample_request (BrowserExecute ''action-1'' \<lparr>content_type = form_content_type, form_fields = Some []\<rparr>)) p" for p
    by (auto simp: authority_def sample_deps_def sample_request_def sample_viewer_def may_review_def csrf_proved_def)
  have ids: "identified_actions (store (world_of sample_db))" by (simp add: sample_rows)
  show ?thesis
    using requests_need_authority [OF ids, of sample_env "sample_deps (Some sample_viewer)"
        "sample_request (PostExecute ''action-1'' (Accepted ()))"]
      requests_need_authority [OF ids, of sample_env "sample_deps (Some (sample_viewer\<lparr>role := REVIEWER\<rparr>))"
        "sample_request (BrowserExecute ''action-1'' \<lparr>content_type = form_content_type, form_fields = Some []\<rparr>)"] refused
    by auto
qed

end
