(* ===== verification/Configuration.thy ===== *)
theory Configuration
  imports Reasoners
begin

text \<open>
  The settings of the process (\<open>config.py\<close>). Reading the environment and converting its texts to
  field values is left to the settings library; what the fields admit, the defaults, and the refusal
  of the production profile are modelled. Seconds are integers, the provider timeout is a rational.
\<close>

datatype Environment = EnvDevelopment | EnvTest | EnvProduction

fun environment_value :: "Environment \<Rightarrow> string" where
  "environment_value EnvDevelopment = ''development''"
| "environment_value EnvTest = ''test''"
| "environment_value EnvProduction = ''production''"

datatype ReasonerProvider = ProviderDemo | ProviderOpenAI

datatype log_level = LogDebug | LogInfo | LogWarning | LogError | LogCritical

fun level_name :: "log_level \<Rightarrow> string" where
  "level_name LogDebug = ''DEBUG''"
| "level_name LogInfo = ''INFO''"
| "level_name LogWarning = ''WARNING''"
| "level_name LogError = ''ERROR''"
| "level_name LogCritical = ''CRITICAL''"

datatype log_format = FormatJson | FormatConsole

record Settings =
  st_environment :: Environment
  st_service_name :: string
  st_log_level :: log_level
  st_log_format :: log_format
  st_database_url :: string
  st_fixture_path :: string
  st_max_request_bytes :: int
  st_approval_lifetime_seconds :: int
  st_stale_execution_seconds :: int
  st_stale_action_execution_seconds :: int
  st_evaluation_path :: string
  st_reasoner_provider :: ReasonerProvider
  st_openai_api_key :: "string option"
  st_openai_model :: string
  st_openai_request_timeout_seconds :: rat
  st_openai_max_output_tokens :: int
  st_openai_prompt_version :: prompt_version

definition default_settings :: Settings where
  "default_settings =
     \<lparr>st_environment = EnvDevelopment, st_service_name = ''security-triage-agent'', st_log_level = LogInfo,
      st_log_format = FormatJson, st_database_url = ''sqlite:///security-triage-agent.db'',
      st_fixture_path = ''fixtures/v1'', st_max_request_bytes = 65536, st_approval_lifetime_seconds = 900,
      st_stale_execution_seconds = 900, st_stale_action_execution_seconds = 300,
      st_evaluation_path = ''evaluations/v1/manifest.json'', st_reasoner_provider = ProviderDemo,
      st_openai_api_key = None, st_openai_model = ''gpt-5.6-luna'', st_openai_request_timeout_seconds = 25,
      st_openai_max_output_tokens = 1500, st_openai_prompt_version = OpenAI_L1_v1\<rparr>"

text \<open>The constraints of the fields; unlike the domain models, settings are not stripped.\<close>

definition validate_settings :: "Settings \<Rightarrow> Settings option" where
  "validate_settings s =
     (if 1 \<le> length (st_service_name s) \<and> length (st_service_name s) \<le> 80
        \<and> 1 \<le> length (st_database_url s) \<and> 1 \<le> length (st_fixture_path s)
        \<and> 1024 \<le> st_max_request_bytes s \<and> st_max_request_bytes s \<le> 1000000
        \<and> 60 \<le> st_approval_lifetime_seconds s \<and> st_approval_lifetime_seconds s \<le> 86400
        \<and> 60 \<le> st_stale_execution_seconds s \<and> st_stale_execution_seconds s \<le> 86400
        \<and> 60 \<le> st_stale_action_execution_seconds s \<and> st_stale_action_execution_seconds s \<le> 86400
        \<and> 1 \<le> length (st_evaluation_path s)
        \<and> 1 \<le> length (st_openai_model s) \<and> length (st_openai_model s) \<le> 128
        \<and> 1 \<le> st_openai_request_timeout_seconds s \<and> st_openai_request_timeout_seconds s \<le> 25
        \<and> 128 \<le> st_openai_max_output_tokens s \<and> st_openai_max_output_tokens s \<le> 8192
      then Some s else None)"

definition validate_runtime_profile :: "Settings \<Rightarrow> string option" where
  "validate_runtime_profile s =
     (if st_environment s = EnvProduction
      then Some ''production startup is disabled until a production identity provider is configured'' else None)"

lemma default_settings_valid: "validate_settings default_settings = Some default_settings"
  by (simp add: validate_settings_def default_settings_def)

lemma validate_settings_SomeD:
  "validate_settings s = Some t \<Longrightarrow> t = s
     \<and> 1024 \<le> st_max_request_bytes s \<and> st_max_request_bytes s \<le> 1000000
     \<and> 60 \<le> st_approval_lifetime_seconds s \<and> st_approval_lifetime_seconds s \<le> 86400
     \<and> 60 \<le> st_stale_execution_seconds s \<and> st_stale_execution_seconds s \<le> 86400
     \<and> 60 \<le> st_stale_action_execution_seconds s \<and> st_stale_action_execution_seconds s \<le> 86400"
  by (simp add: validate_settings_def split: if_splits)

end
