(* ===== verification/Neutralize.thy ===== *)
theory Neutralize
  imports Reasoners
begin

text \<open>
  The text substitutions of the v2 provider presentation (\<open>adapters/reasoners/openai.py\<close>,
  \<open>_ARTIFICIAL_TEXT_REPLACEMENTS\<close>): the fragment of \<open>re\<close> that the patterns use, with its
  backtracking order and left-to-right substitution, the patterns themselves, and the collapse of
  white space. No cue word survives them.
\<close>

subsection \<open>Characters\<close>

definition lower_char :: "char \<Rightarrow> char" where
  "lower_char c = (let n = of_char c :: nat in
     if (65 \<le> n \<and> n \<le> 90) \<or> (192 \<le> n \<and> n \<le> 222 \<and> n \<noteq> 215) then char_of (n + 32) else c)"

definition py_lower :: "string \<Rightarrow> string" where
  "py_lower s = map lower_char s"

text \<open>\<open>\w\<close>: letters, digits and numerals of the Latin-1 range, and the underscore.\<close>

definition is_word :: "char \<Rightarrow> bool" where
  "is_word c \<longleftrightarrow> (let n = of_char c :: nat in
     (48 \<le> n \<and> n \<le> 57) \<or> (65 \<le> n \<and> n \<le> 90) \<or> n = 95 \<or> (97 \<le> n \<and> n \<le> 122)
     \<or> n \<in> {170, 178, 179, 181, 185, 186, 188, 189, 190} \<or> (192 \<le> n \<and> n \<noteq> 215 \<and> n \<noteq> 247))"

subsection \<open>Patterns\<close>

text \<open>
  Literals and classes ignore case. \<open>Spaces\<close> is \<open>\s+\<close>, \<open>Boundary\<close> is \<open>\b\<close>, \<open>Maybe\<close> an optional
  greedy group, \<open>OneOf\<close> an ordered choice of words.
\<close>

datatype piece = Lit string | OneChar string | Spaces | Boundary | Maybe "piece list" | OneOf "string list"

text \<open>The subject around the current position: the text before it reversed, and the text after it.\<close>

type_synonym cursor = "string \<times> string"

definition eat :: "string \<Rightarrow> cursor \<Rightarrow> cursor list" where
  "eat w z = (let n = length w in
     if py_lower (take n (snd z)) = py_lower w then [(rev (take n (snd z)) @ fst z, drop n (snd z))] else [])"

definition at_word :: "string \<Rightarrow> bool" where
  "at_word s \<longleftrightarrow> (case s of [] \<Rightarrow> False | c # _ \<Rightarrow> is_word c)"

text \<open>All the ways to match, in the order in which the engine tries them.\<close>

fun step :: "piece \<Rightarrow> cursor \<Rightarrow> cursor list"
  and steps :: "piece list \<Rightarrow> cursor \<Rightarrow> cursor list" where
  "step (Lit w) z = eat w z"
| "step (OneChar cs) z = concat (map (\<lambda>c. eat [c] z) cs)"
| "step Spaces z = (let n = length (takeWhile py_is_space (snd z)) in
     map (\<lambda>k. (rev (take k (snd z)) @ fst z, drop k (snd z))) (rev [1..<Suc n]))"
| "step Boundary z = (if at_word (fst z) \<noteq> at_word (snd z) then [z] else [])"
| "step (Maybe ps) z = steps ps z @ [z]"
| "step (OneOf ws) z = concat (map (\<lambda>w. eat w z) ws)"
| "steps [] z = [z]"
| "steps (p # ps) z = concat (map (steps ps) (step p z))"

text \<open>\<open>pattern.sub(replacement, text)\<close>: the replacement is a function of the matched text.\<close>

function sub_from :: "piece list \<Rightarrow> (string \<Rightarrow> string) \<Rightarrow> cursor \<Rightarrow> string" where
  "sub_from ps repl (b, s) =
     (case steps ps (b, s) of
        (b', s') # _ \<Rightarrow>
          if length s' < length s then repl (take (length s - length s') s) @ sub_from ps repl (b', s')
          else (case s of [] \<Rightarrow> [] | c # cs \<Rightarrow> c # sub_from ps repl (c # b, cs))
      | [] \<Rightarrow> (case s of [] \<Rightarrow> [] | c # cs \<Rightarrow> c # sub_from ps repl (c # b, cs)))"
  by pat_completeness auto

termination
  by (relation "measure (\<lambda>(ps, repl, z). length (snd z))") auto

declare sub_from.simps [simp del]

definition re_sub :: "piece list \<Rightarrow> (string \<Rightarrow> string) \<Rightarrow> string \<Rightarrow> string" where
  "re_sub ps repl s = sub_from ps repl ([], s)"

definition cue_words :: "string list" where
  "cue_words = [''synthetic'', ''demo'', ''demonstration'', ''evaluation'', ''fixture'', ''test'']"

text \<open>The replacement of the identifier pattern keeps its group, the text after \<open>eval-\<close>.\<close>

definition ARTIFICIAL_TEXT_REPLACEMENTS :: "(piece list \<times> (string \<Rightarrow> string)) list" where
  "ARTIFICIAL_TEXT_REPLACEMENTS =
     [([Lit ''expected'', Spaces, Maybe [Lit ''demonstration'', Spaces], Lit ''baseline''], \<lambda>_. ''activity pattern''),
      ([Lit ''normal'', Spaces, Lit ''demonstration'', Spaces, Lit ''path''], \<lambda>_. ''observed activity''),
      ([Lit ''suspicious'', Spaces, Lit ''demonstration'', Spaces, Lit ''path''], \<lambda>_. ''observed activity''),
      ([Lit ''historical'', Spaces, Lit ''baseline'', Spaces, Lit ''activity''], \<lambda>_. ''historical activity''),
      ([Lit ''documentation'', OneChar ''- '', Lit ''range'', Spaces, Lit ''address''], \<lambda>_. ''reported address''),
      ([Lit ''documentation'', Spaces, Lit ''address''], \<lambda>_. ''reported address''),
      ([Lit ''.example.test'', Boundary], \<lambda>_. ''.example.invalid''),
      ([Boundary, Lit ''eval-'', OneOf [''alert'', ''payload''], Lit ''-''], drop 5),
      ([Boundary, Lit ''SYNTH-''], \<lambda>_. ''HOST-''),
      ([Boundary, Lit ''SyntheticOS'', Boundary], \<lambda>_. ''ExampleOS''),
      ([Boundary, Lit ''synthetic-''], \<lambda>_. []),
      ([Boundary, OneOf cue_words, Boundary], \<lambda>_. [])]"

lemma dropWhile_shorter: "t \<noteq> [] \<Longrightarrow> P (hd t) \<Longrightarrow> length (dropWhile P t) < length t"
  by (cases t) (auto simp: less_Suc_eq_le length_dropWhile_le)

text \<open>\<open>" ".join(text.split())\<close>.\<close>

function py_split :: "string \<Rightarrow> string list" where
  "py_split s = (let t = dropWhile py_is_space s in
     if t = [] then [] else takeWhile (\<lambda>c. \<not> py_is_space c) t # py_split (dropWhile (\<lambda>c. \<not> py_is_space c) t))"
  by pat_completeness auto

termination
proof (relation "measure length")
  fix s t :: string
  assume "t = dropWhile py_is_space s" "t \<noteq> []"
  then have "length (dropWhile (\<lambda>c. \<not> py_is_space c) t) < length t"
    by (intro dropWhile_shorter) (auto simp: hd_dropWhile)
  also have "length t \<le> length s" using \<open>t = _\<close> by (simp add: length_dropWhile_le)
  finally show "(dropWhile (\<lambda>c. \<not> py_is_space c) t, s) \<in> measure length" by simp
qed simp

declare py_split.simps [simp del]

definition scrub_text :: "string \<Rightarrow> string" where
  "scrub_text s = join '' '' (py_split (foldl (\<lambda>t (ps, repl). re_sub ps repl t) s ARTIFICIAL_TEXT_REPLACEMENTS))"

subsection \<open>No cue word is left\<close>

text \<open>A cue stands at a position where the whole run of word characters that starts there is a cue word.\<close>

definition cue_here :: "string \<Rightarrow> bool" where
  "cue_here s \<longleftrightarrow> py_lower (takeWhile is_word s) \<in> set cue_words"

text \<open>\<open>p\<close> tells whether a word character precedes the text.\<close>

fun cue_free :: "bool \<Rightarrow> string \<Rightarrow> bool" where
  "cue_free p [] = True"
| "cue_free p (c # cs) = ((p \<or> \<not> cue_here (c # cs)) \<and> cue_free (is_word c) cs)"

lemma of_char_bound: "(of_char c :: nat) < 256"
  using of_char_mod_256 [of c, where 'a=nat] by (metis mod_less_divisor zero_less_numeral)

lemma lower_word: "is_word (lower_char c) \<Longrightarrow> is_word c"
  using of_char_bound [of c] by (auto simp: is_word_def lower_char_def Let_def split: if_splits)

lemma space_not_word: "py_is_space c \<Longrightarrow> \<not> is_word c"
  by (auto simp: is_word_def py_is_space_def is_space_def Let_def)

lemma cue_letters: "w \<in> set cue_words \<Longrightarrow> w \<noteq> [] \<and> py_lower w = w \<and> (\<forall>c \<in> set w. is_word c)"
  unfolding cue_words_def by (simp, elim disjE; hypsubst; code_simp)

lemma cue_text:
  assumes "py_lower t \<in> set cue_words"
  shows "t \<noteq> []" and "\<forall>c \<in> set t. is_word c"
  using cue_letters [OF assms] lower_word by (auto simp: py_lower_def)

lemma cue_here_nonword: "\<not> at_word s \<Longrightarrow> \<not> cue_here s"
  using cue_letters [of "[]"] by (auto simp: cue_here_def at_word_def py_lower_def split: list.splits)

lemma cue_free_skip: "\<not> is_word c \<Longrightarrow> cue_free p (c # cs) = cue_free False cs"
  using cue_here_nonword [of "c # cs"] by (simp add: at_word_def)

lemma takeWhile_sep: "\<not> P c \<Longrightarrow> takeWhile P (xs @ c # ys) = takeWhile P xs"
  by (induction xs) auto

lemma cue_free_sep:
  assumes "\<not> is_word c"
  shows "cue_free p (xs @ c # ys) \<longleftrightarrow> cue_free p xs \<and> cue_free False ys"
proof (induction xs arbitrary: p)
  case Nil
  show ?case using cue_free_skip [OF assms] by simp
next
  case (Cons x xs)
  have "cue_here ((x # xs) @ c # ys) = cue_here (x # xs)" unfolding cue_here_def takeWhile_sep [of is_word, OF assms] ..
  then show ?case using Cons.IH by auto
qed

text \<open>The last pattern: it matches exactly where a cue stands.\<close>

abbreviation cue_pattern :: "piece list" where
  "cue_pattern \<equiv> [Boundary, OneOf cue_words, Boundary]"

lemma cue_steps:
  "z' \<in> set (steps cue_pattern (b, s)) \<longleftrightarrow>
     at_word b \<noteq> at_word s \<and> (\<exists>w \<in> set cue_words. py_lower (take (length w) s) = w
       \<and> z' = (rev (take (length w) s) @ b, drop (length w) s)
       \<and> at_word (rev (take (length w) s) @ b) \<noteq> at_word (drop (length w) s))"
  using cue_letters by (auto simp: eat_def Let_def)

lemma cue_match:
  assumes "(b', s') \<in> set (steps cue_pattern (b, s))"
  shows "\<not> at_word b" and "at_word s" and "\<not> at_word s'" and "length s' < length s"
proof -
  obtain w where w: "w \<in> set cue_words" "py_lower (take (length w) s) = w" "s' = drop (length w) s"
      "at_word (rev (take (length w) s) @ b) \<noteq> at_word s'" "at_word b \<noteq> at_word s"
    using assms unfolding cue_steps by blast
  let ?t = "take (length w) s"
  have t: "?t \<noteq> []" "\<forall>c \<in> set ?t. is_word c" using cue_text [of ?t] w(1,2) by simp_all
  then show "at_word s" using w(2) by (cases s; cases w) (auto simp: at_word_def)
  then show "\<not> at_word b" using w(5) by simp
  have "at_word (rev ?t @ b)" using t by (cases "rev ?t") (auto simp: at_word_def)
  then show "\<not> at_word s'" using w(4) by simp
  show "length s' < length s" using t(1) w(1,3) cue_letters [OF w(1)] by auto
qed

lemma no_match: "at_word b \<or> \<not> at_word s \<Longrightarrow> steps cue_pattern (b, s) = []"
  using cue_match by (metis list.set_intros(1) neq_Nil_conv surj_pair)

lemma cue_matches:
  assumes "cue_here s" and "\<not> at_word b"
  shows "steps cue_pattern (b, s) \<noteq> []"
proof -
  define t where "t = takeWhile is_word s"
  define r where "r = dropWhile is_word s"
  have s: "s = t @ r" by (simp add: t_def r_def)
  have cue: "py_lower t \<in> set cue_words" using assms(1) by (simp add: cue_here_def t_def)
  have len: "length (py_lower t) = length t" by (simp add: py_lower_def)
  have "at_word s" using assms(1) cue_here_nonword by blast
  moreover have "\<not> at_word r"
    using hd_dropWhile [of is_word s, folded r_def] by (cases r) (auto simp: at_word_def)
  moreover have "at_word (rev t @ b)"
    using cue_text [OF cue] by (cases "rev t") (auto simp: at_word_def)
  ultimately have "(rev t @ b, r) \<in> set (steps cue_pattern (b, s))"
    unfolding cue_steps using assms(2) cue by (intro conjI bexI [of _ "py_lower t"]) (simp_all add: s len)
  then show ?thesis by (metis empty_iff list.set(1))
qed

lemma sub_copy:
  "steps ps (b, s) = [] \<Longrightarrow> sub_from ps repl (b, s) = (case s of [] \<Rightarrow> [] | c # cs \<Rightarrow> c # sub_from ps repl (c # b, cs))"
  by (subst sub_from.simps) simp

lemma sub_inside_word: "at_word b \<Longrightarrow> takeWhile is_word (sub_from cue_pattern repl (b, s)) = takeWhile is_word s"
proof (induction s arbitrary: b)
  case (Cons c cs)
  have "at_word (c # b)" if "is_word c" using that by (simp add: at_word_def)
  then show ?case using Cons by (simp add: sub_copy [OF no_match])
qed (simp add: sub_copy [OF no_match])

lemma sub_cue_free:
  "(at_word s \<longrightarrow> q = at_word b) \<Longrightarrow> cue_free q (sub_from cue_pattern (\<lambda>_. []) (b, s))"
proof (induction "length s" arbitrary: s b q rule: less_induct)
  case less
  show ?case
  proof (cases "steps cue_pattern (b, s)")
    case (Cons z zs)
    obtain b' s' where z: "z = (b', s')" by fastforce
    note m = cue_match [of b' s' b s, unfolded Cons z, simplified]
    have "sub_from cue_pattern (\<lambda>_. []) (b, s) = sub_from cue_pattern (\<lambda>_. []) (b', s')"
      by (subst sub_from.simps) (use Cons m(4) in \<open>simp add: z\<close>)
    then show ?thesis using less.hyps [OF m(4)] m(3) by simp
  next
    case Nil
    show ?thesis
    proof (cases s)
      case (Cons c cs)
      have out: "sub_from cue_pattern (\<lambda>_. []) (b, s) = c # sub_from cue_pattern (\<lambda>_. []) (c # b, cs)"
        using sub_copy [OF Nil] Cons by simp
      have "cue_free (is_word c) (sub_from cue_pattern (\<lambda>_. []) (c # b, cs))"
        using less.hyps [of cs] Cons by (simp add: at_word_def)
      moreover have False if "\<not> q" and cue: "cue_here (c # sub_from cue_pattern (\<lambda>_. []) (c # b, cs))"
      proof -
        have "is_word c" using cue cue_here_nonword [of "c # _"] by (auto simp: at_word_def)
        then have "takeWhile is_word (sub_from cue_pattern (\<lambda>_. []) (c # b, cs)) = takeWhile is_word cs"
          by (intro sub_inside_word) (simp add: at_word_def)
        then have "cue_here s" using cue \<open>is_word c\<close> by (simp add: cue_here_def Cons)
        moreover have "\<not> at_word b" using less.prems \<open>\<not> q\<close> \<open>is_word c\<close> by (simp add: Cons at_word_def)
        ultimately show False using cue_matches Nil by blast
      qed
      ultimately show ?thesis unfolding out by auto
    qed (use sub_copy [OF Nil] in simp)
  qed
qed

subsection \<open>White space\<close>

lemma cue_free_drop_spaces: "cue_free False s \<Longrightarrow> cue_free False (dropWhile py_is_space s)"
  by (induction s) (auto simp: cue_free_skip space_not_word)

lemma cue_free_join: "cue_free False s \<Longrightarrow> cue_free False (join '' '' (py_split s))"
proof (induction s rule: py_split.induct)
  case (1 s)
  define t where "t = dropWhile py_is_space s"
  define w where "w = takeWhile (\<lambda>c. \<not> py_is_space c) t"
  define r where "r = dropWhile (\<lambda>c. \<not> py_is_space c) t"
  have t: "t = w @ r" by (simp add: w_def r_def)
  have free: "cue_free False (w @ r)" using cue_free_drop_spaces [OF "1.prems"] by (simp add: t [symmetric] t_def)
  have parts: "cue_free False w" "cue_free False r"
  proof -
    show "cue_free False w"
    proof (cases r)
      case (Cons c cs)
      then have "\<not> is_word c" using hd_dropWhile [of "\<lambda>c. \<not> py_is_space c" t] by (intro space_not_word) (simp add: r_def)
      then show ?thesis using free by (simp add: Cons cue_free_sep)
    qed (use free in simp)
    show "cue_free False r"
    proof (cases r)
      case (Cons c cs)
      then have "\<not> is_word c" using hd_dropWhile [of "\<lambda>c. \<not> py_is_space c" t] by (intro space_not_word) (simp add: r_def)
      then show ?thesis using free by (simp add: Cons cue_free_sep cue_free_skip del: cue_free.simps)
    qed simp
  qed
  show ?case
  proof (cases "t = []")
    case True
    then show ?thesis by (subst py_split.simps) (simp add: t_def)
  next
    case False
    have split: "py_split s = w # py_split r"
      by (subst py_split.simps) (use False in \<open>simp add: t_def [symmetric] w_def r_def\<close>)
    have rest: "cue_free False (join '' '' (py_split r))" using "1.IH" False parts(2) by (simp add: t_def r_def)
    have "\<not> is_word (CHR '' '')" by code_simp
    then show ?thesis using parts(1) rest unfolding split
      by (cases "py_split r") (simp_all add: cue_free_sep [of "CHR '' ''", simplified])
  qed
qed

lemma scrub_text_cue_free: "cue_free False (scrub_text s)"
  unfolding scrub_text_def ARTIFICIAL_TEXT_REPLACEMENTS_def foldl.simps prod.case re_sub_def [of cue_pattern]
  by (intro cue_free_join sub_cue_free) (simp add: at_word_def)

text \<open>Every text of a value, and every key, at any depth.\<close>

fun texts_of :: "pyval \<Rightarrow> string list" where
  "texts_of (PDict kvs) = concat (map (\<lambda>kv. texts_of (snd kv)) kvs)"
| "texts_of (PList vs) = concat (map texts_of vs)"
| "texts_of (PStr s) = [s]"
| "texts_of v = []"

fun keys_of :: "pyval \<Rightarrow> string list" where
  "keys_of (PDict kvs) = concat (map (\<lambda>kv. fst kv # keys_of (snd kv)) kvs)"
| "keys_of (PList vs) = concat (map keys_of vs)"
| "keys_of v = []"

lemma neutral_texts: "t \<in> set (texts_of (neutralize_model_value scrub_text v)) \<Longrightarrow> cue_free False t"
proof (induction v rule: texts_of.induct)
qed (auto simp: scrub_text_cue_free)

lemma neutral_keys: "''fixture_version'' \<notin> set (keys_of (neutralize_model_value scrub_text v))"
proof (induction v rule: keys_of.induct)
qed auto

text \<open>C40: what the v2 prompt shows of an alert and of the evidence carries no cue of the artificial
  environment: no text of it, at any depth, has a cue word among its words, no key is
  \<open>fixture_version\<close>, and the original payload and the provider's schema version are not in it.\<close>

theorem presentation_has_no_cues:
  "\<exists>d alert evs. context_payload utc scrub_text OpenAI_L1_v2 rcx = PDict d
     \<and> dict_get ''alert'' d = Some (PDict alert) \<and> dict_get ''evidence'' d = Some (PList evs)
     \<and> list_all (cue_free False) (texts_of (PDict alert) @ texts_of (PList evs))
     \<and> ''fixture_version'' \<notin> set (keys_of (PDict alert) @ keys_of (PList evs))
     \<and> dict_get ''original_payload'' alert = None \<and> dict_get ''provider_schema_version'' alert = None"
proof -
  let ?a = "dict_remove ''provider_schema_version'' (dict_remove ''original_payload'' (alert_dump utc (rc_alert rcx)))"
  let ?alert = "filter (\<lambda>kv. fst kv \<noteq> ''fixture_version'') ?a"
  define shown where "shown = map (\<lambda>kv. (fst kv, neutralize_model_value scrub_text (snd kv))) ?alert"
  have alert: "neutralize_model_value scrub_text (PDict ?a) = PDict shown" by (simp add: shown_def)
  define evs where "evs = map (\<lambda>x. neutralize_model_value scrub_text (accumulated_dump utc x)) (rc_evidence rcx)"
  have "context_payload utc scrub_text OpenAI_L1_v2 rcx = PDict
      [(''boundary'', PStr boundary_text),
       (''authorized_tool_targets'', PList (map tool_target_dump (authorized_tool_targets rcx))),
       (''alert'', PDict shown), (''evidence'', PList evs),
       (''action_semantics'', PList (map semantics_dump (action_semantics rcx))), (''bounds'', bounds_dump rcx)]"
    by (simp add: context_payload_def alert evs_def del: neutralize_model_value.simps)
  moreover have "list_all (cue_free False) (texts_of (PDict shown) @ texts_of (PList evs))"
    using neutral_texts [of _ "PDict ?a"] neutral_texts
    by (auto simp: list_all_iff evs_def alert simp del: texts_of.simps(1) neutralize_model_value.simps)
  moreover have "''fixture_version'' \<notin> set (keys_of (PDict shown) @ keys_of (PList evs))"
    using neutral_keys [of "PDict ?a"] neutral_keys
    by (auto simp: evs_def alert simp del: keys_of.simps(1) neutralize_model_value.simps)
  moreover have "dict_get ''original_payload'' shown = None" "dict_get ''provider_schema_version'' shown = None"
    by (auto simp: dict_get_def map_of_eq_None_iff shown_def dict_remove_def)
  ultimately show ?thesis
    by (intro exI conjI) (assumption | simp add: dict_get_def)+
qed

end
