(* ===== verification/Redaction.thy ===== *)
theory Redaction
  imports Configuration Neutralize "HOL-Library.Sublist"
begin

text \<open>
  Structured logging with redaction (\<open>logging.py\<close>): the sensitive keys, the recursive redaction of
  contexts, both formatters, and the path of an event through the configured root logger. The
  timestamp text, the interpolated message and the traceback of a record are given; \<open>str\<close> of a value
  that JSON cannot hold is the parameter \<open>text_of\<close>.
\<close>

subsection \<open>Sensitive keys\<close>

definition dashes_to_underscores :: "string \<Rightarrow> string" where
  "dashes_to_underscores s = map (\<lambda>c. if c = CHR ''-'' then CHR ''_'' else c) s"

definition SENSITIVE_KEYS :: "string list" where
  "SENSITIVE_KEYS =
     [''access_token'', ''api_key'', ''authorization'', ''cookie'', ''credential'', ''password'', ''refresh_token'',
      ''secret'', ''set-cookie'', ''token'']"

definition is_sensitive_key :: "string \<Rightarrow> bool" where
  "is_sensitive_key key \<longleftrightarrow>
     (let normalized = dashes_to_underscores (py_lower (py_strip key))
      in normalized \<in> set (map dashes_to_underscores SENSITIVE_KEYS)
         \<or> list_ex (\<lambda>sfx. suffix (CHR ''_'' # sfx) normalized) [''password'', ''secret'', ''token'', ''api_key''])"

subsection \<open>Redaction\<close>

definition REDACTED :: string where
  "REDACTED = ''[REDACTED]''"

fun redact :: "pyval \<Rightarrow> pyval" where
  "redact (PDict kvs) = PDict (map (\<lambda>kv. (fst kv, if is_sensitive_key (fst kv) then PStr REDACTED else redact (snd kv))) kvs)"
| "redact (PProxy kvs) = PDict (map (\<lambda>kv. (fst kv, if is_sensitive_key (fst kv) then PStr REDACTED else redact (snd kv))) kvs)"
| "redact (PList vs) = PList (map redact vs)"
| "redact (PTuple vs) = PList (map redact vs)"
| "redact v = v"

subsection \<open>Formatters\<close>

record LogRecord =
  lr_created :: time
  lr_level :: log_level
  lr_logger :: string
  lr_message :: string
  lr_context :: "pyval option"
  lr_exception :: "string option"

text \<open>\<open>json.dumps(..., default=str)\<close>: a value without a JSON form becomes its text.\<close>

fun with_default :: "(pyval \<Rightarrow> string) \<Rightarrow> pyval \<Rightarrow> pyval" where
  "with_default text_of (PDict kvs) = PDict (map (\<lambda>kv. (fst kv, with_default text_of (snd kv))) kvs)"
| "with_default text_of (PList vs) = PList (map (with_default text_of) vs)"
| "with_default text_of (PTuple vs) = PList (map (with_default text_of) vs)"
| "with_default text_of (PProxy kvs) = PStr (text_of (PProxy kvs))"
| "with_default text_of (PObject s) = PStr (text_of (PObject s))"
| "with_default text_of v = v"

text \<open>The default separators of \<open>json.dumps\<close> put a space after each comma and colon.\<close>

fun render_spaced :: "pyval \<Rightarrow> string" where
  "render_spaced (PList vs) = ''['' @ join '', '' (map render_spaced vs) @ '']''"
| "render_spaced (PDict kvs) =
     ''{'' @ join '', '' (map (\<lambda>kv. quote True (fst kv) @ '': '' @ render_spaced (snd kv)) kvs) @ ''}''"
| "render_spaced v = render True v"

definition log_payload :: "(time \<Rightarrow> string) \<Rightarrow> LogRecord \<Rightarrow> pydict" where
  "log_payload utc r =
     [(''timestamp'', PStr (utc (lr_created r))), (''level'', PStr (level_name (lr_level r))),
      (''logger'', PStr (lr_logger r)), (''event'', PStr (lr_message r))]
     @ (case lr_context r of None \<Rightarrow> [] | Some c \<Rightarrow> [(''context'', redact c)])
     @ (case lr_exception r of None \<Rightarrow> [] | Some x \<Rightarrow> [(''exception'', PStr x)])"

definition json_format :: "(time \<Rightarrow> string) \<Rightarrow> (pyval \<Rightarrow> string) \<Rightarrow> LogRecord \<Rightarrow> string" where
  "json_format utc text_of r = render True (canon (with_default text_of (redact (PDict (log_payload utc r)))))"

text \<open>\<open>:<8\<close> pads the level name with spaces to eight characters.\<close>

definition pad_level :: "string \<Rightarrow> string" where
  "pad_level s = s @ replicate (8 - length s) (CHR '' '')"

definition console_format :: "(pyval \<Rightarrow> string) \<Rightarrow> LogRecord \<Rightarrow> string" where
  "console_format text_of r =
     (let base = pad_level (level_name (lr_level r)) @ '' '' @ lr_logger r @ '' '' @ lr_message r
      in case lr_context r of None \<Rightarrow> base
         | Some c \<Rightarrow> base @ '' '' @ render_spaced (canon (with_default text_of (redact c))))"

subsection \<open>The configured logger\<close>

record root_logger =
  rl_handlers :: "log_format list"
  rl_level :: log_level

text \<open>The handlers of an earlier configuration are dropped.\<close>

definition configure_logging :: "Settings \<Rightarrow> root_logger \<Rightarrow> root_logger" where
  "configure_logging s rlog = rlog\<lparr>rl_handlers := [st_log_format s], rl_level := st_log_level s\<rparr>"

fun level_number :: "log_level \<Rightarrow> nat" where
  "level_number LogDebug = 10"
| "level_number LogInfo = 20"
| "level_number LogWarning = 30"
| "level_number LogError = 40"
| "level_number LogCritical = 50"

text \<open>An event below the level of the root is dropped; otherwise every handler writes one line.\<close>

definition log_event ::
  "(time \<Rightarrow> string) \<Rightarrow> (pyval \<Rightarrow> string) \<Rightarrow> root_logger \<Rightarrow> time \<Rightarrow> string \<Rightarrow> log_level \<Rightarrow> string \<Rightarrow> pydict \<Rightarrow> string list" where
  "log_event utc text_of rlog t logger level event context =
     (let r = \<lparr>lr_created = t, lr_level = level, lr_logger = logger, lr_message = event,
               lr_context = Some (PDict context), lr_exception = None\<rparr>
      in if level_number level < level_number (rl_level rlog) then []
         else map (\<lambda>f. case f of FormatJson \<Rightarrow> json_format utc text_of r | FormatConsole \<Rightarrow> console_format text_of r)
           (rl_handlers rlog))"

subsection \<open>Agreement outside sensitive keys\<close>

fun items_of :: "pyval \<Rightarrow> pydict option" where
  "items_of (PDict kvs) = Some kvs"
| "items_of (PProxy kvs) = Some kvs"
| "items_of _ = None"

fun elements_of :: "pyval \<Rightarrow> pyval list option" where
  "elements_of (PList vs) = Some vs"
| "elements_of (PTuple vs) = Some vs"
| "elements_of _ = None"

text \<open>
  Two values agree when they differ only in what stands under a sensitive key, at any depth, and in
  which kind of mapping or sequence holds their parts.
\<close>

inductive agrees :: "pyval \<Rightarrow> pyval \<Rightarrow> bool" where
  mappings: "\<lbrakk>items_of v = Some xs; items_of w = Some ys;
      list_all2 (\<lambda>x y. fst x = fst y \<and> (is_sensitive_key (fst x) \<or> agrees (snd x) (snd y))) xs ys\<rbrakk> \<Longrightarrow> agrees v w"
| sequences: "\<lbrakk>elements_of v = Some xs; elements_of w = Some ys; list_all2 agrees xs ys\<rbrakk> \<Longrightarrow> agrees v w"
| scalars: "\<lbrakk>items_of v = None; elements_of v = None\<rbrakk> \<Longrightarrow> agrees v v"

definition redact_item :: "string \<times> pyval \<Rightarrow> string \<times> pyval" where
  "redact_item kv = (fst kv, if is_sensitive_key (fst kv) then PStr REDACTED else redact (snd kv))"

lemma redact_mapping: "items_of v = Some kvs \<Longrightarrow> redact v = PDict (map redact_item kvs)"
  by (cases v) (auto simp: redact_item_def)

lemma redact_sequence: "elements_of v = Some vs \<Longrightarrow> redact v = PList (map redact vs)"
  by (cases v) auto

lemma redact_scalar: "items_of v = None \<Longrightarrow> elements_of v = None \<Longrightarrow> redact v = v"
  by (cases v) auto

lemma redact_cases [case_names mapping sequence scalar]:
  obtains kvs where "items_of v = Some kvs" "redact v = PDict (map redact_item kvs)"
  | vs where "elements_of v = Some vs" "items_of v = None" "redact v = PList (map redact vs)"
  | "items_of v = None" "elements_of v = None" "redact v = v"
  by (cases v) (auto simp: redact_item_def intro: that)

lemma agrees_redact: "agrees v w \<Longrightarrow> redact v = redact w"
proof (induction rule: agrees.induct)
  case (mappings v xs w ys)
  have "map redact_item xs = map redact_item ys"
    using mappings.IH by (induction rule: list_all2_induct) (auto simp: redact_item_def)
  then show ?case using mappings.hyps by (simp add: redact_mapping)
next
  case (sequences v xs w ys)
  have "map redact xs = map redact ys" using sequences.IH by (induction rule: list_all2_induct) auto
  then show ?case using sequences.hyps by (simp add: redact_sequence)
qed (rule refl)

lemma items_smaller: "items_of v = Some kvs \<Longrightarrow> kv \<in> set kvs \<Longrightarrow> size (snd kv) < size v"
  by (cases v) (auto dest: size_item)

lemma elements_smaller: "elements_of v = Some vs \<Longrightarrow> x \<in> set vs \<Longrightarrow> size x < size v"
  by (cases v) (auto simp: less_Suc_eq_le intro: size_list_estimation')

lemma map_eq_list_all2: "map f xs = map f ys \<Longrightarrow> list_all2 (\<lambda>x y. f x = f y) xs ys"
  by (simp add: list_all2_conv_all_nth list_eq_iff_nth_eq)

lemma redact_agrees: "redact v = redact w \<Longrightarrow> agrees v w"
proof (induction "size v" arbitrary: v w rule: less_induct)
  case less
  show ?case
  proof (cases v rule: redact_cases)
    case (mapping xs)
    with less.prems obtain ys where ys: "items_of w = Some ys" "map redact_item xs = map redact_item ys"
      by (cases w rule: redact_cases) auto
    have "list_all2 (\<lambda>x y. fst x = fst y \<and> (is_sensitive_key (fst x) \<or> agrees (snd x) (snd y))) xs ys"
      by (rule list.rel_mono_strong [OF map_eq_list_all2 [OF ys(2)]])
        (auto simp: redact_item_def split: if_splits intro!: less.hyps items_smaller [OF mapping(1), THEN order.strict_trans1 [rotated]]
          dest: items_smaller [OF mapping(1)])
    with mapping(1) ys(1) show ?thesis by (rule agrees.mappings)
  next
    case (sequence xs)
    with less.prems obtain ys where ys: "elements_of w = Some ys" "map redact xs = map redact ys"
      by (cases w rule: redact_cases) auto
    have "list_all2 agrees xs ys"
      by (rule list.rel_mono_strong [OF map_eq_list_all2 [OF ys(2)]])
        (rule less.hyps [OF elements_smaller [OF sequence(1)]])
    with sequence(1) ys(1) show ?thesis by (rule agrees.sequences)
  next
    case scalar
    then have "w = v" using less.prems by (cases w rule: redact_cases) auto
    with scalar show ?thesis by (auto intro: agrees.scalars)
  qed
qed

lemma redact_idem: "redact (redact v) = redact v"
proof (induction v rule: redact.induct)
qed (auto)

text \<open>C39: redaction hides exactly the sensitive values. Two values are redacted to the same one exactly
  when they agree outside sensitive keys, at every depth; redacting twice changes nothing; and whatever
  the configuration, an event writes the lines that it writes when its context is redacted first.\<close>

theorem logs_hide_exactly_the_sensitive:
  "(redact v = redact w \<longleftrightarrow> agrees v w) \<and> redact (redact v) = redact v
    \<and> log_event utc text_of (configure_logging s rlog) t logger level event c
        = log_event utc text_of (configure_logging s rlog) t logger level event (map redact_item c)"
proof (intro conjI)
  show "redact v = redact w \<longleftrightarrow> agrees v w" using agrees_redact redact_agrees by blast
  show "redact (redact v) = redact v" by (rule redact_idem)
  have "redact (PDict (map redact_item c)) = redact (PDict c)"
    by (auto simp: redact_item_def redact_idem)
  then show "log_event utc text_of (configure_logging s rlog) t logger level event c
      = log_event utc text_of (configure_logging s rlog) t logger level event (map redact_item c)"
    by (simp only: log_event_def json_format_def console_format_def log_payload_def Let_def LogRecord.simps option.case)
qed

end
