(* ===== verification/Provider_Call.thy ===== *)
theory Provider_Call
  imports Prompts Redaction
begin

text \<open>
  A call of the provider adapter as the process sees it (\<open>OpenAIReasoner\<close> in
  \<open>adapters/reasoners/openai.py\<close>): the construction with the integrity check of the instructions,
  the request that leaves the process, and the one log event of every call. \<open>sha\<close> is the hex digest
  of a text.
\<close>

subsection \<open>Construction\<close>

record OpenAIReasoner =
  oar_model :: string
  oar_prompt_version :: string
  oar_instructions :: string
  oar_max_output_tokens :: int

datatype construction_error = UnsupportedPrompt string | InstructionsChanged

definition new_openai_reasoner ::
  "(string \<Rightarrow> string) \<Rightarrow> string \<Rightarrow> int \<Rightarrow> string \<Rightarrow> construction_error + OpenAIReasoner" where
  "new_openai_reasoner sha model max_output_tokens version =
     (case PROMPT_DEFINITIONS version of
        None \<Rightarrow> Inl (UnsupportedPrompt (''unsupported OpenAI prompt version: '' @ version))
      | Some p \<Rightarrow>
          if sha (prompt_instructions p) \<noteq> prompt_sha256 p then Inl InstructionsChanged
          else Inr \<lparr>oar_model = model, oar_prompt_version = version, oar_instructions = prompt_instructions p,
            oar_max_output_tokens = max_output_tokens\<rparr>)"

subsection \<open>The request\<close>

datatype output_model = OpenAIReasonerOutput | OpenAIV2ReasonerOutput

record provider_request =
  req_model :: string
  req_instructions :: string
  req_input :: string
  req_text_format :: output_model
  req_max_output_tokens :: int
  req_store :: bool

definition request_of :: "OpenAIReasoner \<Rightarrow> string \<Rightarrow> provider_request" where
  "request_of r body =
     \<lparr>req_model = oar_model r, req_instructions = oar_instructions r, req_input = body,
      req_text_format = (if oar_prompt_version r = V2_PROMPT_VERSION then OpenAIV2ReasonerOutput else OpenAIReasonerOutput),
      req_max_output_tokens = oar_max_output_tokens r, req_store = False\<rparr>"

subsection \<open>The log event of a call\<close>

fun failure_value :: "ProviderFailureCategory \<Rightarrow> string" where
  "failure_value FailTimeout = ''timeout''"
| "failure_value FailAuthentication = ''authentication''"
| "failure_value FailRateLimit = ''rate_limit''"
| "failure_value FailUnavailable = ''unavailable''"
| "failure_value FailConnection = ''connection''"
| "failure_value FailInvalidRequest = ''invalid_request''"
| "failure_value FailPermission = ''permission''"
| "failure_value FailProviderError = ''provider_error''"
| "failure_value FailMalformedResponse = ''malformed_response''"
| "failure_value FailValidation = ''validation''"
| "failure_value FailUnexpected = ''unexpected''"

text \<open>The message of \<open>OpenAIReasonerError\<close>, all that an error tells its handler.\<close>

definition failure_message :: "ProviderFailureCategory \<Rightarrow> string" where
  "failure_message c = ''OpenAI reasoner failed: '' @ failure_value c"

definition call_context :: "OpenAIReasoner \<Rightarrow> ReasonerContext \<Rightarrow> int \<Rightarrow> pydict" where
  "call_context r rcx duration =
     [(''provider'', PStr ''openai''), (''model'', PStr (oar_model r)), (''prompt_version'', PStr (oar_prompt_version r)),
      (''execution_id'', PStr (rc_execution_id rcx)), (''correlation_id'', PStr (rc_correlation_id rcx)),
      (''duration_ms'', PInt duration)]"

definition tokens_dump :: "int option \<Rightarrow> pyval" where
  "tokens_dump n = (case n of None \<Rightarrow> PNone | Some k \<Rightarrow> PInt k)"

text \<open>
  Level, event and context of the one event: \<open>usage\<close> holds the token counts that the response
  reports, if any.
\<close>

definition call_event ::
  "OpenAIReasoner \<Rightarrow> ReasonerContext \<Rightarrow> int \<Rightarrow> int option \<times> int option \<Rightarrow> ProviderFailureCategory + ReasonerStep
     \<Rightarrow> log_level \<times> string \<times> pydict" where
  "call_event r rcx duration usage result =
     (case result of
        Inl c \<Rightarrow> (LogWarning, ''openai.reasoner_failed'',
          call_context r rcx duration @ [(''failure_category'', PStr (failure_value c))])
      | Inr _ \<Rightarrow> (LogInfo, ''openai.reasoner_completed'',
          call_context r rcx duration
            @ [(''input_tokens'', tokens_dump (fst usage)), (''output_tokens'', tokens_dump (snd usage))]))"

definition PROVIDER_LOGGER :: string where
  "PROVIDER_LOGGER = ''security_triage_agent.adapters.reasoners.openai''"

text \<open>
  The answer of a call and the lines it writes. \<open>v\<close> is the typed prompt version of the adapter;
  \<open>client\<close> answers the request, with the usage it reports.
\<close>

definition logged_next_step ::
  "(time \<Rightarrow> string) \<Rightarrow> (pyval \<Rightarrow> string) \<Rightarrow> root_logger \<Rightarrow> (pyval \<Rightarrow> string option) \<Rightarrow> prompt_version
     \<Rightarrow> (ReasonerContext \<Rightarrow> string option) \<Rightarrow> OpenAIReasoner \<Rightarrow> time \<Rightarrow> int \<Rightarrow> ReasonerContext
     \<Rightarrow> (provider_request \<Rightarrow> provider_reply) \<Rightarrow> int option \<times> int option
     \<Rightarrow> (ProviderFailureCategory + ReasonerStep) \<times> string list" where
  "logged_next_step utc text_of rlog parse_ip v serialize r t duration rcx client usage =
     (let result = next_step parse_ip v serialize rcx (\<lambda>body. client (request_of r body));
          (level, event, cx) = call_event r rcx duration usage result
      in (result, log_event utc text_of rlog t PROVIDER_LOGGER level event cx))"

subsection \<open>What leaves the process\<close>

lemma construction_exact:
  "(\<exists>r. new_openai_reasoner sha model n (prompt_version_value v) = Inr r) \<longleftrightarrow>
     selected_prompt_intact sha v"
  by (simp add: new_openai_reasoner_def prompt_of_version selected_prompt_intact_def split: prompt_version.splits)

lemma constructed_request:
  assumes "new_openai_reasoner sha model n version = Inr r"
  shows "\<exists>p. PROMPT_DEFINITIONS version = Some p \<and> req_instructions (request_of r body) = prompt_instructions p
    \<and> sha (req_instructions (request_of r body)) = prompt_sha256 p \<and> req_input (request_of r body) = body
    \<and> \<not> req_store (request_of r body)"
  using assms by (auto simp: new_openai_reasoner_def request_of_def split: option.splits if_splits)

lemma failure_value_inj: "failure_value c = failure_value d \<longleftrightarrow> c = d"
  by (cases c; cases d) simp_all

lemma plain_call_keys:
  "\<not> is_sensitive_key ''provider''" "\<not> is_sensitive_key ''model''" "\<not> is_sensitive_key ''prompt_version''"
  "\<not> is_sensitive_key ''execution_id''" "\<not> is_sensitive_key ''correlation_id''" "\<not> is_sensitive_key ''duration_ms''"
  "\<not> is_sensitive_key ''failure_category''" "\<not> is_sensitive_key ''input_tokens''" "\<not> is_sensitive_key ''output_tokens''"
  by code_simp+

lemma redact_call_event:
  "call_event r rcx duration usage result = (level, event, cx) \<Longrightarrow> redact (PDict cx) = PDict cx"
  by (auto simp: call_event_def call_context_def tokens_dump_def plain_call_keys split: sum.splits option.splits)

text \<open>
  What a call logs depends on the answer of the provider only through its failure category or the
  token counts. Every failed call is logged unless the root level is above \<open>WARNING\<close>, once per
  handler.
\<close>

lemma call_event_outcome:
  "map_sum id (\<lambda>_. ()) res1 = map_sum id (\<lambda>_. ()) res2 \<Longrightarrow>
     call_event r rcx duration usage res1 = call_event r rcx duration usage res2"
  by (cases res1; cases res2) (simp_all add: call_event_def)

theorem log_reveals_only_the_outcome:
  assumes "map_sum id (\<lambda>_. ()) (fst (logged_next_step utc text_of rlog parse_ip v serialize r t duration rcx c1 usage))
    = map_sum id (\<lambda>_. ()) (fst (logged_next_step utc text_of rlog parse_ip v serialize r t duration rcx c2 usage))"
  shows "snd (logged_next_step utc text_of rlog parse_ip v serialize r t duration rcx c1 usage)
    = snd (logged_next_step utc text_of rlog parse_ip v serialize r t duration rcx c2 usage)"
proof -
  let ?res = "\<lambda>c. next_step parse_ip v serialize rcx (\<lambda>body. c (request_of r body))"
  have "call_event r rcx duration usage (?res c1) = call_event r rcx duration usage (?res c2)"
    using assms by (intro call_event_outcome) (simp add: logged_next_step_def Let_def split: prod.splits)
  then show ?thesis by (simp add: logged_next_step_def Let_def split: prod.splits)
qed

lemma failed_calls_are_logged:
  assumes "fst (logged_next_step utc text_of rlog parse_ip v serialize r t duration rcx c usage) = Inl f"
    and "level_number (rl_level rlog) \<le> level_number LogWarning"
  shows "length (snd (logged_next_step utc text_of rlog parse_ip v serialize r t duration rcx c usage))
    = length (rl_handlers rlog)"
  using assms
  by (auto simp: logged_next_step_def call_event_def log_event_def Let_def split: prod.splits)

end
