(* ===== verification/Unit_Of_Work.thy ===== *)
theory Unit_Of_Work
  imports Recovery
begin

text \<open>
  The unit of work as its adapter implements it (\<open>adapters/persistence/uow.py\<close>) behind the ports of
  the application (\<open>application/ports/repositories.py\<close>): an object that owns a session while its
  \<open>with\<close> block runs and builds every repository on it, a session whose transaction begins with its
  first statement, and the calls that are refused outside the block. A body written against the
  ports behaves as the same body in \<open>with_uow\<close>, which is how the services are modelled.
\<close>

subsection \<open>Engines\<close>

text \<open>What the URL library and the drivers say of a database URL.\<close>

record url_library =
  backend_name :: "string \<Rightarrow> string option"
  driver_loads :: "string \<Rightarrow> bool"

datatype engine_error = InvalidUrl | UnsupportedBackend string | DriverMissing

text \<open>The statements of \<open>on_connect\<close> run on every new connection.\<close>

record engine =
  engine_url :: string
  engine_backend :: string
  on_connect :: "string list"

definition enable_sqlite_foreign_keys :: "string list" where
  "enable_sqlite_foreign_keys = [''PRAGMA foreign_keys=ON'']"

definition create_engine :: "url_library \<Rightarrow> string \<Rightarrow> engine_error + engine" where
  "create_engine lib url =
     (case backend_name lib url of None \<Rightarrow> Inl InvalidUrl
      | Some backend \<Rightarrow>
          if backend \<notin> {''sqlite'', ''postgresql''} then Inl (UnsupportedBackend ''unsupported database backend'')
          else if \<not> driver_loads lib url then Inl DriverMissing
          else Inr \<lparr>engine_url = url, engine_backend = backend,
                    on_connect = (if backend = ''sqlite'' then enable_sqlite_foreign_keys else [])\<rparr>)"

text \<open>SQLite checks foreign keys only when a connection asks for it.\<close>

definition checks_foreign_keys :: "engine \<Rightarrow> bool" where
  "checks_foreign_keys e \<longleftrightarrow> engine_backend e = ''sqlite'' \<longrightarrow> ''PRAGMA foreign_keys=ON'' \<in> set (on_connect e)"

lemma created_engine:
  assumes "create_engine lib url = Inr e"
  shows "engine_backend e = ''sqlite'' \<or> engine_backend e = ''postgresql''" "checks_foreign_keys e" "engine_url e = url"
  using assms by (auto simp: create_engine_def checks_foreign_keys_def enable_sqlite_foreign_keys_def split: option.splits if_splits)

subsection \<open>Sessions\<close>

text \<open>
  A session begins its transaction with its first statement, on the database as committed then, and
  is idle again after a commit, a rollback or its close.
\<close>

datatype transaction = Idle | Begun db bool

text \<open>
  \<open>session_owned\<close> says that \<open>self.session\<close> is not \<open>None\<close>; \<open>bound_session\<close> is the session the repositories were built
  on, which they keep after the block, and \<open>None\<close> before the first entry.
\<close>

record unit_of_work =
  host_world :: world
  session_owned :: bool
  bound_session :: "transaction option"

type_synonym 'a uop = "(unit_of_work, exn, 'a) op"

fun session_view :: "transaction option \<Rightarrow> world \<Rightarrow> world" where
  "session_view (Some (Begun d b)) w = w\<lparr>session := d, broken := b\<rparr>"
| "session_view _ w = w\<lparr>session := store w, broken := False\<rparr>"

lemma view_frame [simp]:
  "store (session_view t w) = store w" "now_calls (session_view t w) = now_calls w" "monotonic_calls (session_view t w) = monotonic_calls w"
  "id_counts (session_view t w) = id_counts w"
  "session_view t (w\<lparr>now_calls := n\<rparr>) = (session_view t w)\<lparr>now_calls := n\<rparr>" "session_view t (w\<lparr>monotonic_calls := n\<rparr>) = (session_view t w)\<lparr>monotonic_calls := n\<rparr>"
  "session_view t (w\<lparr>id_counts := f\<rparr>) = (session_view t w)\<lparr>id_counts := f\<rparr>"
  "(session_view t w)\<lparr>session := d, broken := b\<rparr> = w\<lparr>session := d, broken := b\<rparr>"
  by (cases "(t, w)" rule: session_view.cases; simp)+

text \<open>The world as an open unit of work sees it.\<close>

definition seen_world :: "unit_of_work \<Rightarrow> world" where
  "seen_world u = session_view (bound_session u) (host_world u)"

text \<open>A statement on the session of the repositories, which have none before the first entry.\<close>

definition on_session :: "'a io \<Rightarrow> 'a uop" where
  "on_session m = (\<lambda>u. case bound_session u of
     None \<Rightarrow> (Inl (AdapterError ''AttributeError''), u)
   | Some _ \<Rightarrow> (case m (seen_world u) of (r, w) \<Rightarrow> (r, u\<lparr>host_world := w, bound_session := Some (Begun (session w) (broken w))\<rparr>)))"

definition end_transaction :: "unit_of_work \<Rightarrow> unit_of_work" where
  "end_transaction u = u\<lparr>bound_session := Some Idle\<rparr>"

subsection \<open>The unit of work\<close>

text \<open>A call needs the session; its root cause is the error itself.\<close>

definition not_active :: exn where
  "not_active = PersistenceError ''PersistenceError''"

definition new_unit_of_work :: "world \<Rightarrow> unit_of_work" where
  "new_unit_of_work w = \<lparr>host_world = w, session_owned = False, bound_session = None\<rparr>"

definition uow_enter :: "unit_of_work \<Rightarrow> unit_of_work" where
  "uow_enter u = u\<lparr>session_owned := True, bound_session := Some Idle\<rparr>"

text \<open>An exit with an exception rolls back; every exit closes the session, which discards what is pending.\<close>

definition uow_exit :: "bool \<Rightarrow> unit_of_work \<Rightarrow> unit_of_work" where
  "uow_exit raised u =
     (if \<not> session_owned u then u
      else (end_transaction (if raised then end_transaction u else u))\<lparr>session_owned := False\<rparr>)"

definition uow_rollback :: "unit uop" where
  "uow_rollback = (\<lambda>u. if \<not> session_owned u then (Inl not_active, u) else (Inr (), end_transaction u))"

definition uow_flush :: "'e env_scheme \<Rightarrow> unit uop" where
  "uow_flush env = (\<lambda>u. if \<not> session_owned u then (Inl not_active, u)
     else (case on_session (write_fault env) u of
         (Inr (Some cause), v) \<Rightarrow> (Inl (PersistenceError cause), end_transaction v)
       | (Inr None, v) \<Rightarrow> (Inr (), v)
       | (Inl e, v) \<Rightarrow> (Inl e, v)))"

definition uow_commit :: "'e env_scheme \<Rightarrow> unit uop" where
  "uow_commit env = (\<lambda>u. if \<not> session_owned u then (Inl not_active, u)
     else (case on_session (write_fault env) u of
         (Inr (Some cause), v) \<Rightarrow> (Inl (PersistenceError cause), end_transaction v)
       | (Inr None, v) \<Rightarrow> (Inr (), end_transaction (v\<lparr>host_world := (host_world v)\<lparr>store := session (seen_world v)\<rparr>\<rparr>))
       | (Inl e, v) \<Rightarrow> (Inl e, v)))"

text \<open>\<open>with uow_factory() as uow\<close>: the exit sees the exception and lets it pass.\<close>

definition with_statement :: "'a uop \<Rightarrow> 'a uop" where
  "with_statement body = (\<lambda>u. case body (uow_enter u) of
     (Inl e, v) \<Rightarrow> (Inl e, uow_exit True v) | (Inr x, v) \<Rightarrow> (Inr x, uow_exit False v))"

definition using_uow :: "'a uop \<Rightarrow> 'a io" where
  "using_uow body = (\<lambda>w. case with_statement body (new_unit_of_work w) of (r, u) \<Rightarrow> (r, seen_world u))"

text \<open>Clock and identifiers are not the unit of work's.\<close>

definition outside :: "'a io \<Rightarrow> 'a uop" where
  "outside m = (\<lambda>u. case m (host_world u) of (r, w) \<Rightarrow> (r, u\<lparr>host_world := w\<rparr>))"

subsection \<open>Outside the block\<close>


lemma unentered_repository: "on_session m (new_unit_of_work w) = (Inl (AdapterError ''AttributeError''), new_unit_of_work w)"
  by (simp add: on_session_def new_unit_of_work_def)

subsection \<open>Bodies of a unit of work\<close>

definition open_uow :: "unit_of_work \<Rightarrow> bool" where
  "open_uow u \<longleftrightarrow> session_owned u \<and> bound_session u \<noteq> None"

text \<open>In an open unit of work, \<open>m\<close> does what \<open>n\<close> does on the world it sees, and leaves it open.\<close>

definition simulates :: "'a uop \<Rightarrow> 'a io \<Rightarrow> bool" where
  "simulates m n \<longleftrightarrow> (\<forall>u. open_uow u \<longrightarrow> open_uow (snd (m u)) \<and> n (seen_world u) = (fst (m u), seen_world (snd (m u))))"

lemma simulatesI:
  "(\<And>u. open_uow u \<Longrightarrow> open_uow (snd (m u)) \<and> n (seen_world u) = (fst (m u), seen_world (snd (m u)))) \<Longrightarrow> simulates m n"
  by (simp add: simulates_def)

lemma simulatesD: "simulates m n \<Longrightarrow> open_uow u \<Longrightarrow> m u = (r, v) \<Longrightarrow> open_uow v \<and> n (seen_world u) = (r, seen_world v)"
  unfolding simulates_def by (metis fst_conv snd_conv)

lemma seen_begun [simp]: "seen_world (u\<lparr>host_world := w, bound_session := Some (Begun (session w) (broken w))\<rparr>) = w"
  by (simp add: seen_world_def)

lemma seen_ended: "seen_world (end_transaction u) = (host_world u)\<lparr>session := store (host_world u), broken := False\<rparr>"
  by (simp add: seen_world_def end_transaction_def)

lemma simulates_session: "simulates (on_session m) m"
  by (rule simulatesI) (auto simp: on_session_def open_uow_def split: option.split prod.split)

lemma simulates_control:
  "simulates (ret x) (ret x)" "simulates (raise e) (raise e)"
  "simulates m n \<Longrightarrow> (\<And>x. simulates (f x) (g x)) \<Longrightarrow> simulates (bindE m f) (bindE n g)"
  "simulates m n \<Longrightarrow> (\<And>e. simulates (h e) (k e)) \<Longrightarrow> simulates (catch m h) (catch n k)"
proof -
  assume "simulates m n" and "\<And>x. simulates (f x) (g x)"
  then show "simulates (bindE m f) (bindE n g)"
    unfolding simulates_def bindE_def by (fastforce split: prod.split sum.split)
next
  assume "simulates m n" and "\<And>e. simulates (h e) (k e)"
  then show "simulates (catch m h) (catch n k)"
    unfolding simulates_def catch_def by (fastforce split: prod.split sum.split)
qed (auto simp: simulates_def ret_def raise_def)


lemma simulates_branches:
  "simulates m n \<Longrightarrow> simulates m' n' \<Longrightarrow> simulates (if b then m else m') (if b then n else n')"
  "simulates m n \<Longrightarrow> (\<And>x. simulates (f x) (g x)) \<Longrightarrow>
    simulates (case v of None \<Rightarrow> m | Some x \<Rightarrow> f x) (case v of None \<Rightarrow> n | Some x \<Rightarrow> g x)"
  by (auto split: option.split)

text \<open>The services that are no part of the unit of work are blind to its session.\<close>

lemma simulates_services:
  "simulates (outside (now env)) (now env)" "simulates (outside (next_id env purpose)) (next_id env purpose)"
  "simulates (outside (monotonic_ms env)) (monotonic_ms env)"
  by (rule simulatesI, simp add: open_uow_def outside_def now_def next_id_def monotonic_ms_def seen_world_def)+

text \<open>The calls of the unit of work.\<close>

lemma session_fault:
  assumes "open_uow u" and "on_session (write_fault env) u = (r, v)"
  shows "open_uow v" "write_fault env (seen_world u) = (r, seen_world v)" "\<exists>c. r = Inr c"
  using simulatesD [OF simulates_session assms] assms
  by (auto simp: open_uow_def on_session_def write_fault_def bindE_def db_call_def gets_def split: option.splits prod.splits)

lemma session_seen: "on_session m u = (r, v) \<Longrightarrow> open_uow u \<Longrightarrow> seen_world v = host_world v"
  by (auto simp: on_session_def open_uow_def seen_world_def split: prod.splits)

lemma opened_ended [simp]: "open_uow u \<Longrightarrow> open_uow (end_transaction u)"
  by (simp add: open_uow_def end_transaction_def)

lemma ended_is_rolled_back: "rollback (seen_world u) = (Inr (), seen_world (end_transaction u))"
  by (simp add: seen_world_def end_transaction_def rollback_def modify_def)

lemma simulates_uow: "simulates uow_rollback rollback" "simulates (uow_flush env) (flush env)" "simulates (uow_commit env) (commit env)"
proof -
  show "simulates uow_rollback rollback"
    by (rule simulatesI) (simp add: uow_rollback_def ended_is_rolled_back, simp add: open_uow_def)
  show "simulates (uow_flush env) (flush env)"
  proof (rule simulatesI)
    fix u assume u: "open_uow u"
    then have act: "session_owned u" by (simp add: open_uow_def)
    obtain r v where f: "on_session (write_fault env) u = (r, v)" by (cases "on_session (write_fault env) u")
    from session_fault [OF u f] act show "open_uow (snd (uow_flush env u)) \<and> flush env (seen_world u) = (fst (uow_flush env u), seen_world (snd (uow_flush env u)))"
      by (auto simp: uow_flush_def flush_def f bindE_def ended_is_rolled_back raise_def ret_def split: option.split)
  qed
  show "simulates (uow_commit env) (commit env)"
  proof (rule simulatesI)
    fix u assume u: "open_uow u"
    then have act: "session_owned u" by (simp add: open_uow_def)
    obtain r v where f: "on_session (write_fault env) u = (r, v)" by (cases "on_session (write_fault env) u")
    note fault = session_fault [OF u f]
    obtain c where r: "r = Inr c" using fault(3) by blast
    show "open_uow (snd (uow_commit env u)) \<and> commit env (seen_world u) = (fst (uow_commit env u), seen_world (snd (uow_commit env u)))"
    proof (cases c)
      case (Some cause)
      then show ?thesis using fault(1,2) act
        by (simp add: uow_commit_def commit_def f r bindE_def ended_is_rolled_back raise_def)
    next
      case None
      let ?v = "end_transaction (v\<lparr>host_world := (host_world v)\<lparr>store := session (seen_world v)\<rparr>\<rparr>)"
      have sound: "\<not> broken (seen_world v)"
        using f None u by (auto simp: r seen_world_def on_session_def write_fault_def bindE_def db_call_def gets_def open_uow_def
            split: option.splits if_splits)
      have "seen_world ?v = (seen_world v)\<lparr>store := session (seen_world v)\<rparr>"
        using session_seen [OF f u] sound by (cases "host_world v") (simp add: seen_ended)
      moreover have "open_uow ?v" using fault(1) by (simp add: open_uow_def end_transaction_def)
      ultimately show ?thesis using fault(2) act None
        by (simp add: uow_commit_def commit_def f r bindE_def modify_def)
    qed
  qed
qed

lemmas simulates_rules = simulates_control simulates_branches simulates_services simulates_uow simulates_session

subsection \<open>The block\<close>

lemma opened_enter: "open_uow (uow_enter u)"
  by (simp add: open_uow_def uow_enter_def)

lemma seen_enter: "seen_world (uow_enter (new_unit_of_work w)) = w\<lparr>session := store w, broken := False\<rparr>"
  by (simp add: seen_world_def uow_enter_def new_unit_of_work_def)

lemma seen_exit: "open_uow u \<Longrightarrow> seen_world (uow_exit raised u) = (seen_world u)\<lparr>session := store (seen_world u), broken := False\<rparr>"
  by (simp add: uow_exit_def open_uow_def seen_world_def end_transaction_def)

text \<open>Every block ends with the unit of work inactive and no transaction open.\<close>

lemma exit_closes: "open_uow u \<Longrightarrow> \<not> session_owned (uow_exit raised u) \<and> bound_session (uow_exit raised u) = Some Idle"
  by (simp add: uow_exit_def open_uow_def end_transaction_def)

text \<open>A block around a body that does what a modelled body does is the modelled block, and ends closed.\<close>

lemma block_refines:
  assumes "simulates body modelled"
  shows "using_uow body w = with_uow modelled w"
    "\<not> session_owned (snd (with_statement body (new_unit_of_work w)))
     \<and> bound_session (snd (with_statement body (new_unit_of_work w))) = Some Idle"
proof -
  obtain r v where b: "body (uow_enter (new_unit_of_work w)) = (r, v)" by (cases "body (uow_enter (new_unit_of_work w))")
  from simulatesD [OF assms opened_enter b] have v: "open_uow v" "modelled (w\<lparr>session := store w, broken := False\<rparr>) = (r, seen_world v)"
    by (simp_all add: seen_enter)
  then show "using_uow body w = with_uow modelled w"
    by (cases r) (simp_all add: using_uow_def with_statement_def b with_uow_def bindE_def catch_def rollback_def modify_def
        ret_def raise_def seen_exit)
  show "\<not> session_owned (snd (with_statement body (new_unit_of_work w)))
     \<and> bound_session (snd (with_statement body (new_unit_of_work w))) = Some Idle"
    using v(1) by (cases r) (simp_all add: with_statement_def b exit_closes)
qed

subsection \<open>The ports\<close>

text \<open>
  The protocols that the application is written against, over the state \<open>'s\<close> of whatever implements
  them: one record per repository, and the unit of work that holds them.
\<close>

type_synonym ('s, 'a) call = "('s, exn, 'a) op"

record 's AlertRepository =
  alert_add :: "SecurityAlert \<Rightarrow> ('s, unit) call"
  alert_get :: "string \<Rightarrow> ('s, SecurityAlert option) call"
  alert_list_recent :: "nat \<Rightarrow> ('s, SecurityAlert list) call"

record 's ExecutionRepository =
  execution_add :: "TriageExecutionRecord \<Rightarrow> ('s, unit) call"
  execution_get :: "string \<Rightarrow> ('s, TriageExecutionRecord option) call"
  execution_get_by_idempotency_key :: "string \<Rightarrow> ('s, TriageExecutionRecord option) call"
  execution_replace :: "TriageExecutionRecord \<Rightarrow> ('s, unit) call"
  execution_list_for_alert :: "string \<Rightarrow> ('s, TriageExecutionRecord list) call"
  execution_list_running_before :: "time \<Rightarrow> ('s, TriageExecutionRecord list) call"

record 's ToolInvocationRepository =
  invocation_add :: "ToolInvocationRecord \<Rightarrow> pydict option \<Rightarrow> ('s, unit) call"
  invocation_list_for_execution :: "string \<Rightarrow> ('s, ToolInvocationRecord list) call"

record 's TriageResultRepository =
  triage_result_add :: "string \<Rightarrow> string \<Rightarrow> TriageResult \<Rightarrow> ('s, unit) call"
  triage_result_get_for_execution :: "string \<Rightarrow> ('s, TriageResult option) call"

record 's ActionRepository =
  action_add :: "string \<Rightarrow> ActionProposal \<Rightarrow> string \<Rightarrow> ('s, unit) call"
  action_get :: "string \<Rightarrow> ('s, ActionProposal option) call"
  action_get_persisted :: "string \<Rightarrow> ('s, PersistedAction option) call"

record 's ApprovalRepository =
  approval_add :: "ApprovalRecord \<Rightarrow> ('s, unit) call"
  approval_get :: "string \<Rightarrow> ('s, ApprovalRecord option) call"
  approval_get_for_action :: "string \<Rightarrow> ('s, ApprovalRecord option) call"

record 's ActionExecutionRepository =
  action_execution_add :: "ActionExecutionRecord \<Rightarrow> ('s, unit) call"
  action_execution_get :: "string \<Rightarrow> ('s, ActionExecutionRecord option) call"
  action_execution_get_for_action :: "string \<Rightarrow> ('s, ActionExecutionRecord option) call"
  action_execution_replace :: "ActionExecutionRecord \<Rightarrow> ('s, unit) call"
  action_execution_list_executing_before :: "time \<Rightarrow> ('s, ActionExecutionRecord list) call"

record 's AuditRepository =
  event_append :: "AuditEvent \<Rightarrow> ('s, unit) call"
  event_list_for_target :: "string \<Rightarrow> string \<Rightarrow> ('s, AuditEvent list) call"

record 's EvaluationRepository =
  evaluation_add_run :: "EvaluationRunRecord \<Rightarrow> ('s, unit) call"
  evaluation_add_case :: "EvaluationCaseRecord \<Rightarrow> ('s, unit) call"
  evaluation_get_run :: "string \<Rightarrow> ('s, EvaluationRunRecord option) call"
  evaluation_list_cases :: "string \<Rightarrow> ('s, EvaluationCaseRecord list) call"

record 's UnitOfWork =
  uow_alerts :: "'s AlertRepository"
  uow_executions :: "'s ExecutionRepository"
  uow_tool_invocations :: "'s ToolInvocationRepository"
  uow_triage_results :: "'s TriageResultRepository"
  uow_actions :: "'s ActionRepository"
  uow_approvals :: "'s ApprovalRepository"
  uow_action_executions :: "'s ActionExecutionRepository"
  uow_audit :: "'s AuditRepository"
  uow_evaluations :: "'s EvaluationRepository"
  flush_call :: "('s, unit) call"
  commit_call :: "('s, unit) call"
  rollback_call :: "('s, unit) call"

text \<open>What \<open>__enter__\<close> binds: every repository of the adapter, on the one session of the unit of work.\<close>

definition sqlalchemy_uow :: "'e env_scheme \<Rightarrow> unit_of_work UnitOfWork" where
  "sqlalchemy_uow env =
     \<lparr>uow_alerts = \<lparr>alert_add = \<lambda>a. on_session (alerts_add a), alert_get = \<lambda>i. on_session (alerts_get env i),
        alert_list_recent = \<lambda>n. on_session (alerts_list_recent env n)\<rparr>,
      uow_executions = \<lparr>execution_add = \<lambda>e. on_session (executions_add e), execution_get = \<lambda>i. on_session (executions_get env i),
        execution_get_by_idempotency_key = \<lambda>k. on_session (executions_get_by_idempotency_key env k),
        execution_replace = \<lambda>e. on_session (executions_replace env e),
        execution_list_for_alert = \<lambda>i. on_session (executions_list_for_alert env i),
        execution_list_running_before = \<lambda>c. on_session (executions_list_running_before env c)\<rparr>,
      uow_tool_invocations = \<lparr>invocation_add = \<lambda>r res. on_session (invocations_add r res),
        invocation_list_for_execution = \<lambda>i. on_session (invocations_list_for_execution env i)\<rparr>,
      uow_triage_results = \<lparr>triage_result_add = \<lambda>rid i tr. on_session (results_add rid i tr),
        triage_result_get_for_execution = \<lambda>i. on_session (results_get_for_execution env i)\<rparr>,
      uow_actions = \<lparr>action_add = \<lambda>i p v. on_session (actions_add env i p v), action_get = \<lambda>i. on_session (actions_get env i),
        action_get_persisted = \<lambda>i. on_session (actions_get_persisted env i)\<rparr>,
      uow_approvals = \<lparr>approval_add = \<lambda>ap. on_session (approvals_add ap), approval_get = \<lambda>i. on_session (approvals_get env i),
        approval_get_for_action = \<lambda>i. on_session (approvals_get_for_action env i)\<rparr>,
      uow_action_executions = \<lparr>action_execution_add = \<lambda>x. on_session (action_executions_add x),
        action_execution_get = \<lambda>i. on_session (action_executions_get env i),
        action_execution_get_for_action = \<lambda>i. on_session (action_executions_get_for_action env i),
        action_execution_replace = \<lambda>x. on_session (action_executions_replace env x),
        action_execution_list_executing_before = \<lambda>c. on_session (action_executions_list_executing_before env c)\<rparr>,
      uow_audit = \<lparr>event_append = \<lambda>ev. on_session (audit_append ev),
        event_list_for_target = \<lambda>tt i. on_session (audit_list_for_target env tt i)\<rparr>,
      uow_evaluations = \<lparr>evaluation_add_run = \<lambda>er. on_session (evaluations_add_run er),
        evaluation_add_case = \<lambda>ec. on_session (evaluations_add_case ec), evaluation_get_run = \<lambda>i. on_session (evaluations_get_run env i),
        evaluation_list_cases = \<lambda>i. on_session (evaluations_list_cases env i)\<rparr>,
      flush_call = uow_flush env, commit_call = uow_commit env, rollback_call = uow_rollback\<rparr>"

text \<open>Every call of the adapter is the modelled operation on the session of the unit of work.\<close>

lemma sqlalchemy_calls:
  "simulates (alert_add (uow_alerts (sqlalchemy_uow env)) a) (alerts_add a)"
  "simulates (alert_get (uow_alerts (sqlalchemy_uow env)) i) (alerts_get env i)"
  "simulates (alert_list_recent (uow_alerts (sqlalchemy_uow env)) n) (alerts_list_recent env n)"
  "simulates (execution_add (uow_executions (sqlalchemy_uow env)) e) (executions_add e)"
  "simulates (execution_get (uow_executions (sqlalchemy_uow env)) i) (executions_get env i)"
  "simulates (execution_get_by_idempotency_key (uow_executions (sqlalchemy_uow env)) k) (executions_get_by_idempotency_key env k)"
  "simulates (execution_replace (uow_executions (sqlalchemy_uow env)) e) (executions_replace env e)"
  "simulates (execution_list_for_alert (uow_executions (sqlalchemy_uow env)) i) (executions_list_for_alert env i)"
  "simulates (execution_list_running_before (uow_executions (sqlalchemy_uow env)) c) (executions_list_running_before env c)"
  "simulates (invocation_add (uow_tool_invocations (sqlalchemy_uow env)) r res) (invocations_add r res)"
  "simulates (invocation_list_for_execution (uow_tool_invocations (sqlalchemy_uow env)) i) (invocations_list_for_execution env i)"
  "simulates (triage_result_add (uow_triage_results (sqlalchemy_uow env)) rid i tr) (results_add rid i tr)"
  "simulates (triage_result_get_for_execution (uow_triage_results (sqlalchemy_uow env)) i) (results_get_for_execution env i)"
  "simulates (action_add (uow_actions (sqlalchemy_uow env)) i p v) (actions_add env i p v)"
  "simulates (action_get (uow_actions (sqlalchemy_uow env)) i) (actions_get env i)"
  "simulates (action_get_persisted (uow_actions (sqlalchemy_uow env)) i) (actions_get_persisted env i)"
  "simulates (approval_add (uow_approvals (sqlalchemy_uow env)) ap) (approvals_add ap)"
  "simulates (approval_get (uow_approvals (sqlalchemy_uow env)) i) (approvals_get env i)"
  "simulates (approval_get_for_action (uow_approvals (sqlalchemy_uow env)) i) (approvals_get_for_action env i)"
  "simulates (action_execution_add (uow_action_executions (sqlalchemy_uow env)) x) (action_executions_add x)"
  "simulates (action_execution_get (uow_action_executions (sqlalchemy_uow env)) i) (action_executions_get env i)"
  "simulates (action_execution_get_for_action (uow_action_executions (sqlalchemy_uow env)) i) (action_executions_get_for_action env i)"
  "simulates (action_execution_replace (uow_action_executions (sqlalchemy_uow env)) x) (action_executions_replace env x)"
  "simulates (action_execution_list_executing_before (uow_action_executions (sqlalchemy_uow env)) c) (action_executions_list_executing_before env c)"
  "simulates (event_append (uow_audit (sqlalchemy_uow env)) ev) (audit_append ev)"
  "simulates (event_list_for_target (uow_audit (sqlalchemy_uow env)) tt i) (audit_list_for_target env tt i)"
  "simulates (evaluation_add_run (uow_evaluations (sqlalchemy_uow env)) er) (evaluations_add_run er)"
  "simulates (evaluation_add_case (uow_evaluations (sqlalchemy_uow env)) ec) (evaluations_add_case ec)"
  "simulates (evaluation_get_run (uow_evaluations (sqlalchemy_uow env)) i) (evaluations_get_run env i)"
  "simulates (evaluation_list_cases (uow_evaluations (sqlalchemy_uow env)) i) (evaluations_list_cases env i)"
  "simulates (flush_call (sqlalchemy_uow env)) (flush env)" "simulates (commit_call (sqlalchemy_uow env)) (commit env)"
  "simulates (rollback_call (sqlalchemy_uow env)) rollback"
  by (simp_all add: sqlalchemy_uow_def simulates_session simulates_uow)

subsection \<open>Programs over the ports\<close>

text \<open>
  The body of a \<open>with\<close> block as a program: one constructor of \<open>port_call\<close> for every method of the
  ports, and a tree that says, for each answer and for each exception of a call, how the body goes
  on. A tree that stops at an exception is a body that lets it pass; one that goes on has caught it.
\<close>

datatype port_call =
    AddAlert SecurityAlert | FetchAlert string | ListRecentAlerts nat
  | AddExecution TriageExecutionRecord | FetchExecution string | FetchExecutionByKey string
  | ReplaceExecution TriageExecutionRecord | ListExecutionsForAlert string | ListRunningBefore time
  | AddInvocation ToolInvocationRecord "pydict option" | ListInvocations string
  | AddResult string string TriageResult | FetchResult string
  | AddAction string ActionProposal string | FetchAction string | FetchPersistedAction string
  | AddApproval ApprovalRecord | FetchApproval string | FetchApprovalForAction string
  | AddActionExecution ActionExecutionRecord | FetchActionExecution string | FetchActionExecutionForAction string
  | ReplaceActionExecution ActionExecutionRecord | ListExecutingBefore time
  | AppendEvent AuditEvent | ListEvents string string
  | AddRun EvaluationRunRecord | AddCase EvaluationCaseRecord | FetchRun string | ListCases string
  | Flush | Commit | Rollback
  | Now | Monotonic | NextId string

















subsection \<open>Ingestion\<close>

text \<open>Ingestion as it is written, against the ports.\<close>

definition ingest_body ::
  "'s UnitOfWork \<Rightarrow> ('s, string) call \<Rightarrow> ('s, time) call \<Rightarrow> 'e env_scheme \<Rightarrow> SecurityAlert \<Rightarrow> string \<Rightarrow> string \<Rightarrow>
     ('s, IngestionResult) call" where
  "ingest_body uow next_audit_id clock env alert correlation_id actor_id =
     bindE (alert_get (uow_alerts uow) (alert_id alert)) (\<lambda>existing.
     case existing of
       Some e \<Rightarrow> if e \<noteq> alert then raise AlertConflictError else ret \<lparr>ingested_alert = e, created = False\<rparr>
     | None \<Rightarrow>
         bindE (alert_add (uow_alerts uow) alert) (\<lambda>_.
         bindE next_audit_id (\<lambda>eid.
         bindE clock (\<lambda>t.
         bindE (case validate_event (event_size env)
           \<lparr>event_id = eid, event_type = ''alert.ingested'', ev_occurred_at = t,
            ev_target_type = ''security_alert'', ev_target_id = alert_id alert,
            ev_data = [(''source'', PStr (source alert)),
                       (''source_severity'', PStr (severity_value (source_severity alert)))],
            schema_version = ''1.0'', ev_execution_id = None, ev_correlation_id = Some correlation_id,
            ev_actor_id = Some actor_id, ev_outcome = Some AuditSuccess, ev_failure_category = None\<rparr>
            of None \<Rightarrow> raise ValidationError | Some v \<Rightarrow> ret v) (\<lambda>ev.
         bindE (event_append (uow_audit uow) ev) (\<lambda>_.
         bindE (commit_call uow) (\<lambda>_.
         ret \<lparr>ingested_alert = alert, created = True\<rparr>)))))))"

lemma sqlalchemy_ingestion:
  "\<exists>modelled. simulates (ingest_body (sqlalchemy_uow env) (outside (next_id env ''audit'')) (outside (now env)) env alert cid actor) modelled
     \<and> with_uow modelled = ingest env alert cid actor"
  unfolding ingest_def
  by (rule exI, rule conjI [OF _ refl], unfold ingest_body_def mk_event_def) (intro simulates_rules sqlalchemy_calls)

lemma ingestion_over_sqlalchemy:
  "using_uow (ingest_body (sqlalchemy_uow env) (outside (next_id env ''audit'')) (outside (now env)) env alert cid actor) w
     = ingest env alert cid actor w"
  using sqlalchemy_ingestion [of env alert cid actor] block_refines(1) by metis








end
