(* ===== verification/Migrations.thy ===== *)
theory Migrations
  imports Prelude "HOL-Library.List_Lexorder" "HOL-Library.Char_ord"
begin

text \<open>
  The schema of the store: the migrations (\<open>migrations/versions\<close>) as operations on a database of
  tables with rows, the revision chain that an upgrade follows, and the schema that the mapped
  classes declare (\<open>adapters/persistence/models.py\<close>). A cell is the text of a value or \<open>NULL\<close>;
  a row lists its cells in column order. An operation that the database refuses is \<open>None\<close>.
  The effect of a statement on tables and rows is the reference semantics given by \<open>apply_op\<close>: SQL
  itself is not part of the program.
\<close>

subsection \<open>Tables\<close>

datatype sql_type = VARCHAR nat | JSON | NUMERIC nat nat | INTEGER | TEXT

text \<open>A foreign key that states no type takes the type of the column it refers to.\<close>

record column =
  col_name :: string
  col_type :: "sql_type option"
  col_nullable :: bool
  col_primary :: bool
  col_unique :: bool
  col_reference :: "(string \<times> string) option"
  col_default :: "string option"

record table_def =
  tbl_name :: string
  tbl_columns :: "column list"
  tbl_checks :: "(string \<times> string) list"
  tbl_uniques :: "(string \<times> string list) list"
  tbl_indexes :: "(string \<times> string list) list"

record db_table =
  tab_def :: table_def
  tab_rows :: "string option list list"

type_synonym database = "db_table list"

abbreviation tab_name :: "db_table \<Rightarrow> string" where
  "tab_name t \<equiv> tbl_name (tab_def t)"

abbreviation tab_columns :: "db_table \<Rightarrow> column list" where
  "tab_columns t \<equiv> tbl_columns (tab_def t)"

definition sql_column :: "string \<Rightarrow> sql_type \<Rightarrow> column" where
  "sql_column n ty = \<lparr>col_name = n, col_type = Some ty, col_nullable = True, col_primary = False, col_unique = False,
     col_reference = None, col_default = None\<rparr>"

definition not_null :: "string \<Rightarrow> sql_type \<Rightarrow> column" where
  "not_null n ty = (sql_column n ty)\<lparr>col_nullable := False\<rparr>"

definition primary :: "string \<Rightarrow> sql_type \<Rightarrow> column" where
  "primary n ty = (not_null n ty)\<lparr>col_primary := True\<rparr>"

definition unique_column :: "string \<Rightarrow> sql_type \<Rightarrow> column" where
  "unique_column n ty = (not_null n ty)\<lparr>col_unique := True\<rparr>"

definition foreign :: "string \<Rightarrow> sql_type \<Rightarrow> string \<Rightarrow> string \<Rightarrow> column" where
  "foreign n ty tab col = (not_null n ty)\<lparr>col_reference := Some (tab, col)\<rparr>"

definition with_server_default :: "string \<Rightarrow> column \<Rightarrow> column" where
  "with_server_default v c = c\<lparr>col_default := Some v\<rparr>"

definition plain_table :: "string \<Rightarrow> column list \<Rightarrow> table_def" where
  "plain_table n cs = \<lparr>tbl_name = n, tbl_columns = cs, tbl_checks = [], tbl_uniques = [], tbl_indexes = []\<rparr>"

subsection \<open>Operations\<close>

datatype migration_op =
    CreateTable table_def
  | DropTable string
  | AddColumn string column
  | DropColumn string string
  | CreateUniqueIndex string string "string list"
  | DropIndex string string

definition has_table :: "string \<Rightarrow> database \<Rightarrow> bool" where
  "has_table n db \<longleftrightarrow> n \<in> set (map tab_name db)"

definition references :: "table_def \<Rightarrow> (string \<times> string) list" where
  "references t = List.map_filter col_reference (tbl_columns t)"

definition has_column :: "string \<Rightarrow> table_def \<Rightarrow> bool" where
  "has_column c t \<longleftrightarrow> c \<in> set (map col_name (tbl_columns t))"

definition resolves :: "database \<Rightarrow> string \<times> string \<Rightarrow> bool" where
  "resolves db r \<longleftrightarrow> list_ex (\<lambda>t. tab_name t = fst r \<and> has_column (snd r) (tab_def t)) db"

text \<open>The change of one table, which must exist.\<close>

fun alter_table :: "string \<Rightarrow> (db_table \<Rightarrow> db_table option) \<Rightarrow> database \<Rightarrow> database option" where
  "alter_table n f [] = None"
| "alter_table n f (t # ts) =
     (if tab_name t = n then map_option (\<lambda>t'. t' # ts) (f t) else map_option ((#) t) (alter_table n f ts))"

definition column_index :: "string \<Rightarrow> column list \<Rightarrow> nat" where
  "column_index c cs = length (takeWhile (\<lambda>x. col_name x \<noteq> c) cs)"

definition remove_nth :: "nat \<Rightarrow> 'a list \<Rightarrow> 'a list" where
  "remove_nth i xs = take i xs @ drop (Suc i) xs"

definition add_column :: "column \<Rightarrow> db_table \<Rightarrow> db_table option" where
  "add_column c t =
     (if has_column (col_name c) (tab_def t) \<or> \<not> col_nullable c \<and> col_default c = None \<and> tab_rows t \<noteq> [] then None
      else Some (t\<lparr>tab_def := (tab_def t)\<lparr>tbl_columns := tab_columns t @ [c]\<rparr>,
                   tab_rows := map (\<lambda>r. r @ [col_default c]) (tab_rows t)\<rparr>))"

definition drop_column :: "string \<Rightarrow> db_table \<Rightarrow> db_table option" where
  "drop_column c t =
     (if has_column c (tab_def t)
      then let i = column_index c (tab_columns t)
           in Some (t\<lparr>tab_def := (tab_def t)\<lparr>tbl_columns := remove_nth i (tab_columns t)\<rparr>,
                      tab_rows := map (remove_nth i) (tab_rows t)\<rparr>)
      else None)"

definition cells :: "db_table \<Rightarrow> string list \<Rightarrow> string option list \<Rightarrow> string option list" where
  "cells t cs r = map (\<lambda>c. r ! column_index c (tab_columns t)) cs"

text \<open>A unique index does not compare rows that hold a \<open>NULL\<close> in an indexed column.\<close>

definition distinct_on :: "string list \<Rightarrow> db_table \<Rightarrow> bool" where
  "distinct_on cs t \<longleftrightarrow> distinct (filter (\<lambda>k. None \<notin> set k) (map (cells t cs) (tab_rows t)))"

definition add_unique_index :: "string \<Rightarrow> string list \<Rightarrow> db_table \<Rightarrow> db_table option" where
  "add_unique_index ix cs t =
     (if list_all (\<lambda>c. has_column c (tab_def t)) cs \<and> distinct_on cs t
      then Some (t\<lparr>tab_def := (tab_def t)\<lparr>tbl_indexes := tbl_indexes (tab_def t) @ [(ix, cs)]\<rparr>\<rparr>) else None)"

definition drop_index :: "string \<Rightarrow> db_table \<Rightarrow> db_table option" where
  "drop_index ix t =
     (if ix \<in> fst ` set (tbl_indexes (tab_def t))
      then Some (t\<lparr>tab_def := (tab_def t)\<lparr>tbl_indexes := filter (\<lambda>i. fst i \<noteq> ix) (tbl_indexes (tab_def t))\<rparr>\<rparr>) else None)"

definition index_names :: "database \<Rightarrow> string list" where
  "index_names db = concat (map (\<lambda>t. map fst (tbl_indexes (tab_def t))) db)"

fun apply_op :: "migration_op \<Rightarrow> database \<Rightarrow> database option" where
  "apply_op (CreateTable t) db =
     (if has_table (tbl_name t) db \<or> \<not> list_all (resolves (db @ [\<lparr>tab_def = t, tab_rows = []\<rparr>])) (references t) then None
      else Some (db @ [\<lparr>tab_def = t, tab_rows = []\<rparr>]))"
| "apply_op (DropTable n) db =
     (if has_table n db \<and> \<not> list_ex (\<lambda>t. tab_name t \<noteq> n \<and> n \<in> fst ` set (references (tab_def t))) db
      then Some (filter (\<lambda>t. tab_name t \<noteq> n) db) else None)"
| "apply_op (AddColumn n c) db = alter_table n (add_column c) db"
| "apply_op (DropColumn n c) db = alter_table n (drop_column c) db"
| "apply_op (CreateUniqueIndex ix n cs) db =
     (if ix \<in> set (index_names db) then None else alter_table n (add_unique_index ix cs) db)"
| "apply_op (DropIndex ix n) db = alter_table n (drop_index ix) db"

fun run_ops :: "migration_op list \<Rightarrow> database \<Rightarrow> database option" where
  "run_ops [] db = Some db"
| "run_ops (op # ops) db = (case apply_op op db of None \<Rightarrow> None | Some db' \<Rightarrow> run_ops ops db')"

subsection \<open>The revisions\<close>

record revision =
  rev_id :: string
  down_revision :: "string option"
  upgrade :: "migration_op list"
  downgrade :: "migration_op list"

definition created_alerts :: table_def where
  "created_alerts = plain_table ''alerts''
     [primary ''alert_id'' (VARCHAR 128),
      not_null ''source'' (VARCHAR 128),
      not_null ''source_severity'' (VARCHAR 32),
      not_null ''occurred_at'' (VARCHAR 40),
      not_null ''detected_at'' (VARCHAR 40),
      unique_column ''payload_digest'' (VARCHAR 71),
      not_null ''domain_data'' JSON]"

definition created_triage_executions :: table_def where
  "created_triage_executions = plain_table ''triage_executions''
     [primary ''execution_id'' (VARCHAR 128),
      foreign ''alert_id'' (VARCHAR 128) ''alerts'' ''alert_id'',
      not_null ''state'' (VARCHAR 32),
      unique_column ''idempotency_key'' (VARCHAR 128),
      not_null ''created_at'' (VARCHAR 40),
      not_null ''updated_at'' (VARCHAR 40),
      (foreign ''predecessor_execution_id'' (VARCHAR 128) ''triage_executions'' ''execution_id'')\<lparr>col_nullable := True\<rparr>,
      sql_column ''failure_category'' (VARCHAR 128)]"

definition created_tool_invocations :: table_def where
  "created_tool_invocations = plain_table ''tool_invocations''
     [primary ''invocation_id'' (VARCHAR 128),
      foreign ''execution_id'' (VARCHAR 128) ''triage_executions'' ''execution_id'',
      not_null ''correlation_id'' (VARCHAR 128),
      not_null ''tool_name'' (VARCHAR 128),
      not_null ''arguments'' JSON,
      not_null ''authorization'' (VARCHAR 32),
      not_null ''outcome'' (VARCHAR 64),
      not_null ''started_at'' (VARCHAR 40),
      not_null ''completed_at'' (VARCHAR 40),
      not_null ''duration_ms'' INTEGER,
      sql_column ''failure_category'' (VARCHAR 64),
      sql_column ''result'' JSON]"

definition created_triage_results :: table_def where
  "created_triage_results = plain_table ''triage_results''
     [primary ''result_id'' (VARCHAR 128),
      (foreign ''execution_id'' (VARCHAR 128) ''triage_executions'' ''execution_id'')\<lparr>col_unique := True\<rparr>,
      foreign ''alert_id'' (VARCHAR 128) ''alerts'' ''alert_id'',
      not_null ''disposition'' (VARCHAR 32),
      not_null ''confidence'' (NUMERIC 38 18),
      not_null ''assessed_severity'' (VARCHAR 32),
      not_null ''occurred_at'' (VARCHAR 40),
      not_null ''domain_data'' JSON]"

definition created_recommended_actions :: table_def where
  "created_recommended_actions = plain_table ''recommended_actions''
     [primary ''action_id'' (VARCHAR 128),
      foreign ''execution_id'' (VARCHAR 128) ''triage_executions'' ''execution_id'',
      not_null ''catalog_action_id'' (VARCHAR 128),
      not_null ''target'' JSON,
      not_null ''parameters'' JSON,
      not_null ''action_digest'' (VARCHAR 71),
      not_null ''rationale'' TEXT,
      not_null ''domain_data'' JSON]"

definition created_approval_decisions :: table_def where
  "created_approval_decisions = (plain_table ''approval_decisions''
     [primary ''approval_id'' (VARCHAR 128),
      foreign ''action_id'' (VARCHAR 128) ''recommended_actions'' ''action_id'',
      not_null ''action_digest'' (VARCHAR 71),
      not_null ''reviewer_id'' (VARCHAR 128),
      not_null ''decision'' (VARCHAR 16),
      not_null ''decided_at'' (VARCHAR 40),
      not_null ''reason'' TEXT,
      not_null ''policy_version'' (VARCHAR 64),
      sql_column ''expires_at'' (VARCHAR 40),
      not_null ''domain_data'' JSON])
     \<lparr>tbl_checks := [(''ck_approval_expiry_semantics'', ''(decision = '' @ [CHR 0x27] @ ''APPROVED'' @ [CHR 0x27] @ '' AND expires_at IS NOT NULL) OR (decision = '' @ [CHR 0x27] @ ''REJECTED'' @ [CHR 0x27] @ '' AND expires_at IS NULL)''),
       (''ck_approval_expiry_after_decision'', ''expires_at IS NULL OR expires_at > decided_at'')]\<rparr>"

definition created_action_executions :: table_def where
  "created_action_executions = plain_table ''action_executions''
     [primary ''action_execution_id'' (VARCHAR 128),
      foreign ''action_id'' (VARCHAR 128) ''recommended_actions'' ''action_id'',
      not_null ''state'' (VARCHAR 32),
      not_null ''started_at'' (VARCHAR 40),
      sql_column ''completed_at'' (VARCHAR 40),
      sql_column ''outcome'' (VARCHAR 128),
      sql_column ''failure_category'' (VARCHAR 128)]"

definition created_audit_events :: table_def where
  "created_audit_events = plain_table ''audit_events''
     [primary ''event_id'' (VARCHAR 128),
      not_null ''event_type'' (VARCHAR 128),
      not_null ''occurred_at'' (VARCHAR 40),
      sql_column ''execution_id'' (VARCHAR 128),
      sql_column ''correlation_id'' (VARCHAR 128),
      sql_column ''actor_id'' (VARCHAR 128),
      not_null ''target_type'' (VARCHAR 128),
      not_null ''target_id'' (VARCHAR 128),
      not_null ''event_data'' JSON,
      sql_column ''outcome'' (VARCHAR 32),
      sql_column ''failure_category'' (VARCHAR 128),
      not_null ''schema_version'' (VARCHAR 64)]"

definition created_evaluation_runs :: table_def where
  "created_evaluation_runs = plain_table ''evaluation_runs''
     [primary ''run_id'' (VARCHAR 128),
      not_null ''suite_version'' (VARCHAR 64),
      not_null ''schema_version'' (VARCHAR 64),
      not_null ''fixture_version'' (VARCHAR 64),
      not_null ''policy_version'' (VARCHAR 64),
      not_null ''reasoner_label'' (VARCHAR 128),
      not_null ''application_version'' (VARCHAR 64),
      not_null ''started_at'' (VARCHAR 40),
      not_null ''completed_at'' (VARCHAR 40),
      not_null ''aggregate_data'' JSON]"

definition created_evaluation_case_results :: table_def where
  "created_evaluation_case_results = (plain_table ''evaluation_case_results''
     [primary ''case_id'' (VARCHAR 128),
      foreign ''run_id'' (VARCHAR 128) ''evaluation_runs'' ''run_id'',
      not_null ''scenario_id'' (VARCHAR 128),
      not_null ''scenario_version'' (VARCHAR 64),
      foreign ''triage_execution_id'' (VARCHAR 128) ''triage_executions'' ''execution_id'',
      not_null ''score_data'' JSON])
     \<lparr>tbl_uniques := [(''uq_eval_run_scenario'', [''run_id'', ''scenario_id''])]\<rparr>"

definition revision_0001 :: revision where
  "revision_0001 = \<lparr>rev_id = ''0001_initial_persistence'', down_revision = None,
     upgrade =
       [CreateTable created_alerts,
        CreateTable created_triage_executions,
        CreateTable created_tool_invocations,
        CreateTable created_triage_results,
        CreateTable created_recommended_actions,
        CreateTable created_approval_decisions,
        CreateTable created_action_executions,
        CreateTable created_audit_events],
     downgrade =
       [DropTable ''audit_events'',
        DropTable ''action_executions'',
        DropTable ''approval_decisions'',
        DropTable ''recommended_actions'',
        DropTable ''triage_results'',
        DropTable ''tool_invocations'',
        DropTable ''triage_executions'',
        DropTable ''alerts'']\<rparr>"

definition revision_0002 :: revision where
  "revision_0002 = \<lparr>rev_id = ''0002_approval_execution_workflow'', down_revision = Some ''0001_initial_persistence'',
     upgrade =
       [AddColumn ''recommended_actions'' (with_server_default ''1.0.0'' (not_null ''policy_version'' (VARCHAR 64))),
        CreateUniqueIndex ''uq_approval_action_id'' ''approval_decisions'' [''action_id''],
        AddColumn ''action_executions'' (with_server_default ''SIMULATED'' (not_null ''mode'' (VARCHAR 32))),
        AddColumn ''action_executions'' (sql_column ''result'' JSON),
        CreateUniqueIndex ''uq_action_execution_action_id'' ''action_executions'' [''action_id'']],
     downgrade =
       [DropIndex ''uq_action_execution_action_id'' ''action_executions'',
        DropColumn ''action_executions'' ''result'',
        DropColumn ''action_executions'' ''mode'',
        DropIndex ''uq_approval_action_id'' ''approval_decisions'',
        DropColumn ''recommended_actions'' ''policy_version'']\<rparr>"

definition revision_0003 :: revision where
  "revision_0003 = \<lparr>rev_id = ''0003_evaluation_results'', down_revision = Some ''0002_approval_execution_workflow'',
     upgrade =
       [CreateTable created_evaluation_runs,
        CreateTable created_evaluation_case_results],
     downgrade =
       [DropTable ''evaluation_case_results'',
        DropTable ''evaluation_runs'']\<rparr>"

definition revision_0004 :: revision where
  "revision_0004 = \<lparr>rev_id = ''0004_openai_evaluation_identity'', down_revision = Some ''0003_evaluation_results'',
     upgrade =
       [AddColumn ''evaluation_runs'' (with_server_default ''DemoReasoner'' (not_null ''reasoner_implementation'' (VARCHAR 128))),
        AddColumn ''evaluation_runs'' (with_server_default ''offline'' (not_null ''provider'' (VARCHAR 128))),
        AddColumn ''evaluation_runs'' (with_server_default ''deterministic-demo-v1'' (not_null ''model'' (VARCHAR 128))),
        AddColumn ''evaluation_runs'' (with_server_default ''demo-v1'' (not_null ''prompt_version'' (VARCHAR 64)))],
     downgrade =
       [DropColumn ''evaluation_runs'' ''prompt_version'',
        DropColumn ''evaluation_runs'' ''model'',
        DropColumn ''evaluation_runs'' ''provider'',
        DropColumn ''evaluation_runs'' ''reasoner_implementation'']\<rparr>"

definition revisions :: "revision list" where
  "revisions = [revision_0001, revision_0002, revision_0003, revision_0004]"

text \<open>An upgrade to the head follows the links from the base; every step uses up one revision of the list.\<close>

fun upgrade_chain :: "revision list \<Rightarrow> string option \<Rightarrow> nat \<Rightarrow> database \<Rightarrow> database option" where
  "upgrade_chain revs cur 0 db = Some db"
| "upgrade_chain revs cur (Suc n) db =
     (case find (\<lambda>r. down_revision r = cur) revs of
        None \<Rightarrow> Some db
      | Some r \<Rightarrow> (case run_ops (upgrade r) db of None \<Rightarrow> None | Some db' \<Rightarrow> upgrade_chain revs (Some (rev_id r)) n db'))"

definition upgrade_head :: "database \<Rightarrow> database option" where
  "upgrade_head db = upgrade_chain revisions None (length revisions) db"

subsection \<open>The mapped classes\<close>

text \<open>\<open>mapped_column\<close>: required unless the annotation is optional; a reference takes its type from its target.\<close>

definition mapped_reference :: "string \<Rightarrow> string \<Rightarrow> string \<Rightarrow> column" where
  "mapped_reference n tab col = (not_null n TEXT)\<lparr>col_type := None, col_reference := Some (tab, col)\<rparr>"

definition mapped_AlertRow :: table_def where
  "mapped_AlertRow = plain_table ''alerts''
     [primary ''alert_id'' (VARCHAR 128),
      not_null ''source'' (VARCHAR 128),
      not_null ''source_severity'' (VARCHAR 32),
      not_null ''occurred_at'' (VARCHAR 40),
      not_null ''detected_at'' (VARCHAR 40),
      unique_column ''payload_digest'' (VARCHAR 71),
      not_null ''domain_data'' JSON]"

definition mapped_TriageExecutionRow :: table_def where
  "mapped_TriageExecutionRow = plain_table ''triage_executions''
     [primary ''execution_id'' (VARCHAR 128),
      mapped_reference ''alert_id'' ''alerts'' ''alert_id'',
      not_null ''state'' (VARCHAR 32),
      unique_column ''idempotency_key'' (VARCHAR 128),
      not_null ''created_at'' (VARCHAR 40),
      not_null ''updated_at'' (VARCHAR 40),
      (mapped_reference ''predecessor_execution_id'' ''triage_executions'' ''execution_id'')\<lparr>col_nullable := True\<rparr>,
      sql_column ''failure_category'' (VARCHAR 128)]"

definition mapped_ToolInvocationRow :: table_def where
  "mapped_ToolInvocationRow = plain_table ''tool_invocations''
     [primary ''invocation_id'' (VARCHAR 128),
      mapped_reference ''execution_id'' ''triage_executions'' ''execution_id'',
      not_null ''correlation_id'' (VARCHAR 128),
      not_null ''tool_name'' (VARCHAR 128),
      not_null ''arguments'' JSON,
      not_null ''authorization'' (VARCHAR 32),
      not_null ''outcome'' (VARCHAR 64),
      not_null ''started_at'' (VARCHAR 40),
      not_null ''completed_at'' (VARCHAR 40),
      not_null ''duration_ms'' INTEGER,
      sql_column ''failure_category'' (VARCHAR 64),
      sql_column ''result'' JSON]"

definition mapped_TriageResultRow :: table_def where
  "mapped_TriageResultRow = plain_table ''triage_results''
     [primary ''result_id'' (VARCHAR 128),
      (mapped_reference ''execution_id'' ''triage_executions'' ''execution_id'')\<lparr>col_unique := True\<rparr>,
      mapped_reference ''alert_id'' ''alerts'' ''alert_id'',
      not_null ''disposition'' (VARCHAR 32),
      not_null ''confidence'' (NUMERIC 38 18),
      not_null ''assessed_severity'' (VARCHAR 32),
      not_null ''occurred_at'' (VARCHAR 40),
      not_null ''domain_data'' JSON]"

definition mapped_RecommendedActionRow :: table_def where
  "mapped_RecommendedActionRow = plain_table ''recommended_actions''
     [primary ''action_id'' (VARCHAR 128),
      mapped_reference ''execution_id'' ''triage_executions'' ''execution_id'',
      not_null ''catalog_action_id'' (VARCHAR 128),
      not_null ''target'' JSON,
      not_null ''parameters'' JSON,
      not_null ''action_digest'' (VARCHAR 71),
      not_null ''policy_version'' (VARCHAR 64),
      not_null ''rationale'' TEXT,
      not_null ''domain_data'' JSON]"

definition mapped_ApprovalDecisionRow :: table_def where
  "mapped_ApprovalDecisionRow = (plain_table ''approval_decisions''
     [primary ''approval_id'' (VARCHAR 128),
      (mapped_reference ''action_id'' ''recommended_actions'' ''action_id'')\<lparr>col_unique := True\<rparr>,
      not_null ''action_digest'' (VARCHAR 71),
      not_null ''reviewer_id'' (VARCHAR 128),
      not_null ''decision'' (VARCHAR 16),
      not_null ''decided_at'' (VARCHAR 40),
      not_null ''reason'' TEXT,
      not_null ''policy_version'' (VARCHAR 64),
      sql_column ''expires_at'' (VARCHAR 40),
      not_null ''domain_data'' JSON])
     \<lparr>tbl_checks := [(''ck_approval_expiry_semantics'', ''(decision = '' @ [CHR 0x27] @ ''APPROVED'' @ [CHR 0x27] @ '' AND expires_at IS NOT NULL) OR (decision = '' @ [CHR 0x27] @ ''REJECTED'' @ [CHR 0x27] @ '' AND expires_at IS NULL)''),
       (''ck_approval_expiry_after_decision'', ''expires_at IS NULL OR expires_at > decided_at'')]\<rparr>"

definition mapped_ActionExecutionRow :: table_def where
  "mapped_ActionExecutionRow = plain_table ''action_executions''
     [primary ''action_execution_id'' (VARCHAR 128),
      (mapped_reference ''action_id'' ''recommended_actions'' ''action_id'')\<lparr>col_unique := True\<rparr>,
      not_null ''state'' (VARCHAR 32),
      not_null ''started_at'' (VARCHAR 40),
      sql_column ''completed_at'' (VARCHAR 40),
      sql_column ''outcome'' (VARCHAR 128),
      sql_column ''failure_category'' (VARCHAR 128),
      not_null ''mode'' (VARCHAR 32),
      sql_column ''result'' JSON]"

definition mapped_AuditEventRow :: table_def where
  "mapped_AuditEventRow = (plain_table ''audit_events''
     [primary ''event_id'' (VARCHAR 128),
      not_null ''event_type'' (VARCHAR 128),
      not_null ''occurred_at'' (VARCHAR 40),
      sql_column ''execution_id'' (VARCHAR 128),
      sql_column ''correlation_id'' (VARCHAR 128),
      sql_column ''actor_id'' (VARCHAR 128),
      not_null ''target_type'' (VARCHAR 128),
      not_null ''target_id'' (VARCHAR 128),
      not_null ''event_data'' JSON,
      sql_column ''outcome'' (VARCHAR 32),
      sql_column ''failure_category'' (VARCHAR 128),
      not_null ''schema_version'' (VARCHAR 64)])
     \<lparr>tbl_uniques := [(''uq_audit_event_id'', [''event_id''])]\<rparr>"

definition mapped_EvaluationRunRow :: table_def where
  "mapped_EvaluationRunRow = plain_table ''evaluation_runs''
     [primary ''run_id'' (VARCHAR 128),
      not_null ''suite_version'' (VARCHAR 64),
      not_null ''schema_version'' (VARCHAR 64),
      not_null ''fixture_version'' (VARCHAR 64),
      not_null ''policy_version'' (VARCHAR 64),
      not_null ''reasoner_label'' (VARCHAR 128),
      not_null ''reasoner_implementation'' (VARCHAR 128),
      not_null ''provider'' (VARCHAR 128),
      not_null ''model'' (VARCHAR 128),
      not_null ''prompt_version'' (VARCHAR 64),
      not_null ''application_version'' (VARCHAR 64),
      not_null ''started_at'' (VARCHAR 40),
      not_null ''completed_at'' (VARCHAR 40),
      not_null ''aggregate_data'' JSON]"

definition mapped_EvaluationCaseResultRow :: table_def where
  "mapped_EvaluationCaseResultRow = (plain_table ''evaluation_case_results''
     [primary ''case_id'' (VARCHAR 128),
      mapped_reference ''run_id'' ''evaluation_runs'' ''run_id'',
      not_null ''scenario_id'' (VARCHAR 128),
      not_null ''scenario_version'' (VARCHAR 64),
      mapped_reference ''triage_execution_id'' ''triage_executions'' ''execution_id'',
      not_null ''score_data'' JSON])
     \<lparr>tbl_uniques := [(''uq_eval_run_scenario'', [''run_id'', ''scenario_id''])]\<rparr>"

definition mapped_tables :: "table_def list" where
  "mapped_tables =
     [mapped_AlertRow,
      mapped_TriageExecutionRow,
      mapped_ToolInvocationRow,
      mapped_TriageResultRow,
      mapped_RecommendedActionRow,
      mapped_ApprovalDecisionRow,
      mapped_ActionExecutionRow,
      mapped_AuditEventRow,
      mapped_EvaluationRunRow,
      mapped_EvaluationCaseResultRow]"

end
