(* ===== verification/Composition.thy ===== *)
theory Composition
  imports Provider_Call Fixture_Tools Http_Routes Evaluation_Runner Unit_Of_Work Migrations
begin

text \<open>
  The composition root (\<open>bootstrap.py\<close>) and the two command lines (\<open>__main__.py\<close>,
  \<open>evaluation/__main__.py\<close>): which implementations and bounds the settings select, the fixture tools
  behind the gateway, and the recovery and evaluation commands. Whatever the application is built on
  is one record of externals: the database URLs, the files, the provider client, the worker threads,
  address parsing and the process secret.
\<close>

record externals =
  ext_urls :: url_library
  ext_files :: "string \<Rightarrow> FixtureDataset option"
  ext_suites :: "string \<Rightarrow> EvaluationManifest option"
  ext_client :: "nat \<Rightarrow> provider_request \<Rightarrow> provider_reply"
  ext_sha256 :: "string \<Rightarrow> string"
  ext_tool_late :: "nat \<Rightarrow> bool"
  ext_reasoner_late :: "nat \<Rightarrow> bool"
  ext_ip :: "pyval \<Rightarrow> string option"
  ext_utc :: "time \<Rightarrow> string"
  ext_size :: "ReasonerContext \<Rightarrow> int"
  ext_hmac :: "string \<Rightarrow> string"
  ext_text :: "pyval \<Rightarrow> string"

subsection \<open>The tools behind the gateway\<close>

text \<open>
  The \<open>n\<close>-th call of a tool with its sanitized request: the worker thread misses the deadline, the
  tool raises, or it returns. A request holds the one field of the request model.
\<close>

definition fixture_answer :: "externals \<Rightarrow> FixtureDataset \<Rightarrow> nat \<Rightarrow> EvidenceTool \<Rightarrow> pydict \<Rightarrow> int \<Rightarrow> tool_reply" where
  "fixture_answer ext ds n tool request timeout =
     (if ext_tool_late ext n then TimedOut
      else case (find (\<lambda>t. tool_name (metadata t) = tool_name tool) all_fixture_tools,
                 dict_get (request_field (request_model tool)) request) of
        (Some t, Some (PStr i)) \<Rightarrow>
          (case Fixture_Tools.execute (ext_utc ext) ds t i of None \<Rightarrow> Raised | Some out \<Rightarrow> Returned out)
      | _ \<Rightarrow> Raised)"

subsection \<open>The reasoner\<close>

text \<open>Why a start fails, with the class of the exception.\<close>

datatype startup_error =
    StartupRefused string | EngineRefused engine_error | FixtureInvalid string | CatalogInvalid catalog_error | SuiteInvalid string
  | ProviderInvalid construction_error

fun startup_exception :: "startup_error \<Rightarrow> exn" where
  "startup_exception (StartupRefused m) = AdapterError ''RuntimeError''"
| "startup_exception (EngineRefused InvalidUrl) = AdapterError ''ArgumentError''"
| "startup_exception (EngineRefused (UnsupportedBackend m)) = PersistenceError ''PersistenceError''"
| "startup_exception (EngineRefused DriverMissing) = AdapterError ''ModuleNotFoundError''"
| "startup_exception (FixtureInvalid m) = AdapterError ''FixtureValidationError''"
| "startup_exception (CatalogInvalid e) = AdapterError ''ActionCatalogError''"
| "startup_exception (SuiteInvalid m) = AdapterError ''EvaluationValidationError''"
| "startup_exception (ProviderInvalid (UnsupportedPrompt m)) = AdapterError ''ValueError''"
| "startup_exception (ProviderInvalid InstructionsChanged) = AdapterError ''RuntimeError''"

definition on_worker :: "(nat \<Rightarrow> bool) \<Rightarrow> (nat \<Rightarrow> ReasonerContext \<Rightarrow> reasoner_reply) \<Rightarrow> nat \<Rightarrow> ReasonerContext \<Rightarrow> reasoner_reply" where
  "on_worker late r n rcx = (if late n then ReasonerTimeout else r n rcx)"

definition build_reasoner :: "externals \<Rightarrow> Settings \<Rightarrow> startup_error + (nat \<Rightarrow> ReasonerContext \<Rightarrow> reasoner_reply)" where
  "build_reasoner ext s =
     (case st_reasoner_provider s of
        ProviderDemo \<Rightarrow> Inr demo_reasoner
      | ProviderOpenAI \<Rightarrow>
          (case st_openai_api_key s of
             None \<Rightarrow> Inl (StartupRefused ''OpenAI reasoner is enabled but OPENAI_API_KEY is not configured'')
           | Some _ \<Rightarrow>
               (case new_openai_reasoner (ext_sha256 ext) (st_openai_model s) (st_openai_max_output_tokens s)
                   (prompt_version_value (st_openai_prompt_version s)) of
                  Inl e \<Rightarrow> Inl (ProviderInvalid e)
                | Inr r \<Rightarrow> Inr (openai_reasoner (ext_ip ext) (st_openai_prompt_version s)
                    (serialize_context (ext_utc ext) scrub_text (st_openai_prompt_version s))
                    (\<lambda>n body. ext_client ext n (request_of r body))))))"

subsection \<open>The application\<close>

definition default_gateway_limits :: GatewayLimits where
  "default_gateway_limits =
     \<lparr>limit_total_calls = 8, limit_per_tool_calls = 2, max_input_bytes = 4096, max_output_bytes = 65536,
      timeout_cap_ms = 5000\<rparr>"

definition default_orchestration_limits :: OrchestrationLimits where
  "default_orchestration_limits =
     \<lparr>max_iterations = 8, deadline_ms = 30000, max_evidence_items = 16, max_context_bytes = 131072\<rparr>"

definition semantics_of :: "ActionDefinition \<Rightarrow> ReasonerActionSemantics" where
  "semantics_of d =
     \<lparr>ras_catalog_action_id = def_action_id d,
      ras_target_types = filter (\<lambda>t. t \<in> target_types d) (sort_key entity_type_value [USER, DEVICE, IP_ADDRESS]),
      ras_objective = objective d, ras_category = category d,
      ras_evidence_considerations = evidence_considerations d, ras_blast_radius = blast_radius d,
      ras_reversibility = reversibility d, ras_excessive_when = excessive_when d,
      ras_reasonable_combinations = reasonable_combinations d\<rparr>"

text \<open>\<open>catalog.values()\<close> follows the iteration order of the catalog, which is sorted.\<close>

definition catalog_semantics :: "ActionCatalog \<Rightarrow> ReasonerActionSemantics list" where
  "catalog_semantics cat = map (\<lambda>i. semantics_of (the (catalog_lookup cat i))) (catalog_iter cat)"

definition build_orchestrator ::
  "externals \<Rightarrow> Settings \<Rightarrow> FixtureDataset \<Rightarrow> ActionCatalog \<Rightarrow> (nat \<Rightarrow> ReasonerContext \<Rightarrow> reasoner_reply) \<Rightarrow> orchestrator" where
  "build_orchestrator ext s ds cat r =
     \<lparr>orc_registry = fixture_registry, orc_catalog = cat, orc_limits = default_orchestration_limits,
      orc_gateway_limits = default_gateway_limits, orc_action_semantics = catalog_semantics cat,
      reasoner_guidance_enabled = (st_openai_prompt_version s = OpenAI_L1_v2),
      reasoner = on_worker (ext_reasoner_late ext) r, tool_answer = fixture_answer ext ds,
      ip_parser = ext_ip ext, context_size = ext_size ext\<rparr>"

text \<open>The dot between the words is the character U+00B7.\<close>

definition reasoner_mode_text :: "Settings \<Rightarrow> string" where
  "reasoner_mode_text s = (case st_reasoner_provider s of
     ProviderOpenAI \<Rightarrow> ''OpenAI '' @ [CHR 0xB7] @ '' '' @ st_openai_model s
   | ProviderDemo \<Rightarrow> ''Deterministic demo'')"

definition prompt_version_text :: "Settings \<Rightarrow> string" where
  "prompt_version_text s = (case st_reasoner_provider s of
     ProviderOpenAI \<Rightarrow> prompt_version_value (st_openai_prompt_version s) | ProviderDemo \<Rightarrow> ''demo-v1'')"

record application =
  app_deps :: app_dependencies
  execution_threshold :: int
  action_threshold :: int

text \<open>Durations are microseconds.\<close>

definition seconds :: "int \<Rightarrow> int" where
  "seconds n = n * 1000000"

definition build_dependencies :: "externals \<Rightarrow> Settings \<Rightarrow> startup_error + application" where
  "build_dependencies ext s =
     (case validate_runtime_profile s of Some e \<Rightarrow> Inl (StartupRefused e)
      | None \<Rightarrow>
     (case create_engine (ext_urls ext) (st_database_url s) of Inl e \<Rightarrow> Inl (EngineRefused e)
      | Inr _ \<Rightarrow>
     (case load_fixture_dataset (ext_files ext (st_fixture_path s)) of Inl e \<Rightarrow> Inl (FixtureInvalid e)
      | Inr ds \<Rightarrow>
     (case initial_action_catalog of Inl e \<Rightarrow> Inl (CatalogInvalid e)
      | Inr cat \<Rightarrow>
     (case build_reasoner ext s of Inl e \<Rightarrow> Inl e
      | Inr r \<Rightarrow>
          Inr \<lparr>app_deps =
                 \<lparr>current_principal = Some development_principal,
                  dep_orchestrator = build_orchestrator ext s ds cat r,
                  dep_service = \<lparr>svc_catalog = cat, svc_executor = SimulatedActionExecutor,
                    svc_authorization = default_reviewers, approval_lifetime = seconds (st_approval_lifetime_seconds s)\<rparr>,
                  max_request_bytes = st_max_request_bytes s, reasoner_mode = reasoner_mode_text s,
                  dep_prompt_version = Some (prompt_version_text s), dep_hmac = ext_hmac ext\<rparr>,
               execution_threshold = seconds (st_stale_execution_seconds s),
               action_threshold = seconds (st_stale_action_execution_seconds s)\<rparr>)))))"

definition APPLICATION_VERSION :: string where
  "APPLICATION_VERSION = ''1.0.0''"

definition evaluation_labels :: "Settings \<Rightarrow> string \<times> string \<times> string \<times> string \<times> string" where
  "evaluation_labels s = (case st_reasoner_provider s of
     ProviderOpenAI \<Rightarrow>
       (''openai:'' @ st_openai_model s @ '':'' @ prompt_version_value (st_openai_prompt_version s),
        ''OpenAIReasoner'', ''openai'', st_openai_model s, prompt_version_value (st_openai_prompt_version s))
   | ProviderDemo \<Rightarrow>
       (''deterministic-demo-v1'', ''DemoReasoner'', ''offline'', ''deterministic-demo-v1'', ''demo-v1''))"

definition build_evaluation_runner :: "externals \<Rightarrow> Settings \<Rightarrow> startup_error + evaluation_runner" where
  "build_evaluation_runner ext s =
     (case build_dependencies ext s of Inl e \<Rightarrow> Inl e
      | Inr appl \<Rightarrow>
     (case load_fixture_dataset (ext_files ext (st_fixture_path s)) of Inl e \<Rightarrow> Inl (FixtureInvalid e)
      | Inr ds \<Rightarrow>
     (case load_suite (ext_suites ext (st_evaluation_path s)) ds fixture_registry (svc_catalog (dep_service (app_deps appl))) of
        Inl e \<Rightarrow> Inl (SuiteInvalid e)
      | Inr suite \<Rightarrow>
          let (label, implementation, provider, model, prompt) = evaluation_labels s
          in Inr \<lparr>er_suite = suite, er_alerts = fx_alerts ds, er_orchestrator = dep_orchestrator (app_deps appl),
               er_reasoner_label = label, er_reasoner_implementation = implementation, er_provider = provider,
               er_model = model, er_prompt_version = prompt, er_policy_version = POLICY_VERSION,
               er_application_version = APPLICATION_VERSION\<rparr>)))"

subsection \<open>Command lines\<close>

text \<open>The recovery command: both recoveries under the operator identity, then one log event.\<close>

definition recover_command :: "'e env_scheme \<Rightarrow> externals \<Rightarrow> Settings \<Rightarrow> application \<Rightarrow> string list io" where
  "recover_command env ext s appl =
     bindE (next_id env ''recovery-correlation'') (\<lambda>cid.
     bindE (recover_all env (execution_threshold appl) (action_threshold appl) ''system-recovery-operator'' cid) (\<lambda>report.
     bindE (now env) (\<lambda>t.
     ret (log_event (ext_utc ext) (ext_text ext) (configure_logging s \<lparr>rl_handlers = [], rl_level = LogWarning\<rparr>) t
       ''security_triage_agent'' LogInfo ''stale_recovery_completed''
       [(''stale_executions_failed'', PInt (int (stale_executions_failed report))),
        (''stale_actions_failed'', PInt (int (stale_actions_failed report)))]))))"

text \<open>The program with or without \<open>--recover-stale\<close>; a failed start raises.\<close>

definition main :: "'e env_scheme \<Rightarrow> externals \<Rightarrow> Settings \<Rightarrow> bool \<Rightarrow> bool \<Rightarrow> string list io" where
  "main env ext s recover_stale check =
     (case validate_runtime_profile s of Some e \<Rightarrow> raise (startup_exception (StartupRefused e))
      | None \<Rightarrow>
          if recover_stale
          then (case build_dependencies ext s of Inl e \<Rightarrow> raise (startup_exception e) | Inr appl \<Rightarrow> recover_command env ext s appl)
          else bindE (now env) (\<lambda>t.
            ret (log_event (ext_utc ext) (ext_text ext) (configure_logging s \<lparr>rl_handlers = [], rl_level = LogWarning\<rparr>) t
              ''security_triage_agent'' LogInfo ''foundation_ready''
              [(''environment'', PStr (environment_value (st_environment s))), (''service'', PStr (st_service_name s)),
               (''check'', PBool check)])))"

text \<open>The JSON form of a report is rendered by the schema library.\<close>

definition evaluation_main :: "'e env_scheme \<Rightarrow> externals \<Rightarrow> Settings \<Rightarrow> (EvaluationReport \<Rightarrow> string)
    \<Rightarrow> string option \<Rightarrow> bool \<Rightarrow> string io" where
  "evaluation_main env ext s render_json choice json =
     (case build_evaluation_runner ext s of Inl e \<Rightarrow> raise (startup_exception e)
      | Inr rn \<Rightarrow> bindE (evaluate_suite env rn choice) (\<lambda>report. ret (if json then render_json report else render_text report)))"


text \<open>
  The migration environment: the URL given to the command, or else the one of the settings, and the
  chain of revisions on an engine for it. An offline run only prints the statements.
\<close>

definition database_url :: "string option \<Rightarrow> Settings \<Rightarrow> string" where
  "database_url override s = (case override of Some url \<Rightarrow> url | None \<Rightarrow> st_database_url s)"

definition run_migrations_online :: "externals \<Rightarrow> string option \<Rightarrow> Settings \<Rightarrow> database \<Rightarrow> startup_error + database option" where
  "run_migrations_online ext override s db =
     (case create_engine (ext_urls ext) (database_url override s) of Inl e \<Rightarrow> Inl (EngineRefused e)
      | Inr _ \<Rightarrow> Inr (upgrade_head db))"

text \<open>The two validation scripts (\<open>scripts/\<close>): the line printed and the exit status.\<close>

definition verify_fixtures :: "externals \<Rightarrow> string \<Rightarrow> string \<times> int" where
  "verify_fixtures ext directory =
     (case load_fixture_dataset (ext_files ext directory) of
        Inl e \<Rightarrow> (''fixture validation failed: '' @ e, 1)
      | Inr ds \<Rightarrow>
          (''fixture validation passed: version='' @ fx_fixture_version (manifest ds)
             @ '' identities='' @ nat_text (length (identities ds)) @ '' alerts='' @ nat_text (length (fx_alerts ds)), 0))"

definition verify_evaluations :: "externals \<Rightarrow> string \<Rightarrow> string \<Rightarrow> startup_error + string \<times> int" where
  "verify_evaluations ext suite_file directory =
     (case load_fixture_dataset (ext_files ext directory) of Inl e \<Rightarrow> Inl (FixtureInvalid e)
      | Inr ds \<Rightarrow>
     (case initial_action_catalog of Inl e \<Rightarrow> Inl (CatalogInvalid e)
      | Inr cat \<Rightarrow>
     (case load_suite (ext_suites ext suite_file) ds fixture_registry cat of Inl e \<Rightarrow> Inl (SuiteInvalid e)
      | Inr suite \<Rightarrow>
          Inr (''evaluation validation passed: suite='' @ suite_version suite @ '' scenarios=''
             @ nat_text (length (scenarios suite)) @ '' fixture='' @ suite_fixture_version suite, 0))))"

end
