(* ===== verification/Composition_Correct.thy ===== *)
theory Composition_Correct
  imports Composition Orchestrator_Properties Fixture_Correct Approval_Example
begin

text \<open>
  The composed application: when it starts, that its parts fit the hypotheses under which the parts
  were verified, and that its runs always return.
\<close>

subsection \<open>Starting\<close>

lemma catalog_of_start: "initial_action_catalog = Inr the_catalog"
  using initial_catalog_registers by (simp add: initial_action_catalog_def)

lemma default_limits_valid: "validate_limits default_gateway_limits = Some default_gateway_limits"
  by (simp add: validate_limits_def default_gateway_limits_def)

lemma default_orchestration_limits_valid:
  "validate_orchestration_limits default_orchestration_limits = Some default_orchestration_limits"
  by (simp add: validate_orchestration_limits_def default_orchestration_limits_def)

lemma built_parts:
  assumes "build_dependencies ext s = Inr appl"
  obtains ds r where "loaded ds" "build_reasoner ext s = Inr r" "st_environment s \<noteq> EnvProduction"
    "dep_orchestrator (app_deps appl) = build_orchestrator ext s ds the_catalog r"
proof -
  obtain ds r where "load_fixture_dataset (ext_files ext (st_fixture_path s)) = Inr ds" "build_reasoner ext s = Inr r"
      "st_environment s \<noteq> EnvProduction" "dep_orchestrator (app_deps appl) = build_orchestrator ext s ds the_catalog r"
    using assms
    by (auto simp: build_dependencies_def catalog_of_start validate_runtime_profile_def
      split: sum.splits option.splits if_splits)
  then show thesis using that by (auto simp: loaded_def)
qed

text \<open>The application starts exactly outside production, on a database URL of a supported backend, on a snapshot that loads, with the key and the
unchanged instructions its provider needs.\<close>

lemma starts_exactly:
  "(\<exists>appl. build_dependencies ext s = Inr appl) \<longleftrightarrow>
     st_environment s \<noteq> EnvProduction \<and> (\<exists>eng. create_engine (ext_urls ext) (st_database_url s) = Inr eng)
     \<and> (\<exists>ds. load_fixture_dataset (ext_files ext (st_fixture_path s)) = Inr ds)
     \<and> (st_reasoner_provider s = ProviderOpenAI \<longrightarrow>
          st_openai_api_key s \<noteq> None \<and> selected_prompt_intact (ext_sha256 ext) (st_openai_prompt_version s))"
proof -
  have "(\<exists>r. build_reasoner ext s = Inr r) \<longleftrightarrow> (st_reasoner_provider s = ProviderOpenAI \<longrightarrow>
      st_openai_api_key s \<noteq> None \<and> selected_prompt_intact (ext_sha256 ext) (st_openai_prompt_version s))"
    using construction_exact [of "ext_sha256 ext" "st_openai_model s" "st_openai_max_output_tokens s" "st_openai_prompt_version s"]
    by (auto simp: build_reasoner_def split: sum.splits option.splits ReasonerProvider.splits)
  moreover have "(\<exists>appl. build_dependencies ext s = Inr appl) \<longleftrightarrow> st_environment s \<noteq> EnvProduction
      \<and> (\<exists>eng. create_engine (ext_urls ext) (st_database_url s) = Inr eng)
      \<and> (\<exists>ds. load_fixture_dataset (ext_files ext (st_fixture_path s)) = Inr ds) \<and> (\<exists>r. build_reasoner ext s = Inr r)"
    by (auto simp: build_dependencies_def catalog_of_start validate_runtime_profile_def split: sum.splits)
  ultimately show ?thesis by blast
qed

subsection \<open>The outcomes of the fixture tools\<close>

definition fixture_outcome :: "FixtureDataset \<Rightarrow> ToolOutcome \<Rightarrow> bool" where
  "fixture_outcome ds out \<longleftrightarrow> (\<exists>t. (\<exists>payload. out = Found (tool_provenance ds t) payload)
     \<or> (\<exists>rt i m. out = NotFound (tool_provenance ds t) rt i m))"

lemma execute_outcome: "Fixture_Tools.execute utc ds t i = Some out \<Longrightarrow> fixture_outcome ds out"
  unfolding fixture_outcome_def
  by (cases t) (auto simp: found_def not_found_def split: option.splits if_splits)

lemma fixture_answer_outcome: "fixture_answer ext ds n tool san timeout = Returned out \<Longrightarrow> fixture_outcome ds out"
  by (auto simp: fixture_answer_def dest: execute_outcome split: if_splits option.splits pyval.splits)

lemma fixture_tool_version: "tool_version (metadata t) = ''1.0.0''"
  by (cases t) (simp_all add: metadata.simps fixture_meta_def TOOL_VERSION_def)

lemma outcome_version:
  assumes "fixture_outcome ds out" and "fx_fixture_version (manifest ds) = ''v1''"
  shows "get_text ''status'' ''UNKNOWN'' (outcome_dump out) \<in> {''FOUND'', ''NOT_FOUND''}"
    and "get_text ''tool_version'' ''unknown'' (provenance_of (outcome_dump out)) = ''1.0.0''"
    and "get_text ''fixture_version'' ''unknown'' (provenance_of (outcome_dump out)) = ''v1''"
  using assms
  by (auto simp: fixture_outcome_def get_text_def provenance_of_def dict_get_def provenance_dump_def
    tool_provenance_def fixture_tool_version)

lemma loaded_version: "loaded ds \<Longrightarrow> fx_fixture_version (manifest ds) = ''v1''"
  using loadedD(1) by (auto simp: dataset_integrity_def supported_version_def)

subsection \<open>Evidence from fixture tools is always valid\<close>

definition returns :: "'a io \<Rightarrow> world \<Rightarrow> bool" where
  "returns m w \<longleftrightarrow> wp m (\<lambda>_ _. True) (\<lambda>_ _. False) w"

definition identifiers_total :: "'e env_scheme \<Rightarrow> bool" where
  "identifiers_total env \<longleftrightarrow> (\<forall>p \<in> {''evidence'', ''tool-invocation''}. \<forall>n. Identifier (fresh_id env p n) \<noteq> None)"

lemma fixture_texts:
  assumes "status \<in> {''FOUND'', ''NOT_FOUND''}"
  shows "\<exists>x. ShortText (tool_name (metadata t) @ '' returned '' @ status @ ''.'') = Some x"
    and "\<exists>x. ShortText (''Sanitized '' @ tool_name (metadata t) @ '' outcome: '' @ status @ ''.'') = Some x"
    and "\<exists>x. Identifier (tool_name (metadata t)) = Some x"
proof -
  have "ShortText (tool_name (metadata t) @ '' returned '' @ status @ ''.'') \<noteq> None
      \<and> ShortText (''Sanitized '' @ tool_name (metadata t) @ '' outcome: '' @ status @ ''.'') \<noteq> None
      \<and> Identifier (tool_name (metadata t)) \<noteq> None"
    using assms by (cases t; elim insertE emptyE; hypsubst; unfold metadata.simps fixture_meta_def EvidenceTool.simps; code_simp)
  then show "\<exists>x. ShortText (tool_name (metadata t) @ '' returned '' @ status @ ''.'') = Some x"
    "\<exists>x. ShortText (''Sanitized '' @ tool_name (metadata t) @ '' outcome: '' @ status @ ''.'') = Some x"
    "\<exists>x. Identifier (tool_name (metadata t)) = Some x" by blast+
qed

lemma versions_valid: "Version ''1.0.0'' = Some ''1.0.0''" "Version ''v1'' = Some ''v1''"
  by code_simp+

lemma evidence_returns:
  assumes ids: "identifiers_total env" and call: "Identifier (ir_call_id call) = Some (ir_call_id call)"
    and tool: "ir_tool_name call = tool_name (metadata t)"
    and out: "fixture_outcome ds out" "loaded ds"
  shows "returns (to_evidence env call (outcome_dump out)) w"
proof -
  note v = outcome_version [OF out(1) loaded_version [OF out(2)]]
  have fresh: "\<exists>x. Identifier (fresh_id env ''evidence'' n) = Some x" for n
    using ids by (auto simp: identifiers_total_def)
  note texts = fixture_texts [OF v(1), of t]
  have "\<exists>x. validate_tool_call
       \<lparr>invocation_id = ir_call_id call, tc_tool_name = ir_tool_name call,
        tc_tool_version = get_text ''tool_version'' ''unknown'' (provenance_of (outcome_dump out)), called_at = started_at call,
        tc_summary = ir_tool_name call @ '' returned '' @ get_text ''status'' ''UNKNOWN'' (outcome_dump out) @ ''.''\<rparr> = Some x"
    using call texts versions_valid by (auto simp: validate_tool_call_def tool v(2))
  moreover have "\<exists>x. validate_evidence
       \<lparr>evidence_id = fresh_id env ''evidence'' n, source_type = ir_tool_name call, source_reference = ir_call_id call,
        collected_at = completed_at call,
        source_version = get_text ''fixture_version'' ''unknown'' (provenance_of (outcome_dump out)),
        ev_summary = ''Sanitized '' @ ir_tool_name call @ '' outcome: '' @ get_text ''status'' ''UNKNOWN'' (outcome_dump out) @ ''.'',
        tool_invocation_id = Some (ir_call_id call)\<rparr> = Some x" for n
    using call texts versions_valid fresh [of n] by (auto simp: validate_evidence_def optional_def tool v(3))
  ultimately show ?thesis
    unfolding returns_def to_evidence_def Let_def by (auto simp: wp_simps split: option.split)
qed

subsection \<open>The loop of a composed application\<close>

lemma gateway_success_outcome:
  assumes inv: "invoke parse_ip fixture_registry (fixture_answer ext ds n) clk p ctx = (r, ctx')" and ok: "gr_status r = SUCCESS"
  shows "\<exists>t out. gr_result r = Some (outcome_dump out) \<and> fixture_outcome ds out
    \<and> ir_tool_name (last (invocation_records ctx')) = tool_name (metadata t)"
proof (cases rule: invoke_cases [of parse_ip fixture_registry p ctx "fixture_answer ext ds n" clk])
  case (refused st m san)
  then have "st = SUCCESS" using inv ok by (simp add: Tool_Gateway.finish_def split: prod.splits)
  then show ?thesis using authorize_status [OF refused(1)] by simp
next
  case (called tool san st m res)
  have r: "st = SUCCESS" "gr_result r = res" "ir_tool_name (last (invocation_records ctx')) = proposed_tool p"
    using called(3) inv ok by (auto simp: Tool_Gateway.finish_def)
  have "registry_lookup fixture_registry (proposed_tool p) = Some tool"
    using called(1) by (auto simp: authorize_def split: option.splits if_splits)
  then obtain t where "proposed_tool p = tool_name (metadata t)"
    by (auto simp: registry_lookup_def fixture_registry_def dest!: map_of_SomeD)
  moreover obtain out where "res = Some (outcome_dump out)"
      "fixture_answer ext ds n tool san (min (timeout_ms tool) (timeout_cap_ms (limits ctx))) = Returned out"
  proof -
    obtain out where out: "fixture_answer ext ds n tool san (min (timeout_ms tool) (timeout_cap_ms (limits ctx))) = Returned out"
      using called(2) r(1) by (auto simp: judge_reply_def split: tool_reply.splits)
    moreover from this have "validate_outcome tool out = res \<and> res \<noteq> None"
      using called(2) r(1) by (cases "validate_outcome tool out") (auto simp: judge_reply_def dest!: sym [of "Some _"] split: if_splits)
    ultimately have "res = Some (outcome_dump out)" by (cases out) (auto split: if_splits)
    with out show thesis using that by blast
  qed
  ultimately show ?thesis using fixture_answer_outcome r by metis
qed

lemma tool_step_returns:
  assumes orc: "orc = build_orchestrator ext s ds cat r" and "loaded ds" and ids: "identifiers_total env"
  shows "returns (tool_step env orc st tname args goal) w"
proof -
  obtain iid where iid: "Identifier (fresh_id env ''tool-invocation'' (id_counts w ''tool-invocation'')) = Some iid"
    using ids by (auto simp: identifiers_total_def)
  obtain ctx acc where st: "st = (ctx, acc)" by (cases st)
  obtain res ctx' where inv: "invoke (ip_parser orc) (orc_registry orc) (tool_answer orc (gateway_calls w)) (step_times env w)
      \<lparr>call_id = iid, proposed_tool = tname, arguments = args\<rparr> ctx = (res, ctx')"
    using prod.exhaust by blast
  define call where "call = last (invocation_records ctx')"
  have ident: "Identifier (ir_call_id call) = Some (ir_call_id call)"
    using Identifier_stable [OF iid] invoke_last(1) [OF inv] by (simp add: call_def)
  have evidence: "wp (to_evidence env call (case gr_result res of Some d \<Rightarrow> d | None \<Rightarrow> [])) (\<lambda>_ _. True) (\<lambda>_ _. False) w2"
    if ok: "gr_status res = SUCCESS" for w2
  proof -
    obtain t out where "gr_result res = Some (outcome_dump out)" "fixture_outcome ds out" "ir_tool_name call = tool_name (metadata t)"
      using gateway_success_outcome [of _ ext ds, OF inv [unfolded orc build_orchestrator_def orchestrator.simps] ok]
      unfolding call_def by blast
    then show ?thesis using evidence_returns [OF ids ident] assms(2) by (simp add: returns_def)
  qed
  show ?thesis
    unfolding returns_def st tool_step_eq [OF iid inv] call_def [symmetric]
    by (rule wp_mono [OF persist_tool_wp]) (use evidence in auto)
qed

text \<open>Every iteration builds its context: without guidance always, with guidance when every entity is a tool target.\<close>

definition targets_parse :: "Settings \<Rightarrow> SecurityAlert \<Rightarrow> bool" where
  "targets_parse s alert \<longleftrightarrow> st_openai_prompt_version s = OpenAI_L1_v1
     \<or> list_all (\<lambda>e. from_scope_key (scope_key e) \<noteq> None) (entities alert)"

lemma iteration_step_returns:
  assumes orc: "orc = build_orchestrator ext s ds cat r" and "loaded ds" "identifiers_total env" and "targets_parse s alert"
  shows "returns (iteration_step env orc alert eid cid t0 it st) w"
proof -
  have "all_valid from_scope_key (sorted_set (map scope_key (entities alert))) \<noteq> None"
    if "list_all (\<lambda>e. from_scope_key (scope_key e) \<noteq> None) (entities alert)"
    using that by (subst all_valid_total) (auto simp: list_all_iff)
  then have "\<exists>targets. (if reasoner_guidance_enabled orc
      then all_valid from_scope_key (sorted_set (map scope_key (entities alert))) else Some []) = Some targets"
    using assms(4) by (auto simp: orc build_orchestrator_def targets_parse_def)
  then obtain rcx where rcx: "build_context orc alert eid cid (fst st) (snd st) it = Some rcx"
    by (auto simp: build_context_def)
  note tool = tool_step_returns [OF assms(1-3), unfolded returns_def]
  show ?thesis
    unfolding returns_def iteration_step_def
    by (auto simp: wp_simps rcx intro!: tool split: reasoner_reply.split option.split ReasonerStep.split)
qed

lemma run_loop_returns:
  assumes "orc = build_orchestrator ext s ds cat r" and "loaded ds" "identifiers_total env" and "targets_parse s alert"
  shows "returns (run_loop env orc alert eid cid t0 n st) w"
proof (induction n arbitrary: st w)
  case (Suc n)
  show ?case
    unfolding returns_def run_loop.simps wp_bindE
    by (rule wp_mono [OF iteration_step_returns [OF assms, unfolded returns_def]])
      (use Suc.IH in \<open>auto simp: returns_def wp_simps split: sum.split\<close>)
qed (simp add: returns_def wp_simps)

lemma conclude_returns:
  assumes "well_identified eid cid"
  shows "returns (conclude env orc alert eid cid e) w"
proof -
  have failed: "wp (persistence_failure eid cid) (\<lambda>_ _. True) (\<lambda>_ _. False) w" for w
    by (rule failure_outcome_wp [OF assms]) simp
  have "wp (finalize env eid cid dec code) (\<lambda>_ _. True) (\<lambda>_ _. False) w" for dec code w
    unfolding finalize_def wp_bindE
    by (rule wp_mono [OF persist_final_wp]) (auto intro!: failed outcome_wp simp: assms)
  with failed show ?thesis
    unfolding returns_def conclude_def
    by (cases e) (auto simp: wp_simps wp_policy_decision_eq Let_def split: prod.split)
qed

lemma run_returns:
  assumes "orc = build_orchestrator ext s ds cat r" and "loaded ds" "identifiers_total env" and "targets_parse s alert"
    and ids: "well_identified eid cid"
  shows "returns (run env orc alert key eid cid) w"
proof -
  note loop = run_loop_returns [OF assms(1-4), unfolded returns_def]
  note conc = conclude_returns [OF ids, unfolded returns_def]
  have failed: "wp (persistence_failure eid cid) (\<lambda>_ _. True) (\<lambda>_ _. False) w" for w
    by (rule failure_outcome_wp [OF ids]) simp
  have "wp (run_loop env orc alert eid cid t0 n st) (\<lambda>e. wp (conclude env orc alert eid cid e) (\<lambda>_ _. True) (\<lambda>_ _. False)) (\<lambda>_ _. False) w"
    for t0 n st w
    by (rule wp_mono [OF loop]) (simp_all add: conc)
  then have rest: "wp (bindE (persist_start env alert key eid cid) (\<lambda>ok. if \<not> ok then persistence_failure eid cid
      else bindE (monotonic_ms env) (\<lambda>t0. bindE (run_loop env orc alert eid cid t0 (max_iterations (orc_limits orc))
        (new_context eid cid (from_alert alert) (orc_gateway_limits orc), [])) (conclude env orc alert eid cid))))
      (\<lambda>_ _. True) (\<lambda>_ _. False) w1" for w1
    unfolding wp_bindE [of "persist_start env alert key eid cid"]
    by (intro wp_mono [OF persist_start_wp]) (auto simp: wp_simps failed)
  show ?thesis
    unfolding returns_def run_def wp_bindE [of "find_replay env key eid cid"]
    by (rule wp_mono [OF find_replay_wp]) (simp_all add: wp_ret rest replay_error_def ids split: option.split)
qed

text \<open>C38: outside production, on a database URL whose backend is supported and whose driver loads, on
  fixture files that load and with the key and the unchanged instructions that its provider needs, the
  application starts. Every run of its orchestrator with well-formed execution and correlation
  identifiers then returns, on an alert whose entities are all tool targets where the guided prompt is
  selected, and with a generator of well-formed identifiers: whatever the reasoner, the worker threads
  and the database do, no exception leaves it.\<close>

theorem started_application_always_returns:
  assumes "st_environment s \<noteq> EnvProduction"
    and "backend_name (ext_urls ext) (st_database_url s) = Some backend" and "backend \<in> {''sqlite'', ''postgresql''}"
    and "driver_loads (ext_urls ext) (st_database_url s)"
    and "load_fixture_dataset (ext_files ext (st_fixture_path s)) = Inr ds"
    and "st_reasoner_provider s = ProviderOpenAI \<Longrightarrow>
      st_openai_api_key s \<noteq> None \<and> selected_prompt_intact (ext_sha256 ext) (st_openai_prompt_version s)"
    and "identifiers_total env" and "targets_parse s alert" and "Identifier eid \<noteq> None" and "Identifier cid \<noteq> None"
  shows "\<exists>appl. build_dependencies ext s = Inr appl
    \<and> (\<exists>out. fst (run env (dep_orchestrator (app_deps appl)) alert key eid cid w) = Inr out)"
proof -
  have "\<exists>eng. create_engine (ext_urls ext) (st_database_url s) = Inr eng"
    using assms(2-4) by (simp add: create_engine_def)
  then obtain appl where appl: "build_dependencies ext s = Inr appl" using starts_exactly assms(1,5,6) by blast
  have ids: "well_identified eid cid" using assms(9,10) by (simp add: well_identified_def)
  obtain ds' r where "loaded ds'" "dep_orchestrator (app_deps appl) = build_orchestrator ext s ds' the_catalog r"
    using built_parts [OF appl] .
  then have "returns (run env (dep_orchestrator (app_deps appl)) alert key eid cid) w"
    using run_returns assms(7,8) ids by blast
  then have "\<exists>out. fst (run env (dep_orchestrator (app_deps appl)) alert key eid cid w) = Inr out"
    by (auto simp: returns_def wp_def split: prod.splits sum.splits)
  with appl show ?thesis by blast
qed

text \<open>The default settings, with a demo reasoner, a snapshot of three sign-ins, and identifiers that are valid.\<close>

definition sample_externals :: externals where
  "sample_externals = \<lparr>ext_urls = \<lparr>backend_name = (\<lambda>_. Some ''sqlite''), driver_loads = (\<lambda>_. True)\<rparr>,
     ext_files = (\<lambda>p. if p = ''fixtures/v1'' then Some sample_dataset else None), ext_suites = (\<lambda>_. None),
     ext_client = (\<lambda>_ _. OutputParsed None), ext_sha256 = (\<lambda>_. []), ext_tool_late = (\<lambda>_. False), ext_reasoner_late = (\<lambda>_. False),
     ext_ip = (\<lambda>_. None), ext_utc = (\<lambda>_. ''t''), ext_size = (\<lambda>_. 0), ext_hmac = (\<lambda>s. s), ext_text = (\<lambda>_. ''?'')\<rparr>"

definition composed_env :: env where
  "composed_env = \<lparr>clock_now = int, clock_monotonic_ms = int, fresh_id = (\<lambda>p n. ''id-1''), db_fault = (\<lambda>_. None),
     integrity_error = ''IntegrityError'', sha256 = (\<lambda>_. replicate 64 (CHR ''0'')), event_size = (\<lambda>_. 0)\<rparr>"

lemma sample_start: "load_fixture_dataset (ext_files sample_externals (st_fixture_path default_settings)) = Inr sample_dataset"
  by (simp add: sample_externals_def default_settings_def load_fixture_dataset_def sample_typed sample_integrity)

lemma composed_identifiers: "identifiers_total composed_env"
proof -
  have "Identifier ''id-1'' = Some ''id-1''" by code_simp
  then show ?thesis by (simp add: identifiers_total_def composed_env_def)
qed

theorem started_application_always_returns_witness:
  "\<exists>appl. build_dependencies sample_externals default_settings = Inr appl
    \<and> (\<exists>out. fst (run composed_env (dep_orchestrator (app_deps appl)) synthetic_alert ''key-1'' ''exec-1'' ''corr-1''
        (world_of sample_db)) = Inr out)"
proof (rule started_application_always_returns [OF _ _ _ _ sample_start _ composed_identifiers])
  show "backend_name (ext_urls sample_externals) (st_database_url default_settings) = Some ''sqlite''"
    "''sqlite'' \<in> {''sqlite'', ''postgresql''}" "driver_loads (ext_urls sample_externals) (st_database_url default_settings)"
    by (simp_all add: sample_externals_def)
  show "st_environment default_settings \<noteq> EnvProduction" by (simp add: default_settings_def)
  show "st_openai_api_key default_settings \<noteq> None
      \<and> selected_prompt_intact (ext_sha256 sample_externals) (st_openai_prompt_version default_settings)"
    if "st_reasoner_provider default_settings = ProviderOpenAI"
    using that by (simp add: default_settings_def)
  show "Identifier ''exec-1'' \<noteq> None" "Identifier ''corr-1'' \<noteq> None" by code_simp+
  show "targets_parse default_settings synthetic_alert" by (simp add: targets_parse_def default_settings_def)
qed

end
