(* ===== verification/Catalogued.thy ===== *)
theory Catalogued
  imports System Policy_Correct
begin

text \<open>
  The reachable states hold catalogued actions only: whatever the reasoner proposed and however the
  services interleave, a stored action is defined in the catalog, on a target of a supported type and
  with the canonical form of parameters that its definition accepts.
\<close>

definition catalogued_action :: "ActionCatalog \<Rightarrow> ActionProposal \<Rightarrow> bool" where
  "catalogued_action cat a \<longleftrightarrow> (\<exists>d. catalog_lookup cat (catalog_action_id a) = Some d
     \<and> entity_type (target a) \<in> target_types d
     \<and> (\<exists>ps. parameters_model d ps \<and> parameters a = freeze_mapping (thaw_mapping ps)))"

definition catalogued_actions :: "ActionCatalog \<Rightarrow> db \<Rightarrow> bool" where
  "catalogued_actions cat d \<longleftrightarrow> (\<forall>r \<in> set (recommended_actions_table d). catalogued_action cat (row_action r))"

lemma catalogued_same:
  "catalogued_actions cat d \<Longrightarrow> recommended_actions_table d' = recommended_actions_table d \<Longrightarrow> catalogued_actions cat d'"
  by (simp only: catalogued_actions_def)

interpretation catalogued_store: claim_store env "catalogued_actions cat" for env :: "'e env_scheme" and cat
  by (unfold_locales; unfold repository_writes; intro keeps keeps_stage; erule catalogued_same; simp add: write_defs)

interpretation catalogued_store: evaluation_store env "catalogued_actions cat" for env :: "'e env_scheme" and cat
  by (unfold_locales; unfold repository_writes; intro keeps keeps_stage; erule catalogued_same;
      simp add: write_defs insert_run_def insert_case_def)

lemma catalogued_add:
  "catalogued_action cat p \<Longrightarrow> keeps_db (catalogued_actions cat) (actions_add env eid p v :: unit io)"
  unfolding actions_add_def by (intro keeps_stage) (auto simp: catalogued_actions_def insert_action_def action_row_def)

subsection \<open>What the policy lets through\<close>

lemma admitted_catalogued:
  assumes "p \<in> set (admitted cat scope fresh n acts)"
  shows "catalogued_action cat p"
proof -
  obtain a i where "action_reason cat scope a = None" "p = canonicalize a (fresh i)"
    using admitted_SomeD [OF assms] by blast
  then show ?thesis
    by (auto simp: action_reason_def catalogued_action_def canonicalize_def split: option.splits if_splits)
qed

lemma evaluate_catalogued:
  assumes "p \<in> set (recommended_actions (pd_result (fst (evaluate_untrusted sha cat fresh n payload aid scope ts))))"
  shows "catalogued_action cat p"
proof (cases payload)
  case None
  then show ?thesis using assms by (simp add: evaluate_untrusted_def)
next
  case (Some c)
  have mem: "p \<in> set (recommended_actions (pd_result (fst (evaluate sha cat fresh n c aid scope ts))))"
    using assms by (simp add: Some evaluate_untrusted_def)
  show ?thesis
  proof (cases rule: evaluate_result_cases [of sha cat fresh n c aid scope ts])
    case kept
    then show ?thesis using mem admitted_catalogued by (simp add: draft_sels)
  next
    case safe
    then show ?thesis using mem by simp
  qed
qed

lemma catalogued_conclude: "keeps_db (catalogued_actions (orc_catalog orc)) (conclude env orc alert eid cid e)"
  by (rule catalogued_store.keeps_conclude_decided) (auto simp: decided_def intro: catalogued_add evaluate_catalogued)

lemmas keeps_catalogued_step = catalogued_store.keeps_ingest catalogued_store.keeps_run_begin catalogued_store.keeps_iteration
  catalogued_conclude catalogued_store.keeps_decide catalogued_store.keeps_execute_finish
  catalogued_store.keeps_execution_recovery catalogued_store.keeps_action_recovery catalogued_store.keeps_store_run

subsection \<open>Every reachable state\<close>

lemma step_catalogued:
  assumes "system_step env orc svc s s'" and "at_rest (sys_world s) = sys_world s"
    and "catalogued_actions (orc_catalog orc) (store (sys_world s))"
  shows "catalogued_actions (orc_catalog orc) (store (sys_world s'))"
  by (rule step_keeps [where P = "catalogued_actions (orc_catalog orc)", OF assms])
    (rule keeps_catalogued_step keeps_after [OF catalogued_store.keeps_execute_begin assms(2,3)])+

lemma reachable_catalogued:
  assumes "reachable env orc svc s"
  shows "at_rest (sys_world s) = sys_world s \<and> catalogued_actions (orc_catalog orc) (store (sys_world s))"
  using assms
proof (induction rule: reachable.induct)
  case (start s)
  then show ?case by (simp add: initial_system_def catalogued_actions_def empty_db_def)
next
  case (step s s')
  then show ?case using step_at_rest step_catalogued by blast
qed

text \<open>An action that the executor received is in the catalog, because it is the stored one.\<close>

lemma executed_catalogued:
  assumes "catalogued_actions cat d" and "find_action i d = Some row"
  shows "catalogued_action cat (row_action row)"
  using assms by (auto simp: catalogued_actions_def find_action_def dest: row_get_SomeD)

end
