(* ===== verification/Http_System.thy ===== *)
theory Http_System
  imports Requests Http_Example Composition_Correct Catalogued
begin

text \<open>
  The entry points of the program in the interleaved system. Whatever an HTTP request does, whichever
  route it takes and however it ends, it is a path of the system; so are both command lines. The
  application that the settings compose therefore keeps every guarantee of the reachable states.
\<close>

subsection \<open>Paths as a relation on worlds\<close>

definition on_path :: "'e env_scheme \<Rightarrow> orchestrator \<Rightarrow> approval_service \<Rightarrow> world \<Rightarrow> world \<Rightarrow> bool" where
  "on_path env orc svc w w' \<longleftrightarrow>
     (resting w \<longrightarrow> resting w' \<and> (\<forall>ts. path env orc svc \<lparr>sys_world = w, tasks = ts\<rparr> \<lparr>sys_world = w', tasks = ts\<rparr>))"

interpretation path_frame: step_relation "on_path env orc svc" for env :: "'e env_scheme" and orc svc
  by unfold_locales (auto simp: on_path_def intro: rtranclp_trans)

lemma path_silent:
  assumes "rests m" and "framed nothing_changed m"
  shows "framed (on_path env orc svc) m"
  unfolding framed_def on_path_def
proof (intro allI impI conjI)
  fix w ts
  assume w: "resting w"
  let ?v = "snd (m w)"
  show v: "resting ?v" using assms(1) w by (simp add: rests_def)
  have "store ?v = store w" "executed ?v = executed w"
    using framedD [OF assms(2), of w] by (simp_all add: nothing_changed_def)
  then show "path env orc svc \<lparr>sys_world = w, tasks = ts\<rparr> \<lparr>sys_world = ?v, tasks = ts\<rparr>"
    using system_step.observed [of ?v "\<lparr>sys_world = w, tasks = ts\<rparr>" env orc svc] v by (auto simp: resting_at_rest [symmetric])
qed

lemma path_services:
  "framed (on_path env orc svc) (now env')" "framed (on_path env orc svc) (monotonic_ms env')"
  "framed (on_path env orc svc) (next_id env' purpose)"
  by (intro path_silent rests_services read_frame.framed_services)+

text \<open>A unit of work that only reads.\<close>

lemma path_reads: "framed nothing_changed m \<Longrightarrow> framed (on_path env orc svc) (with_uow m)"
  by (intro path_silent rests_with_uow read_frame.framed_database)

lemma path_request:
  assumes "\<And>w. snd (m w) = perform env orc svc r w"
  shows "framed (on_path env orc svc) m"
  using perform_path [of _ env orc svc _ r] perform_rests [of _ env orc svc r]
  by (simp add: framed_def on_path_def assms resting_at_rest [symmetric])

lemma path_calls:
  "framed (on_path env orc svc) (ingest env alert cid actor)"
  "framed (on_path env orc svc) (run env orc alert key eid cid)"
  "framed (on_path env orc svc) (decide env svc aid who why dec)"
  "framed (on_path env orc svc) (Approval_Workflow.execute env svc aid actor)"
  "framed (on_path env orc svc) (recover_stale_executions env thr op cid)"
  "framed (on_path env orc svc) (recover_stale_actions env thr op cid)"
  by (rule path_request, rule perform.simps [symmetric])+

lemma rests_store_run: "rests (store_run env er cases)"
  unfolding store_run_def by (rule rests_with_uow)

lemma path_store_run: "framed (on_path env orc svc) (store_run env er cases)"
  unfolding framed_def on_path_def
proof (intro allI impI conjI)
  fix w ts
  assume w: "resting w"
  show v: "resting (snd (store_run env er cases w))"
    using rests_store_run [of env er cases] w by (simp add: rests_def)
  show "path env orc svc \<lparr>sys_world = w, tasks = ts\<rparr> \<lparr>sys_world = snd (store_run env er cases w), tasks = ts\<rparr>"
    using system_step.evaluation_stored [of env orc svc "\<lparr>sys_world = w, tasks = ts\<rparr>" er cases] v
    by (auto simp: resting_at_rest [symmetric])
qed

lemmas path_rules = path_frame.flow path_services path_reads path_calls path_store_run read_frame.rules
  read_frame.framed_repositories

subsection \<open>HTTP requests\<close>

lemma path_app: "framed (on_path env orc svc) m \<Longrightarrow> framed (on_path env orc svc) (app m)"
  by (rule path_frame.framed_app)

lemma path_approval_state: "framed (on_path env orc svc) (approval_state env' undecided ap)"
  unfolding approval_state_def by (intro path_frame.flow path_services)

lemma path_summaries: "framed (on_path env orc svc) (summaries env' cat ids as)"
  by (induction as)
    (auto simp: action_summary_of_def Let_def intro!: path_frame.flow path_reads path_approval_state read_frame.rules
      read_frame.framed_repositories split: prod.split)

lemma path_payloads:
  "framed (on_path env orc svc) (execution_payload env' deps i)" "framed (on_path env orc svc) (action_payload env' deps i)"
  unfolding execution_payload_def action_payload_def
  by (auto intro!: path_frame.flow path_reads path_app path_summaries path_approval_state read_frame.rules
      read_frame.framed_repositories simp: Let_def split: option.split prod.split)

lemma path_known: "framed (on_path env orc svc) (known_alert env' i)"
  unfolding known_alert_def
  by (auto intro!: path_frame.flow path_reads path_app read_frame.framed_repositories split: option.split)

lemma path_triage: "framed (on_path env (dep_orchestrator deps) svc) (run_triage env deps alert key)"
  unfolding run_triage_def by (intro path_frame.flow path_services path_app path_calls)

lemma path_conflict: "framed (on_path env orc svc) m \<Longrightarrow> framed (on_path env orc svc) (conflict_is_409 m)"
  unfolding conflict_is_409_def by (intro path_frame.flow; assumption)

theorem path_dispatch: "framed (on_path env (dep_orchestrator deps) (dep_service deps)) (dispatch env deps req r)"
  by (cases r)
    (auto simp: health_def ready_def list_alerts_def get_alert_def get_execution_def get_tools_def get_audit_def
      get_action_def alert_list_def alert_detail_def execution_detail_def action_detail_def
      ingest_alert_def triage_alert_def approve_action_def reject_action_def decide_action_def execute_action_def
      browser_triage_def browser_approve_def browser_reject_def browser_decide_def browser_execute_def approve_def reject_def
      intro!: path_frame.flow path_frame.framed_guards path_app path_services path_reads path_calls path_payloads path_known
        path_triage path_conflict read_frame.rules read_frame.framed_repositories read_frame.framed_rows
      split: option.split prod.split list.split)

lemma path_serve: "framed (on_path env (dep_orchestrator deps) (dep_service deps)) (serve env deps req)"
  unfolding serve_def request_size_limit_def handled_def Let_def
  by (intro path_frame.flow path_dispatch)

lemma frame_all:
  assumes "\<And>x. framed (on_path env orc svc) (f x)"
  shows "on_path env orc svc w (fold (\<lambda>x v. snd (f x v)) xs w)"
proof (induction xs arbitrary: w)
  case (Cons x xs)
  show ?case using path_frame.steps [OF framedD [OF assms] Cons.IH] by simp
qed (simp add: path_frame.stays)

lemma on_path_reachable:
  assumes "reachable env orc svc s" and "on_path env orc svc (sys_world s) w"
  shows "path env orc svc s (s\<lparr>sys_world := w\<rparr>) \<and> reachable env orc svc (s\<lparr>sys_world := w\<rparr>)"
proof -
  have "path env orc svc s (s\<lparr>sys_world := w\<rparr>)"
    using assms(2) reachable_at_rest [OF assms(1)] unfolding on_path_def resting_at_rest by (cases s) simp
  with reachable_steps [OF this assms(1)] show ?thesis by blast
qed

text \<open>HTTP requests served one after the other.\<close>

definition serve_all :: "'e env_scheme \<Rightarrow> app_dependencies \<Rightarrow> http_request list \<Rightarrow> world \<Rightarrow> world" where
  "serve_all env deps reqs w = fold (\<lambda>req v. snd (serve env deps req v)) reqs w"

text \<open>C27: whatever HTTP requests are served one after the other, on any route, by any principal and
  however each ends, they are a path of the interleaved system that leaves the tasks in progress
  alone, from any state the system can be in. So the guarantees about reachable states cover every
  use of the HTTP interface.\<close>

theorem http_requests_are_system_paths:
  assumes "reachable env (dep_orchestrator deps) (dep_service deps) s"
  shows "(system_step env (dep_orchestrator deps) (dep_service deps))\<^sup>*\<^sup>* s (s\<lparr>sys_world := serve_all env deps reqs (sys_world s)\<rparr>)
    \<and> reachable env (dep_orchestrator deps) (dep_service deps) (s\<lparr>sys_world := serve_all env deps reqs (sys_world s)\<rparr>)"
  unfolding serve_all_def by (rule on_path_reachable [OF assms]) (rule frame_all, rule path_serve)

subsection \<open>Command lines\<close>

lemma path_collect: "(\<And>x. framed (on_path env orc svc) (f x)) \<Longrightarrow> framed (on_path env orc svc) (collect f xs)"
  by (induction xs) (auto intro!: path_frame.flow)

lemma path_evaluation:
  assumes "er_orchestrator rn = orc"
  shows "framed (on_path env orc svc) (evaluate_suite env rn choice)"
proof -
  have "framed (on_path env orc svc) (run_case env rn rid s)" for rid s
    unfolding run_case_def assms
    by (auto intro!: path_frame.flow path_services path_calls path_reads read_frame.framed_repositories split: option.split)
  then show ?thesis
    unfolding evaluate_suite_def evaluate_scenarios_def
    by (intro path_frame.flow path_services path_store_run path_collect; assumption)
qed

lemma path_recovery: "framed (on_path env orc svc) (recover_command env ext s appl)"
  unfolding recover_command_def recover_all_def by (intro path_frame.flow path_services path_calls)

text \<open>The evaluation runs on the orchestrator of the application.\<close>

lemma runner_orchestrator:
  assumes "build_dependencies ext s = Inr appl" and "build_evaluation_runner ext s = Inr rn"
  shows "er_orchestrator rn = dep_orchestrator (app_deps appl)"
  using assms by (auto simp: build_evaluation_runner_def split: sum.splits prod.splits)

text \<open>How the program is entered: a request of its server, its command line, or the evaluation command.\<close>

datatype entry =
    Http_Entry http_request
  | Program_Entry bool bool
  | Evaluation_Entry "EvaluationReport \<Rightarrow> string" "string option" bool

fun enter :: "'e env_scheme \<Rightarrow> externals \<Rightarrow> Settings \<Rightarrow> app_dependencies \<Rightarrow> entry \<Rightarrow> world \<Rightarrow> world" where
  "enter env ext s deps (Http_Entry req) w = snd (serve env deps req w)"
| "enter env ext s deps (Program_Entry recover_stale check) w = snd (main env ext s recover_stale check w)"
| "enter env ext s deps (Evaluation_Entry render_json choice json) w = snd (evaluation_main env ext s render_json choice json w)"

definition enter_all :: "'e env_scheme \<Rightarrow> externals \<Rightarrow> Settings \<Rightarrow> app_dependencies \<Rightarrow> entry list \<Rightarrow> world \<Rightarrow> world" where
  "enter_all env ext s deps es w = fold (enter env ext s deps) es w"

lemma path_enter:
  assumes "build_dependencies ext s = Inr appl"
  shows "on_path env (dep_orchestrator (app_deps appl)) (dep_service (app_deps appl)) w (enter env ext s (app_deps appl) e w)"
proof (cases e)
  case (Http_Entry req)
  then show ?thesis using framedD [OF path_serve] by simp
next
  case (Program_Entry recover_stale check)
  have "framed (on_path env (dep_orchestrator (app_deps appl)) (dep_service (app_deps appl))) (main env ext s recover_stale check)"
    unfolding main_def assms by (auto intro!: path_frame.flow path_services path_recovery split: option.split)
  then show ?thesis using framedD Program_Entry by fastforce
next
  case (Evaluation_Entry render_json choice json)
  have "framed (on_path env (dep_orchestrator (app_deps appl)) (dep_service (app_deps appl)))
      (evaluation_main env ext s render_json choice json)"
    using runner_orchestrator [OF assms] unfolding evaluation_main_def
    by (auto intro!: path_frame.flow path_evaluation split: sum.split)
  then show ?thesis using framedD Evaluation_Entry by fastforce
qed

lemma path_enter_all:
  assumes "build_dependencies ext s = Inr appl"
  shows "on_path env (dep_orchestrator (app_deps appl)) (dep_service (app_deps appl)) w (enter_all env ext s (app_deps appl) es w)"
  unfolding enter_all_def
proof (induction es arbitrary: w)
  case (Cons e es)
  show ?case using path_frame.steps [OF path_enter [OF assms] Cons.IH] by simp
qed (simp add: path_frame.stays)

lemma composed_catalog:
  "build_dependencies ext s = Inr appl \<Longrightarrow> orc_catalog (dep_orchestrator (app_deps appl)) = the_catalog"
  by (auto simp: build_dependencies_def build_orchestrator_def catalog_of_start split: option.splits sum.splits)

lemma composed_authorization:
  "build_dependencies ext s = Inr appl \<Longrightarrow> svc_authorization (dep_service (app_deps appl)) = {''development-reviewer''}"
  by (auto simp: build_dependencies_def default_reviewers_def split: option.splits sum.splits)

subsection \<open>Deployments\<close>

text \<open>
  The application is stopped and started again on the same database, with other settings and on
  other files. A start that is refused does nothing.
\<close>

record deployment =
  dp_externals :: externals
  dp_settings :: Settings
  dp_entries :: "entry list"

definition deploy :: "'e env_scheme \<Rightarrow> deployment \<Rightarrow> world \<Rightarrow> world" where
  "deploy env dp w = (case build_dependencies (dp_externals dp) (dp_settings dp) of
     Inl _ \<Rightarrow> w
   | Inr appl \<Rightarrow> enter_all env (dp_externals dp) (dp_settings dp) (app_deps appl) (dp_entries dp) w)"

definition deploy_all :: "'e env_scheme \<Rightarrow> deployment list \<Rightarrow> world \<Rightarrow> world" where
  "deploy_all env dps w = fold (deploy env) dps w"

text \<open>What all deployments share: the reviewers and the catalog.\<close>

definition kept_between :: "'e env_scheme \<Rightarrow> world \<Rightarrow> bool" where
  "kept_between env w \<longleftrightarrow> catalogued_actions the_catalog (store w)
     \<and> (\<forall>svc. svc_authorization svc = {''development-reviewer''} \<longrightarrow> system_inv env svc \<lparr>sys_world = w, tasks = []\<rparr>)"

lemma system_inv_reviewers:
  "svc_authorization svc = svc_authorization svc' \<Longrightarrow> system_inv env svc s = system_inv env svc' s"
  by (simp add: system_inv_def sound_db_def)

lemma path_keeps:
  assumes "path env orc svc s s'" and "identifiers_valid env" and "system_inv env svc s"
    and "catalogued_actions (orc_catalog orc) (store (sys_world s))"
  shows "system_inv env svc s' \<and> catalogued_actions (orc_catalog orc) (store (sys_world s'))"
  using assms(1)
proof (induction rule: rtranclp_induct)
  case base
  then show ?case using assms(3,4) by simp
next
  case (step t u)
  then show ?case
    using step_system_inv [OF step(2) assms(2)] step_catalogued [OF step(2)] by (auto simp: system_inv_def)
qed

lemma kept_deploy:
  assumes "identifiers_valid env" and "kept_between env w"
  shows "kept_between env (deploy env dp w)"
proof (cases "build_dependencies (dp_externals dp) (dp_settings dp)")
  case (Inl e)
  then show ?thesis using assms(2) by (simp add: deploy_def)
next
  case (Inr appl)
  let ?orc = "dep_orchestrator (app_deps appl)" and ?svc = "dep_service (app_deps appl)"
  let ?w = "enter_all env (dp_externals dp) (dp_settings dp) (app_deps appl) (dp_entries dp) w"
  note reviewers = composed_authorization [OF Inr] and cat = composed_catalog [OF Inr]
  have before: "system_inv env ?svc \<lparr>sys_world = w, tasks = []\<rparr>" "catalogued_actions (orc_catalog ?orc) (store w)"
    using assms(2) reviewers cat by (simp_all add: kept_between_def)
  then have "resting w" by (simp add: system_inv_def resting_at_rest)
  then have "path env ?orc ?svc \<lparr>sys_world = w, tasks = []\<rparr> \<lparr>sys_world = ?w, tasks = []\<rparr>"
    using path_enter_all [OF Inr, of env w "dp_entries dp"] by (simp add: on_path_def)
  from path_keeps [OF this assms(1) before(1)] before(2)
  have after: "system_inv env ?svc \<lparr>sys_world = ?w, tasks = []\<rparr>" "catalogued_actions the_catalog (store ?w)"
    by (simp_all add: cat)
  have "system_inv env svc \<lparr>sys_world = ?w, tasks = []\<rparr>" if "svc_authorization svc = {''development-reviewer''}" for svc
    using after(1) system_inv_reviewers [of svc ?svc env] that reviewers by simp
  then have "kept_between env ?w" using after(2) by (simp add: kept_between_def)
  then show ?thesis by (simp add: deploy_def Inr)
qed

lemma kept_deploy_all: "identifiers_valid env \<Longrightarrow> kept_between env w \<Longrightarrow> kept_between env (deploy_all env dps w)"
  unfolding deploy_all_def by (induction dps arbitrary: w) (auto intro: kept_deploy)

lemma kept_empty:
  assumes "store w = empty_db" and "at_rest w = w" and "executed w = []"
  shows "kept_between env w"
proof -
  have "sound_db env svc empty_db" for svc by (rule sound_empty)
  then show ?thesis using assms
    by (simp add: kept_between_def system_inv_def in_flight_def) (simp add: catalogued_actions_def empty_db_def)
qed

text \<open>C28: however often the application is started on a database that was empty at first, whatever
  settings and files each start has, and whatever it is then asked to do, over HTTP, by the recovery
  command and by evaluation runs, in any order and number: no action was handed to the executor
  twice, every action that was is the one stored under its identifier, is defined in the initial
  catalog for a target of its type and with parameters that its definition accepts, and was approved
  by the one configured reviewer under its digest, and the database satisfies every constraint of the
  schema.\<close>

theorem deployed_application_is_safe:
  assumes "identifiers_valid env" and "store w0 = empty_db" and "at_rest w0 = w0" and "executed w0 = []"
  shows "distinct (map action_id (executed (deploy_all env dps w0))) \<and> valid_db (store (deploy_all env dps w0))
    \<and> (\<forall>a \<in> set (executed (deploy_all env dps w0)).
         (\<exists>row. find_action (action_id a) (store (deploy_all env dps w0)) = Some row \<and> row_action row = a)
         \<and> catalogued_action the_catalog a
         \<and> (\<exists>ap. find_approval (action_id a) (store (deploy_all env dps w0)) = Some ap
              \<and> decision ap = Approve \<and> reviewer_id ap = ''development-reviewer''
              \<and> ap_action_digest ap = digest (sha256 env) a))"
proof -
  let ?w = "deploy_all env dps w0"
  define svc where "svc = \<lparr>svc_catalog = the_catalog, svc_executor = SimulatedActionExecutor,
    svc_authorization = {''development-reviewer''}, approval_lifetime = 0\<rparr>"
  then have reviewers: "svc_authorization svc = {''development-reviewer''}" by simp
  have kept: "catalogued_actions the_catalog (store ?w)" "system_inv env svc \<lparr>sys_world = ?w, tasks = []\<rparr>"
    using kept_deploy_all [OF assms(1) kept_empty [OF assms(2-4)], of dps] reviewers by (simp_all add: kept_between_def)
  then have inv: "distinct (map action_id (executed ?w))" "sound_db env svc (store ?w)"
      "\<forall>a \<in> set (executed ?w). traced (store ?w) a"
    by (simp_all add: system_inv_def in_flight_def)
  then have "valid_db (store ?w)" by (simp add: sound_db_def)
  then show ?thesis
    using inv performed_approved [OF inv(2)] executed_catalogued [OF kept(1)] by (auto simp: reviewers traced_def)
qed

subsection \<open>Concrete uses\<close>

text \<open>After a run has recommended an action, two requests of a reviewer approve and execute it.\<close>

definition triaged_system :: system where
  "triaged_system = empty_system\<lparr>sys_world :=
     snd (run sample_env sample_orchestrator sample_alert ''key-2'' ''exec-2'' ''corr-2'' (world_of empty_db))\<rparr>"

definition review_deps :: app_dependencies where
  "review_deps = sample_deps (Some \<lparr>principal_id = ''rev'', role = REVIEWER, development_only = True\<rparr>)"

definition review_requests :: "http_request list" where
  "review_requests = [sample_request (PostApprove ''id-'' (Accepted ''agreed'')), sample_request (PostExecute ''id-'' (Accepted ()))]"

lemma review_deps_sels: "dep_orchestrator review_deps = sample_orchestrator" "dep_service review_deps = sample_service"
  by (simp_all add: review_deps_def sample_deps_def)

lemma triaged_reachable: "reachable sample_env sample_orchestrator sample_service triaged_system"
proof -
  have "on_path sample_env sample_orchestrator sample_service (world_of empty_db)
      (snd (run sample_env sample_orchestrator sample_alert ''key-2'' ''exec-2'' ''corr-2'' (world_of empty_db)))"
    by (rule framedD [OF path_calls(2)])
  then show ?thesis
    using on_path_reachable [OF empty_reachable, of sample_env sample_orchestrator sample_service]
    by (simp add: triaged_system_def empty_system_def)
qed

lemma review_served:
  "snd (serve sample_env review_deps (sample_request (PostApprove ''id-'' (Accepted ''agreed''))) w)
     = snd (decide sample_env sample_service ''id-'' ''rev'' ''agreed'' Approve w)"
  "snd (serve sample_env review_deps (sample_request (PostExecute ''id-'' (Accepted ()))) w)
     = snd (Approval_Workflow.execute sample_env sample_service ''id-'' ''rev'' w)"
proof -
  have "DecisionRequest ''agreed'' = Some ''agreed''" by code_simp
  then show "snd (serve sample_env review_deps (sample_request (PostApprove ''id-'' (Accepted ''agreed''))) w)
      = snd (decide sample_env sample_service ''id-'' ''rev'' ''agreed'' Approve w)"
    "snd (serve sample_env review_deps (sample_request (PostExecute ''id-'' (Accepted ()))) w)
      = snd (Approval_Workflow.execute sample_env sample_service ''id-'' ''rev'' w)"
    by (simp_all add: serve_def request_size_limit_def sample_request_def review_deps_def sample_deps_def snd_handled
        approve_action_def decide_action_def execute_action_def approve_def json_body_def guarded valid_body_def valid_value_def
        sequence_eqs snd_app_ret may_review_def sample_service_def Let_def)
qed

lemma review_executed: "executed (serve_all sample_env review_deps review_requests (sys_world triaged_system)) = [sample_accepted]"
proof -
  have "triaged (sys_world triaged_system)"
    using wp_returns [OF sample_triage_wp] by (auto simp: triaged_system_def empty_system_def)
  from wp_returns [OF sample_decide_wp [OF this]] execute_runs show ?thesis
    by (auto simp: serve_all_def review_requests_def review_served)
qed

theorem http_requests_are_system_paths_witness:
  "reachable sample_env sample_orchestrator sample_service
     (triaged_system\<lparr>sys_world := serve_all sample_env review_deps review_requests (sys_world triaged_system)\<rparr>)
   \<and> executed (serve_all sample_env review_deps review_requests (sys_world triaged_system)) = [sample_accepted]"
  using http_requests_are_system_paths [of sample_env review_deps triaged_system review_requests] triaged_reachable
    review_executed by (simp add: review_deps_sels)

text \<open>A day of the application with its default settings: an alert, a listing, a refused execution, a recovery.\<close>

definition sample_entries :: "entry list" where
  "sample_entries = [Http_Entry (sample_request (PostAlert (Accepted synthetic_alert) (Some ''key-1''))),
     Http_Entry (sample_request ListAlerts), Http_Entry (sample_request (PostExecute ''id-1'' (Accepted ()))),
     Program_Entry True False]"

definition sample_deployments :: "deployment list" where
  "sample_deployments = [\<lparr>dp_externals = sample_externals, dp_settings = default_settings, dp_entries = sample_entries\<rparr>,
     \<lparr>dp_externals = sample_externals, dp_settings = default_settings\<lparr>st_environment := EnvProduction\<rparr>, dp_entries = []\<rparr>,
     \<lparr>dp_externals = sample_externals, dp_settings = default_settings, dp_entries = [Program_Entry True False]\<rparr>]"

theorem deployed_application_is_safe_witness:
  "distinct (map action_id (executed (deploy_all composed_env sample_deployments (world_of empty_db))))
     \<and> valid_db (store (deploy_all composed_env sample_deployments (world_of empty_db)))"
proof -
  have ids: "identifiers_valid composed_env"
    by (simp add: identifiers_valid_def composed_env_def) code_simp
  show ?thesis
    using deployed_application_is_safe [OF ids, of "world_of empty_db" sample_deployments]
    by (auto simp: at_rest_def world_of_def)
qed

end
