(* ===== verification/Migration_Correct.thy ===== *)
theory Migration_Correct
  imports Migrations Transactions "HOL-Library.Sublist"
begin

text \<open>
  The migrations are correct: the upgraded schema is the one that the classes map, a downgrade
  undoes its upgrade on any data, and the keys and references of the upgraded schema are the
  constraints under which the store was modelled.
\<close>

subsection \<open>Well-formed databases\<close>

definition wf_table :: "db_table \<Rightarrow> bool" where
  "wf_table t \<longleftrightarrow> distinct (map col_name (tab_columns t)) \<and> list_all (\<lambda>r. length r = length (tab_columns t)) (tab_rows t)"

text \<open>References name tables that exist.\<close>

definition closed_references :: "database \<Rightarrow> bool" where
  "closed_references db \<longleftrightarrow> list_all (\<lambda>t. list_all (\<lambda>r. has_table (fst r) db) (references (tab_def t))) db"

definition wf_database :: "database \<Rightarrow> bool" where
  "wf_database db \<longleftrightarrow> distinct (map tab_name db) \<and> list_all wf_table db \<and> closed_references db"

subsection \<open>Undoing an operation\<close>

fun undo :: "migration_op \<Rightarrow> migration_op option" where
  "undo (CreateTable t) = Some (DropTable (tbl_name t))"
| "undo (AddColumn n c) = Some (DropColumn n (col_name c))"
| "undo (CreateUniqueIndex ix n cs) = Some (DropIndex ix n)"
| "undo _ = None"

lemma alter_table_Some:
  "alter_table n f db = Some db' \<Longrightarrow> \<exists>pre t t' post. db = pre @ t # post \<and> tab_name t = n \<and> f t = Some t'
     \<and> db' = pre @ t' # post \<and> n \<notin> set (map tab_name pre)"
proof (induction db arbitrary: db')
  case (Cons x db)
  show ?case
  proof (cases "tab_name x = n")
    case True
    then have "\<exists>t' . x # db = [] @ x # db \<and> tab_name x = n \<and> f x = Some t' \<and> db' = [] @ t' # db \<and> n \<notin> set (map tab_name [])"
      using Cons.prems by auto
    then show ?thesis by blast
  next
    case False
    then obtain d where d: "alter_table n f db = Some d" "db' = x # d" using Cons.prems by auto
    obtain pre t t' post where "db = pre @ t # post" "tab_name t = n" "f t = Some t'" "d = pre @ t' # post" "n \<notin> set (map tab_name pre)"
      using Cons.IH [OF d(1)] by blast
    then have "x # db = (x # pre) @ t # post \<and> tab_name t = n \<and> f t = Some t' \<and> db' = (x # pre) @ t' # post
        \<and> n \<notin> set (map tab_name (x # pre))" using d(2) False by simp
    then show ?thesis by blast
  qed
qed simp

lemma alter_table_SomeE:
  assumes "alter_table n f db = Some db'"
  obtains pre t t' post where "db = pre @ t # post" "tab_name t = n" "f t = Some t'" "db' = pre @ t' # post" "n \<notin> set (map tab_name pre)"
  using alter_table_Some [OF assms] by blast

lemma alter_table_at:
  "n \<notin> set (map tab_name pre) \<Longrightarrow> tab_name t = n \<Longrightarrow> alter_table n f (pre @ t # post) = map_option (\<lambda>t'. pre @ t' # post) (f t)"
  by (induction pre) (auto simp: option.map_comp comp_def)

lemma column_index_fresh: "c \<notin> set (map col_name cs) \<Longrightarrow> column_index c (cs @ [x]) = (if col_name x = c then length cs else Suc (length cs))"
  by (induction cs) (auto simp: column_index_def)

lemma remove_last: "remove_nth (length xs) (xs @ [x]) = xs"
  by (simp add: remove_nth_def)

lemma drop_added_column:
  assumes "wf_table t" and "add_column c t = Some t'"
  shows "drop_column (col_name c) t' = Some t" and "wf_table t'" and "tab_name t' = tab_name t"
    and "references (tab_def t') = references (tab_def t) @ (case col_reference c of None \<Rightarrow> [] | Some r \<Rightarrow> [r])"
proof -
  have fresh: "col_name c \<notin> set (map col_name (tab_columns t))"
    and t': "t' = t\<lparr>tab_def := (tab_def t)\<lparr>tbl_columns := tab_columns t @ [c]\<rparr>, tab_rows := map (\<lambda>r. r @ [col_default c]) (tab_rows t)\<rparr>"
    using assms(2) by (auto simp: add_column_def has_column_def split: if_splits)
  have idx: "column_index (col_name c) (tab_columns t @ [c]) = length (tab_columns t)" using column_index_fresh [OF fresh] by simp
  have rows: "map (remove_nth (length (tab_columns t)) \<circ> (\<lambda>r. r @ [col_default c])) (tab_rows t) = tab_rows t"
    using assms(1) by (intro map_idI) (auto simp: wf_table_def list_all_iff remove_last [symmetric, of "_ :: string option list"] remove_nth_def)
  show "drop_column (col_name c) t' = Some t"
    by (simp add: drop_column_def t' has_column_def Let_def idx remove_last rows)
  show "wf_table t'" using assms(1) fresh by (auto simp: wf_table_def t' list_all_iff)
  show "tab_name t' = tab_name t" by (simp add: t')
  show "references (tab_def t') = references (tab_def t) @ (case col_reference c of None \<Rightarrow> [] | Some r \<Rightarrow> [r])"
    by (auto simp: t' references_def List.map_filter_def split: option.split)
qed

lemma drop_added_index:
  assumes "ix \<notin> fst ` set (tbl_indexes (tab_def t))" and "add_unique_index ix cs t = Some t'"
  shows "drop_index ix t' = Some t" and "wf_table t' = wf_table t" and "tab_name t' = tab_name t"
    and "references (tab_def t') = references (tab_def t)"
proof -
  have t': "t' = t\<lparr>tab_def := (tab_def t)\<lparr>tbl_indexes := tbl_indexes (tab_def t) @ [(ix, cs)]\<rparr>\<rparr>"
    using assms(2) by (auto simp: add_unique_index_def split: if_splits)
  have "filter (\<lambda>i. fst i \<noteq> ix) (tbl_indexes (tab_def t)) = tbl_indexes (tab_def t)"
    using assms(1) by (auto simp: filter_id_conv)
  then show "drop_index ix t' = Some t" by (simp add: t' drop_index_def)
  show "wf_table t' = wf_table t" "tab_name t' = tab_name t" "references (tab_def t') = references (tab_def t)"
    by (simp_all add: t' wf_table_def references_def)
qed

lemma closed_same_references:
  assumes "closed_references (pre @ t # post)" and "tab_name t' = tab_name t" and "references (tab_def t') = references (tab_def t)"
  shows "closed_references (pre @ t' # post)"
  using assms by (simp add: closed_references_def has_table_def)

text \<open>The operations that the upgrades use; an added column refers to nothing.\<close>

fun upgrading :: "migration_op \<Rightarrow> bool" where
  "upgrading (CreateTable t) = distinct (map col_name (tbl_columns t))"
| "upgrading (AddColumn n c) = (col_reference c = None)"
| "upgrading (CreateUniqueIndex ix n cs) = True"
| "upgrading _ = False"

lemma undo_op:
  assumes wf: "wf_database db" and op: "apply_op op db = Some db'" and up: "upgrading op"
  shows "\<exists>inv_op. undo op = Some inv_op \<and> apply_op inv_op db' = Some db \<and> wf_database db'"
proof (cases op)
  case (CreateTable t)
  let ?new = "\<lparr>tab_def = t, tab_rows = []\<rparr>"
  have fresh: "\<not> has_table (tbl_name t) db" and db': "db' = db @ [?new]"
    and refs: "list_all (resolves (db @ [?new])) (references t)"
    using op by (auto simp: CreateTable split: if_splits)
  have known: "has_table (fst r) (db @ [?new])" if "resolves (db @ [?new]) r" for r
    using that by (force simp: resolves_def has_table_def list_ex_iff)
  have unreferenced: "tbl_name t \<notin> fst ` set (references (tab_def x))" if "x \<in> set db" for x
    using wf fresh that by (fastforce simp: wf_database_def closed_references_def list_all_iff)
  have "filter (\<lambda>x. tab_name x \<noteq> tbl_name t) db' = db"
    using fresh by (force simp: db' has_table_def filter_id_conv)
  moreover have "has_table (tbl_name t) db'" by (simp add: db' has_table_def)
  moreover have "\<not> list_ex (\<lambda>x. tab_name x \<noteq> tbl_name t \<and> tbl_name t \<in> fst ` set (references (tab_def x))) db'"
    using unreferenced by (auto simp: db' list_ex_iff)
  moreover have "wf_database db'"
    using wf fresh refs known up
    by (auto simp: wf_database_def db' has_table_def wf_table_def closed_references_def list_all_iff CreateTable)
  ultimately show ?thesis by (simp add: CreateTable)
next
  case (AddColumn n c)
  then obtain pre t t' post where s: "db = pre @ t # post" "tab_name t = n" "add_column c t = Some t'"
      "db' = pre @ t' # post" "n \<notin> set (map tab_name pre)"
    using op by (auto elim: alter_table_SomeE)
  have "wf_table t" using wf by (simp add: s wf_database_def)
  note d = drop_added_column [OF this s(3)]
  have "closed_references db'" unfolding s(4)
    by (rule closed_same_references [of pre t]) (use wf d(3,4) up in \<open>simp_all add: s wf_database_def AddColumn\<close>)
  then have "wf_database db'" using wf d(2,3) by (simp add: wf_database_def s)
  moreover have "apply_op (DropColumn n (col_name c)) db' = Some db"
    using d(1,3) s by (simp add: alter_table_at)
  ultimately show ?thesis by (simp add: AddColumn)
next
  case (CreateUniqueIndex ix n cs)
  then have ix: "ix \<notin> set (index_names db)" and "alter_table n (add_unique_index ix cs) db = Some db'"
    using op by (auto split: if_splits)
  then obtain pre t t' post where s: "db = pre @ t # post" "tab_name t = n" "add_unique_index ix cs t = Some t'"
      "db' = pre @ t' # post" "n \<notin> set (map tab_name pre)"
    by (auto elim: alter_table_SomeE)
  have "ix \<notin> fst ` set (tbl_indexes (tab_def t))" using ix by (auto simp: s index_names_def)
  note d = drop_added_index [OF this s(3)]
  have "closed_references db'" unfolding s(4)
    by (rule closed_same_references [of pre t]) (use wf d(3,4) in \<open>simp_all add: s wf_database_def\<close>)
  then have "wf_database db'" using wf d(2,3) by (simp add: wf_database_def s)
  moreover have "apply_op (DropIndex ix n) db' = Some db"
    using d(1,3) s by (simp add: alter_table_at)
  ultimately show ?thesis by (simp add: CreateUniqueIndex)
qed (use up in simp_all)

lemma run_ops_append: "run_ops (xs @ ys) db = (case run_ops xs db of None \<Rightarrow> None | Some d \<Rightarrow> run_ops ys d)"
  by (induction xs arbitrary: db) (auto split: option.split)

lemma undo_ops:
  assumes "wf_database db" and "run_ops ops db = Some db'" and "list_all upgrading ops"
  shows "run_ops (rev (map (\<lambda>op. the (undo op)) ops)) db' = Some db \<and> wf_database db'"
  using assms
proof (induction ops arbitrary: db)
  case (Cons op ops)
  obtain d where d: "apply_op op db = Some d" "run_ops ops d = Some db'" using Cons.prems(2) by (auto split: option.splits)
  obtain inv_op where b: "undo op = Some inv_op" "apply_op inv_op d = Some db" "wf_database d"
    using undo_op [OF Cons.prems(1) d(1)] Cons.prems(3) by auto
  then show ?case using Cons.IH [OF b(3) d(2)] Cons.prems(3) by (simp add: run_ops_append)
qed simp

subsection \<open>No row is lost\<close>

definition rows_kept :: "database \<Rightarrow> database \<Rightarrow> bool" where
  "rows_kept db db' \<longleftrightarrow> (\<forall>t \<in> set db. \<exists>t' \<in> set db'. tab_name t' = tab_name t
     \<and> list_all2 prefix (tab_rows t) (tab_rows t'))"

lemma prefixes_refl: "list_all2 prefix xs (xs :: 'x list list)"
  by (rule list.rel_refl) simp

lemma prefixes_trans: "list_all2 prefix xs ys \<Longrightarrow> list_all2 prefix ys zs \<Longrightarrow> list_all2 prefix xs (zs :: 'x list list)"
  using prefix_order.trans by (rule list_all2_trans)

lemma rows_kept_trans: "rows_kept a b \<Longrightarrow> rows_kept b c \<Longrightarrow> rows_kept a c"
  unfolding rows_kept_def by (metis prefixes_trans)

lemma rows_kept_refl: "rows_kept db db"
  using prefixes_refl by (auto simp: rows_kept_def)

lemma rows_kept_superset: "set db \<subseteq> set db' \<Longrightarrow> rows_kept db db'"
  using prefixes_refl unfolding rows_kept_def by blast

lemma rows_kept_table:
  assumes "tab_name t' = tab_name t" and "list_all2 prefix (tab_rows t) (tab_rows t')"
  shows "rows_kept (pre @ t # post) (pre @ t' # post)"
  using assms prefixes_refl unfolding rows_kept_def by auto

lemma op_keeps_rows:
  assumes "apply_op op db = Some db'" and "upgrading op"
  shows "rows_kept db db'"
proof (cases op)
  case (CreateTable t)
  then show ?thesis using assms(1) by (auto intro: rows_kept_superset split: if_splits)
next
  case (AddColumn n c)
  then obtain pre t t' post where s: "db = pre @ t # post" "add_column c t = Some t'" "db' = pre @ t' # post"
    using assms(1) by (auto elim: alter_table_SomeE)
  then show ?thesis by (auto simp: add_column_def list_all2_conv_all_nth intro!: rows_kept_table split: if_splits)
next
  case (CreateUniqueIndex ix n cs)
  then obtain pre t t' post where s: "db = pre @ t # post" "add_unique_index ix cs t = Some t'" "db' = pre @ t' # post"
    using assms(1) by (auto elim: alter_table_SomeE split: if_splits)
  then show ?thesis by (auto simp: add_unique_index_def list_all2_conv_all_nth intro!: rows_kept_table split: if_splits)
qed (use assms(2) in simp_all)

lemma ops_keep_rows: "run_ops ops db = Some db' \<Longrightarrow> list_all upgrading ops \<Longrightarrow> rows_kept db db'"
proof (induction ops arbitrary: db)
  case (Cons op ops)
  then obtain d where "apply_op op db = Some d" "run_ops ops d = Some db'" by (auto split: option.splits)
  then show ?case using Cons rows_kept_trans [OF op_keeps_rows] by auto
qed (simp add: rows_kept_refl)

subsection \<open>The revisions of the repository\<close>

lemma revision_downgrades:
  "downgrade revision_0001 = rev (map (\<lambda>op. the (undo op)) (upgrade revision_0001))"
  "downgrade revision_0002 = rev (map (\<lambda>op. the (undo op)) (upgrade revision_0002))"
  "downgrade revision_0003 = rev (map (\<lambda>op. the (undo op)) (upgrade revision_0003))"
  "downgrade revision_0004 = rev (map (\<lambda>op. the (undo op)) (upgrade revision_0004))"
  by code_simp+

lemma revision_upgrades:
  "list_all upgrading (upgrade revision_0001)" "list_all upgrading (upgrade revision_0002)"
  "list_all upgrading (upgrade revision_0003)" "list_all upgrading (upgrade revision_0004)"
  by code_simp+

lemma revision_shapes:
  assumes "r \<in> set revisions"
  shows "downgrade r = rev (map (\<lambda>op. the (undo op)) (upgrade r))" and "list_all upgrading (upgrade r)"
  using assms revision_downgrades revision_upgrades by (auto simp only: revisions_def list.set insert_iff empty_iff)

text \<open>C37: a migration loses nothing. On any well-formed database on which a revision can be applied,
  every table keeps its rows, each extended by the new columns at most, and the downgrade of the
  revision gives the database back, rows included.\<close>

theorem downgrade_undoes_upgrade:
  assumes "r \<in> set revisions" and "wf_database db" and "run_ops (upgrade r) db = Some db'"
  shows "run_ops (downgrade r) db' = Some db \<and> wf_database db' \<and> rows_kept db db'"
  using undo_ops [OF assms(2,3) revision_shapes(2) [OF assms(1)]] ops_keep_rows [OF assms(3) revision_shapes(2) [OF assms(1)]]
  by (simp add: revision_shapes(1) [OF assms(1)])

subsection \<open>The upgraded schema is the mapped one\<close>

definition column_type :: "table_def list \<Rightarrow> column \<Rightarrow> sql_type option" where
  "column_type defs c = (case (col_type c, col_reference c) of
     (Some ty, _) \<Rightarrow> Some ty
   | (None, Some (tab, col)) \<Rightarrow>
       Option.bind (find (\<lambda>t. tbl_name t = tab) defs) (\<lambda>t.
       Option.bind (find (\<lambda>x. col_name x = col) (tbl_columns t)) col_type)
   | (None, None) \<Rightarrow> None)"

text \<open>What a schema says of a table: its columns by name, its checks, and its keys in whatever form they are declared.\<close>

definition column_view :: "table_def list \<Rightarrow> column \<Rightarrow> string \<times> sql_type option \<times> bool \<times> (string \<times> string) option" where
  "column_view defs c = (col_name c, column_type defs c, col_nullable c, col_reference c)"

definition keys_of_table :: "table_def \<Rightarrow> string list list" where
  "keys_of_table t =
     [map col_name (filter col_primary (tbl_columns t))] @ map (\<lambda>c. [col_name c]) (filter col_unique (tbl_columns t))
     @ map snd (tbl_uniques t) @ map snd (tbl_indexes t)"

definition table_view where
  "table_view defs t = (tbl_name t, sort_key fst (map (column_view defs) (tbl_columns t)), tbl_checks t,
     remdups (sort (keys_of_table t)))"

definition schema_view where
  "schema_view defs = sort_key fst (map (table_view defs) defs)"

definition head_schema :: "table_def list" where
  "head_schema = (case upgrade_head [] of None \<Rightarrow> [] | Some db \<Rightarrow> map tab_def db)"

lemma upgrade_succeeds: "upgrade_head [] \<noteq> None"
  by code_simp

lemma head_view: "schema_view head_schema = schema_view mapped_tables"
  by code_simp

subsection \<open>The constraints of the store\<close>

lemma head_wf: "wf_database (the (upgrade_head []))"
  by code_simp

lemma head_checks:
  "list_ex (\<lambda>t. tbl_name t = ''approval_decisions''
     \<and> map fst (tbl_checks t) = [''ck_approval_expiry_semantics'', ''ck_approval_expiry_after_decision'']) head_schema"
  by code_simp

text \<open>The keys of a table and its references, by column.\<close>

type_synonym constraints = "string \<times> string list list \<times> (string \<times> string \<times> string) list"

definition constraints_of :: "table_def \<Rightarrow> constraints" where
  "constraints_of t = (tbl_name t, keys_of_table t,
     List.map_filter (\<lambda>c. map_option (\<lambda>r. (col_name c, r)) (col_reference c)) (tbl_columns t))"

definition distinct_keys :: "string list \<Rightarrow> (string \<rightharpoonup> string) list \<Rightarrow> bool" where
  "distinct_keys cs rows \<longleftrightarrow> distinct (filter (\<lambda>k. None \<notin> set k) (map (\<lambda>r. map r cs) rows))"

definition refers :: "string \<Rightarrow> (string \<rightharpoonup> string) list \<Rightarrow> string \<Rightarrow> (string \<rightharpoonup> string) list \<Rightarrow> bool" where
  "refers c rows c' targets \<longleftrightarrow> (\<forall>r \<in> set rows. r c = None \<or> r c \<in> (\<lambda>x. x c') ` set targets)"

text \<open>A content of the tables, rows as maps from columns to values, satisfies the constraints.\<close>

fun satisfies :: "(string \<Rightarrow> (string \<rightharpoonup> string) list) \<Rightarrow> constraints \<Rightarrow> bool" where
  "satisfies content (n, ks, refs) \<longleftrightarrow> list_all (\<lambda>k. distinct_keys k (content n)) ks
     \<and> list_all (\<lambda>(c, n', c'). refers c (content n) c' (content n')) refs"

text \<open>The constrained columns of the rows that the store holds.\<close>

definition execution_cells :: "TriageExecutionRecord \<Rightarrow> string \<rightharpoonup> string" where
  "execution_cells x = [''execution_id'' \<mapsto> ex_execution_id x, ''idempotency_key'' \<mapsto> idempotency_key x,
     ''alert_id'' \<mapsto> ex_alert_id x](''predecessor_execution_id'' := predecessor_execution_id x)"

definition content :: "db \<Rightarrow> string \<Rightarrow> (string \<rightharpoonup> string) list" where
  "content d n =
     (if n = ''alerts'' then
        map (\<lambda>x. [''alert_id'' \<mapsto> row_alert_id x, ''payload_digest'' \<mapsto> row_payload_digest x]) (alerts d)
      else if n = ''triage_executions'' then map execution_cells (triage_executions d)
      else if n = ''tool_invocations'' then
        map (\<lambda>x. [''invocation_id'' \<mapsto> ir_call_id (row_invocation x), ''execution_id'' \<mapsto> ir_execution_id (row_invocation x)])
          (tool_invocations d)
      else if n = ''triage_results'' then
        map (\<lambda>x. [''result_id'' \<mapsto> row_result_id x, ''execution_id'' \<mapsto> row_result_execution x, ''alert_id'' \<mapsto> row_result_alert x])
          (triage_results d)
      else if n = ''recommended_actions'' then
        map (\<lambda>x. [''action_id'' \<mapsto> row_action_id x, ''execution_id'' \<mapsto> row_action_execution x]) (recommended_actions_table d)
      else if n = ''approval_decisions'' then
        map (\<lambda>x. [''approval_id'' \<mapsto> approval_id x, ''action_id'' \<mapsto> ap_action_id x]) (approval_decisions d)
      else if n = ''action_executions'' then
        map (\<lambda>x. [''action_execution_id'' \<mapsto> action_execution_id x, ''action_id'' \<mapsto> ax_action_id x]) (action_executions d)
      else if n = ''audit_events'' then map (\<lambda>x. [''event_id'' \<mapsto> event_id x]) (audit_events d)
      else if n = ''evaluation_runs'' then map (\<lambda>x. [''run_id'' \<mapsto> run_id x]) (evaluation_runs d)
      else if n = ''evaluation_case_results'' then
        map (\<lambda>x. [''case_id'' \<mapsto> case_id x, ''run_id'' \<mapsto> case_run_id x, ''scenario_id'' \<mapsto> case_scenario_id x,
                  ''triage_execution_id'' \<mapsto> case_execution_id x]) (evaluation_case_results d)
      else [])"

lemma distinct_keys_one: "(\<And>x. g x c = Some (f x)) \<Longrightarrow> distinct_keys [c] (map g xs) = distinct (map f xs)"
  by (simp add: distinct_keys_def distinct_map inj_on_def comp_def)

lemma distinct_keys_two:
  "(\<And>x. g x b = Some (f x)) \<Longrightarrow> (\<And>x. g x c = Some (h x)) \<Longrightarrow> distinct_keys [b, c] (map g xs) = distinct (map (\<lambda>x. (f x, h x)) xs)"
  by (simp add: distinct_keys_def distinct_map inj_on_def comp_def)

lemma refers_required:
  "(\<And>x. g x c = Some (f x)) \<Longrightarrow> (\<And>y. h y c' = Some (k y)) \<Longrightarrow> refers c (map g xs) c' (map h ys) \<longleftrightarrow> f ` set xs \<subseteq> k ` set ys"
  by (auto simp: refers_def image_iff)

lemma refers_optional:
  "(\<And>x. g x c = f x) \<Longrightarrow> (\<And>y. h y c' = Some (k y)) \<Longrightarrow>
     refers c (map g xs) c' (map h ys) \<longleftrightarrow> (\<forall>x \<in> set xs. \<forall>p. f x = Some p \<longrightarrow> p \<in> k ` set ys)"
proof -
  assume g: "\<And>x. g x c = f x" and h: "\<And>y. h y c' = Some (k y)"
  have "(f x = None \<or> f x \<in> (\<lambda>y. h y c') ` set ys) = (\<forall>p. f x = Some p \<longrightarrow> p \<in> k ` set ys)" for x
    using h by (cases "f x") auto
  then show ?thesis by (simp add: refers_def g image_image)
qed

lemma head_constraints:
  "map constraints_of head_schema =
     [(''alerts'', [[''alert_id''], [''payload_digest'']], []),
      (''triage_executions'', [[''execution_id''], [''idempotency_key'']],
        [(''alert_id'', ''alerts'', ''alert_id''), (''predecessor_execution_id'', ''triage_executions'', ''execution_id'')]),
      (''tool_invocations'', [[''invocation_id'']], [(''execution_id'', ''triage_executions'', ''execution_id'')]),
      (''triage_results'', [[''result_id''], [''execution_id'']],
        [(''execution_id'', ''triage_executions'', ''execution_id''), (''alert_id'', ''alerts'', ''alert_id'')]),
      (''recommended_actions'', [[''action_id'']], [(''execution_id'', ''triage_executions'', ''execution_id'')]),
      (''approval_decisions'', [[''approval_id''], [''action_id'']], [(''action_id'', ''recommended_actions'', ''action_id'')]),
      (''action_executions'', [[''action_execution_id''], [''action_id'']],
        [(''action_id'', ''recommended_actions'', ''action_id'')]),
      (''audit_events'', [[''event_id'']], []), (''evaluation_runs'', [[''run_id'']], []),
      (''evaluation_case_results'', [[''case_id''], [''run_id'', ''scenario_id'']],
        [(''run_id'', ''evaluation_runs'', ''run_id''), (''triage_execution_id'', ''triage_executions'', ''execution_id'')])]"
  by code_simp

lemma content_simps:
  "content d ''alerts'' = map (\<lambda>x. [''alert_id'' \<mapsto> row_alert_id x, ''payload_digest'' \<mapsto> row_payload_digest x]) (alerts d)"
  "content d ''triage_executions'' = map execution_cells (triage_executions d)"
  "content d ''tool_invocations'' =
     map (\<lambda>x. [''invocation_id'' \<mapsto> ir_call_id (row_invocation x), ''execution_id'' \<mapsto> ir_execution_id (row_invocation x)]) (tool_invocations d)"
  "content d ''triage_results'' =
     map (\<lambda>x. [''result_id'' \<mapsto> row_result_id x, ''execution_id'' \<mapsto> row_result_execution x, ''alert_id'' \<mapsto> row_result_alert x]) (triage_results d)"
  "content d ''recommended_actions'' =
     map (\<lambda>x. [''action_id'' \<mapsto> row_action_id x, ''execution_id'' \<mapsto> row_action_execution x]) (recommended_actions_table d)"
  "content d ''approval_decisions'' = map (\<lambda>x. [''approval_id'' \<mapsto> approval_id x, ''action_id'' \<mapsto> ap_action_id x]) (approval_decisions d)"
  "content d ''action_executions'' =
     map (\<lambda>x. [''action_execution_id'' \<mapsto> action_execution_id x, ''action_id'' \<mapsto> ax_action_id x]) (action_executions d)"
  "content d ''audit_events'' = map (\<lambda>x. [''event_id'' \<mapsto> event_id x]) (audit_events d)"
  "content d ''evaluation_runs'' = map (\<lambda>x. [''run_id'' \<mapsto> run_id x]) (evaluation_runs d)"
  "content d ''evaluation_case_results'' =
     map (\<lambda>x. [''case_id'' \<mapsto> case_id x, ''run_id'' \<mapsto> case_run_id x, ''scenario_id'' \<mapsto> case_scenario_id x,
               ''triage_execution_id'' \<mapsto> case_execution_id x]) (evaluation_case_results d)"
  by (simp_all add: content_def)

lemma execution_cells_simps:
  "execution_cells x ''execution_id'' = Some (ex_execution_id x)" "execution_cells x ''idempotency_key'' = Some (idempotency_key x)"
  "execution_cells x ''alert_id'' = Some (ex_alert_id x)" "execution_cells x ''predecessor_execution_id'' = predecessor_execution_id x"
  by (simp_all add: execution_cells_def)

lemma case_key_pair: "case_key = (\<lambda>x. (case_run_id x, case_scenario_id x))"
  by (simp add: fun_eq_iff case_key_def)

lemmas constraint_simps = content_simps execution_cells_simps distinct_keys_one distinct_keys_two refers_required refers_optional

lemma table_constraints:
  "satisfies (content d) (''alerts'', [[''alert_id''], [''payload_digest'']], []) \<longleftrightarrow> valid_alerts d"
  "satisfies (content d) (''triage_executions'', [[''execution_id''], [''idempotency_key'']],
     [(''alert_id'', ''alerts'', ''alert_id''), (''predecessor_execution_id'', ''triage_executions'', ''execution_id'')])
   \<longleftrightarrow> valid_executions d"
  "satisfies (content d) (''tool_invocations'', [[''invocation_id'']], [(''execution_id'', ''triage_executions'', ''execution_id'')])
   \<longleftrightarrow> valid_invocations d"
  "satisfies (content d) (''triage_results'', [[''result_id''], [''execution_id'']],
     [(''execution_id'', ''triage_executions'', ''execution_id''), (''alert_id'', ''alerts'', ''alert_id'')]) \<longleftrightarrow> valid_results d"
  "satisfies (content d) (''recommended_actions'', [[''action_id'']], [(''execution_id'', ''triage_executions'', ''execution_id'')])
   \<longleftrightarrow> valid_actions d"
  "satisfies (content d) (''approval_decisions'', [[''approval_id''], [''action_id'']],
     [(''action_id'', ''recommended_actions'', ''action_id'')]) \<and> list_all approval_check (approval_decisions d) \<longleftrightarrow> valid_approvals d"
  "satisfies (content d) (''action_executions'', [[''action_execution_id''], [''action_id'']],
     [(''action_id'', ''recommended_actions'', ''action_id'')]) \<longleftrightarrow> valid_action_executions d"
  "satisfies (content d) (''audit_events'', [[''event_id'']], []) \<longleftrightarrow> valid_audit d"
  "satisfies (content d) (''evaluation_runs'', [[''run_id'']], [])
   \<and> satisfies (content d) (''evaluation_case_results'', [[''case_id''], [''run_id'', ''scenario_id'']],
     [(''run_id'', ''evaluation_runs'', ''run_id''), (''triage_execution_id'', ''triage_executions'', ''execution_id'')])
   \<longleftrightarrow> valid_evaluations d"
  by (simp_all add: valid_defs constraint_simps case_key_pair conj_ac)

lemma store_constraints:
  "list_all (satisfies (content d)) (map constraints_of head_schema) \<and> list_all approval_check (approval_decisions d) \<longleftrightarrow> valid_db d"
  unfolding head_constraints valid_db_def table_constraints [symmetric]
  by (simp only: list.pred_inject simp_thms conj_ac)

text \<open>C36: the migrations build the store that the program works on. From an empty database the revision
  chain applies without a refusal; the schema it ends in is the one that the classes map, column by
  column with type, nullability and reference, and key by key; the two checks of the approvals are
  declared; and its keys and references, with those checks, are exactly the validity of a store.\<close>

theorem migrated_schema_is_the_modelled_store:
  "\<exists>db. upgrade_head [] = Some db \<and> wf_database db
    \<and> schema_view (map tab_def db) = schema_view mapped_tables
    \<and> (\<exists>t \<in> set (map tab_def db). tbl_name t = ''approval_decisions''
         \<and> map fst (tbl_checks t) = [''ck_approval_expiry_semantics'', ''ck_approval_expiry_after_decision''])
    \<and> (list_all (satisfies (content d)) (map constraints_of (map tab_def db)) \<and> list_all approval_check (approval_decisions d)
         \<longleftrightarrow> valid_db d)"
proof -
  obtain db where db: "upgrade_head [] = Some db" using upgrade_succeeds by blast
  then have head: "map tab_def db = head_schema" by (simp add: head_schema_def)
  have "wf_database db" using head_wf by (simp add: db)
  moreover have "\<exists>t \<in> set head_schema. tbl_name t = ''approval_decisions''
      \<and> map fst (tbl_checks t) = [''ck_approval_expiry_semantics'', ''ck_approval_expiry_after_decision'']"
    using head_checks by (simp add: list_ex_iff)
  ultimately show ?thesis
    using db unfolding head [symmetric] using head_view store_constraints [of d] by (intro exI [of _ db]) (simp add: head)
qed

subsection \<open>An example\<close>

text \<open>The evaluation tables with one run, before and after the last revision.\<close>

definition sample_database :: database where
  "sample_database = [\<lparr>tab_def = created_evaluation_runs,
     tab_rows = [map Some [''run-1'', ''1'', ''1.0'', ''v1'', ''1.0.0'', ''demo'', ''1.0.0'', ''t0'', ''t1'', ''{}'']]\<rparr>]"

definition sample_upgraded :: database where
  "sample_upgraded = the (run_ops (upgrade revision_0004) sample_database)"

theorem downgrade_undoes_upgrade_witness:
  "run_ops (downgrade revision_0004) sample_upgraded = Some sample_database \<and> rows_kept sample_database sample_upgraded"
proof -
  have "revision_0004 \<in> set revisions" by (simp add: revisions_def)
  moreover have "wf_database sample_database" by code_simp
  moreover have "run_ops (upgrade revision_0004) sample_database \<noteq> None" by code_simp
  ultimately show ?thesis
    using downgrade_undoes_upgrade [of revision_0004 sample_database sample_upgraded] by (auto simp: sample_upgraded_def)
qed

end
