(* ===== verification/Serialization.thy ===== *)
theory Serialization
  imports Json_Unique "HOL-Library.AList"
begin

text \<open>
  The JSON serialization of reporting values (\<open>serialization.py\<close>). A value is classified by the
  first type test that it passes; a schema model arrives as its JSON dump, a member of an enumeration
  as its value, and instants, dates and decimals as their text. The keys of a mapping are already
  \<open>str(key)\<close>, so two of them can agree.
\<close>

datatype report_value =
    RModel pyval
  | RMapping "(string \<times> report_value) list"
  | RSequence "report_value list"
  | REnum pyval
  | RInstant string
  | RDecimal string
  | RScalar pyval
  | RUnsupported string

text \<open>A list of results is the list of values or the first error.\<close>

fun all_results :: "('e + 'a) list \<Rightarrow> 'e + 'a list" where
  "all_results [] = Inr []"
| "all_results (Inl e # rs) = Inl e"
| "all_results (Inr x # rs) = (case all_results rs of Inl e \<Rightarrow> Inl e | Inr xs \<Rightarrow> Inr (x # xs))"

text \<open>A dictionary comprehension: a repeated key keeps its place and takes the later value.\<close>

definition dict_of :: "(string \<times> 'a) list \<Rightarrow> (string \<times> 'a) list" where
  "dict_of items = foldl (\<lambda>d kv. AList.update (fst kv) (snd kv) d) [] items"

lemma size_report_item [simp]:
  "kv \<in> set kvs \<Longrightarrow> size (snd kv) < Suc (size_list (size_prod (\<lambda>_. 0) size) kvs)"
  by (rule le_imp_less_Suc, erule size_list_estimation') (cases kv, simp)

text \<open>\<open>Inl\<close> is the message of the \<open>TypeError\<close>.\<close>

fun to_jsonable :: "report_value \<Rightarrow> string + pyval" where
  "to_jsonable (RModel dump) = Inr dump"
| "to_jsonable (RMapping kvs) =
     map_sum id (\<lambda>items. PDict (dict_of items))
       (all_results (map (\<lambda>kv. map_sum id (Pair (fst kv)) (to_jsonable (snd kv))) kvs))"
| "to_jsonable (RSequence vs) = map_sum id PList (all_results (map to_jsonable vs))"
| "to_jsonable (REnum v) = Inr v"
| "to_jsonable (RInstant t) = Inr (PStr t)"
| "to_jsonable (RDecimal t) = Inr (PStr t)"
| "to_jsonable (RScalar v) = Inr v"
| "to_jsonable (RUnsupported type) = Inl (''unsupported JSON value type: '' @ type)"

subsection \<open>Indented rendering\<close>

text \<open>A line break followed by the indentation of a nesting level.\<close>

definition new_line :: "nat \<Rightarrow> nat \<Rightarrow> string" where
  "new_line width level = CHR 0x0A # replicate (width * level) (CHR '' '')"

fun render_indented :: "nat \<Rightarrow> string \<Rightarrow> nat \<Rightarrow> pyval \<Rightarrow> string" where
  "render_indented width sep level (PList vs) =
     (if vs = [] then ''[]''
      else ''['' @ new_line width (Suc level)
        @ join ('','' @ new_line width (Suc level)) (map (render_indented width sep (Suc level)) vs)
        @ new_line width level @ '']'')"
| "render_indented width sep level (PTuple vs) =
     (if vs = [] then ''[]''
      else ''['' @ new_line width (Suc level)
        @ join ('','' @ new_line width (Suc level)) (map (render_indented width sep (Suc level)) vs)
        @ new_line width level @ '']'')"
| "render_indented width sep level (PDict kvs) =
     (if kvs = [] then ''{}''
      else ''{'' @ new_line width (Suc level)
        @ join ('','' @ new_line width (Suc level))
            (map (\<lambda>kv. quote True (fst kv) @ sep @ render_indented width sep (Suc level) (snd kv)) kvs)
        @ new_line width level @ ''}'')"
| "render_indented width sep level v = render True v"

text \<open>
  \<open>json.dumps\<close> with an indentation: without one the rendering is compact; an indentation of zero
  breaks lines and keeps the compact separators.
\<close>

definition safe_json_dumps :: "report_value \<Rightarrow> nat option \<Rightarrow> string + string" where
  "safe_json_dumps v width =
     (case to_jsonable v of Inl e \<Rightarrow> Inl e
      | Inr j \<Rightarrow>
          if \<not> serializable j then Inl ''Object is not JSON serializable''
          else Inr (case width of None \<Rightarrow> render True j
             | Some w \<Rightarrow> render_indented w (if w = 0 then '':'' else '': '') 0 j))"

subsection \<open>What is serialized\<close>

text \<open>JSON values as Python holds them: no dictionary repeats a key.\<close>

fun proper_json :: "pyval \<Rightarrow> bool" where
  "proper_json (PDict kvs) \<longleftrightarrow> distinct (map fst kvs) \<and> (\<forall>kv \<in> set kvs. proper_json (snd kv))"
| "proper_json (PList vs) \<longleftrightarrow> (\<forall>v \<in> set vs. proper_json v)"
| "proper_json (PTuple vs) \<longleftrightarrow> False"
| "proper_json (PProxy kvs) \<longleftrightarrow> False"
| "proper_json (PObject s) \<longleftrightarrow> False"
| "proper_json _ \<longleftrightarrow> True"

text \<open>The library values inside are what their types promise.\<close>

fun well_typed :: "report_value \<Rightarrow> bool" where
  "well_typed (RModel dump) \<longleftrightarrow> proper_json dump"
| "well_typed (RMapping kvs) \<longleftrightarrow> (\<forall>kv \<in> set kvs. well_typed (snd kv))"
| "well_typed (RSequence vs) \<longleftrightarrow> (\<forall>v \<in> set vs. well_typed v)"
| "well_typed (REnum v) \<longleftrightarrow> proper_json v"
| "well_typed (RScalar v) \<longleftrightarrow> proper_json v"
| "well_typed _ \<longleftrightarrow> True"

fun supported :: "report_value \<Rightarrow> bool" where
  "supported (RMapping kvs) \<longleftrightarrow> (\<forall>kv \<in> set kvs. supported (snd kv))"
| "supported (RSequence vs) \<longleftrightarrow> (\<forall>v \<in> set vs. supported v)"
| "supported (RUnsupported type) \<longleftrightarrow> False"
| "supported _ \<longleftrightarrow> True"

text \<open>The value that a JSON value is for the serializer.\<close>

fun report_of :: "pyval \<Rightarrow> report_value" where
  "report_of (PDict kvs) = RMapping (map (\<lambda>kv. (fst kv, report_of (snd kv))) kvs)"
| "report_of (PList vs) = RSequence (map report_of vs)"
| "report_of v = RScalar v"

lemma all_results_map_Inr: "all_results (map Inr xs) = Inr xs"
  by (induction xs) auto

lemma all_results_Inr: "all_results rs = Inr xs \<longleftrightarrow> rs = map Inr xs"
  by (induction rs arbitrary: xs rule: all_results.induct) (auto simp: all_results_map_Inr split: sum.splits)

lemma all_results_ok: "(\<exists>xs. all_results rs = Inr xs) \<longleftrightarrow> (\<forall>r \<in> set rs. \<exists>x. r = Inr x)"
  by (induction rs rule: all_results.induct) (auto split: sum.splits)

lemma map_sum_Inr: "map_sum f g r = Inr y \<longleftrightarrow> (\<exists>x. r = Inr x \<and> y = g x)"
  by (cases r) auto

lemma foldl_update_keys:
  "distinct (map fst d) \<Longrightarrow> distinct (map fst (foldl (\<lambda>d kv. AList.update (fst kv) (snd kv) d) d items))"
  by (induction items arbitrary: d) (auto intro: distinct_update)

lemma set_update_subset: "set (AList.update k v d) \<subseteq> insert (k, v) (set d)"
  by (induction d) auto

lemma foldl_update_set:
  "set (foldl (\<lambda>d kv. AList.update (fst kv) (snd kv) d) d items) \<subseteq> set d \<union> set items"
proof (induction items arbitrary: d)
  case (Cons kv items)
  show ?case using Cons.IH [of "AList.update (fst kv) (snd kv) d"] set_update_subset [of "fst kv" "snd kv" d] by auto
qed simp

lemma update_new: "k \<notin> fst ` set d \<Longrightarrow> AList.update k v d = d @ [(k, v)]"
  by (induction d) auto

lemma foldl_update_distinct:
  "distinct (map fst (d @ items)) \<Longrightarrow> foldl (\<lambda>d kv. AList.update (fst kv) (snd kv) d) d items = d @ items"
  by (induction items arbitrary: d) (auto simp: update_new)

lemma dict_of_keys: "distinct (map fst (dict_of items))"
  by (simp add: dict_of_def foldl_update_keys)

lemma dict_of_set: "set (dict_of items) \<subseteq> set items"
  using foldl_update_set [of "[]" items] by (simp add: dict_of_def)

lemma dict_of_distinct: "distinct (map fst items) \<Longrightarrow> dict_of items = items"
  by (simp add: dict_of_def foldl_update_distinct)

lemma to_jsonable_total: "(\<exists>j. to_jsonable v = Inr j) \<longleftrightarrow> supported v"
proof (induction v rule: to_jsonable.induct)
  case (2 kvs)
  then show ?case using all_results_ok [of "map (\<lambda>kv. map_sum id (Pair (fst kv)) (to_jsonable (snd kv))) kvs"]
    by (simp add: map_sum_Inr)
next
  case (3 vs)
  then show ?case using all_results_ok [of "map to_jsonable vs"] by (simp add: map_sum_Inr)
qed simp_all

lemma to_jsonable_proper: "well_typed v \<Longrightarrow> to_jsonable v = Inr j \<Longrightarrow> proper_json j"
proof (induction v arbitrary: j rule: to_jsonable.induct)
  case (2 kvs)
  then obtain items where j: "j = PDict (dict_of items)"
    and items: "map (\<lambda>kv. map_sum id (Pair (fst kv)) (to_jsonable (snd kv))) kvs = map Inr items"
    by (auto simp: map_sum_Inr all_results_Inr)
  have "proper_json (snd x)" if "x \<in> set items" for x
  proof -
    have "Inr x \<in> set (map (\<lambda>kv. map_sum id (Pair (fst kv)) (to_jsonable (snd kv))) kvs)"
      using that items by simp
    then obtain kv where kv: "kv \<in> set kvs" "to_jsonable (snd kv) = Inr (snd x)"
      by (auto dest!: sym [of "Inr x"] simp: map_sum_Inr)
    with "2.IH" [OF kv(1) _ kv(2)] "2.prems"(1) show ?thesis by simp
  qed
  then show ?case using j dict_of_keys dict_of_set [of items] by fastforce
next
  case (3 vs)
  then obtain items where j: "j = PList items" and items: "map to_jsonable vs = map Inr items"
    by (auto simp: map_sum_Inr all_results_Inr)
  have "proper_json x" if "x \<in> set items" for x
  proof -
    have "Inr x \<in> set (map to_jsonable vs)" using that items by simp
    then obtain v where v: "v \<in> set vs" "to_jsonable v = Inr x" by auto
    with "3.IH" [OF v(1) _ v(2)] "3.prems"(1) show ?thesis by simp
  qed
  then show ?case using j by simp
qed auto

lemma to_jsonable_of_json: "proper_json j \<Longrightarrow> to_jsonable (report_of j) = Inr j"
proof (induction j rule: report_of.induct)
  case (1 kvs)
  then have "map (\<lambda>kv. map_sum id (Pair (fst kv)) (to_jsonable (snd kv))) (map (\<lambda>kv. (fst kv, report_of (snd kv))) kvs)
      = map Inr kvs" by (auto simp: prod_eq_iff)
  then have "all_results (map (\<lambda>kv. map_sum id (Pair (fst kv)) (to_jsonable (snd kv)))
      (map (\<lambda>kv. (fst kv, report_of (snd kv))) kvs)) = Inr kvs" by (simp add: all_results_Inr)
  with "1.prems" show ?case by (simp add: dict_of_distinct del: map_map)
next
  case (2 vs)
  then have "map to_jsonable (map report_of vs) = map Inr vs" by auto
  then have "all_results (map to_jsonable (map report_of vs)) = Inr vs" by (simp add: all_results_Inr)
  then show ?case by (simp del: map_map)
qed auto

text \<open>
  A value serializes exactly when it holds nothing of an unsupported type; what comes out is plain
  JSON, and serializing it again changes nothing.
\<close>

theorem serialization_is_total_and_stable:
  assumes "well_typed v"
  shows "(\<exists>j. to_jsonable v = Inr j) \<longleftrightarrow> supported v"
    and "to_jsonable v = Inr j \<Longrightarrow> proper_json j \<and> to_jsonable (report_of j) = Inr j"
  using assms to_jsonable_total to_jsonable_proper to_jsonable_of_json by blast+

end
