(* ===== verification/Deterministic_Services.thy ===== *)
theory Deterministic_Services
  imports Json_Unique Approval_Progress
begin

text \<open>
  The deterministic clock and identifier generator of
  \<open>application/orchestration_contracts.py\<close>, with their own state, and the environment of the
  services in which they are the clock and the generator. They realise the clock readings and fresh
  identifiers that the other theories take as given.
\<close>

subsection \<open>Identifiers\<close>

text \<open>\<open>{count:04d}\<close>: at least four digits, filled with zeros.\<close>

definition padded :: "nat \<Rightarrow> string" where
  "padded n = (let t = nat_digits n in replicate (4 - length t) (CHR ''0'') @ t)"

definition sequence_id :: "string \<Rightarrow> nat \<Rightarrow> string" where
  "sequence_id purpose n = purpose @ ''-'' @ padded n"

record SequenceIdentifierGenerator =
  seq_counts :: "string \<Rightarrow> nat option"

definition new_sequence :: SequenceIdentifierGenerator where
  "new_sequence = \<lparr>seq_counts = \<lambda>_. None\<rparr>"

definition count_of :: "SequenceIdentifierGenerator \<Rightarrow> string \<Rightarrow> nat" where
  "count_of g purpose = (case seq_counts g purpose of None \<Rightarrow> 0 | Some n \<Rightarrow> n)"

definition sequence_next_id :: "string \<Rightarrow> SequenceIdentifierGenerator \<Rightarrow> string \<times> SequenceIdentifierGenerator" where
  "sequence_next_id purpose g =
     (let n = count_of g purpose + 1
      in (sequence_id purpose n, g\<lparr>seq_counts := (seq_counts g)(purpose \<mapsto> n)\<rparr>))"

text \<open>The identifiers handed out for a list of purposes.\<close>

primrec sequence_ids :: "string list \<Rightarrow> SequenceIdentifierGenerator \<Rightarrow> string list" where
  "sequence_ids [] g = []"
| "sequence_ids (p # ps) g = (let (i, g') = sequence_next_id p g in i # sequence_ids ps g')"

lemma digits_value_zeros: "digits_value (replicate k (CHR ''0'') @ t) = digits_value t"
proof (induction k)
  case (Suc k)
  then show ?case by (simp add: digits_value_def)
qed simp

lemma padded_value: "digits_value (padded n) = n"
  by (simp add: padded_def Let_def digits_value_zeros digits_value_digits)

lemma padded_digits: "list_all is_digit (padded n)"
proof -
  have "is_digit (CHR ''0'')" by (simp add: is_digit_def)
  then show ?thesis using nat_digits_are_digits [of n] by (auto simp: padded_def Let_def list_all_iff)
qed

lemma last_dash_unique:
  assumes "p @ CHR ''-'' # s = q @ CHR ''-'' # t" and "CHR ''-'' \<notin> set s" and "CHR ''-'' \<notin> set t"
  shows "p = q \<and> s = t"
proof -
  have "takeWhile (\<lambda>c. c \<noteq> CHR ''-'') (rev (p @ CHR ''-'' # s)) = rev s"
    and "takeWhile (\<lambda>c. c \<noteq> CHR ''-'') (rev (q @ CHR ''-'' # t)) = rev t"
    using assms(2,3) by (subst rev.simps rev_append takeWhile_append2; auto)+
  then have "s = t" using assms(1) by simp
  with assms(1) show ?thesis by simp
qed

lemma digits_no_dash: "list_all is_digit s \<Longrightarrow> CHR ''-'' \<notin> set s"
  using not_digit(1) by (auto simp: list_all_iff)

text \<open>An identifier determines its purpose and its number.\<close>

lemma sequence_id_inj: "sequence_id p m = sequence_id q n \<longleftrightarrow> p = q \<and> m = n"
proof
  assume "sequence_id p m = sequence_id q n"
  then have "p @ CHR ''-'' # padded m = q @ CHR ''-'' # padded n" by (simp add: sequence_id_def)
  from last_dash_unique [OF this] have "p = q \<and> padded m = padded n"
    using digits_no_dash padded_digits by simp
  then show "p = q \<and> m = n" using padded_value by metis
qed simp

lemma sequence_ids_later:
  "i \<in> set (sequence_ids ps g) \<Longrightarrow> \<exists>p n. i = sequence_id p n \<and> count_of g p < n"
proof (induction ps arbitrary: g)
  case (Cons p ps)
  from Cons.prems consider "i = sequence_id p (count_of g p + 1)"
    | "i \<in> set (sequence_ids ps (g\<lparr>seq_counts := (seq_counts g)(p \<mapsto> count_of g p + 1)\<rparr>))"
    by (auto simp: sequence_next_id_def Let_def)
  then show ?case
  proof cases
    case 1
    then show ?thesis by auto
  next
    case 2
    from Cons.IH [OF this] obtain q n where i: "i = sequence_id q n"
      and n: "count_of (g\<lparr>seq_counts := (seq_counts g)(p \<mapsto> count_of g p + 1)\<rparr>) q < n" by blast
    from n have "count_of g q < n" by (cases "q = p") (simp_all add: count_of_def)
    with i show ?thesis by blast
  qed
qed simp

theorem sequence_ids_distinct: "distinct (sequence_ids ps g)"
proof (induction ps arbitrary: g)
  case (Cons p ps)
  let ?g = "g\<lparr>seq_counts := (seq_counts g)(p \<mapsto> count_of g p + 1)\<rparr>"
  have "sequence_id p (count_of g p + 1) \<notin> set (sequence_ids ps ?g)"
  proof
    assume "sequence_id p (count_of g p + 1) \<in> set (sequence_ids ps ?g)"
    from sequence_ids_later [OF this] obtain q n
      where "sequence_id p (count_of g p + 1) = sequence_id q n" and "count_of ?g q < n" by blast
    then show False by (auto simp: sequence_id_inj count_of_def)
  qed
  with Cons.IH show ?case by (simp add: sequence_next_id_def Let_def)
qed simp

subsection \<open>The clock\<close>

record FixedClock =
  fc_now :: time
  fc_values :: "int list"
  fc_last :: int

text \<open>\<open>monotonic_values[-1]\<close> of an empty tuple raises.\<close>

definition new_fixed_clock :: "time \<Rightarrow> int list \<Rightarrow> FixedClock option" where
  "new_fixed_clock t vs = (if vs = [] then None else Some \<lparr>fc_now = t, fc_values = vs, fc_last = last vs\<rparr>)"

definition fixed_monotonic :: "FixedClock \<Rightarrow> int \<times> FixedClock" where
  "fixed_monotonic c = (case fc_values c of
     [] \<Rightarrow> (fc_last c, c)
   | v # vs \<Rightarrow> (v, c\<lparr>fc_values := vs, fc_last := v\<rparr>))"

text \<open>The clock after a number of readings, and the next reading.\<close>

primrec after_readings :: "nat \<Rightarrow> FixedClock \<Rightarrow> FixedClock" where
  "after_readings 0 c = c"
| "after_readings (Suc n) c = after_readings n (snd (fixed_monotonic c))"

definition reading :: "int list \<Rightarrow> nat \<Rightarrow> int" where
  "reading vs n = (if n < length vs then vs ! n else last vs)"

lemma readings_aux:
  assumes "fc_values c = [] \<longrightarrow> fc_last c = l" and "fc_values c \<noteq> [] \<longrightarrow> last (fc_values c) = l"
  shows "fst (fixed_monotonic (after_readings n c)) = (if n < length (fc_values c) then fc_values c ! n else l)"
  using assms
proof (induction n arbitrary: c)
  case 0
  then show ?case by (cases "fc_values c") (auto simp: fixed_monotonic_def)
next
  case (Suc n)
  show ?case
  proof (cases "fc_values c")
    case Nil
    then show ?thesis using Suc.IH [of c] Suc.prems by (simp add: fixed_monotonic_def)
  next
    case (Cons v vs)
    have "fst (fixed_monotonic (after_readings n (c\<lparr>fc_values := vs, fc_last := v\<rparr>)))
        = (if n < length vs then vs ! n else l)"
      using Suc.IH [of "c\<lparr>fc_values := vs, fc_last := v\<rparr>"] Suc.prems(2) Cons by (cases "vs = []") auto
    then show ?thesis using Cons by (simp add: fixed_monotonic_def)
  qed
qed

theorem fixed_clock_readings:
  assumes "new_fixed_clock t vs = Some c"
  shows "fst (fixed_monotonic (after_readings n c)) = reading vs n"
proof -
  have c: "c = \<lparr>fc_now = t, fc_values = vs, fc_last = last vs\<rparr>" and ne: "vs \<noteq> []"
    using assms by (auto simp: new_fixed_clock_def split: if_splits)
  have "fst (fixed_monotonic (after_readings n c)) = (if n < length (fc_values c) then fc_values c ! n else last vs)"
    by (rule readings_aux) (simp_all add: c ne)
  then show ?thesis by (simp add: c reading_def)
qed

lemma reading_mono:
  assumes "sorted vs" and "vs \<noteq> []" and "m \<le> n"
  shows "reading vs m \<le> reading vs n"
  using assms by (auto simp: reading_def last_conv_nth intro!: sorted_nth_mono)

subsection \<open>The environment with both services\<close>

definition deterministic_env :: "time \<Rightarrow> int list \<Rightarrow> 'e env_scheme \<Rightarrow> 'e env_scheme" where
  "deterministic_env t vs env =
     env\<lparr>clock_now := \<lambda>_. t, clock_monotonic_ms := reading vs, fresh_id := \<lambda>p n. sequence_id p (Suc n)\<rparr>"

text \<open>A world whose counters are those of a generator.\<close>

definition counts_agree :: "SequenceIdentifierGenerator \<Rightarrow> world \<Rightarrow> bool" where
  "counts_agree g w \<longleftrightarrow> (\<forall>p. count_of g p = id_counts w p)"

text \<open>A service that asks the environment gets the answers of the generator, and the two stay in step.\<close>

theorem next_id_is_the_generator:
  assumes "counts_agree g w"
  shows "\<exists>w'. next_id (deterministic_env t vs env) p w = (Inr (fst (sequence_next_id p g)), w')
    \<and> counts_agree (snd (sequence_next_id p g)) w'"
  using assms
  by (simp add: next_id_def deterministic_env_def sequence_next_id_def Let_def counts_agree_def count_of_def)

lemma deterministic_ids_inj: "inj_on (fresh_id (deterministic_env t vs env) p) N"
  by (simp add: inj_on_def deterministic_env_def sequence_id_inj)

lemma digit_is_ident_char: "is_digit c \<Longrightarrow> is_ident_char c \<and> \<not> is_space c"
  by (auto simp: is_digit_def is_ident_char_def is_alnum_def is_space_def less_eq_char_def Let_def)

lemma nat_digits_length: "n < 10 ^ Suc k \<Longrightarrow> length (nat_digits n) \<le> Suc k"
proof (induction k arbitrary: n)
  case 0
  then show ?case by (subst nat_digits.simps) simp
next
  case (Suc k)
  then have "n div 10 < 10 ^ Suc k" by (simp add: less_mult_imp_div_less)
  with Suc.IH have "length (nat_digits (n div 10)) \<le> Suc k" by blast
  then show ?case by (subst nat_digits.simps) simp
qed

text \<open>Up to \<open>10\<close> to the \<open>60\<close>th identifier of a short purpose, all are valid.\<close>

lemma sequence_id_valid:
  assumes p: "identifier_pattern p" "length p \<le> 64" and n: "n < 10 ^ 60"
  shows "Identifier (sequence_id p n) = Some (sequence_id p n)"
proof -
  obtain c cs where c: "p = c # cs" "is_alnum c" "list_all is_ident_char cs"
    using p(1) by (cases p) auto
  have digits: "list_all is_ident_char (padded n)" and ne: "padded n \<noteq> []" and last: "\<not> is_space (last (padded n))"
    using padded_digits [of n] digit_is_ident_char by (auto simp: list_all_iff padded_def Let_def)
  have "length (nat_digits n) \<le> Suc 59" using n by (intro nat_digits_length) simp
  then have "length (padded n) \<le> 60" by (simp add: padded_def Let_def)
  then have len: "length (sequence_id p n) \<le> 128" using p(2) by (simp add: sequence_id_def)
  have "\<not> is_space c" using c(2) by (auto simp: is_space_def is_alnum_def less_eq_char_def)
  then have "strip (sequence_id p n) = sequence_id p n"
    using c(1) ne last by (simp add: strip_with_def sequence_id_def dropWhile_id hd_rev)
  moreover have "identifier_pattern (sequence_id p n)"
    using c digits by (auto simp: sequence_id_def list_all_iff is_ident_char_def)
  ultimately show ?thesis using len c(1) by (simp add: Identifier_def constrained_def sequence_id_def)
qed

text \<open>
  With these services an execution finds the valid and distinct identifiers it needs: the hypothesis
  under which an approved action executes holds in a world whose events came from earlier counts.
\<close>

theorem deterministic_services_are_quiet:
  assumes "\<And>p. id_counts w p + k < 10 ^ 60" and "\<forall>n. db_fault env n = None" and "\<forall>e. event_size env e \<le> 16384"
    and "event_id ` set (audit_events (store w)) \<subseteq> sequence_id ''audit'' ` {..id_counts w ''audit''}"
  shows "quiet (deterministic_env t vs env) k w"
proof -
  have "Identifier (sequence_id p (Suc n)) = Some (sequence_id p (Suc n))"
    if "p \<in> execution_purposes" "n \<in> {id_counts w p..<id_counts w p + k}" for p n
  proof (rule sequence_id_valid)
    show "identifier_pattern p" "length p \<le> 64"
      using that(1) by (auto simp: execution_purposes_def is_alnum_def is_ident_char_def)
    show "Suc n < 10 ^ 60" using that(2) assms(1) [of p] by simp
  qed
  moreover have "sequence_id ''audit'' (Suc n) \<notin> event_id ` set (audit_events (store w))"
    if "id_counts w ''audit'' \<le> n" for n
  proof
    assume "sequence_id ''audit'' (Suc n) \<in> event_id ` set (audit_events (store w))"
    then obtain m where "sequence_id ''audit'' (Suc n) = sequence_id ''audit'' m" "m \<le> id_counts w ''audit''"
      using assms(4) by blast
    with that show False by (simp add: sequence_id_inj)
  qed
  ultimately show ?thesis
    using assms(2,3) by (simp add: quiet_def deterministic_env_def inj_on_def sequence_id_inj)
qed

end
