(* ===== verification/Spec2Isabelle.thy ===== *)
theory Spec2Isabelle
  imports Policy_Correct Lifecycles Gateway_Correct Recovery_Correct Orchestrator_Example Json_Unique
    Evaluation_Properties Fixture_Correct Reasoner_Correct Http_System Migration_Correct Serialization Deterministic_Services
begin

text \<open>
  Verification of the security triage agent (\<open>src/src/security_triage_agent\<close>, below \<open>pkg\<close>).

  The program. An alert is ingested, and an orchestrator investigates it: in a bounded loop it asks a
  reasoner (a language model or a deterministic stand-in) for one step, sends evidence requests through
  a gateway to read-only tools, and hands a candidate assessment to a deterministic policy. The result
  and its recommended actions are stored with an audit trail in a relational database. A human
  reviewer decides on each action, and an approved action is given once to a simulated executor. Stale
  work is recovered by an operator; an evaluation harness replays scenarios through the same
  orchestrator; an HTTP application and two command lines are the entry points.

  Everything the reasoner says is untrusted. The theorems say that it stays so: whatever the reasoner,
  the tools, the executor, the clock and the database driver do, only authorized evidence is collected,
  only admissible actions are stored, and only approved actions are executed, once.

  Reading guide, in the order of the imports.

  \<^descr>[Vocabulary.] \<open>Prelude\<close>: state-and-exception operations with a precondition calculus, containers,
  the \<open>closed_registry\<close> locale. \<open>Base\<close> (\<open>pkg/domain/_base.py\<close>): constrained strings.
  \<open>Json\<close>, \<open>Json_Unique\<close>: Python values and the canonical rendering, which determines the value.

  \<^descr>[Domain.] \<open>Entities\<close>, \<open>Lifecycles\<close>, \<open>Actions\<close>, \<open>Evidence\<close>, \<open>Triage\<close>, \<open>Alerts\<close> and \<open>Records\<close> follow the
  files of \<open>pkg/domain\<close>; \<open>Records\<close> adds \<open>pkg/application/persistence.py\<close>. Each pydantic model is a
  \<open>record\<close>, and its validation a function that returns the stored value or \<open>None\<close>. The locale \<open>lifecycle\<close> is
  interpreted on the three transition tables.

  \<^descr>[Policy.] \<open>Action_Catalog\<close> and \<open>Policy\<close> (\<open>pkg/application/action_catalog.py\<close>, \<open>policy.py\<close>);
  \<open>Policy_Correct\<close> proves the decision against the specification \<open>admitted\<close>.

  \<^descr>[Tools.] \<open>Tool_Registry\<close>, \<open>Tool_Gateway\<close> (\<open>tool_registry.py\<close>, \<open>tool_gateway.py\<close>, \<open>ports/tools.py\<close>) with
  \<open>Gateway_Correct\<close>; \<open>Evidence_Data\<close>, \<open>Fixtures\<close>, \<open>Fixture_Tools\<close> (\<open>evidence_tools.py\<close>,
  \<open>pkg/adapters/tools\<close>) with \<open>Fixture_Correct\<close>.

  \<^descr>[Store.] \<open>Database\<close> (\<open>pkg/adapters/persistence/models.py\<close>, \<open>uow.py\<close>): tables, constraints, units of
  work, and the world of the services. \<open>Transactions\<close>: what units of work keep. \<open>Repositories\<close>
  (\<open>repositories.py\<close>), with the locales \<open>repository\<close> and \<open>updatable_repository\<close> interpreted on every table.
  \<open>Unit_Of_Work\<close> (\<open>uow.py\<close>, \<open>ports/repositories.py\<close>): the engine, the unit of work as its adapter implements it, and the
  ports, as a refinement of the model above: a body is any program over the methods of the ports.
  \<open>Migrations\<close>, \<open>Migration_Correct\<close> (\<open>src/migrations\<close>): the revision chain, the schema it ends in,
  and its agreement with the mapped classes and the modelled constraints.

  \<^descr>[Services.] \<open>Recovery\<close> (\<open>alert_service.py\<close>, \<open>recovery_service.py\<close>), \<open>Approval_Workflow\<close>
  (\<open>approval_service.py\<close>, \<open>ports/auth.py\<close>, \<open>pkg/adapters/actions/simulated.py\<close>) and \<open>Orchestrator\<close>
  (\<open>orchestrator.py\<close>, \<open>orchestration_contracts.py\<close>, \<open>ports/reasoner.py\<close>), each with theories that
  characterize how a call ends (\<open>_Correct\<close>), state its properties (\<open>_Properties\<close>, \<open>_Progress\<close>) and
  evaluate it on a concrete store (\<open>_Example\<close>). \<open>Orchestrator_Steps\<close> and \<open>Orchestrator_Loop\<close> hold the
  effect of the single steps and the loop invariant. \<open>Deterministic_Services\<close>: the clock and identifier
  generator that the program ships for offline use, shown to give what the services assume.
  \<open>Run_Records\<close>: what a run leaves under its execution, and that later runs keep it.

  \<^descr>[Composition.] \<open>Store_Frame\<close> states in six locales what the database writes of a service promise
  (\<open>triage_store\<close>, and on it the stores of actions, simulations, decisions, claims, evaluations) and
  interprets them for the schema invariant, the audit trail and the authorization of executions.
  \<open>System\<close> interleaves all services as a step relation and refines it to an abstract workflow;
  \<open>Workflow\<close> draws the consequences for whole histories; \<open>Requests\<close> shows that uninterrupted service
  calls are paths of it, and serves a list of requests from an empty database up to an execution.
  \<open>Catalogued\<close>: the reachable states hold catalogued actions only. \<open>Http_System\<close> shows that HTTP requests, the
  recovery command and evaluation runs are paths too, and so carries the guarantees to the application
  that the settings compose, over any number of deployments on one database. \<open>System_Example\<close> holds other concrete states.

  \<^descr>[Adapters.] \<open>Reasoners\<close>, \<open>Neutralize\<close>, \<open>Prompts\<close>, \<open>Provider_Call\<close> (\<open>pkg/adapters/reasoners\<close>) with
  \<open>Reasoner_Correct\<close>; \<open>Http_Api\<close>, \<open>Http_Routes\<close> (\<open>pkg/adapters/api\<close>) with \<open>Frames\<close>, \<open>Http_Correct\<close>,
  \<open>Http_Example\<close>; \<open>Configuration\<close>, \<open>Redaction\<close>, \<open>Serialization\<close> (\<open>config.py\<close>, \<open>logging.py\<close>,
  \<open>serialization.py\<close>); \<open>Composition\<close> with \<open>Composition_Correct\<close> (\<open>bootstrap.py\<close>, the command lines, the
  scripts).

  \<^descr>[Evaluation.] \<open>Evaluation_Schema\<close>, \<open>Evaluation_Loader\<close>, \<open>Evaluation_Scoring\<close>, \<open>Evaluation_Runner\<close>
  (\<open>pkg/evaluation\<close>) with \<open>Evaluation_Properties\<close>.

  What the lemmas show. The services: an execution reaches the executor only under an unexpired,
  digest-bound approval of an authorized reviewer, at most once, and does reach it when the services
  answer (C1, C19 to C22); a run fails closed, stores only gated actions and collected evidence, and
  ends within its bounds (C2 to C9); the policy decides as specified (C10 to C14); the gateway
  allows exactly under its eight conditions and accounts for every call (C15 to C18); recovery fails
  exactly the stale (C23). The composition: any interleaving refines the workflow, executes at most
  once and only adds to its history; whatever HTTP requests and commands do is such an interleaving, so
  every deployment of the application is safe (C24 to C28); HTTP requests need the authority of their
  route (C29). The harness: aggregation, and reports scored on the stored executions (C30, C31). The
  adapters: fixtures, reasoners, the unit of work, schema, startup, logs and the provider presentation (C32 to C40).

  How the code is represented.

  \<^item> A Python \<open>str\<close> is a HOL \<open>string\<close> (code points up to 255); \<open>int\<close> is \<open>int\<close>, a \<open>Decimal\<close> or a rate a
    rational, a \<open>float\<close> in JSON its \<open>repr\<close>. An instant is a number of microseconds. An IP address is its
    canonical text.
  \<^item> An exception is \<open>Inl\<close> of an \<open>exn\<close>, and the effects before it stay done. Exceptions of libraries keep
    their class name.
  \<^item> Clock readings, fresh identifiers, database faults, the serialized sizes and the digest function
    are fields of the environment \<open>env\<close>; the answers of the reasoner, the tools and the executor are
    functions of the number of the call. A worker that misses its deadline is one of the answers.
  \<^item> The models of the domain strip and check their identifiers, and so do the execution record, the events
    and the outcome of a run. The gateway's invocation record and the reasoner's context copy the identifiers
    of the run as they are given, where the code strips them once more: the two differ only for an
    identifier with white space around it, which the identifier generators never make.
  \<^item> A violated constraint marks the session as \<open>broken\<close> and surfaces at the next flush or commit, as in
    the database session. A driver fault can meet any statement.

  Bounds and fuel. The run loop recurses on \<open>max_iterations\<close>, the bound the code itself has; the revision
  chain on the number of revisions, which is the length of the chain; the substitution engine of
  \<open>Neutralize\<close> on the length of the text, because each round consumes a character. Every other
  recursion is on the data. No theorem assumes that fuel suffices.

  Not modelled, and why. The provider's client library, the HTML templates, the JSON rendering of HTTP
  responses, argument and environment parsing, the file readers, the parser of database URLs and the offline
  mode of the migration environment are library calls or glue; what they deliver is a parameter.
  SHA-256 and HMAC are parameters, so no theorem rests on their details. The threads behind timeouts
  appear only through their answers. SQL is the reference semantics written in \<open>Database\<close> and
  \<open>Migrations\<close>, not that of a particular server. The log events of the services other than the provider
  adapter and the command lines carry no state and are left out. Package \<open>__init__\<close> files only re-export.
\<close>

end
